(* ===== verification/Prelude.thy ===== *)
theory Prelude
  imports Main
begin

text \<open>
  Shared material of the development: the named theorem collections, the result and
  state-passing combinators in which fallible Rust code is written, and generic lemmas on lists,
  options and sums.

  A Rust \<open>Result<T, E>\<close> is a sum \<open>'e + 'a\<close> with \<open>Inl\<close> for \<open>Err\<close>. A method that takes
  \<open>&mut self\<close> (or touches the outside world) and returns a \<open>Result\<close> is a function
  \<open>'s \<Rightarrow> ('e + 'a) \<times> 's\<close>: the state after the call is returned on the error path too, because
  in Rust the mutations made before an early return stay.
\<close>

named_theorems model_defs \<open>definitions unfolded by the component proofs\<close>
named_theorems frame_simps \<open>fields an operation leaves alone\<close>
named_theorems keeps_intros \<open>rules that show that an operation keeps a predicate\<close>

section \<open>Results\<close>

type_synonym ('s, 'e, 'a) op = "'s \<Rightarrow> ('e + 'a) \<times> 's"

text \<open>The \<open>?\<close> operator on a pure result.\<close>

definition rbind :: "'e + 'a \<Rightarrow> ('a \<Rightarrow> 'e + 'b) \<Rightarrow> 'e + 'b" where
  "rbind r f = (case r of Inl e \<Rightarrow> Inl e | Inr x \<Rightarrow> f x)"

lemma rbind_simps [simp]:
  "rbind (Inl e) f = Inl e"
  "rbind (Inr x) f = f x"
  by (simp_all add: rbind_def)

lemma rbind_eq_Inr: "rbind r f = Inr y \<longleftrightarrow> (\<exists>x. r = Inr x \<and> f x = Inr y)"
  by (cases r) auto

lemma rbind_eq_Inl: "rbind r f = Inl e \<longleftrightarrow> r = Inl e \<or> (\<exists>x. r = Inr x \<and> f x = Inl e)"
  by (cases r) auto

lemma rbind_cong [fundef_cong]:
  "r = r' \<Longrightarrow> (\<And>x. r' = Inr x \<Longrightarrow> f x = f' x) \<Longrightarrow> rbind r f = rbind r' f'"
  by (cases r') auto

text \<open>\<open>Result::ok\<close>, \<open>is_ok\<close>, \<open>err\<close> and \<open>map_err\<close>.\<close>

definition ok_of :: "'e + 'a \<Rightarrow> 'a option" where
  "ok_of r = (case r of Inl _ \<Rightarrow> None | Inr x \<Rightarrow> Some x)"

definition err_of :: "'e + 'a \<Rightarrow> 'e option" where
  "err_of r = (case r of Inl e \<Rightarrow> Some e | Inr _ \<Rightarrow> None)"

definition is_ok :: "'e + 'a \<Rightarrow> bool" where
  "is_ok r \<longleftrightarrow> (case r of Inl _ \<Rightarrow> False | Inr _ \<Rightarrow> True)"

definition map_err :: "('e \<Rightarrow> 'f) \<Rightarrow> 'e + 'a \<Rightarrow> 'f + 'a" where
  "map_err f r = (case r of Inl e \<Rightarrow> Inl (f e) | Inr x \<Rightarrow> Inr x)"

definition ok_or :: "'e \<Rightarrow> 'a option \<Rightarrow> 'e + 'a" where
  "ok_or e v = (case v of None \<Rightarrow> Inl e | Some x \<Rightarrow> Inr x)"

lemma result_simps [simp]:
  "ok_of (Inl e) = None" "ok_of (Inr x) = Some x"
  "err_of (Inl e) = Some e" "err_of (Inr x) = None"
  "is_ok (Inr x)" "\<not> is_ok (Inl e)"
  "map_err f (Inl e) = Inl (f e)" "map_err f (Inr x) = Inr x"
  "ok_or e None = Inl e" "ok_or e (Some x) = Inr x"
  by (simp_all add: ok_of_def err_of_def is_ok_def map_err_def ok_or_def)

lemma map_err_Inr: "map_err f r = Inr x \<longleftrightarrow> r = Inr x"
  by (cases r) simp_all

lemma is_ok_rbind: "is_ok (rbind r f) \<longleftrightarrow> is_ok r \<and> is_ok (f ())"
  by (cases r) auto

lemma is_ok_iff: "is_ok r \<longleftrightarrow> (\<exists>x. r = Inr x)"
  by (cases r) auto

section \<open>State-passing operations\<close>

definition op_ok :: "'a \<Rightarrow> ('s, 'e, 'a) op" where
  "op_ok x = (\<lambda>s. (Inr x, s))"

definition op_err :: "'e \<Rightarrow> ('s, 'e, 'a) op" where
  "op_err e = (\<lambda>s. (Inl e, s))"

definition op_bind :: "('s, 'e, 'a) op \<Rightarrow> ('a \<Rightarrow> ('s, 'e, 'b) op) \<Rightarrow> ('s, 'e, 'b) op" where
  "op_bind m f = (\<lambda>s. case m s of (Inl e, s') \<Rightarrow> (Inl e, s') | (Inr x, s') \<Rightarrow> f x s')"

text \<open>\<open>m?; n\<close>: the value of \<open>m\<close> is dropped, its error is not.\<close>

abbreviation op_then :: "('s, 'e, 'a) op \<Rightarrow> ('s, 'e, 'b) op \<Rightarrow> ('s, 'e, 'b) op" where
  "op_then m n \<equiv> op_bind m (\<lambda>_. n)"

lemma op_simps [model_defs]:
  "op_ok x s = (Inr x, s)"
  "op_err e s = (Inl e, s)"
  by (simp_all add: op_ok_def op_err_def)

lemma op_bind_Inl: "m s = (Inl e, t) \<Longrightarrow> op_bind m f s = (Inl e, t)"
  by (simp add: op_bind_def)

lemma op_bind_Inr: "m s = (Inr x, t) \<Longrightarrow> op_bind m f s = f x t"
  by (simp add: op_bind_def)

lemma op_bind_cases:
  "op_bind m f s = (r, t) \<longleftrightarrow>
     (\<exists>e. m s = (Inl e, t) \<and> r = Inl e) \<or> (\<exists>x u. m s = (Inr x, u) \<and> f x u = (r, t))"
  by (auto simp: op_bind_def split: prod.splits sum.splits)

lemma op_bind_laws:
  "op_bind (op_ok x) f = f x"
  "op_bind m op_ok = m"
  "op_bind (op_err e) f = op_err e"
  "op_bind (op_bind m f) g = op_bind m (\<lambda>x. op_bind (f x) g)"
  by (auto simp: op_bind_def op_simps fun_eq_iff split: prod.splits sum.splits)

text \<open>An operation keeps a predicate on the state whether it succeeds or fails.\<close>

definition keeps :: "('s \<Rightarrow> bool) \<Rightarrow> ('s, 'e, 'a) op \<Rightarrow> bool" where
  "keeps P m \<longleftrightarrow> (\<forall>s. P s \<longrightarrow> P (snd (m s)))"

lemma keepsI: "(\<And>s. P s \<Longrightarrow> P (snd (m s))) \<Longrightarrow> keeps P m"
  by (simp add: keeps_def)

lemma keepsD: "keeps P m \<Longrightarrow> P s \<Longrightarrow> P (snd (m s))"
  by (simp add: keeps_def)

lemma keeps_ok [keeps_intros]: "keeps P (op_ok x)"
  and keeps_err [keeps_intros]: "keeps P (op_err e)"
  by (simp_all add: keeps_def op_simps)

lemma keeps_bind [keeps_intros]:
  "keeps P m \<Longrightarrow> (\<And>x. keeps P (f x)) \<Longrightarrow> keeps P (op_bind m f)"
  by (auto simp: keeps_def op_bind_def split: prod.splits sum.splits; metis snd_conv)

lemma keeps_if [keeps_intros]:
  "(b \<Longrightarrow> keeps P m) \<Longrightarrow> (\<not> b \<Longrightarrow> keeps P n) \<Longrightarrow> keeps P (if b then m else n)"
  by simp

lemma keeps_option [keeps_intros]:
  "(v = None \<Longrightarrow> keeps P m) \<Longrightarrow> (\<And>x. v = Some x \<Longrightarrow> keeps P (f x)) \<Longrightarrow>
   keeps P (case v of None \<Rightarrow> m | Some x \<Rightarrow> f x)"
  by (cases v) auto

text \<open>A \<open>for\<close> loop whose body may return early.\<close>

fun op_for :: "('a \<Rightarrow> ('s, 'e, unit) op) \<Rightarrow> 'a list \<Rightarrow> ('s, 'e, unit) op" where
  "op_for f [] = op_ok ()"
| "op_for f (x # xs) = op_then (f x) (op_for f xs)"

lemma keeps_for [keeps_intros]: "(\<And>x. x \<in> set xs \<Longrightarrow> keeps P (f x)) \<Longrightarrow> keeps P (op_for f xs)"
  by (induction xs) (auto intro!: keeps_intros)

lemma op_for_append: "op_for f (xs @ ys) = op_then (op_for f xs) (op_for f ys)"
  by (induction xs) (simp_all add: op_bind_laws)

section \<open>Options and lists\<close>

text \<open>\<open>Option::filter\<close>, \<open>unwrap_or\<close> and \<open>or\<close>.\<close>

definition opt_filter :: "('a \<Rightarrow> bool) \<Rightarrow> 'a option \<Rightarrow> 'a option" where
  "opt_filter p v = (case v of None \<Rightarrow> None | Some x \<Rightarrow> if p x then Some x else None)"

definition unwrap_or :: "'a \<Rightarrow> 'a option \<Rightarrow> 'a" where
  "unwrap_or d v = (case v of None \<Rightarrow> d | Some x \<Rightarrow> x)"

definition opt_or :: "'a option \<Rightarrow> 'a option \<Rightarrow> 'a option" where
  "opt_or v w = (case v of None \<Rightarrow> w | Some x \<Rightarrow> Some x)"

lemma option_simps [simp]:
  "opt_filter p None = None"
  "opt_filter p (Some x) = (if p x then Some x else None)"
  "unwrap_or d None = d" "unwrap_or d (Some x) = x"
  "opt_or None w = w" "opt_or (Some x) w = Some x"
  by (simp_all add: opt_filter_def unwrap_or_def opt_or_def)

lemma opt_filter_eq_Some: "opt_filter p v = Some x \<longleftrightarrow> v = Some x \<and> p x"
  by (cases v) auto

lemma find_Some_iff: "find p xs = Some x \<Longrightarrow> x \<in> set xs \<and> p x"
  by (induction xs) (auto split: if_splits)

lemma find_None_iff': "find p xs = None \<longleftrightarrow> (\<forall>x \<in> set xs. \<not> p x)"
  by (induction xs) auto

text \<open>\<open>[T]::join\<close> on strings.\<close>

fun join :: "'a list \<Rightarrow> 'a list list \<Rightarrow> 'a list" where
  "join sep [] = []"
| "join sep [x] = x"
| "join sep (x # y # zs) = x @ sep @ join sep (y # zs)"

lemma join_Cons: "join sep (x # xs) = (if xs = [] then x else x @ sep @ join sep xs)"
  by (cases xs) auto

lemma join_eq_Nil: "sep \<noteq> [] \<Longrightarrow> join sep xs = [] \<longleftrightarrow> xs = [] \<or> xs = [[]]"
  by (induction sep xs rule: join.induct) auto

text \<open>Replacing the first element that satisfies a predicate: \<open>iter_mut().find(..)\<close>.\<close>

fun update_first :: "('a \<Rightarrow> bool) \<Rightarrow> ('a \<Rightarrow> 'a) \<Rightarrow> 'a list \<Rightarrow> 'a list" where
  "update_first p f [] = []"
| "update_first p f (x # xs) = (if p x then f x # xs else x # update_first p f xs)"

lemma length_update_first [simp]: "length (update_first p f xs) = length xs"
  by (induction xs) auto

lemma find_split:
  assumes "find p xs = Some x"
  shows "\<exists>pre post. xs = pre @ x # post \<and> p x \<and> (\<forall>y \<in> set pre. \<not> p y)"
proof -
  from assms have "x \<in> set xs" "p x" by (auto dest: find_Some_iff)
  then obtain pre y post where *: "xs = pre @ y # post" "p y" "\<forall>z \<in> set pre. \<not> p z"
    using split_list_first_prop [of xs p] by blast
  then have "find p xs = Some y" by (induction pre arbitrary: xs) auto
  with assms * show ?thesis by auto
qed

lemma update_first_split:
  "\<forall>y \<in> set pre. \<not> p y \<Longrightarrow> p x \<Longrightarrow> update_first p f (pre @ x # post) = pre @ f x # post"
  by (induction pre) auto

lemma update_first_none: "find p xs = None \<Longrightarrow> update_first p f xs = xs"
  by (induction xs) (auto split: if_splits)

lemma find_update_first:
  "find p xs = Some x \<Longrightarrow> p (f x) \<Longrightarrow> find p (update_first p f xs) = Some (f x)"
  by (induction xs) (auto split: if_splits)

section \<open>Reachable states\<close>

text \<open>
  States reachable from an initial one by a step relation, and the induction principle every
  state machine of the development uses: an invariant of the initial states that every step keeps
  holds in all reachable states.
\<close>

inductive reach :: "('s \<Rightarrow> bool) \<Rightarrow> ('s \<Rightarrow> 's \<Rightarrow> bool) \<Rightarrow> 's \<Rightarrow> bool"
  for init :: "'s \<Rightarrow> bool" and step :: "'s \<Rightarrow> 's \<Rightarrow> bool" where
  reach_init: "init s \<Longrightarrow> reach init step s"
| reach_step: "reach init step s \<Longrightarrow> step s t \<Longrightarrow> reach init step t"

locale invariant_system =
  fixes init :: "'s \<Rightarrow> bool" and step :: "'s \<Rightarrow> 's \<Rightarrow> bool" and inv :: "'s \<Rightarrow> bool"
  assumes inv_init: "init s \<Longrightarrow> inv s"
    and inv_step: "inv s \<Longrightarrow> step s t \<Longrightarrow> inv t"
begin

lemma reach_inv: "reach init step s \<Longrightarrow> inv s"
  by (induction rule: reach.induct) (auto intro: inv_init inv_step)

lemma steps_inv: "step\<^sup>*\<^sup>* s t \<Longrightarrow> inv s \<Longrightarrow> inv t"
  by (induction rule: rtranclp_induct) (auto intro: inv_step)

end

end
