(* ===== verification/Rust_Str.thy ===== *)
theory Rust_Str
  imports Prelude
begin

text \<open>
  The part of the Rust string library the SDK uses. A Rust \<open>String\<close> is the list of its UTF-8
  bytes, an Isabelle \<open>char\<close> being a byte.
\<close>

section \<open>White space\<close>

text \<open>
  \<open>ws_len s\<close> is the number of bytes of the Unicode white space character that \<open>s\<close> starts with,
  0 if it starts with none: the ASCII ones take one byte, U+0085 and U+00A0 two, U+1680,
  U+2000..U+200A, U+2028, U+2029, U+202F, U+205F and U+3000 three. No byte inside another
  character can start one of these sequences, so scanning byte by byte finds the same white space
  as scanning character by character.
\<close>

definition ascii_ws :: "char \<Rightarrow> bool" where
  "ascii_ws c \<longleftrightarrow> c = CHR 0x20 \<or> c = CHR 0x09 \<or> c = CHR 0x0A \<or> c = CHR 0x0B \<or> c = CHR 0x0C \<or>
     c = CHR 0x0D"

definition wide_ws2 :: "char \<Rightarrow> char \<Rightarrow> bool" where
  "wide_ws2 c d \<longleftrightarrow> c = CHR 0xC2 \<and> (d = CHR 0x85 \<or> d = CHR 0xA0)"

definition wide_ws3 :: "char \<Rightarrow> char \<Rightarrow> char \<Rightarrow> bool" where
  "wide_ws3 c d e \<longleftrightarrow>
     (c = CHR 0xE1 \<and> d = CHR 0x9A \<and> e = CHR 0x80) \<or>
     (c = CHR 0xE2 \<and> d = CHR 0x80 \<and>
        (e \<in> {CHR 0x80, CHR 0x81, CHR 0x82, CHR 0x83, CHR 0x84, CHR 0x85, CHR 0x86, CHR 0x87,
              CHR 0x88, CHR 0x89, CHR 0x8A, CHR 0xA8, CHR 0xA9, CHR 0xAF})) \<or>
     (c = CHR 0xE2 \<and> d = CHR 0x81 \<and> e = CHR 0x9F) \<or>
     (c = CHR 0xE3 \<and> d = CHR 0x80 \<and> e = CHR 0x80)"

definition ws_len :: "string \<Rightarrow> nat" where
  "ws_len s =
     (case s of
        [] \<Rightarrow> 0
      | c # s1 \<Rightarrow>
          if ascii_ws c then 1
          else (case s1 of
                  [] \<Rightarrow> 0
                | d # s2 \<Rightarrow>
                    if wide_ws2 c d then 2
                    else (case s2 of [] \<Rightarrow> 0 | e # s3 \<Rightarrow> if wide_ws3 c d e then 3 else 0)))"

lemma ws_len_Nil [simp]: "ws_len [] = 0"
  by (simp add: ws_len_def)

lemma ws_len_le: "ws_len s \<le> length s"
  by (auto simp: ws_len_def split: list.splits)

text \<open>A string with no white space in it.\<close>

fun ws_free :: "string \<Rightarrow> bool" where
  "ws_free [] = True"
| "ws_free (c # s) = (ws_len (c # s) = 0 \<and> ws_free s)"

text \<open>An ASCII byte cannot complete a white space character begun before it.\<close>

definition ascii :: "char \<Rightarrow> bool" where
  "ascii c \<longleftrightarrow> of_char c < (128 :: nat)"

lemma ascii_not_wide: "ascii d \<Longrightarrow> \<not> wide_ws2 c d" "ascii d \<Longrightarrow> \<not> wide_ws3 c d e"
    "ascii e \<Longrightarrow> \<not> wide_ws3 c d e" "ascii c \<Longrightarrow> \<not> wide_ws2 c d" "ascii c \<Longrightarrow> \<not> wide_ws3 c d e"
  by (auto simp: ascii_def wide_ws2_def wide_ws3_def)

lemma ws_len_append:
  assumes "ws_len (c # s) = 0" "ascii d"
  shows "ws_len ((c # s) @ d # r) = 0"
  using assms
  by (auto simp: ws_len_def ascii_not_wide split: list.splits if_splits)

lemma ws_free_append:
  assumes "ws_free s" "ws_free t" "t \<noteq> [] \<Longrightarrow> ascii (hd t)"
  shows "ws_free (s @ t)"
proof (cases t)
  case (Cons d r)
  with assms show ?thesis
    by (induction s) (use ws_len_append in fastforce)+
qed (use assms in simp)

lemma ws_free_ascii: "ws_free (c # s) \<longleftrightarrow> \<not> ascii_ws c \<and> ws_free s" if "ascii c"
  using that by (auto simp: ws_len_def ascii_not_wide split: list.splits)


text \<open>\<open>str::split_whitespace\<close>: the maximal runs without white space, in order.\<close>

function ws_tokens :: "string \<Rightarrow> string \<Rightarrow> string list" where
  "ws_tokens acc [] = (if acc = [] then [] else [rev acc])"
| "ws_tokens acc (c # s) =
     (if ws_len (c # s) = 0 then ws_tokens (c # acc) s
      else (if acc = [] then [] else [rev acc]) @ ws_tokens [] (drop (ws_len (c # s) - 1) s))"
  by pat_completeness auto
termination
  by (relation "measure (\<lambda>(acc, s). length s)") auto

definition split_whitespace :: "string \<Rightarrow> string list" where
  "split_whitespace s = ws_tokens [] s"

lemma ws_tokens_free: "ws_free s \<Longrightarrow> ws_tokens acc s = (if rev acc @ s = [] then [] else [rev acc @ s])"
  by (induction s arbitrary: acc) auto

lemma ws_tokens_space:
  assumes "ws_free s"
  shows "ws_tokens acc (s @ CHR 0x20 # r) =
           (if rev acc @ s = [] then [] else [rev acc @ s]) @ ws_tokens [] r"
  using assms
proof (induction s arbitrary: acc)
  case Nil
  then show ?case by (simp add: ws_len_def ascii_ws_def)
next
  case (Cons c s)
  have "ws_len ((c # s) @ CHR 0x20 # r) = 0"
    by (rule ws_len_append) (use Cons.prems in \<open>simp_all add: ascii_def\<close>)
  with Cons show ?case by simp
qed

lemma split_whitespace_join:
  assumes "\<And>t. t \<in> set ts \<Longrightarrow> t \<noteq> [] \<and> ws_free t"
  shows "split_whitespace (join [CHR 0x20] ts) = ts"
  using assms
  by (induction "[CHR 0x20]" ts rule: join.induct)
    (auto simp: split_whitespace_def ws_tokens_free ws_tokens_space)

lemma ws_tokens_props: "t \<in> set (ws_tokens acc s) \<Longrightarrow> t \<noteq> []"
  by (induction acc s rule: ws_tokens.induct) (auto split: if_splits)

lemma split_whitespace_nonempty: "t \<in> set (split_whitespace s) \<Longrightarrow> t \<noteq> []"
  unfolding split_whitespace_def by (rule ws_tokens_props)

text \<open>\<open>str::trim\<close>, \<open>trim_start\<close> and \<open>trim_end\<close>.\<close>

function trim_start :: "string \<Rightarrow> string" where
  "trim_start s = (if ws_len s = 0 then s else trim_start (drop (ws_len s) s))"
  by pat_completeness auto
termination
proof (relation "measure length")
  fix s :: string
  assume "ws_len s \<noteq> 0"
  moreover from ws_len_le [of s] have "ws_len s \<le> length s" .
  ultimately show "(drop (ws_len s) s, s) \<in> measure length" by auto
qed simp

declare trim_start.simps [simp del]

fun trim_end :: "string \<Rightarrow> string" where
  "trim_end [] = []"
| "trim_end (c # s) = (if trim_start (c # s) = [] then [] else c # trim_end s)"

definition trim :: "string \<Rightarrow> string" where
  "trim s = trim_end (trim_start s)"

lemma trim_start_free: "ws_free s \<Longrightarrow> trim_start s = s"
  by (cases s) (auto simp: trim_start.simps)

lemma trim_end_free: "ws_free s \<Longrightarrow> trim_end s = s"
  by (induction s) (auto simp: trim_start_free simp del: ws_free.simps dest: ws_free.simps [THEN iffD1])

lemma trim_free [simp]: "ws_free s \<Longrightarrow> trim s = s"
  by (simp add: trim_def trim_start_free trim_end_free)

lemma trim_start_space: "trim_start (CHR 0x20 # s) = trim_start s"
  by (subst trim_start.simps) (simp add: ws_len_def ascii_ws_def)

section \<open>Splitting at a byte\<close>

text \<open>\<open>str::split_once\<close> on an ASCII pattern.\<close>

fun split_once :: "char \<Rightarrow> string \<Rightarrow> (string \<times> string) option" where
  "split_once d [] = None"
| "split_once d (c # s) =
     (if c = d then Some ([], s)
      else map_option (\<lambda>(a, b). (c # a, b)) (split_once d s))"

lemma split_once_Some: "split_once d s = Some (a, b) \<longleftrightarrow> s = a @ d # b \<and> d \<notin> set a"
proof (induction s arbitrary: a)
  case (Cons c s)
  then show ?case by (cases a) auto
qed simp

lemma split_once_None: "split_once d s = None \<longleftrightarrow> d \<notin> set s"
  by (induction s) auto

lemma split_once_append [simp]: "d \<notin> set a \<Longrightarrow> split_once d (a @ d # b) = Some (a, b)"
  by (simp add: split_once_Some)

text \<open>\<open>str::lines\<close>: lines end at a line feed; one carriage return before it is dropped.\<close>

definition strip_cr :: "string \<Rightarrow> string" where
  "strip_cr l = (if l \<noteq> [] \<and> last l = CHR 0x0D then butlast l else l)"

function lines :: "string \<Rightarrow> string list" where
  "lines s =
     (case split_once (CHR 0x0A) s of
        None \<Rightarrow> if s = [] then [] else [s]
      | Some (l, r) \<Rightarrow> strip_cr l # lines r)"
  by pat_completeness auto
termination
  by (relation "measure length") (auto simp: split_once_Some dest: sym)

declare lines.simps [simp del]

lemma lines_Nil [simp]: "lines [] = []"
  by (subst lines.simps) simp

lemma lines_crlf:
  "CHR 0x0A \<notin> set l \<Longrightarrow> lines (l @ CHR 0x0D # CHR 0x0A # r) = l # lines r"
  using split_once_append [of "CHR 0x0A" "l @ [CHR 0x0D]" r]
  by (subst lines.simps) (simp add: strip_cr_def)

lemma lines_single: "CHR 0x0A \<notin> set l \<Longrightarrow> l \<noteq> [] \<Longrightarrow> lines l = [l]"
  by (subst lines.simps) (simp add: split_once_None [THEN iffD2])

text \<open>\<open>trim_start_matches\<close> and \<open>trim_end_matches\<close> on one byte.\<close>

definition trim_start_matches :: "char \<Rightarrow> string \<Rightarrow> string" where
  "trim_start_matches d s = dropWhile (\<lambda>c. c = d) s"

definition trim_end_matches :: "char \<Rightarrow> string \<Rightarrow> string" where
  "trim_end_matches d s = rev (dropWhile (\<lambda>c. c = d) (rev s))"

definition starts_with :: "string \<Rightarrow> string \<Rightarrow> bool" where
  "starts_with p s \<longleftrightarrow> take (length p) s = p"

lemma starts_with_append [simp]: "starts_with p (p @ s)"
  by (simp add: starts_with_def)

section \<open>Decimal numbers\<close>

abbreviation bv :: "char \<Rightarrow> nat" where
  "bv c \<equiv> of_char c"

definition digit_char :: "nat \<Rightarrow> char" where
  "digit_char d = char_of (48 + d)"

definition digit_val :: "char \<Rightarrow> nat option" where
  "digit_val c = (if 48 \<le> bv c \<and> bv c \<le> 57 then Some (bv c - 48) else None)"

lemma digit_val_char [simp]: "d < 10 \<Longrightarrow> digit_val (digit_char d) = Some d"
  by (simp add: digit_val_def digit_char_def)

lemma digit_char_ascii: "d < 10 \<Longrightarrow> ascii (digit_char d) \<and> \<not> ascii_ws (digit_char d)"
proof -
  assume d: "d < 10"
  then have "bv (digit_char d) = 48 + d" by (simp add: digit_char_def)
  with d show ?thesis by (auto simp: ascii_def ascii_ws_def)
qed

text \<open>\<open>to_string\<close> of an unsigned and of a signed integer.\<close>

fun nat_str :: "nat \<Rightarrow> string" where
  "nat_str n = (if n < 10 then [digit_char n] else nat_str (n div 10) @ [digit_char (n mod 10)])"

declare nat_str.simps [simp del]

definition int_str :: "int \<Rightarrow> string" where
  "int_str i = (if i < 0 then CHR ''-'' # nat_str (nat (- i)) else nat_str (nat i))"

fun parse_digits :: "nat \<Rightarrow> string \<Rightarrow> nat option" where
  "parse_digits acc [] = Some acc"
| "parse_digits acc (c # s) =
     (case digit_val c of None \<Rightarrow> None | Some d \<Rightarrow> parse_digits (10 * acc + d) s)"

lemma parse_digits_append:
  "parse_digits acc (s @ t) = (case parse_digits acc s of None \<Rightarrow> None | Some a \<Rightarrow> parse_digits a t)"
  by (induction s arbitrary: acc) (auto split: option.splits)

lemma nat_str_nonempty [simp]: "nat_str n \<noteq> []"
  by (subst nat_str.simps) simp

lemma parse_digits_nat_str [simp]: "parse_digits 0 (nat_str n) = Some n"
proof (induction n rule: nat_str.induct)
  case (1 n)
  then show ?case by (cases "n < 10") (simp_all add: nat_str.simps [of n] parse_digits_append)
qed

lemma nat_str_digits: "c \<in> set (nat_str n) \<Longrightarrow> \<exists>d < 10. c = digit_char d"
proof (induction n rule: nat_str.induct)
  case (1 n)
  then show ?case by (cases "n < 10") (auto simp: nat_str.simps [of n] intro: exI [of _ "n mod 10"])
qed

lemma nat_str_inj: "nat_str m = nat_str n \<longleftrightarrow> m = n"
  by (metis parse_digits_nat_str option.inject)

lemma ws_free_digits: "(\<And>c. c \<in> set s \<Longrightarrow> \<exists>d < 10. c = digit_char d) \<Longrightarrow> ws_free s"
proof (induction s)
  case (Cons c s)
  from Cons.prems [of c] obtain d where "d < 10" "c = digit_char d" by auto
  with Cons digit_char_ascii [of d] show ?case by (simp only: ws_free_ascii) simp
qed simp

lemma ws_free_nat_str [simp]: "ws_free (nat_str n)"
  by (rule ws_free_digits) (rule nat_str_digits)

lemma nat_str_not_in: "(\<And>d. d < 10 \<Longrightarrow> c \<noteq> digit_char d) \<Longrightarrow> c \<notin> set (nat_str n)"
  by (auto dest: nat_str_digits)

lemma digit_char_neq: "d < 10 \<Longrightarrow> bv c < 48 \<or> 57 < bv c \<Longrightarrow> c \<noteq> digit_char d"
  by (auto simp: digit_char_def)

lemma nat_str_no_byte: "bv c < 48 \<or> 57 < bv c \<Longrightarrow> c \<notin> set (nat_str n)"
  by (rule nat_str_not_in) (rule digit_char_neq)

text \<open>
  \<open>str::parse\<close> on an unsigned type whose values are below \<open>bound\<close> (an optional plus sign, at
  least one digit, no overflow), and on a signed type of \<open>w\<close> bits.
\<close>

definition parse_uint :: "nat \<Rightarrow> string \<Rightarrow> nat option" where
  "parse_uint bound s =
     (let r = (case s of c # t \<Rightarrow> if c = CHR ''+'' then t else s | [] \<Rightarrow> [])
      in if r = [] then None else opt_filter (\<lambda>n. n < bound) (parse_digits 0 r))"

definition parse_int :: "nat \<Rightarrow> string \<Rightarrow> int option" where
  "parse_int w s =
     (case s of
        [] \<Rightarrow> None
      | c # t \<Rightarrow>
          if c = CHR ''-'' then
            (if t = [] then None
             else map_option (\<lambda>n. - int n) (opt_filter (\<lambda>n. n \<le> 2 ^ (w - 1)) (parse_digits 0 t)))
          else map_option int (parse_uint (2 ^ (w - 1)) s))"

lemma parse_uint_nat_str [simp]: "parse_uint bound (nat_str n) = (if n < bound then Some n else None)"
proof -
  from nat_str_no_byte [of "CHR ''+''" n] have "CHR ''+'' \<notin> set (nat_str n)" by simp
  then obtain c s where "nat_str n = c # s" "c \<noteq> CHR ''+''"
    using nat_str_nonempty [of n] by (cases "nat_str n") auto
  with parse_digits_nat_str [of n] show ?thesis by (simp add: parse_uint_def)
qed

lemma parse_uint_bound: "parse_uint bound s = Some n \<Longrightarrow> n < bound"
  by (auto simp: parse_uint_def opt_filter_eq_Some Let_def split: if_splits)

lemma parse_int_bounds:
  assumes "parse_int w s = Some i"
  shows "- (2 ^ (w - 1)) \<le> i" "i < 2 ^ (w - 1)"
proof -
  have neg: "- (2 ^ k) \<le> - int n \<and> - int n < 2 ^ k" if "n \<le> 2 ^ k" for n k :: nat
  proof -
    from that have "int n \<le> int (2 ^ k)" by (simp only: of_nat_le_iff)
    then have "int n \<le> 2 ^ k" by simp
    moreover have "0 < (2::int) ^ k" by simp
    ultimately show ?thesis by linarith
  qed
  have pos: "- (2 ^ k) \<le> int n \<and> int n < 2 ^ k" if "n < 2 ^ k" for n k :: nat
  proof -
    from that have "int n < int (2 ^ k)" by (simp only: of_nat_less_iff)
    then have "int n < 2 ^ k" by simp
    moreover have "0 < (2::int) ^ k" by simp
    ultimately show ?thesis by linarith
  qed
  have "- (2 ^ (w - 1)) \<le> i \<and> i < 2 ^ (w - 1)"
  proof (cases "\<exists>n. i = - int n \<and> n \<le> 2 ^ (w - 1)")
    case True
    with neg show ?thesis by auto
  next
    case False
    with assms obtain n where "i = int n" "parse_uint (2 ^ (w - 1)) s = Some n"
      by (auto simp: parse_int_def opt_filter_eq_Some split: list.splits if_splits)
    with pos parse_uint_bound show ?thesis by auto
  qed
  then show "- (2 ^ (w - 1)) \<le> i" "i < 2 ^ (w - 1)" by simp_all
qed

section \<open>UTF-8\<close>

definition cont_byte :: "char \<Rightarrow> bool" where
  "cont_byte c \<longleftrightarrow> 0x80 \<le> bv c \<and> bv c \<le> 0xBF"

text \<open>The second byte of a three or four byte character, which excludes overlong forms,
  surrogates and values above U+10FFFF.\<close>

definition second_byte :: "char \<Rightarrow> char \<Rightarrow> bool" where
  "second_byte a b \<longleftrightarrow>
     (if bv a = 0xE0 then 0xA0 \<le> bv b \<and> bv b \<le> 0xBF
      else if bv a = 0xED then 0x80 \<le> bv b \<and> bv b \<le> 0x9F
      else if bv a = 0xF0 then 0x90 \<le> bv b \<and> bv b \<le> 0xBF
      else if bv a = 0xF4 then 0x80 \<le> bv b \<and> bv b \<le> 0x8F
      else cont_byte b)"

text \<open>
  One step of the decoder on a non-empty string: whether it starts with a well-formed character,
  and how many bytes that character, or else the maximal ill-formed prefix, has.
\<close>

definition utf8_step :: "string \<Rightarrow> bool \<times> nat" where
  "utf8_step s =
     (case s of
        [] \<Rightarrow> (True, 0)
      | a # s1 \<Rightarrow>
          if bv a < 0x80 then (True, 1)
          else if 0xC2 \<le> bv a \<and> bv a \<le> 0xDF then
            (case s1 of b # _ \<Rightarrow> if cont_byte b then (True, 2) else (False, 1) | [] \<Rightarrow> (False, 1))
          else if 0xE0 \<le> bv a \<and> bv a \<le> 0xF4 then
            (case s1 of
               [] \<Rightarrow> (False, 1)
             | b # s2 \<Rightarrow>
                 if \<not> second_byte a b then (False, 1)
                 else (case s2 of
                         [] \<Rightarrow> (False, 2)
                       | c # s3 \<Rightarrow>
                           if \<not> cont_byte c then (False, 2)
                           else if bv a \<le> 0xEF then (True, 3)
                           else (case s3 of
                                   [] \<Rightarrow> (False, 3)
                                 | d # _ \<Rightarrow> if cont_byte d then (True, 4) else (False, 3))))
          else (False, 1))"

lemma utf8_step_pos: "s \<noteq> [] \<Longrightarrow> 0 < snd (utf8_step s)"
  by (auto simp: utf8_step_def split: list.splits if_splits)

lemma utf8_step_le: "snd (utf8_step s) \<le> length s"
  by (auto simp: utf8_step_def split: list.splits if_splits)

lemma utf8_step_ascii: "ascii c \<Longrightarrow> utf8_step (c # s) = (True, 1)"
  by (simp add: utf8_step_def ascii_def)

lemma utf8_step_valid_append:
  "utf8_step s = (True, n) \<Longrightarrow> s \<noteq> [] \<Longrightarrow> utf8_step (take n s @ t) = (True, n)"
  by (auto simp: utf8_step_def split: list.splits if_splits)

function utf8_valid :: "string \<Rightarrow> bool" where
  "utf8_valid s =
     (if s = [] then True
      else fst (utf8_step s) \<and> utf8_valid (drop (snd (utf8_step s)) s))"
  by pat_completeness auto
termination
  by (relation "measure length") (use utf8_step_pos in auto)

declare utf8_valid.simps [simp del]

text \<open>\<open>String::from_utf8_lossy\<close>: every maximal ill-formed prefix becomes U+FFFD.\<close>

definition replacement :: string where
  "replacement = [CHR 0xEF, CHR 0xBF, CHR 0xBD]"

function utf8_lossy :: "string \<Rightarrow> string" where
  "utf8_lossy s =
     (if s = [] then []
      else (if fst (utf8_step s) then take (snd (utf8_step s)) s else replacement)
           @ utf8_lossy (drop (snd (utf8_step s)) s))"
  by pat_completeness auto
termination
  by (relation "measure length") (use utf8_step_pos in auto)

declare utf8_lossy.simps [simp del]

lemma utf8_lossy_valid [simp]: "utf8_valid s \<Longrightarrow> utf8_lossy s = s"
proof (induction s rule: utf8_valid.induct)
  case (1 s)
  then show ?case
    by (cases "s = []") (simp add: utf8_lossy.simps, simp add: utf8_lossy.simps [of s] utf8_valid.simps [of s])
qed

lemma utf8_valid_Nil [simp]: "utf8_valid []"
  by (subst utf8_valid.simps) simp

lemma utf8_valid_ascii: "(\<And>c. c \<in> set s \<Longrightarrow> ascii c) \<Longrightarrow> utf8_valid s"
  by (induction s) (simp, subst utf8_valid.simps, simp add: utf8_step_ascii)

lemma utf8_valid_take:
  "utf8_step s = (True, n) \<Longrightarrow> s \<noteq> [] \<Longrightarrow> utf8_valid t \<Longrightarrow> utf8_valid (take n s @ t)"
  using utf8_step_le [of s]
  by (subst utf8_valid.simps) (simp add: utf8_step_valid_append)

text \<open>The result is always a Rust \<open>String\<close>.\<close>

lemma utf8_valid_lossy: "utf8_valid (utf8_lossy s)"
proof (induction s rule: utf8_lossy.induct)
  case (1 s)
  have rep: "utf8_valid (replacement @ t)" if "utf8_valid t" for t
    using that by (subst utf8_valid.simps)
      (simp add: replacement_def utf8_step_def second_byte_def cont_byte_def)
  show ?case
  proof (cases "s = []")
    case False
    with 1 have IH: "utf8_valid (utf8_lossy (drop (snd (utf8_step s)) s))" by simp
    with False rep show ?thesis
      by (cases "utf8_step s") (auto simp: utf8_lossy.simps [of s] intro: utf8_valid_take)
  qed (simp add: utf8_lossy.simps)
qed

section \<open>Case folding and debug printing\<close>

definition to_lower :: "char \<Rightarrow> char" where
  "to_lower c = (if 65 \<le> bv c \<and> bv c \<le> 90 then char_of (bv c + 32) else c)"

definition to_ascii_lowercase :: "string \<Rightarrow> string" where
  "to_ascii_lowercase s = map to_lower s"

definition eq_ignore_ascii_case :: "string \<Rightarrow> string \<Rightarrow> bool" where
  "eq_ignore_ascii_case s t \<longleftrightarrow> to_ascii_lowercase s = to_ascii_lowercase t"

lemma eq_ignore_ascii_case_refl [simp]: "eq_ignore_ascii_case s s"
  by (simp add: eq_ignore_ascii_case_def)

definition hex_digit :: "nat \<Rightarrow> char" where
  "hex_digit d = (if d < 10 then char_of (48 + d) else char_of (87 + d))"

text \<open>
  \<open>\{:?\}\<close> of a string: quotes, backslashes and control bytes are escaped. Bytes of non-ASCII
  characters are printed as they are; Rust escapes the few of those its tables call unprintable.
\<close>

definition escape_debug :: "char \<Rightarrow> string" where
  "escape_debug c =
     (if c = CHR 0x22 \<or> c = CHR 0x5C then [CHR 0x5C, c]
      else if c = CHR 0x0A then [CHR 0x5C, CHR ''n'']
      else if c = CHR 0x0D then [CHR 0x5C, CHR ''r'']
      else if c = CHR 0x09 then [CHR 0x5C, CHR ''t'']
      else if c = CHR 0x00 then [CHR 0x5C, CHR ''0'']
      else if bv c < 16 then CHR 0x5C # ''u{'' @ [hex_digit (bv c)] @ ''}''
      else if bv c < 32 \<or> bv c = 127 then
        CHR 0x5C # ''u{'' @ [hex_digit (bv c div 16), hex_digit (bv c mod 16)] @ ''}''
      else [c])"

definition debug_str :: "string \<Rightarrow> string" where
  "debug_str s = CHR 0x22 # concat (map escape_debug s) @ [CHR 0x22]"

end
