(* ===== verification/Sdk_Error.thy ===== *)
theory Sdk_Error
  imports Rust_Str
begin

text \<open>
  \<open>src/error.rs\<close> and the error helpers of \<open>src/machine.rs\<close>: the SDK's error type, how errors are
  printed, copied and joined. An \<open>std::io::Error\<close> is its kind, the OS code it carries (if it came
  from the OS), the text it prints and the kind of error it wraps (which \<open>get_ref\<close> and
  \<open>downcast_ref\<close> look at).
\<close>

datatype io_kind =
    NotFound | PermissionDenied | ConnectionRefused | ConnectionReset | ConnectionAborted
  | NotConnected | AddrInUse | AddrNotAvailable | BrokenPipe | AlreadyExists | WouldBlock
  | InvalidInput | InvalidData | TimedOut | WriteZero | Interrupted | UnexpectedEof | OtherKind

datatype io_inner = NoInner | TextInner | AckErrorInner | ConnectMessageErrorInner

record io_error =
  io_kind :: io_kind
  io_os_code :: "int option"
  io_text :: string
  io_inner :: io_inner

text \<open>\<open>io::Error::new(kind, text)\<close>: no OS code, the text is wrapped.\<close>

definition io_new :: "io_kind \<Rightarrow> string \<Rightarrow> io_error" where
  "io_new k t = \<lparr>io_kind = k, io_os_code = None, io_text = t, io_inner = TextInner\<rparr>"

datatype error =
    Io io_error
  | Json string
  | InvalidConfig string
  | Process string
  | Api nat string
  | AlreadyStarted

text \<open>
  What a method may end with besides an error: a panic unwinds through its callers, and a loop that
  has used up its fuel has not returned.
\<close>

datatype exc = Err error | Panic | OutOfFuel

type_synonym 'a result = "error + 'a"

fun error_display :: "error \<Rightarrow> string" where
  "error_display (Io e) = ''io error: '' @ io_text e"
| "error_display (Json e) = ''json error: '' @ e"
| "error_display (InvalidConfig m) = ''invalid configuration: '' @ m"
| "error_display (Process m) = ''process error: '' @ m"
| "error_display (Api status body) = ''api error (status '' @ nat_str status @ ''): '' @ body"
| "error_display AlreadyStarted = ''machine already started''"

fun copy_error :: "error \<Rightarrow> error" where
  "copy_error (Io e) = Io (io_new (io_kind e) (io_text e))"
| "copy_error (Json e) = Process e"
| "copy_error (InvalidConfig m) = InvalidConfig m"
| "copy_error (Process m) = Process m"
| "copy_error (Api status body) = Api status body"
| "copy_error AlreadyStarted = AlreadyStarted"

definition join_errors :: "error \<Rightarrow> error option \<Rightarrow> error" where
  "join_errors primary secondary =
     (case secondary of
        Some s \<Rightarrow> Process (error_display primary @ ''; cleanup error: '' @ error_display s)
      | None \<Rightarrow> primary)"

lemma copy_error_idem [simp]: "copy_error (copy_error e) = copy_error e"
  by (cases e) (simp_all add: io_new_def)

text \<open>A copy prints as the original does, unless the original came from the JSON library.\<close>

lemma copy_error_display: "(\<And>j. e \<noteq> Json j) \<Longrightarrow> error_display (copy_error e) = error_display e"
  by (cases e) (auto simp: io_new_def)

lemma join_errors_simps [simp]:
  "join_errors p None = p"
  "join_errors p (Some s) = Process (error_display p @ ''; cleanup error: '' @ error_display s)"
  by (simp_all add: join_errors_def)

end
