(* ===== verification/Command_Builder.thy ===== *)
theory Command_Builder
  imports Sdk_Error
begin

text \<open>
  \<open>src/command_builder.rs\<close>: the command line of the VMM and its builder. Builder methods consume
  and return the builder.
\<close>

definition DEFAULT_FC_BIN :: string where
  "DEFAULT_FC_BIN = ''firecracker''"

datatype command_stdio = StdioInherit | StdioNull | StdioPath string

record vm_command =
  cmd_bin :: string
  cmd_args :: "string list"
  cmd_stdin :: command_stdio
  cmd_stdout :: command_stdio
  cmd_stderr :: command_stdio

definition argv :: "vm_command \<Rightarrow> string list" where
  "argv c = [cmd_bin c] @ cmd_args c"

record vm_command_builder =
  vb_bin :: "string option"
  vb_args :: "string list"
  vb_socket_path :: "string option"
  vb_stdin :: command_stdio
  vb_stdout :: command_stdio
  vb_stderr :: command_stdio

definition vb_default :: vm_command_builder where
  "vb_default = \<lparr>vb_bin = None, vb_args = [], vb_socket_path = None, vb_stdin = StdioInherit,
     vb_stdout = StdioInherit, vb_stderr = StdioInherit\<rparr>"

definition vb_get_args :: "vm_command_builder \<Rightarrow> string list option" where
  "vb_get_args b = (if vb_args b \<noteq> [] then Some (vb_args b) else None)"

definition vb_with_args :: "string list \<Rightarrow> vm_command_builder \<Rightarrow> vm_command_builder" where
  "vb_with_args as b = b\<lparr>vb_args := as\<rparr>"

definition vb_add_args :: "string list \<Rightarrow> vm_command_builder \<Rightarrow> vm_command_builder" where
  "vb_add_args as b = b\<lparr>vb_args := vb_args b @ as\<rparr>"

definition vb_get_bin :: "vm_command_builder \<Rightarrow> string" where
  "vb_get_bin b = unwrap_or DEFAULT_FC_BIN (vb_bin b)"

definition vb_with_bin :: "string \<Rightarrow> vm_command_builder \<Rightarrow> vm_command_builder" where
  "vb_with_bin bin b = b\<lparr>vb_bin := Some bin\<rparr>"

definition socket_path_args :: "vm_command_builder \<Rightarrow> string list option" where
  "socket_path_args b = map_option (\<lambda>p. [''--api-sock'', p]) (vb_socket_path b)"

definition vb_with_socket_path :: "string \<Rightarrow> vm_command_builder \<Rightarrow> vm_command_builder" where
  "vb_with_socket_path p b = b\<lparr>vb_socket_path := Some p\<rparr>"

definition vb_with_stdin :: "command_stdio \<Rightarrow> vm_command_builder \<Rightarrow> vm_command_builder" where
  "vb_with_stdin s b = b\<lparr>vb_stdin := s\<rparr>"

definition vb_with_stdin_path :: "string \<Rightarrow> vm_command_builder \<Rightarrow> vm_command_builder" where
  "vb_with_stdin_path p b = b\<lparr>vb_stdin := StdioPath p\<rparr>"

definition vb_with_stdout :: "command_stdio \<Rightarrow> vm_command_builder \<Rightarrow> vm_command_builder" where
  "vb_with_stdout s b = b\<lparr>vb_stdout := s\<rparr>"

definition vb_with_stdout_path :: "string \<Rightarrow> vm_command_builder \<Rightarrow> vm_command_builder" where
  "vb_with_stdout_path p b = b\<lparr>vb_stdout := StdioPath p\<rparr>"

definition vb_with_stderr :: "command_stdio \<Rightarrow> vm_command_builder \<Rightarrow> vm_command_builder" where
  "vb_with_stderr s b = b\<lparr>vb_stderr := s\<rparr>"

definition vb_with_stderr_path :: "string \<Rightarrow> vm_command_builder \<Rightarrow> vm_command_builder" where
  "vb_with_stderr_path p b = b\<lparr>vb_stderr := StdioPath p\<rparr>"

definition vb_build :: "vm_command_builder \<Rightarrow> vm_command" where
  "vb_build b =
     \<lparr>cmd_bin = vb_get_bin b,
      cmd_args = unwrap_or [] (socket_path_args b) @ vb_args b,
      cmd_stdin = vb_stdin b, cmd_stdout = vb_stdout b, cmd_stderr = vb_stderr b\<rparr>"

fun seccomp_args :: "bool \<Rightarrow> string option \<Rightarrow> string list" where
  "seccomp_args False _ = [''--no-seccomp'']"
| "seccomp_args True (Some f) = (if f \<noteq> [] then [''--seccomp-filter'', f] else [])"
| "seccomp_args True None = []"

lemmas vb_defs [model_defs] =
  vb_default_def vb_with_args_def vb_add_args_def vb_get_bin_def vb_with_bin_def socket_path_args_def
  vb_with_socket_path_def vb_with_stdin_def vb_with_stdin_path_def vb_with_stdout_def
  vb_with_stdout_path_def vb_with_stderr_def vb_with_stderr_path_def vb_build_def vb_get_args_def

text \<open>The seccomp arguments tell the three configurations apart that differ.\<close>

lemma seccomp_args_inj:
  "seccomp_args e f = seccomp_args e' f' \<longleftrightarrow>
     e = e' \<and> (e \<longrightarrow> opt_filter (\<lambda>s. s \<noteq> []) f = opt_filter (\<lambda>s. s \<noteq> []) f')"
  by (cases "(e, f)" rule: seccomp_args.cases; cases "(e', f')" rule: seccomp_args.cases) auto

end
