(* ===== verification/Signal_Forward.thy ===== *)
theory Signal_Forward
  imports Sdk_Error "HOL-Library.AList" "HOL-Library.Word"
begin

text \<open>
  The signal forwarding manager of \<open>src/machine.rs\<close>: a process-wide, mutex-protected table of
  registrations (a child process and the signals forwarded to it), reference counts per signal,
  the signal dispositions that were replaced, and a worker thread fed by a pipe.

  Hash maps are association lists with distinct keys; their order stands for the unspecified
  iteration order. The libc calls are fields of \<open>sig_api\<close>, over an abstract operating system state
  \<open>'os\<close>. A panic while the mutex is held (an underflowing reference count, in a build with overflow
  checks) unwinds out of the call and poisons the mutex: \<open>poisoned\<close>. The invariant below shows that
  no sequence of calls gets there.
\<close>

section \<open>State\<close>

record signal_registration =
  child_pid :: "32 word"
  reg_signals :: "int list"

record signal_forward_manager =
  next_registration_id :: "64 word"
  registrations :: "(64 word \<times> signal_registration) list"
  signal_refs :: "(int \<times> nat) list"
  old_handlers :: "(int \<times> nat) list"
  write_fd :: "int option"
  worker :: "unit option"

definition manager_default :: signal_forward_manager where
  "manager_default = \<lparr>next_registration_id = 0, registrations = [], signal_refs = [],
     old_handlers = [], write_fd = None, worker = None\<rparr>"

record 'os sig_world =
  mgr :: signal_forward_manager
  pipe_write_fd :: int
  poisoned :: bool
  sos :: 'os

record 'os sig_api =
  libc_signal :: "int \<Rightarrow> nat \<Rightarrow> 'os \<Rightarrow> nat \<times> 'os"
  libc_pipe :: "'os \<Rightarrow> (int \<times> int) option \<times> 'os"
  libc_write :: "int \<Rightarrow> nat list \<Rightarrow> 'os \<Rightarrow> 'os"
  libc_kill :: "int \<Rightarrow> int \<Rightarrow> 'os \<Rightarrow> 'os"
  close_fd :: "int \<Rightarrow> 'os \<Rightarrow> 'os"
  join_worker :: "'os \<Rightarrow> 'os"
  last_os_error :: "'os \<Rightarrow> io_error"
  handler_addr :: nat

definition SIG_ERR :: nat where
  "SIG_ERR = 2 ^ 64 - 1"

abbreviation upd_mgr ::
  "(signal_forward_manager \<Rightarrow> signal_forward_manager) \<Rightarrow> 'os sig_world \<Rightarrow> 'os sig_world" where
  "upd_mgr f w \<equiv> w\<lparr>mgr := f (mgr w)\<rparr>"

section \<open>The C signal handler\<close>

text \<open>\<open>forward_signal_handler\<close>: one byte into the pipe, if there is one.\<close>

definition forward_signal_handler :: "'os sig_api \<Rightarrow> int \<Rightarrow> 'os sig_world \<Rightarrow> 'os sig_world" where
  "forward_signal_handler A signal w =
     (let fd = pipe_write_fd w in
      if fd < 0 \<or> signal \<le> 0 \<or> signal > 255 then w
      else w\<lparr>sos := libc_write A fd [nat signal] (sos w)\<rparr>)"

section \<open>The manager\<close>

definition ensure_worker :: "'os sig_api \<Rightarrow> ('os sig_world, error, unit) op" where
  "ensure_worker A w =
     (if worker (mgr w) \<noteq> None then (Inr (), w)
      else case libc_pipe A (sos w) of
          (None, os) \<Rightarrow> (Inl (Io (last_os_error A os)), w\<lparr>sos := os\<rparr>)
        | (Some (rfd, wfd), os) \<Rightarrow>
            (Inr (),
             w\<lparr>sos := os, pipe_write_fd := wfd,
               mgr := (mgr w)\<lparr>write_fd := Some wfd, worker := Some ()\<rparr>\<rparr>))"

text \<open>The body of the \<open>for\<close> loop of \<open>release_signals\<close>, and the loop over the reversed list.\<close>

definition release_signal :: "'os sig_api \<Rightarrow> int \<Rightarrow> 'os sig_world \<Rightarrow> 'os sig_world" where
  "release_signal A signal w =
     (case map_of (signal_refs (mgr w)) signal of
        None \<Rightarrow> w
      | Some ref_count \<Rightarrow>
          if ref_count = 0 then w\<lparr>poisoned := True\<rparr>
          else if ref_count - 1 > 0 then
            upd_mgr (\<lambda>m. m\<lparr>signal_refs := AList.update signal (ref_count - 1) (signal_refs m)\<rparr>) w
          else
            (let w' = upd_mgr (\<lambda>m. m\<lparr>signal_refs := AList.delete signal (signal_refs m)\<rparr>) w in
             case map_of (old_handlers (mgr w')) signal of
               None \<Rightarrow> w'
             | Some previous \<Rightarrow>
                 (upd_mgr (\<lambda>m. m\<lparr>old_handlers := AList.delete signal (old_handlers m)\<rparr>) w')
                   \<lparr>sos := snd (libc_signal A signal previous (sos w'))\<rparr>))"

fun release_loop :: "'os sig_api \<Rightarrow> int list \<Rightarrow> 'os sig_world \<Rightarrow> 'os sig_world" where
  "release_loop A [] w = w"
| "release_loop A (signal # rest) w =
     (let w' = release_signal A signal w in
      if poisoned w' \<and> \<not> poisoned w then w' else release_loop A rest w')"

definition release_signals :: "'os sig_api \<Rightarrow> int list \<Rightarrow> 'os sig_world \<Rightarrow> 'os sig_world" where
  "release_signals A signals w = release_loop A (rev signals) w"

definition refs_or_default :: "int \<Rightarrow> (int \<times> nat) list \<Rightarrow> (int \<times> nat) list" where
  "refs_or_default signal refs = (if map_of refs signal = None then AList.update signal 0 refs else refs)"

fun register_loop ::
  "'os sig_api \<Rightarrow> int list \<Rightarrow> int list \<Rightarrow> ('os sig_world, error, unit) op" where
  "register_loop A [] applied w = (Inr (), w)"
| "register_loop A (signal # rest) applied w =
     (if signal \<le> 0 \<or> signal > 255 then
        (Inl (Process (''signal '' @ int_str signal @ '' cannot be forwarded'')),
         release_signals A applied w)
      else
        (let w1 = upd_mgr (\<lambda>m. m\<lparr>signal_refs := refs_or_default signal (signal_refs m)\<rparr>) w;
             ref_count = unwrap_or 0 (map_of (signal_refs (mgr w1)) signal);
             bump = upd_mgr (\<lambda>m. m\<lparr>signal_refs := AList.update signal (ref_count + 1) (signal_refs m)\<rparr>)
         in
         if ref_count = 0 then
           (case libc_signal A signal (handler_addr A) (sos w1) of
              (previous, os) \<Rightarrow>
                (let w2 = w1\<lparr>sos := os\<rparr> in
                 if previous = SIG_ERR then
                   (Inl (Io (last_os_error A os)), release_signals A applied w2)
                 else
                   register_loop A rest (applied @ [signal])
                     (bump (upd_mgr
                       (\<lambda>m. m\<lparr>old_handlers := AList.update signal previous (old_handlers m)\<rparr>) w2))))
         else register_loop A rest (applied @ [signal]) (bump w1)))"

definition register_inner ::
  "'os sig_api \<Rightarrow> int list \<Rightarrow> 32 word \<Rightarrow> ('os sig_world, error, 64 word) op" where
  "register_inner A signals pid =
     op_bind (ensure_worker A) (\<lambda>_.
     op_bind (register_loop A signals []) (\<lambda>_ w.
       (let registration_id = next_registration_id (mgr w) in
        (Inr registration_id,
         upd_mgr (\<lambda>m. m\<lparr>next_registration_id := registration_id + 1,
           registrations := AList.update registration_id
             \<lparr>child_pid = pid, reg_signals = signals\<rparr> (registrations m)\<rparr>) w))))"

definition unregister_inner :: "'os sig_api \<Rightarrow> 64 word \<Rightarrow> 'os sig_world \<Rightarrow> 'os sig_world" where
  "unregister_inner A registration_id w =
     (case map_of (registrations (mgr w)) registration_id of
        None \<Rightarrow> w
      | Some r \<Rightarrow>
          release_signals A (reg_signals r)
            (upd_mgr (\<lambda>m. m\<lparr>registrations := AList.delete registration_id (registrations m)\<rparr>) w))"

text \<open>\<open>take_shutdown_if_idle\<close>: the pipe end of the worker that has to be shut down, if any.\<close>

definition take_shutdown_if_idle :: "'os sig_world \<Rightarrow> int option \<times> 'os sig_world" where
  "take_shutdown_if_idle w =
     (let m = mgr w in
      if registrations m \<noteq> [] \<or> signal_refs m \<noteq> [] then (None, w)
      else case write_fd m of
          None \<Rightarrow> (None, w)
        | Some fd \<Rightarrow>
            (let w1 = w\<lparr>mgr := m\<lparr>write_fd := None\<rparr>\<rparr> in
             case worker m of
               None \<Rightarrow> (None, w1)
             | Some _ \<Rightarrow> (Some fd, upd_mgr (\<lambda>m. m\<lparr>worker := None\<rparr>) w1\<lparr>pipe_write_fd := - 1\<rparr>)))"

text \<open>\<open>SignalForwardWorkerShutdown::shutdown\<close>: sentinel byte, close, join.\<close>

definition worker_shutdown :: "'os sig_api \<Rightarrow> int \<Rightarrow> 'os sig_world \<Rightarrow> 'os sig_world" where
  "worker_shutdown A fd w = w\<lparr>sos := join_worker A (close_fd A fd (libc_write A fd [0] (sos w)))\<rparr>"

definition shutdown_if_idle :: "'os sig_api \<Rightarrow> 'os sig_world \<Rightarrow> 'os sig_world" where
  "shutdown_if_idle A w =
     (case take_shutdown_if_idle w of
        (None, w') \<Rightarrow> w'
      | (Some fd, w') \<Rightarrow> worker_shutdown A fd w')"

definition register :: "'os sig_api \<Rightarrow> int list \<Rightarrow> 32 word \<Rightarrow> ('os sig_world, error, 64 word) op" where
  "register A signals pid w =
     (if poisoned w then (Inl (Process ''signal forwarding manager mutex poisoned''), w)
      else case register_inner A signals pid w of
          (Inl e, w') \<Rightarrow> (Inl e, if poisoned w' then w' else shutdown_if_idle A w')
        | (Inr rid, w') \<Rightarrow> (Inr rid, w'))"

definition unregister :: "'os sig_api \<Rightarrow> 64 word \<Rightarrow> 'os sig_world \<Rightarrow> 'os sig_world" where
  "unregister A rid w =
     (if poisoned w then w
      else let w' = unregister_inner A rid w in
        if poisoned w' then w' else shutdown_if_idle A w')"

text \<open>\<open>pid as i32\<close> in the call to \<open>kill\<close> is the two's complement reading of the word.\<close>

definition dispatch_targets :: "int \<Rightarrow> 'os sig_world \<Rightarrow> int list" where
  "dispatch_targets signal w =
     map (\<lambda>(_, r). sint (child_pid r))
       (filter (\<lambda>(_, r). List.member (reg_signals r) signal) (registrations (mgr w)))"

definition dispatch_signal :: "'os sig_api \<Rightarrow> int \<Rightarrow> 'os sig_world \<Rightarrow> 'os sig_world" where
  "dispatch_signal A signal w =
     (if poisoned w then w
      else w\<lparr>sos := fold (\<lambda>pid. libc_kill A pid signal) (dispatch_targets signal w) (sos w)\<rparr>)"

text \<open>\<open>SignalForwarder::install\<close> and \<open>shutdown\<close>.\<close>

definition forwarder_install ::
  "'os sig_api \<Rightarrow> int list \<Rightarrow> 32 word \<Rightarrow> ('os sig_world, error, 64 word option) op" where
  "forwarder_install A signals pid =
     (if signals = [] then op_ok None
      else op_bind (register A signals pid) (\<lambda>rid. op_ok (Some rid)))"

definition forwarder_shutdown :: "'os sig_api \<Rightarrow> 64 word \<Rightarrow> 'os sig_world \<Rightarrow> 'os sig_world" where
  "forwarder_shutdown A rid w = unregister A rid w"

section \<open>The worker thread\<close>

text \<open>
  One \<open>read\<close> of the worker returns a negative value (retry), 0 (end of file) or some bytes. The
  result says whether the thread has returned.
\<close>

datatype read_result = ReadFailed | ReadEof | ReadBytes "nat list"

fun worker_bytes :: "'os sig_api \<Rightarrow> nat list \<Rightarrow> 'os sig_world \<Rightarrow> bool \<times> 'os sig_world" where
  "worker_bytes A [] w = (False, w)"
| "worker_bytes A (b # bs) w =
     (if b = 0 then (True, w) else worker_bytes A bs (dispatch_signal A (int b) w))"

fun worker_loop :: "'os sig_api \<Rightarrow> read_result list \<Rightarrow> 'os sig_world \<Rightarrow> bool \<times> 'os sig_world" where
  "worker_loop A [] w = (False, w)"
| "worker_loop A (ReadFailed # rs) w = worker_loop A rs w"
| "worker_loop A (ReadEof # rs) w = (True, w)"
| "worker_loop A (ReadBytes bs # rs) w =
     (case worker_bytes A bs w of
        (True, w') \<Rightarrow> (True, w')
      | (False, w') \<Rightarrow> worker_loop A rs w')"

section \<open>Reference counts and dispositions\<close>

text \<open>
  What the manager relies on of the operating system, with \<open>disp os s\<close> the disposition of signal
  \<open>s\<close> and \<open>accepts\<close> the signals whose disposition may be changed: \<open>signal(2)\<close> installs the new
  disposition and returns the old one, or fails with \<open>SIG_ERR\<close> and changes nothing, depending on
  the signal number only; the other calls leave dispositions alone.
\<close>

definition sig_api_ok :: "'os sig_api \<Rightarrow> ('os \<Rightarrow> int \<Rightarrow> nat) \<Rightarrow> (int \<Rightarrow> bool) \<Rightarrow> bool" where
  "sig_api_ok A disp accepts \<longleftrightarrow>
     (\<forall>s h os. accepts s \<longrightarrow> fst (libc_signal A s h os) = disp os s \<and>
        disp (snd (libc_signal A s h os)) = (disp os)(s := h)) \<and>
     (\<forall>s h os. \<not> accepts s \<longrightarrow> fst (libc_signal A s h os) = SIG_ERR \<and>
        disp (snd (libc_signal A s h os)) = disp os) \<and>
     (\<forall>os. disp (snd (libc_pipe A os)) = disp os) \<and>
     (\<forall>fd bs os. disp (libc_write A fd bs os) = disp os) \<and>
     (\<forall>pid s os. disp (libc_kill A pid s os) = disp os) \<and>
     (\<forall>fd os. disp (close_fd A fd os) = disp os) \<and>
     (\<forall>os. disp (join_worker A os) = disp os)"

lemma sig_api_okD:
  assumes "sig_api_ok A disp accepts"
  shows "accepts s \<Longrightarrow> libc_signal A s h os = (r, os') \<Longrightarrow> r = disp os s \<and> disp os' = (disp os)(s := h)"
    and "\<not> accepts s \<Longrightarrow> libc_signal A s h os = (r, os') \<Longrightarrow> r = SIG_ERR \<and> disp os' = disp os"
    and "accepts s \<Longrightarrow> disp (snd (libc_signal A s h os)) = (disp os)(s := h)"
    and "libc_pipe A os = (r', os') \<Longrightarrow> disp os' = disp os"
    and "disp (libc_write A fd bs os) = disp os" "disp (libc_kill A pid s os) = disp os"
    and "disp (close_fd A fd os) = disp os" "disp (join_worker A os) = disp os"
  using assms unfolding sig_api_ok_def by (metis fst_conv snd_conv)+

text \<open>The reference count of a signal; an absent entry counts 0.\<close>

definition refs_of :: "'os sig_world \<Rightarrow> int \<Rightarrow> nat" where
  "refs_of w s = unwrap_or 0 (map_of (signal_refs (mgr w)) s)"

text \<open>How often a signal occurs in the live registrations.\<close>

definition uses_of :: "'os sig_world \<Rightarrow> int \<Rightarrow> nat" where
  "uses_of w s = sum_list (map (\<lambda>(_, r). count_list (reg_signals r) s) (registrations (mgr w)))"

text \<open>
  The tables agree with a count \<open>c\<close> of uses per signal: reference counts are those counts, a
  replaced disposition is remembered exactly for the signals in use, and exactly those have the
  forwarding handler installed; all other signals have their original disposition \<open>orig\<close>.
\<close>

definition tables_ok ::
  "'os sig_api \<Rightarrow> ('os \<Rightarrow> int \<Rightarrow> nat) \<Rightarrow> (int \<Rightarrow> bool) \<Rightarrow> (int \<Rightarrow> nat) \<Rightarrow> (int \<Rightarrow> nat) \<Rightarrow> 'os sig_world \<Rightarrow> bool" where
  "tables_ok A disp accepts orig c w \<longleftrightarrow>
     distinct (map fst (signal_refs (mgr w))) \<and> distinct (map fst (old_handlers (mgr w))) \<and>
     (\<forall>s. refs_of w s = c s) \<and>
     (\<forall>s. map_of (old_handlers (mgr w)) s = (if c s > 0 then Some (orig s) else None)) \<and>
     (\<forall>s. disp (sos w) s = (if c s > 0 then handler_addr A else orig s)) \<and>
     (\<forall>s. c s > 0 \<longrightarrow> accepts s)"

text \<open>What the table operations leave alone.\<close>

definition same_frame :: "'os sig_world \<Rightarrow> 'os sig_world \<Rightarrow> bool" where
  "same_frame w w' \<longleftrightarrow>
     registrations (mgr w') = registrations (mgr w) \<and>
     next_registration_id (mgr w') = next_registration_id (mgr w) \<and>
     write_fd (mgr w') = write_fd (mgr w) \<and> worker (mgr w') = worker (mgr w) \<and>
     pipe_write_fd w' = pipe_write_fd w \<and> poisoned w' = poisoned w"

lemma same_frame_refl [simp]: "same_frame w w"
  by (simp add: same_frame_def)

lemma same_frame_trans: "same_frame u v \<Longrightarrow> same_frame v w \<Longrightarrow> same_frame u w"
  by (simp add: same_frame_def)

lemma release_signal_ok:
  assumes api: "sig_api_ok A disp accepts" and ok: "tables_ok A disp accepts orig c w"
    and pos: "c s > 0"
  shows "tables_ok A disp accepts orig (c(s := c s - 1)) (release_signal A s w)"
    and "same_frame w (release_signal A s w)"
proof -
  from ok pos have refs: "map_of (signal_refs (mgr w)) s = Some (c s)"
    by (auto simp: tables_ok_def refs_of_def unwrap_or_def split: option.splits)
  from ok pos have old: "map_of (old_handlers (mgr w)) s = Some (orig s)" and acc: "accepts s"
    by (auto simp: tables_ok_def)
  note sig = sig_api_okD(3) [OF api acc]
  show "tables_ok A disp accepts orig (c(s := c s - 1)) (release_signal A s w)"
    using ok pos refs old sig
    by (auto simp: tables_ok_def release_signal_def refs_of_def Let_def update_conv' delete_conv'
        distinct_update distinct_delete unwrap_or_def)
  show "same_frame w (release_signal A s w)"
    using pos refs old by (simp add: release_signal_def same_frame_def Let_def)
qed

lemma release_loop_ok:
  assumes api: "sig_api_ok A disp accepts"
  shows "tables_ok A disp accepts orig c w \<Longrightarrow> (\<And>s. count_list xs s \<le> c s) \<Longrightarrow>
    tables_ok A disp accepts orig (\<lambda>s. c s - count_list xs s) (release_loop A xs w) \<and>
    same_frame w (release_loop A xs w)"
proof (induction xs arbitrary: c w)
  case (Cons x xs)
  from Cons.prems(2) [of x] have pos: "c x > 0" by simp
  note step = release_signal_ok [OF api Cons.prems(1) pos]
  have "count_list xs s \<le> (c(x := c x - 1)) s" for s
    using Cons.prems(2) [of s] by (auto split: if_splits)
  note IH = Cons.IH [OF step(1) this]
  have eq: "(\<lambda>s. (c(x := c x - 1)) s - count_list xs s) = (\<lambda>s. c s - count_list (x # xs) s)"
    by (auto simp: fun_eq_iff)
  from step(2) have "poisoned (release_signal A x w) = poisoned w" by (simp add: same_frame_def)
  with IH step(2) eq show ?case by (auto simp: Let_def intro: same_frame_trans)
qed simp

lemma count_list_rev [simp]: "count_list (rev xs) s = count_list xs s"
  by (induction xs) (auto simp: count_list_append)

lemma release_signals_ok:
  assumes "sig_api_ok A disp accepts" "tables_ok A disp accepts orig c w"
    "\<And>s. count_list xs s \<le> c s"
  shows "tables_ok A disp accepts orig (\<lambda>s. c s - count_list xs s) (release_signals A xs w) \<and>
    same_frame w (release_signals A xs w)"
  using release_loop_ok [OF assms(1,2), of "rev xs"] assms(3) by (simp add: release_signals_def)

text \<open>
  The registration loop either counts every signal of the list, or undoes what it did: the tables
  then agree with the counts from before the loop.
\<close>

lemma bump_new_ok:
  assumes api: "sig_api_ok A disp accepts" and ok: "tables_ok A disp accepts orig c w"
    and zero: "c s = 0" and acc: "accepts s"
    and sig: "libc_signal A s (handler_addr A) (sos w) = (previous, os)"
    and refs: "distinct (map fst refs)" "map_of refs = (map_of (signal_refs (mgr w)))(s \<mapsto> 1)"
  shows "tables_ok A disp accepts orig (c(s := 1))
    (w\<lparr>sos := os, mgr := (mgr w)\<lparr>old_handlers := AList.update s previous (old_handlers (mgr w)),
       signal_refs := refs\<rparr>\<rparr>)"
  using ok zero acc refs sig_api_okD(1) [OF api acc sig]
  by (auto simp: tables_ok_def refs_of_def update_conv' distinct_update unwrap_or_def)

lemma bump_old_ok:
  assumes ok: "tables_ok A disp accepts orig c w" and pos: "c s > 0"
  shows "tables_ok A disp accepts orig (c(s := c s + 1))
    (w\<lparr>mgr := (mgr w)\<lparr>signal_refs := AList.update s (Suc (c s)) (signal_refs (mgr w))\<rparr>\<rparr>)"
  using ok pos by (auto simp: tables_ok_def refs_of_def update_conv' distinct_update unwrap_or_def)

lemma refs_or_default_ok:
  assumes ok: "tables_ok A disp accepts orig c w"
    and w1_def: "w1 = w\<lparr>mgr := (mgr w)\<lparr>signal_refs := refs_or_default s (signal_refs (mgr w))\<rparr>\<rparr>"
  shows "tables_ok A disp accepts orig c w1" "same_frame w w1"
    "map_of (refs_or_default s (signal_refs (mgr w))) s = Some (c s)" "sos w1 = sos w"
proof -
  have val: "unwrap_or 0 (map_of (signal_refs (mgr w)) s) = c s"
    using ok by (simp add: tables_ok_def refs_of_def)
  then show "map_of (refs_or_default s (signal_refs (mgr w))) s = Some (c s)"
    by (auto simp: refs_or_default_def update_conv' unwrap_or_def split: option.splits)
  show "tables_ok A disp accepts orig c w1"
  proof (cases "map_of (signal_refs (mgr w)) s")
    case None
    with val have "c s = 0" by simp
    with ok None show ?thesis unfolding w1_def
      by (auto simp: tables_ok_def refs_or_default_def refs_of_def update_conv' distinct_update)
  next
    case (Some n)
    with ok show ?thesis unfolding w1_def by (simp add: refs_or_default_def)
  qed
qed (simp_all add: w1_def same_frame_def)

text \<open>
  One iteration: it counts the signal and goes on, or fails with the tables still in step with the
  counts so far, and releases the signals applied so far.
\<close>

lemma register_loop_step:
  assumes api: "sig_api_ok A disp accepts" and orig: "\<And>s. orig s \<noteq> SIG_ERR"
    and ok: "tables_ok A disp accepts orig c w"
  shows "(\<exists>w2. register_loop A (s # rest) applied w = register_loop A rest (applied @ [s]) w2 \<and>
      same_frame w w2 \<and> tables_ok A disp accepts orig (c(s := c s + 1)) w2) \<or>
    (\<exists>e u. register_loop A (s # rest) applied w = (Inl e, release_signals A applied u) \<and>
      same_frame w u \<and> tables_ok A disp accepts orig c u)"
    (is "?go \<or> ?fail")
proof (cases "s \<le> 0 \<or> s > 255")
  case True
  with ok have ?fail by auto
  then show ?thesis ..
next
  case valid: False
  define w1 where "w1 = w\<lparr>mgr := (mgr w)\<lparr>signal_refs := refs_or_default s (signal_refs (mgr w))\<rparr>\<rparr>"
  note w1 = refs_or_default_ok [OF ok w1_def]
  obtain previous os where sig: "libc_signal A s (handler_addr A) (sos w) = (previous, os)" by fastforce
  consider "c s > 0" | "c s = 0" "accepts s" | "c s = 0" "\<not> accepts s" by blast
  then show ?thesis
  proof cases
    case 1
    let ?w2 = "w1\<lparr>mgr := (mgr w1)\<lparr>signal_refs := AList.update s (Suc (c s)) (signal_refs (mgr w1))\<rparr>\<rparr>"
    have ?go using bump_old_ok [OF w1(1) 1] w1(3) 1 valid
      by (intro exI [of _ ?w2]) (simp add: Let_def w1_def same_frame_def)
    then show ?thesis ..
  next
    case 2
    from sig_api_okD(1) [OF api 2(2) sig] ok 2(1) have prev: "previous = orig s"
      by (simp add: tables_ok_def)
    let ?w2 = "w1\<lparr>sos := os, mgr := (mgr w1)\<lparr>
        old_handlers := AList.update s previous (old_handlers (mgr w1)),
        signal_refs := AList.update s 1 (signal_refs (mgr w1))\<rparr>\<rparr>"
    have "tables_ok A disp accepts orig (c(s := 1)) ?w2"
      by (rule bump_new_ok [OF api w1(1) 2])
        (use w1(1,4) sig in \<open>simp_all add: update_conv' distinct_update tables_ok_def\<close>)
    then have ?go using w1(3) 2(1) valid sig prev orig [of s]
      by (intro exI [of _ ?w2]) (simp add: Let_def w1_def same_frame_def)
    then show ?thesis ..
  next
    case 3
    from sig_api_okD(2) [OF api 3(2) sig] have err: "previous = SIG_ERR" "disp os = disp (sos w)" by auto
    from w1(1,4) err(2) have "tables_ok A disp accepts orig c (w1\<lparr>sos := os\<rparr>)"
      by (simp add: tables_ok_def refs_of_def)
    then have ?fail using w1(3) 3(1) valid sig err(1)
      by (intro exI [of _ "Io (last_os_error A os)"] exI [of _ "w1\<lparr>sos := os\<rparr>"])
        (simp add: Let_def w1_def same_frame_def)
    then show ?thesis ..
  qed
qed

lemma register_loop_ok:
  assumes api: "sig_api_ok A disp accepts" and orig: "\<And>s. orig s \<noteq> SIG_ERR"
  shows "tables_ok A disp accepts orig (\<lambda>s. c s + count_list applied s) w \<Longrightarrow>
    register_loop A signals applied w = (r, w') \<Longrightarrow>
    same_frame w w' \<and>
    (case r of
       Inr _ \<Rightarrow> tables_ok A disp accepts orig (\<lambda>s. c s + count_list (applied @ signals) s) w'
     | Inl _ \<Rightarrow> tables_ok A disp accepts orig c w')"
proof (induction signals arbitrary: applied w)
  case (Cons s signals)
  let ?c = "\<lambda>s. c s + count_list applied s"
  have upd: "?c(s := ?c s + 1) = (\<lambda>x. c x + count_list (applied @ [s]) x)"
    by (auto simp: fun_eq_iff count_list_append)
  from register_loop_step [OF api orig Cons.prems(1), of s signals applied] show ?case
  proof (elim disjE exE conjE)
    fix w2
    assume eq: "register_loop A (s # signals) applied w = register_loop A signals (applied @ [s]) w2"
      and frame: "same_frame w w2" and "tables_ok A disp accepts orig (?c(s := ?c s + 1)) w2"
    with Cons.IH [of "applied @ [s]" w2] Cons.prems(2)
    have "same_frame w2 w' \<and> (case r of
        Inr _ \<Rightarrow> tables_ok A disp accepts orig (\<lambda>x. c x + count_list ((applied @ [s]) @ signals) x) w'
      | Inl _ \<Rightarrow> tables_ok A disp accepts orig c w')" unfolding upd by metis
    with frame show ?thesis
      by (auto simp del: count_list.simps split: sum.splits intro: same_frame_trans)
  next
    fix e u
    assume "register_loop A (s # signals) applied w = (Inl e, release_signals A applied u)"
      and "same_frame w u" and tab: "tables_ok A disp accepts orig ?c u"
    with release_signals_ok [OF api tab, of applied] Cons.prems(2) show ?thesis
      by (auto simp del: register_loop.simps intro: same_frame_trans)
  qed
qed auto

section \<open>Reachable states of the manager\<close>

text \<open>
  Any interleaving of registrations, unregistrations, signal deliveries and dispatches: each holds
  the mutex for its whole effect on the tables. The number counts the successful registrations.
\<close>

inductive sig_step :: "'os sig_api \<Rightarrow> nat \<times> 'os sig_world \<Rightarrow> nat \<times> 'os sig_world \<Rightarrow> bool"
  for A :: "'os sig_api" where
  reg_ok: "register A signals pid w = (Inr rid, w') \<Longrightarrow> sig_step A (n, w) (Suc n, w')"
| reg_err: "register A signals pid w = (Inl e, w') \<Longrightarrow> sig_step A (n, w) (n, w')"
| unreg: "sig_step A (n, w) (n, unregister A rid w)"
| deliver: "sig_step A (n, w) (n, forward_signal_handler A signal w)"
| dispatch: "sig_step A (n, w) (n, dispatch_signal A signal w)"

text \<open>
  The initial state, with what is assumed of the operating system. No disposition is \<open>SIG_ERR\<close>: it
  is the value with which \<open>signal(2)\<close> reports a failure.
\<close>

definition sig_env :: "'os sig_api \<Rightarrow> ('os \<Rightarrow> int \<Rightarrow> nat) \<Rightarrow> (int \<Rightarrow> bool) \<Rightarrow> (int \<Rightarrow> nat) \<Rightarrow> bool" where
  "sig_env A disp accepts orig \<longleftrightarrow> sig_api_ok A disp accepts \<and> (\<forall>s. orig s \<noteq> SIG_ERR)"

fun sig_init ::
  "'os sig_api \<Rightarrow> ('os \<Rightarrow> int \<Rightarrow> nat) \<Rightarrow> (int \<Rightarrow> bool) \<Rightarrow> (int \<Rightarrow> nat) \<Rightarrow> nat \<times> 'os sig_world \<Rightarrow> bool" where
  "sig_init A disp accepts orig (n, w) \<longleftrightarrow>
     sig_env A disp accepts orig \<and> n = 0 \<and> mgr w = manager_default \<and> pipe_write_fd w = - 1 \<and>
     \<not> poisoned w \<and> disp (sos w) = orig"

text \<open>The worker and its pipe go together, and every live registration has a worker.\<close>

definition worker_ok :: "'os sig_world \<Rightarrow> bool" where
  "worker_ok w \<longleftrightarrow>
     (worker (mgr w) = None \<longleftrightarrow> write_fd (mgr w) = None) \<and>
     pipe_write_fd w = unwrap_or (- 1) (write_fd (mgr w)) \<and>
     (registrations (mgr w) \<noteq> [] \<longrightarrow> worker (mgr w) \<noteq> None)"

definition sig_core ::
  "'os sig_api \<Rightarrow> ('os \<Rightarrow> int \<Rightarrow> nat) \<Rightarrow> (int \<Rightarrow> bool) \<Rightarrow> (int \<Rightarrow> nat) \<Rightarrow> nat \<Rightarrow> 'os sig_world \<Rightarrow> bool" where
  "sig_core A disp accepts orig n w \<longleftrightarrow>
     tables_ok A disp accepts orig (uses_of w) w \<and> worker_ok w \<and> \<not> poisoned w \<and>
     next_registration_id (mgr w) = of_nat n \<and> distinct (map fst (registrations (mgr w))) \<and>
     (\<forall>rid \<in> fst ` set (registrations (mgr w)). unat rid < n)"

text \<open>The identifiers are 64 bits wide, hence the bound: they are unique until they wrap.\<close>

fun sig_inv ::
  "'os sig_api \<Rightarrow> ('os \<Rightarrow> int \<Rightarrow> nat) \<Rightarrow> (int \<Rightarrow> bool) \<Rightarrow> (int \<Rightarrow> nat) \<Rightarrow> nat \<times> 'os sig_world \<Rightarrow> bool" where
  "sig_inv A disp accepts orig (n, w) \<longleftrightarrow>
     sig_env A disp accepts orig \<and> (n \<le> 2 ^ 64 \<longrightarrow> sig_core A disp accepts orig n w)"

lemma sum_list_delete:
  "distinct (map fst xs) \<Longrightarrow> map_of xs k = Some v \<Longrightarrow>
   sum_list (map f xs) = (f (k, v) :: nat) + sum_list (map f (AList.delete k xs))"
proof (induction xs)
  case (Cons x xs)
  have "k \<notin> fst ` set xs \<Longrightarrow> AList.delete k xs = xs" by (rule delete_id)
  with Cons show ?case by (cases x) (auto split: if_splits)
qed simp

lemma update_fresh: "k \<notin> fst ` set xs \<Longrightarrow> AList.update k v xs = xs @ [(k, v)]"
  by (induction xs) auto

lemma delete_snoc: "k \<notin> fst ` set xs \<Longrightarrow> AList.delete k (xs @ [(k, v)]) = xs"
  by (induction xs) auto

lemma uses_of_same_frame: "same_frame w w' \<Longrightarrow> uses_of w' = uses_of w"
  by (simp add: same_frame_def uses_of_def fun_eq_iff)

lemma worker_ok_same_frame: "same_frame w w' \<Longrightarrow> worker_ok w \<Longrightarrow> worker_ok w'"
  by (simp add: same_frame_def worker_ok_def)

text \<open>Starting and stopping the worker changes nothing the tables speak about.\<close>

lemma sig_core_frame:
  assumes core: "sig_core A disp accepts orig n w"
    and eqs: "mgr w' = (mgr w)\<lparr>write_fd := fd, worker := wk\<rparr>" "disp (sos w') = disp (sos w)"
      "poisoned w' = poisoned w" "worker_ok w'"
  shows "sig_core A disp accepts orig n w' \<and> registrations (mgr w') = registrations (mgr w) \<and>
    disp (sos w') = disp (sos w) \<and> refs_of w' = refs_of w"
proof -
  have "uses_of w' = uses_of w" "refs_of w' = refs_of w"
    by (simp_all add: uses_of_def refs_of_def fun_eq_iff eqs)
  moreover from core this have "tables_ok A disp accepts orig (uses_of w) w'"
    by (simp add: sig_core_def tables_ok_def eqs)
  ultimately show ?thesis using core eqs by (simp add: sig_core_def)
qed

lemma sig_core_sos:
  assumes "sig_core A disp accepts orig n w" "disp os = disp (sos w)"
  shows "sig_core A disp accepts orig n (w\<lparr>sos := os\<rparr>)"
proof -
  have "worker_ok (w\<lparr>sos := os\<rparr>)" using assms(1) by (simp add: sig_core_def worker_ok_def)
  then show ?thesis
    using sig_core_frame [OF assms(1), where w' = "w\<lparr>sos := os\<rparr>" and fd = "write_fd (mgr w)" and wk = "worker (mgr w)"]
      assms(2) by simp
qed

lemma ensure_worker_core:
  assumes api: "sig_api_ok A disp accepts" and core: "sig_core A disp accepts orig n w"
    and run: "ensure_worker A w = (r, w')"
  shows "(sig_core A disp accepts orig n w' \<and> registrations (mgr w') = registrations (mgr w) \<and>
    disp (sos w') = disp (sos w) \<and> refs_of w' = refs_of w) \<and> (r = Inr () \<longrightarrow> worker (mgr w') \<noteq> None)"
proof -
  obtain fds os where pipe: "libc_pipe A (sos w) = (fds, os)" by fastforce
  note d = sig_api_okD(4) [OF api pipe]
  from core have wok: "worker_ok w" by (simp add: sig_core_def)
  consider "w' = w" "worker (mgr w) \<noteq> None" | e where "r = Inl e" "w' = w\<lparr>sos := os\<rparr>"
    | wfd where "w' = w\<lparr>sos := os, pipe_write_fd := wfd,
        mgr := (mgr w)\<lparr>write_fd := Some wfd, worker := Some ()\<rparr>\<rparr>"
    using run pipe by (auto simp: ensure_worker_def split: if_splits option.splits)
  then show ?thesis
  proof cases
    case 2
    then show ?thesis using sig_core_sos [OF core d] d by (simp add: refs_of_def fun_eq_iff)
  next
    case 3
    have "worker_ok w'" by (simp add: 3 worker_ok_def)
    with sig_core_frame [OF core, where w' = w' and fd = "Some wfd" and wk = "Some ()"] show ?thesis by (simp add: 3 d)
  qed (use core in auto)
qed

lemma shutdown_if_idle_core:
  assumes api: "sig_api_ok A disp accepts" and core: "sig_core A disp accepts orig n w"
  shows "sig_core A disp accepts orig n (shutdown_if_idle A w) \<and>
    registrations (mgr (shutdown_if_idle A w)) = registrations (mgr w) \<and>
    disp (sos (shutdown_if_idle A w)) = disp (sos w) \<and>
    refs_of (shutdown_if_idle A w) = refs_of w"
proof -
  from core have wok: "worker_ok w" by (simp add: sig_core_def)
  let ?w' = "shutdown_if_idle A w"
  show ?thesis
  proof (cases "registrations (mgr w) \<noteq> [] \<or> signal_refs (mgr w) \<noteq> [] \<or> write_fd (mgr w) = None")
    case True
    then have "?w' = w" by (auto simp: shutdown_if_idle_def take_shutdown_if_idle_def Let_def)
    with core show ?thesis by simp
  next
    case False
    with wok obtain fd where "write_fd (mgr w) = Some fd" "worker (mgr w) = Some ()"
      by (auto simp: worker_ok_def)
    with False have w': "mgr ?w' = (mgr w)\<lparr>write_fd := None, worker := None\<rparr>" "pipe_write_fd ?w' = - 1"
      "poisoned ?w' = poisoned w" "disp (sos ?w') = disp (sos w)"
      using sig_api_okD(5-8) [OF api]
      by (auto simp: shutdown_if_idle_def take_shutdown_if_idle_def worker_shutdown_def Let_def)
    with False have "worker_ok ?w'" by (simp add: worker_ok_def)
    with sig_core_frame [OF core, where w' = ?w' and fd = None and wk = None] w' show ?thesis by simp
  qed
qed

lemma register_adds_core:
  fixes n :: nat
  defines "i \<equiv> of_nat n :: 64 word"
  assumes core: "sig_core A disp accepts orig n w"
    and tab: "tables_ok A disp accepts orig (\<lambda>s. uses_of w1 s + count_list (reg_signals g) s) w2"
    and w1: "registrations (mgr w1) = registrations (mgr w)"
    and c: "next_registration_id (mgr w2) = i" "worker_ok w2" "\<not> poisoned w2"
      "registrations (mgr w2) = registrations (mgr w)" "worker (mgr w2) \<noteq> None"
    and n: "n < 2 ^ 64"
    and w': "w' = upd_mgr (\<lambda>m. m\<lparr>next_registration_id := i + 1,
          registrations := AList.update i g (registrations m)\<rparr>) w2"
  shows "sig_core A disp accepts orig (Suc n) w' \<and>
    registrations (mgr w') = registrations (mgr w) @ [(i, g)]"
proof -
  from n have id: "unat i = n" by (simp add: i_def unat_of_nat take_bit_nat_eq_self)
  with core have fresh: "i \<notin> fst ` set (registrations (mgr w))" by (auto simp: sig_core_def)
  then have regs: "registrations (mgr w') = registrations (mgr w) @ [(i, g)]"
    by (simp add: w' c update_fresh)
  have "uses_of w' = (\<lambda>s. uses_of w1 s + count_list (reg_signals g) s)"
    by (simp add: uses_of_def regs w1 fun_eq_iff)
  with tab have "tables_ok A disp accepts orig (uses_of w') w'"
    by (simp add: w' tables_ok_def refs_of_def)
  moreover have "worker_ok w'" using c by (simp add: worker_ok_def w')
  ultimately show ?thesis using core c fresh id regs
    by (auto simp: sig_core_def w' i_def less_Suc_eq)
qed

lemma register_inner_core:
  assumes api: "sig_api_ok A disp accepts" and orig: "\<And>s. orig s \<noteq> SIG_ERR"
    and core: "sig_core A disp accepts orig n w" and run: "register_inner A signals pid w = (r, w')"
  shows "case r of
      Inl _ \<Rightarrow> sig_core A disp accepts orig n w' \<and> registrations (mgr w') = registrations (mgr w)
    | Inr rid \<Rightarrow> n < 2 ^ 64 \<longrightarrow> rid = of_nat n \<and> sig_core A disp accepts orig (Suc n) w' \<and>
        registrations (mgr w') =
          registrations (mgr w) @ [(rid, \<lparr>child_pid = pid, reg_signals = signals\<rparr>)]"
proof -
  obtain r1 w1 where ew: "ensure_worker A w = (r1, w1)" by fastforce
  note W = ensure_worker_core [OF api core ew]
  obtain r2 w2 where rl: "register_loop A signals [] w1 = (r2, w2)" by fastforce
  from W have tab: "tables_ok A disp accepts orig (\<lambda>s. uses_of w1 s + count_list [] s) w1"
    by (simp add: sig_core_def)
  note L = register_loop_ok [OF api orig tab rl]
  note frame = uses_of_same_frame [of w1 w2] worker_ok_same_frame [of w1 w2]
  show ?thesis
  proof (cases r1)
    case (Inl e)
    with run ew W show ?thesis by (auto simp: register_inner_def op_bind_def)
  next
    case r1: (Inr u)
    show ?thesis
    proof (cases r2)
      case (Inl e)
      with run ew rl r1 have "r = Inl e" "w' = w2" by (simp_all add: register_inner_def op_bind_def)
      with L Inl W frame show ?thesis by (auto simp: sig_core_def same_frame_def)
    next
      case (Inr v)
      let ?id = "of_nat n :: 64 word" and ?reg = "\<lparr>child_pid = pid, reg_signals = signals\<rparr>"
      from L Inr have L2: "same_frame w1 w2"
        "tables_ok A disp accepts orig (\<lambda>s. uses_of w1 s + count_list signals s) w2" by auto
      from L2(1) W r1 have c: "next_registration_id (mgr w2) = ?id" "worker_ok w2" "\<not> poisoned w2"
        "registrations (mgr w2) = registrations (mgr w)" "worker (mgr w2) \<noteq> None"
        using frame by (simp_all add: sig_core_def same_frame_def)
      have res: "r = Inr ?id" "w' = upd_mgr (\<lambda>m. m\<lparr>next_registration_id := ?id + 1,
          registrations := AList.update ?id ?reg (registrations m)\<rparr>) w2"
        using run ew rl r1 Inr c(1) by (auto simp: register_inner_def op_bind_def Let_def)
      have "sig_core A disp accepts orig (Suc n) w' \<and>
          registrations (mgr w') = registrations (mgr w) @ [(?id, ?reg)]" if n: "n < 2 ^ 64"
        by (rule register_adds_core [OF core _ _ c n res(2), where ?w1.0 = w1]) (use L2(2) W in simp_all)
      with res(1) show ?thesis by simp
    qed
  qed
qed

lemma register_core:
  assumes api: "sig_api_ok A disp accepts" and orig: "\<And>s. orig s \<noteq> SIG_ERR"
    and core: "sig_core A disp accepts orig n w" and run: "register A signals pid w = (r, w')"
  shows "case r of
      Inl _ \<Rightarrow> sig_core A disp accepts orig n w' \<and> registrations (mgr w') = registrations (mgr w)
    | Inr rid \<Rightarrow> n < 2 ^ 64 \<longrightarrow> rid = of_nat n \<and> sig_core A disp accepts orig (Suc n) w' \<and>
        registrations (mgr w') =
          registrations (mgr w) @ [(rid, \<lparr>child_pid = pid, reg_signals = signals\<rparr>)]"
proof -
  obtain r1 w1 where inner: "register_inner A signals pid w = (r1, w1)" by fastforce
  note I = register_inner_core [OF api orig core inner]
  from core have "\<not> poisoned w" by (simp add: sig_core_def)
  with run inner have res: "r = r1" "w' = (case r1 of
      Inl _ \<Rightarrow> if poisoned w1 then w1 else shutdown_if_idle A w1 | Inr _ \<Rightarrow> w1)"
    by (auto simp: register_def split: sum.splits)
  show ?thesis
  proof (cases r1)
    case (Inl e)
    with I have w1: "sig_core A disp accepts orig n w1" by simp
    then have "\<not> poisoned w1" by (simp add: sig_core_def)
    with shutdown_if_idle_core [OF api w1] I Inl res show ?thesis by simp
  qed (use I res in simp)
qed

lemma unregister_core:
  assumes api: "sig_api_ok A disp accepts" and core: "sig_core A disp accepts orig n w"
  shows "sig_core A disp accepts orig n (unregister A rid w) \<and>
    registrations (mgr (unregister A rid w)) = AList.delete rid (registrations (mgr w))"
proof -
  define w1 where "w1 = unregister_inner A rid w"
  have "sig_core A disp accepts orig n w1 \<and>
      registrations (mgr w1) = AList.delete rid (registrations (mgr w))"
  proof (cases "map_of (registrations (mgr w)) rid")
    case None
    then have "rid \<notin> fst ` set (registrations (mgr w))" by (simp add: map_of_eq_None_iff)
    then show ?thesis using core None by (simp add: w1_def unregister_inner_def delete_id)
  next
    case (Some g)
    let ?u = "upd_mgr (\<lambda>m. m\<lparr>registrations := AList.delete rid (registrations m)\<rparr>) w"
    from core have tab: "tables_ok A disp accepts orig (uses_of w) ?u"
      by (simp add: sig_core_def tables_ok_def refs_of_def)
    from core Some have uses: "uses_of w s = count_list (reg_signals g) s + uses_of ?u s" for s
      by (simp add: uses_of_def sum_list_delete sig_core_def)
    then have rest: "(\<lambda>s. uses_of w s - count_list (reg_signals g) s) = uses_of ?u" by auto
    from Some have w1: "w1 = release_signals A (reg_signals g) ?u"
      by (simp add: w1_def unregister_inner_def)
    from release_signals_ok [OF api tab, of "reg_signals g"]
    have R: "tables_ok A disp accepts orig (uses_of ?u) w1" "same_frame ?u w1"
      by (simp_all add: w1 rest uses)
    from core have "worker_ok ?u"
      by (auto simp: sig_core_def worker_ok_def)
    then have "worker_ok w1" by (rule worker_ok_same_frame [OF R(2)])
    moreover have "\<forall>i \<in> fst ` set (AList.delete rid (registrations (mgr w))). unat i < n"
      using core dom_delete_subset [of rid "registrations (mgr w)"] unfolding sig_core_def by blast
    moreover have "distinct (map fst (AList.delete rid (registrations (mgr w))))"
      using core by (simp add: sig_core_def distinct_delete)
    moreover have "next_registration_id (mgr w1) = of_nat n" "\<not> poisoned w1"
      "registrations (mgr w1) = AList.delete rid (registrations (mgr w))"
      using core R(2) by (simp_all add: sig_core_def same_frame_def)
    ultimately show ?thesis using R(1) uses_of_same_frame [OF R(2)] by (simp add: sig_core_def)
  qed
  moreover from this core have "unregister A rid w = shutdown_if_idle A w1"
    by (simp add: unregister_def w1_def sig_core_def)
  ultimately show ?thesis using shutdown_if_idle_core [OF api, of orig n w1] by simp
qed

lemma deliver_core:
  assumes "sig_api_ok A disp accepts" "sig_core A disp accepts orig n w"
  shows "sig_core A disp accepts orig n (forward_signal_handler A signal w)"
  using assms by (simp add: forward_signal_handler_def Let_def sig_core_sos sig_api_okD(5))

lemma dispatch_core:
  assumes api: "sig_api_ok A disp accepts" and "sig_core A disp accepts orig n w"
  shows "sig_core A disp accepts orig n (dispatch_signal A signal w)"
proof -
  have "disp (fold (\<lambda>pid. libc_kill A pid signal) pids os) = disp os" for pids os
    by (induction pids arbitrary: os) (simp_all add: sig_api_okD(6) [OF api])
  with assms show ?thesis by (simp add: dispatch_signal_def sig_core_sos)
qed

interpretation sigs: invariant_system "sig_init A disp accepts orig" "sig_step A"
  "sig_inv A disp accepts orig" for A :: "'os sig_api" and disp accepts orig
proof
  fix s :: "nat \<times> 'os sig_world"
  assume "sig_init A disp accepts orig s"
  then show "sig_inv A disp accepts orig s"
    by (cases s) (auto simp: sig_core_def manager_default_def tables_ok_def refs_of_def uses_of_def
        worker_ok_def)
next
  fix s t :: "nat \<times> 'os sig_world"
  assume inv: "sig_inv A disp accepts orig s" and step: "sig_step A s t"
  obtain n w where s: "s = (n, w)" by fastforce
  from inv s have env: "sig_env A disp accepts orig" and core: "n \<le> 2 ^ 64 \<Longrightarrow> sig_core A disp accepts orig n w"
    by auto
  from env have api: "sig_api_ok A disp accepts" and orig: "\<And>s. orig s \<noteq> SIG_ERR"
    by (auto simp: sig_env_def)
  from step [unfolded s] show "sig_inv A disp accepts orig t"
  proof cases
    case (reg_ok signals pid rid w')
    then show ?thesis using env register_core [OF api orig core reg_ok(2)] by simp
  next
    case (reg_err signals pid e w')
    then show ?thesis using env register_core [OF api orig core reg_err(2)] by simp
  qed (use env unregister_core [OF api core] deliver_core [OF api core] dispatch_core [OF api core] in auto)
qed

abbreviation sig_reach ::
  "'os sig_api \<Rightarrow> ('os \<Rightarrow> int \<Rightarrow> nat) \<Rightarrow> (int \<Rightarrow> bool) \<Rightarrow> (int \<Rightarrow> nat) \<Rightarrow> nat \<Rightarrow> 'os sig_world \<Rightarrow> bool" where
  "sig_reach A disp accepts orig n w \<equiv> reach (sig_init A disp accepts orig) (sig_step A) (n, w)"

lemma sig_reachD:
  assumes "sig_reach A disp accepts orig n w" "n \<le> 2 ^ 64"
  shows "sig_api_ok A disp accepts" "\<And>s. orig s \<noteq> SIG_ERR" "sig_core A disp accepts orig n w"
  using sigs.reach_inv [OF assms(1)] assms(2) by (auto simp: sig_env_def)

text \<open>The registrations determine reference counts and dispositions.\<close>

lemma sig_core_determines:
  assumes "sig_core A disp accepts orig n w" "sig_core A disp accepts orig m w'"
    and "registrations (mgr w') = registrations (mgr w)"
  shows "refs_of w' = refs_of w" "disp (sos w') = disp (sos w)"
    "map_of (old_handlers (mgr w')) = map_of (old_handlers (mgr w))"
proof -
  from assms(3) have "uses_of w' = uses_of w" by (simp add: uses_of_def fun_eq_iff)
  with assms(1,2) show "refs_of w' = refs_of w" "disp (sos w') = disp (sos w)"
    "map_of (old_handlers (mgr w')) = map_of (old_handlers (mgr w))"
    by (simp_all add: sig_core_def tables_ok_def fun_eq_iff)
qed

text \<open>
  C6: in every state the signal manager can reach (as long as the 64-bit registration ids have not
  wrapped) a signal's reference count is the number of times it occurs in live registrations, the
  forwarding handler is installed for exactly the signals in use, every other signal has the
  disposition the program had at the start, and the mutex has not been poisoned.
\<close>

theorem signal_manager_invariant:
  assumes "sig_reach A disp accepts orig n w" "n \<le> 2 ^ 64"
  shows "refs_of w s = uses_of w s \<and>
    disp (sos w) s = (if uses_of w s > 0 then handler_addr A else orig s) \<and> \<not> poisoned w \<and>
    (registrations (mgr w) \<noteq> [] \<longrightarrow> worker (mgr w) \<noteq> None \<and> write_fd (mgr w) = Some (pipe_write_fd w))"
  using sig_reachD(3) [OF assms] by (auto simp: sig_core_def tables_ok_def worker_ok_def)

text \<open>
  C26: a registration that fails, at whatever signal of the list and for whatever reason, leaves the
  registrations, all reference counts, the remembered handlers and all signal dispositions as they
  were.
\<close>

theorem failed_register_is_atomic:
  assumes "sig_reach A disp accepts orig n w" "n \<le> 2 ^ 64" "register A signals pid w = (Inl e, w')"
  shows "registrations (mgr w') = registrations (mgr w) \<and> refs_of w' = refs_of w \<and>
    map_of (old_handlers (mgr w')) = map_of (old_handlers (mgr w)) \<and> disp (sos w') = disp (sos w)"
  using register_core [OF sig_reachD [OF assms(1,2)] assms(3)]
    sig_core_determines [OF sig_reachD(3) [OF assms(1,2)], of n w'] by simp

lemma register_unregister_undo:
  assumes "sig_reach A disp accepts orig n w" "n < 2 ^ 64" "register A signals pid w = (Inr rid, w')"
  shows "registrations (mgr (unregister A rid w')) = registrations (mgr w) \<and>
    refs_of (unregister A rid w') = refs_of w \<and> disp (sos (unregister A rid w')) = disp (sos w)"
proof -
  from assms(2) have "n \<le> 2 ^ 64" by simp
  note R = sig_reachD [OF assms(1) this]
  from register_core [OF R assms(3)] assms(2) have reg: "rid = of_nat n"
    "sig_core A disp accepts orig (Suc n) w'"
    "registrations (mgr w') = registrations (mgr w) @ [(rid, \<lparr>child_pid = pid, reg_signals = signals\<rparr>)]"
    by simp_all
  from reg have "sig_core A disp accepts orig (Suc n) w'" by simp
  note un = unregister_core [OF R(1) this, of rid]
  have "unat (of_nat n :: 64 word) = n" using assms(2) by (simp add: unat_of_nat take_bit_nat_eq_self)
  with R(3) reg have "rid \<notin> fst ` set (registrations (mgr w))" by (auto simp: sig_core_def)
  then have "AList.delete rid (registrations (mgr w')) = registrations (mgr w)"
    using reg(3) by (simp add: delete_snoc)
  with un have regs: "registrations (mgr (unregister A rid w')) = registrations (mgr w)" by simp
  with sig_core_determines [OF R(3) un [THEN conjunct1]] show ?thesis by simp
qed

text \<open>
  C27: unregistering what was just registered undoes the registration: registrations, reference
  counts and signal dispositions are those from before, whatever the two calls did to the tables.
\<close>

theorem unregister_undoes_register:
  assumes "sig_reach A disp accepts orig n w" "n < 2 ^ 64" "register A signals pid w = (Inr rid, w')"
  shows "registrations (mgr (unregister A rid w')) = registrations (mgr w) \<and>
    refs_of (unregister A rid w') = refs_of w \<and> disp (sos (unregister A rid w')) = disp (sos w)"
  by (rule register_unregister_undo [OF assms])

section \<open>The worker thread and the idle shutdown\<close>

lemma worker_bytes_eq:
  "worker_bytes A bs w =
     (0 \<in> set bs, fold (\<lambda>b. dispatch_signal A (int b)) (takeWhile (\<lambda>b. b \<noteq> 0) bs) w)"
  by (induction bs arbitrary: w) auto

text \<open>The bytes of the reads up to the first end of file.\<close>

fun bytes_read :: "read_result list \<Rightarrow> nat list" where
  "bytes_read [] = []"
| "bytes_read (ReadFailed # rs) = bytes_read rs"
| "bytes_read (ReadEof # rs) = []"
| "bytes_read (ReadBytes bs # rs) = bs @ bytes_read rs"

lemma worker_loop_eq:
  "worker_loop A rs w =
     (0 \<in> set (bytes_read rs) \<or> ReadEof \<in> set rs,
      fold (\<lambda>b. dispatch_signal A (int b)) (takeWhile (\<lambda>b. b \<noteq> 0) (bytes_read rs)) w)"
proof (induction A rs w rule: worker_loop.induct)
  case (4 A bs rs w)
  show ?case
  proof (cases "0 \<in> set bs")
    case True
    then show ?thesis by (auto simp: worker_bytes_eq takeWhile_append simp del: neq0_conv)
  next
    case False
    then have all: "takeWhile (\<lambda>b. b \<noteq> 0) bs = bs" by (induction bs) auto
    from False have run: "worker_bytes A bs w = (False, fold (\<lambda>b. dispatch_signal A (int b)) bs w)"
      by (simp add: worker_bytes_eq all del: neq0_conv)
    from False have "takeWhile (\<lambda>b. b \<noteq> 0) (bs @ xs) = bs @ takeWhile (\<lambda>b. b \<noteq> 0) xs" for xs
      by (induction bs) auto
    with 4 [OF run [symmetric]] run False show ?thesis by (simp del: neq0_conv)
  qed
qed auto

text \<open>
  C28: however the kernel cuts the pipe's content into reads, and whatever reads fail in between,
  the worker dispatches exactly the signal bytes before the first zero byte, in order, once each,
  and it has returned exactly when a zero byte or the end of file was read.
\<close>

theorem worker_dispatches_until_sentinel:
  "worker_loop A rs w =
     (0 \<in> set (bytes_read rs) \<or> ReadEof \<in> set rs,
      fold (\<lambda>b. dispatch_signal A (int b)) (takeWhile (\<lambda>b. b \<noteq> 0) (bytes_read rs)) w)"
  by (rule worker_loop_eq)

text \<open>
  A registration that fails in \<open>signal(2)\<close> leaves a zero entry in \<open>signal_refs\<close> (\<open>or_default\<close>), so
  the manager does not count as idle and the worker thread and its pipe survive the failure.
\<close>

lemma sig_err_keeps_worker:
  assumes "worker (mgr w) = None" "registrations (mgr w) = []" "signal_refs (mgr w) = []" "\<not> poisoned w"
    and "libc_pipe A (sos w) = (Some (rfd, wfd), os)" "0 < s" "s \<le> 255"
    and "libc_signal A s (handler_addr A) os = (SIG_ERR, os')"
    and "register A [s] pid w = (r, w')"
  shows "r = Inl (Io (last_os_error A os'))" "registrations (mgr w') = []" "signal_refs (mgr w') = [(s, 0)]"
    "worker (mgr w') = Some ()"
  using assms
  by (auto simp: register_def register_inner_def op_bind_def ensure_worker_def Let_def
      refs_or_default_def release_signals_def shutdown_if_idle_def take_shutdown_if_idle_def)

lemma refused_signal_shuts_worker_down:
  assumes "worker (mgr w) = None" "registrations (mgr w) = []" "signal_refs (mgr w) = []" "\<not> poisoned w"
    and "libc_pipe A (sos w) = (Some (rfd, wfd), os)" "s \<le> 0 \<or> 255 < s"
    and "register A [s] pid w = (r, w')"
  shows "r = Inl (Process (''signal '' @ int_str s @ '' cannot be forwarded''))"
    "worker (mgr w') = None" "write_fd (mgr w') = None"
  using assms
  by (auto simp: register_def register_inner_def op_bind_def ensure_worker_def Let_def
      release_signals_def shutdown_if_idle_def take_shutdown_if_idle_def worker_shutdown_def)

text \<open>
  The first registration of a manager, when it is refused: a signal outside 1..255 is refused
  with the worker shut down again; a signal that \<open>signal(2)\<close> refuses leaves the worker running and a
  zero entry behind, although nothing is registered.
\<close>

theorem refused_registration_worker:
  assumes "mgr w = manager_default" "\<not> poisoned w" "libc_pipe A (sos w) = (Some (rfd, wfd), os)"
    and "fst (libc_signal A s (handler_addr A) os) = SIG_ERR"
    and "register A [s] pid w = (r, w')"
  shows "registrations (mgr w') = [] \<and> \<not> is_ok r \<and>
    (worker (mgr w') = Some () \<longleftrightarrow> 0 < s \<and> s \<le> 255) \<and>
    (signal_refs (mgr w') = (if 0 < s \<and> s \<le> 255 then [(s, 0)] else []))"
proof (cases "0 < s \<and> s \<le> 255")
  case True
  with sig_err_keeps_worker [of w A rfd wfd os s "snd (libc_signal A s (handler_addr A) os)" pid r w'] assms
  show ?thesis by (simp add: manager_default_def prod_eq_iff)
next
  case False
  then have "s \<le> 0 \<or> 255 < s" by auto
  with refused_signal_shuts_worker_down [of w A rfd wfd os s pid r w'] assms
  show ?thesis
    by (auto simp: manager_default_def register_def register_inner_def op_bind_def ensure_worker_def Let_def
      release_signals_def shutdown_if_idle_def take_shutdown_if_idle_def worker_shutdown_def)
qed

section \<open>A concrete operating system\<close>

text \<open>
  Dispositions as a function, file descriptors 3 and 4 for the pipe; signal 9 cannot be caught.
\<close>

definition toy_os :: "(int \<Rightarrow> nat) sig_api" where
  "toy_os = \<lparr>libc_signal = (\<lambda>s h os. if s = 9 then (SIG_ERR, os) else (os s, os(s := h))),
     libc_pipe = (\<lambda>os. (Some (3, 4), os)), libc_write = (\<lambda>_ _ os. os), libc_kill = (\<lambda>_ _ os. os),
     close_fd = (\<lambda>_ os. os), join_worker = (\<lambda>os. os),
     last_os_error = (\<lambda>_. \<lparr>io_kind = InvalidInput, io_os_code = Some 22,
       io_text = ''Invalid argument'', io_inner = NoInner\<rparr>), handler_addr = 4096\<rparr>"

definition toy_world :: "(int \<Rightarrow> nat) sig_world" where
  "toy_world = \<lparr>mgr = manager_default, pipe_write_fd = - 1, poisoned = False, sos = (\<lambda>_. 0)\<rparr>"

lemma toy_env: "sig_env toy_os (\<lambda>os. os) (\<lambda>s. s \<noteq> 9) (\<lambda>_. 0)"
  by (simp add: sig_env_def sig_api_ok_def toy_os_def SIG_ERR_def)

lemma toy_reach: "sig_reach toy_os (\<lambda>os. os) (\<lambda>s. s \<noteq> 9) (\<lambda>_. 0) 0 toy_world"
  by (rule reach_init) (simp add: toy_env toy_world_def)

lemma toy_reach1: "sig_reach toy_os (\<lambda>os. os) (\<lambda>s. s \<noteq> 9) (\<lambda>_. 0) 1 (snd (register toy_os [15, 2] 7 toy_world))"
proof (rule reach_step [OF toy_reach])
  have "fst (register toy_os [15, 2] 7 toy_world) = Inr 0"
    by (simp add: toy_os_def toy_world_def register_def register_inner_def op_bind_def ensure_worker_def
        manager_default_def Let_def refs_or_default_def SIG_ERR_def)
  then show "sig_step toy_os (0, toy_world) (1, snd (register toy_os [15, 2] 7 toy_world))"
    using sig_step.reg_ok [of toy_os "[15, 2]" 7 toy_world 0] by (metis One_nat_def prod.collapse)
qed

lemmas toy_simps = toy_os_def toy_world_def register_def register_inner_def op_bind_def ensure_worker_def
  manager_default_def Let_def refs_or_default_def SIG_ERR_def uses_of_def

theorem signal_manager_invariant_witness:
  "sos (snd (register toy_os [15, 2] 7 toy_world)) 15 = 4096 \<and>
   sos (snd (register toy_os [15, 2] 7 toy_world)) 1 = 0"
  using signal_manager_invariant [OF toy_reach1, of 15] signal_manager_invariant [OF toy_reach1, of 1]
  by (simp add: toy_simps)

theorem failed_register_is_atomic_witness:
  "sos (snd (register toy_os [15, 9] 7 toy_world)) = sos toy_world"
proof -
  obtain e w' where run: "register toy_os [15, 9] 7 toy_world = (Inl e, w')"
    by (simp add: toy_simps release_signals_def release_signal_def shutdown_if_idle_def
        take_shutdown_if_idle_def)
  with failed_register_is_atomic [OF toy_reach _ run] show ?thesis by simp
qed

theorem unregister_undoes_register_witness:
  "sos (unregister toy_os 0 (snd (register toy_os [15, 2] 7 toy_world))) = sos toy_world"
proof -
  obtain w' where run: "register toy_os [15, 2] 7 toy_world = (Inr 0, w')"
    by (simp add: toy_simps)
  with unregister_undoes_register [OF toy_reach _ run] show ?thesis by simp
qed

theorem refused_registration_worker_witness:
  "worker (mgr (snd (register toy_os [9] 7 toy_world))) = Some ()"
  using refused_registration_worker [of toy_world toy_os 3 4 "\<lambda>_. 0" 9 7
      "fst (register toy_os [9] 7 toy_world)" "snd (register toy_os [9] 7 toy_world)"]
  by (simp add: toy_os_def toy_world_def)

end
