(* ===== verification/Os_Env.thy ===== *)
theory Os_Env
  imports Command_Builder Signal_Forward
begin

text \<open>
  The outside world: what the SDK calls of the standard library's file system, process, clock and
  environment functions and of libc, as operations on an abstract state \<open>'os\<close>; and the path
  functions of \<open>std::path\<close> on Unix, which are pure.
\<close>

section \<open>Paths\<close>

text \<open>\<open>Path::join\<close>: an absolute right-hand side replaces the left one.\<close>

definition path_join :: "string \<Rightarrow> string \<Rightarrow> string" where
  "path_join a b =
     (if b \<noteq> [] \<and> hd b = CHR ''/'' then b
      else if a \<noteq> [] \<and> last a \<noteq> CHR ''/'' then a @ ''/'' @ b
      else a @ b)"

fun split_slash :: "string \<Rightarrow> string list" where
  "split_slash [] = [[]]"
| "split_slash (c # s) =
     (if c = CHR ''/'' then [] # split_slash s
      else case split_slash s of [] \<Rightarrow> [[c]] | p # ps \<Rightarrow> (c # p) # ps)"

text \<open>
  \<open>Path::file_name\<close>: the last component, where empty and \<open>.\<close> components do not count, unless it is
  \<open>..\<close>.
\<close>

definition file_name :: "string \<Rightarrow> string option" where
  "file_name p =
     (let cs = filter (\<lambda>c. c \<noteq> [] \<and> c \<noteq> ''.'') (split_slash p) in
      if cs = [] \<or> last cs = ''..'' then None else Some (last cs))"

lemma split_slash_ne [simp]: "split_slash s \<noteq> []"
  by (induction s) (auto split: list.splits)

lemma split_slash_no_slash: "c \<in> set (split_slash s) \<Longrightarrow> CHR ''/'' \<notin> set c"
  by (induction s arbitrary: c) (auto split: if_splits list.splits)

lemma split_slash_append:
  "split_slash (a @ CHR ''/'' # b) = split_slash a @ split_slash b"
  by (induction a) (auto split: list.splits)

lemma split_slash_plain: "CHR ''/'' \<notin> set a \<Longrightarrow> split_slash a = [a]"
  by (induction a) auto

text \<open>A file name: one component of a path, no step to the parent directory.\<close>

definition plain_name :: "string \<Rightarrow> bool" where
  "plain_name n \<longleftrightarrow> n \<notin> {[], ''.'', ''..''} \<and> CHR ''/'' \<notin> set n"

lemma file_name_plain: "file_name p = Some n \<Longrightarrow> plain_name n"
proof -
  assume fn: "file_name p = Some n"
  let ?cs = "filter (\<lambda>c. c \<noteq> [] \<and> c \<noteq> ''.'') (split_slash p)"
  from fn have cs: "?cs \<noteq> []" "n = last ?cs" "n \<noteq> ''..''" by (auto simp: file_name_def Let_def split: if_splits)
  then have "n \<in> set ?cs" by (metis last_in_set)
  with cs(3) show ?thesis by (auto simp: plain_name_def dest: split_slash_no_slash)
qed

lemma file_name_join: "CHR ''/'' \<notin> set n \<Longrightarrow> n \<notin> {[], ''.'', ''..''} \<Longrightarrow> file_name (d @ ''/'' @ n) = Some n"
  by (simp add: file_name_def split_slash_append split_slash_plain Let_def)

lemma path_join_relative:
  "b = [] \<or> hd b \<noteq> CHR ''/'' \<Longrightarrow> a \<noteq> [] \<Longrightarrow> last a \<noteq> CHR ''/'' \<Longrightarrow> path_join a b = a @ ''/'' @ b"
  by (auto simp: path_join_def)

lemma trim_start_matches_hd: "trim_start_matches c s = [] \<or> hd (trim_start_matches c s) \<noteq> c"
  by (induction s) (auto simp: trim_start_matches_def)

text \<open>
  Where a path leads, by its components alone: empty ones and \<open>.\<close> do not count, \<open>..\<close> goes back.
\<close>

definition walk :: "string list \<Rightarrow> string \<Rightarrow> string list" where
  "walk d c = (if c \<in> {[], ''.''} then d else if c = ''..'' then butlast d else d @ [c])"

definition resolved :: "string \<Rightarrow> string list" where
  "resolved p = foldl walk [] (split_slash p)"

lemma walk_down: "''..'' \<notin> set cs \<Longrightarrow> foldl walk d cs = d @ filter (\<lambda>c. c \<notin> {[], ''.''}) cs"
  by (induction cs arbitrary: d) (auto simp: walk_def)

lemma resolved_append: "resolved (a @ CHR ''/'' # b) = foldl walk (resolved a) (split_slash b)"
  by (simp add: resolved_def split_slash_append)

lemma walk_trim: "foldl walk d (split_slash (trim_start_matches (CHR ''/'') p)) = foldl walk d (split_slash p)"
  by (induction p arbitrary: d) (auto simp: trim_start_matches_def walk_def)

lemma resolved_below:
  assumes "''..'' \<notin> set (split_slash p)"
  shows "resolved (a @ ''/'' @ trim_start_matches (CHR ''/'') p) = resolved a @ resolved p"
  using walk_down [OF assms] by (simp add: resolved_append walk_trim resolved_def [of p])

section \<open>The environment\<close>

text \<open>
  An \<open>ExitStatus\<close> is what the SDK looks at: whether it is success, and how it prints. A child process
  is a handle; \<open>proc_id\<close> is \<open>Child::id\<close> (\<open>None\<close> once the child has been waited for).
\<close>

record exit_status =
  es_success :: bool
  es_text :: string

type_synonym child = nat

record 'os os_env =
  fs_metadata :: "string \<Rightarrow> ('os, io_error, unit) op"
  fs_read_to_string :: "string \<Rightarrow> ('os, io_error, string) op"
  fs_remove_file :: "string \<Rightarrow> ('os, io_error, unit) op"
  fs_open_read :: "string \<Rightarrow> ('os, io_error, unit) op"
  fs_open_append :: "string \<Rightarrow> ('os, io_error, unit) op"
  fs_open_fifo :: "string \<Rightarrow> ('os, io_error, unit) op"
  fs_mkfifo :: "string \<Rightarrow> ('os, io_error, unit) op"
  fs_hard_link :: "string \<Rightarrow> string \<Rightarrow> ('os, io_error, unit) op"
  fs_chown :: "string \<Rightarrow> 32 word \<Rightarrow> 32 word \<Rightarrow> ('os, io_error, unit) op"
  proc_spawn :: "vm_command \<Rightarrow> string option \<Rightarrow> ('os, io_error, child) op"
  proc_id :: "child \<Rightarrow> 'os \<Rightarrow> 32 word option"
  proc_try_wait :: "child \<Rightarrow> ('os, io_error, exit_status option) op"
  proc_wait :: "child \<Rightarrow> ('os, io_error, exit_status) op"
  proc_kill :: "int \<Rightarrow> int \<Rightarrow> ('os, io_error, unit) op"
  env_var :: "string \<Rightarrow> 'os \<Rightarrow> string option"
  clock_now :: "'os \<Rightarrow> nat \<times> 'os"
  sleep_ms :: "nat \<Rightarrow> 'os \<Rightarrow> 'os"
  uuid_v4 :: "'os \<Rightarrow> string \<times> 'os"
  trace_warn :: "nat \<Rightarrow> string \<Rightarrow> 'os \<Rightarrow> 'os"
  spawn_capture :: "string \<Rightarrow> nat \<Rightarrow> 'os \<Rightarrow> 'os"
  sig_calls :: "'os sig_api"

text \<open>\<open>map_err\<close> on an operation, and the conversion of an \<open>io::Error\<close> by the \<open>?\<close> operator.\<close>

definition op_map_err :: "('e \<Rightarrow> 'f) \<Rightarrow> ('s, 'e, 'a) op \<Rightarrow> ('s, 'f, 'a) op" where
  "op_map_err f m s = (case m s of (r, s') \<Rightarrow> (map_err f r, s'))"

abbreviation op_io :: "('s, io_error, 'a) op \<Rightarrow> ('s, error, 'a) op" where
  "op_io \<equiv> op_map_err Io"

lemma op_map_err_cases:
  "op_map_err f m s = (r, t) \<longleftrightarrow> (\<exists>e. m s = (Inl e, t) \<and> r = Inl (f e)) \<or> (\<exists>x. m s = (Inr x, t) \<and> r = Inr x)"
  by (cases "m s"; cases "fst (m s)") (auto simp: op_map_err_def)

lemma keeps_map_err [keeps_intros]: "keeps P m \<Longrightarrow> keeps P (op_map_err f m)"
  by (simp add: keeps_def op_map_err_def split: prod.splits) (metis snd_conv)

text \<open>
  Removing a file that may be gone already: the body of the cleanup closures.
\<close>

definition remove_file_if_present :: "'os os_env \<Rightarrow> string \<Rightarrow> ('os, error, unit) op" where
  "remove_file_if_present E path os =
     (case fs_remove_file E path os of
        (Inr (), os') \<Rightarrow> (Inr (), os')
      | (Inl e, os') \<Rightarrow> (if io_kind e = NotFound then Inr () else Inl (Io e), os'))"

end
