(* ===== verification/Cni_Util.thy ===== *)
theory Cni_Util
  imports Os_Env
begin

text \<open>
  \<open>src/cni/\<close>: CNI results, the helpers on them (\<open>internal/cniutil.rs\<close>), link lookup
  (\<open>internal/netlink.rs\<close>, \<open>internal/mocks.rs\<close>) and the static network configuration derived from a
  result (\<open>vmconf/vmconf.rs\<close>). \<open>Ipv4Net\<close> is a type of the \<open>ipnet\<close> crate: its address and prefix
  length are data, its \<open>netmask\<close> and its debug text are the parameters \<open>ipnet_ops\<close>.
\<close>

section \<open>Data\<close>

datatype ipv4_addr = Ipv4Addr "8 word" "8 word" "8 word" "8 word"

fun octets_str :: "ipv4_addr \<Rightarrow> string" where
  "octets_str (Ipv4Addr a b c d) =
     nat_str (unat a) @ ''.'' @ nat_str (unat b) @ ''.'' @ nat_str (unat c) @ ''.'' @ nat_str (unat d)"

record ipv4_net =
  net_addr :: ipv4_addr
  net_prefix_len :: nat

record ipnet_ops =
  netmask :: "ipv4_net \<Rightarrow> ipv4_addr"
  net_debug :: "ipv4_net \<Rightarrow> string"

record cni_interface =
  if_dev_name :: string
  if_sandbox :: string
  if_mac :: "string option"

record cni_ip_config =
  ip_interface :: "nat option"
  ip_address :: ipv4_net
  ip_gateway :: ipv4_addr

record cni_route =
  rt_dst :: ipv4_net
  rt_gw :: ipv4_addr

record cni_dns_config =
  dns_nameservers :: "string list"
  dns_domain :: "string option"
  dns_search :: "string list"
  dns_options :: "string list"

record cni_result =
  res_interfaces :: "cni_interface list"
  res_ips :: "cni_ip_config list"
  res_routes :: "cni_route list"
  res_dns :: cni_dns_config

record link =
  link_name :: string
  link_mac_address :: "string option"
  link_mtu :: int

record link_not_found_error =
  device :: string

definition link_not_found_display :: "link_not_found_error \<Rightarrow> string" where
  "link_not_found_display e = ''did not find expected link on device '' @ debug_str (device e)"

section \<open>Link lookup\<close>

text \<open>The trait \<open>NetlinkOps\<close> has one method, \<open>get_link(namespace_path, name)\<close>.\<close>

type_synonym 'os netlink_ops = "string \<Rightarrow> string \<Rightarrow> ('os, link_not_found_error, link) op"

definition sys_class_net :: string where
  "sys_class_net = ''/sys/class/net''"

definition real_get_link :: "'os os_env \<Rightarrow> 'os netlink_ops" where
  "real_get_link E namespace_path name os =
     (let base_path = path_join sys_class_net name;
          not_found = \<lparr>device = name\<rparr>
      in case fs_metadata E base_path os of
          (Inl _, os1) \<Rightarrow> (Inl not_found, os1)
        | (Inr _, os1) \<Rightarrow>
          (case fs_read_to_string E (path_join base_path ''mtu'') os1 of
             (Inl _, os2) \<Rightarrow> (Inl not_found, os2)
           | (Inr text, os2) \<Rightarrow>
             (case parse_int 32 (trim text) of
                None \<Rightarrow> (Inl not_found, os2)
              | Some mtu \<Rightarrow>
                (case fs_read_to_string E (path_join base_path ''address'') os2 of
                   (r, os3) \<Rightarrow>
                     (Inr \<lparr>link_name = name,
                        link_mac_address = opt_filter (\<lambda>v. v \<noteq> []) (map_option trim (ok_of r)),
                        link_mtu = mtu\<rparr>, os3)))))"

definition unsupported_get_link :: "'os netlink_ops" where
  "unsupported_get_link namespace_path name = op_err \<lparr>device = name\<rparr>"

record mock_netlink =
  mock_links :: "link list"
  mock_get_link_err :: "link_not_found_error option"

definition mock_get_link :: "mock_netlink \<Rightarrow> 'os netlink_ops" where
  "mock_get_link m namespace_path name os =
     (case mock_get_link_err m of
        Some e \<Rightarrow> (Inl e, os)
      | None \<Rightarrow> (ok_or \<lparr>device = name\<rparr> (find (\<lambda>l. link_name l = name) (mock_links m)), os))"

section \<open>Helpers on results\<close>

definition interface_ips :: "cni_result \<Rightarrow> string \<Rightarrow> string \<Rightarrow> cni_ip_config list" where
  "interface_ips result iface_name sandbox =
     List.map_filter (\<lambda>ip. case ip_interface ip of
         None \<Rightarrow> None
       | Some index \<Rightarrow>
           if index < length (res_interfaces result) then
             (let iface = res_interfaces result ! index in
              if if_dev_name iface = iface_name \<and> if_sandbox iface = sandbox then Some ip else None)
           else None)
       (res_ips result)"

fun filter_by_sandbox_loop ::
  "string \<Rightarrow> cni_interface list \<Rightarrow> cni_interface list \<times> cni_interface list \<Rightarrow>
   cni_interface list \<times> cni_interface list" where
  "filter_by_sandbox_loop sandbox [] (ins, outs) = (ins, outs)"
| "filter_by_sandbox_loop sandbox (i # ifs) (ins, outs) =
     (if if_sandbox i = sandbox then filter_by_sandbox_loop sandbox ifs (ins @ [i], outs)
      else filter_by_sandbox_loop sandbox ifs (ins, outs @ [i]))"

definition filter_by_sandbox ::
  "string \<Rightarrow> cni_interface list \<Rightarrow> cni_interface list \<times> cni_interface list" where
  "filter_by_sandbox sandbox ifaces = filter_by_sandbox_loop sandbox ifaces ([], [])"

definition ifaces_with_name :: "string \<Rightarrow> cni_interface list \<Rightarrow> cni_interface list" where
  "ifaces_with_name name ifaces = filter (\<lambda>i. if_dev_name i = name) ifaces"

datatype cni_util_error =
    MultipleInterfacesInSandbox string nat
  | MultipleInterfacesWithName string nat
  | LinkNotFound link_not_found_error

definition vm_tap_pair :: "cni_result \<Rightarrow> string \<Rightarrow> cni_util_error + (cni_interface \<times> cni_interface)" where
  "vm_tap_pair result vm_id =
     (let (vm_ifaces, other_ifaces) = filter_by_sandbox vm_id (res_interfaces result) in
      if length vm_ifaces > 1 then Inl (MultipleInterfacesInSandbox vm_id (length vm_ifaces))
      else case vm_ifaces of
          [] \<Rightarrow> Inl (LinkNotFound \<lparr>device = ''pseudo-device for '' @ vm_id\<rparr>)
        | vm_iface # _ \<Rightarrow>
            (let tap_ifaces = ifaces_with_name (if_dev_name vm_iface) other_ifaces in
             if length tap_ifaces > 1 then
               Inl (MultipleInterfacesWithName (if_dev_name vm_iface) (length tap_ifaces))
             else case tap_ifaces of
                 [] \<Rightarrow> Inl (LinkNotFound \<lparr>device = if_dev_name vm_iface\<rparr>)
               | tap # _ \<Rightarrow> Inr (vm_iface, tap)))"

fun cni_util_error_display :: "cni_util_error \<Rightarrow> string" where
  "cni_util_error_display (MultipleInterfacesInSandbox sandbox n) =
     ''expected to find at most 1 interface in sandbox '' @ debug_str sandbox @
     '', but instead found '' @ nat_str n"
| "cni_util_error_display (MultipleInterfacesWithName name n) =
     ''expected to find at most 1 interface with name '' @ debug_str name @
     '', but instead found '' @ nat_str n"
| "cni_util_error_display (LinkNotFound e) = link_not_found_display e"

section \<open>The static network configuration of a VM\<close>

record static_network_conf =
  tap_name :: string
  netns_path :: string
  vm_if_name :: "string option"
  vm_mac_addr :: "string option"
  vm_mtu :: int
  vm_ip_config :: "cni_ip_config option"
  vm_routes :: "cni_route list"
  vm_nameservers :: "string list"
  vm_domain :: "string option"
  vm_search_domains :: "string list"
  vm_resolver_options :: "string list"

datatype vm_conf_error =
    CniUtil cni_util_error
  | UnexpectedVmIpCount string "cni_ip_config list"
  | LinkLookup string string link_not_found_error

definition opt_debug :: "nat option \<Rightarrow> string" where
  "opt_debug v = (case v of None \<Rightarrow> ''None'' | Some n \<Rightarrow> ''Some('' @ nat_str n @ '')'')"

definition cni_ip_config_debug :: "ipnet_ops \<Rightarrow> cni_ip_config \<Rightarrow> string" where
  "cni_ip_config_debug N ip =
     ''CniIpConfig { interface: '' @ opt_debug (ip_interface ip) @ '', address: '' @
     net_debug N (ip_address ip) @ '', gateway: '' @ octets_str (ip_gateway ip) @ '' }''"

fun vm_conf_error_display :: "ipnet_ops \<Rightarrow> vm_conf_error \<Rightarrow> string" where
  "vm_conf_error_display N (CniUtil e) = cni_util_error_display e"
| "vm_conf_error_display N (UnexpectedVmIpCount iface_name ips) =
     ''expected to find 1 IP for vm interface '' @ debug_str iface_name @ '', but instead found ['' @
     join '', '' (map (cni_ip_config_debug N) ips) @ '']''"
| "vm_conf_error_display N (LinkLookup iface_name netns e) =
     ''failed to find device '' @ debug_str iface_name @ '' in netns '' @ debug_str netns @ '': '' @
     link_not_found_display e"

text \<open>
  \<open>StaticNetworkConf::ip_boot_param\<close>: the loop fills the two nameserver slots from the front.
\<close>

definition vmconf_ip_boot_param :: "ipnet_ops \<Rightarrow> static_network_conf \<Rightarrow> string" where
  "vmconf_ip_boot_param N conf =
     (case vm_ip_config conf of
        None \<Rightarrow> []
      | Some ip \<Rightarrow>
          (let slots = map snd (zip [0, 1 :: nat] (vm_nameservers conf));
               nameservers = slots @ drop (length slots) [[], []]
           in join '':''
             [octets_str (net_addr (ip_address ip)), [], octets_str (ip_gateway ip),
              octets_str (netmask N (ip_address ip)), [], unwrap_or [] (vm_if_name conf), ''off'',
              nameservers ! 0, nameservers ! 1, []]))"

definition mtu_of :: "string \<Rightarrow> string \<Rightarrow> 'os netlink_ops \<Rightarrow> ('os, vm_conf_error, int) op" where
  "mtu_of iface_name netns get_link =
     op_bind (op_map_err (LinkLookup iface_name netns) (get_link netns iface_name))
       (\<lambda>link. op_ok (link_mtu link))"

definition static_network_conf_from ::
  "cni_result \<Rightarrow> string \<Rightarrow> 'os netlink_ops \<Rightarrow> ('os, vm_conf_error, static_network_conf) op" where
  "static_network_conf_from result container_id get_link os =
     (case vm_tap_pair result container_id of
        Inl e \<Rightarrow> (Inl (CniUtil e), os)
      | Inr (vm_iface, tap_iface) \<Rightarrow>
          (let vm_ips = interface_ips result (if_dev_name vm_iface) (if_sandbox vm_iface) in
           case vm_ips of
             [ip] \<Rightarrow>
               op_bind (mtu_of (if_dev_name tap_iface) (if_sandbox tap_iface) get_link) (\<lambda>tap_mtu.
                 op_ok \<lparr>tap_name = if_dev_name tap_iface, netns_path = if_sandbox tap_iface,
                   vm_if_name = None, vm_mac_addr = if_mac vm_iface, vm_mtu = tap_mtu,
                   vm_ip_config = Some ip, vm_routes = res_routes result,
                   vm_nameservers = dns_nameservers (res_dns result),
                   vm_domain = dns_domain (res_dns result),
                   vm_search_domains = dns_search (res_dns result),
                   vm_resolver_options = dns_options (res_dns result)\<rparr>) os
           | _ \<Rightarrow> (Inl (UnexpectedVmIpCount (if_dev_name vm_iface) vm_ips), os)))"

section \<open>The contract of link lookup\<close>

locale netlink =
  fixes get_link :: "'os netlink_ops"
  assumes link_is_named: "get_link ns name os = (Inr l, os') \<Longrightarrow> link_name l = name"
begin

lemma mtu_of_link:
  "mtu_of name ns get_link os = (Inr mtu, os') \<Longrightarrow>
     \<exists>l. get_link ns name os = (Inr l, os') \<and> link_name l = name \<and> link_mtu l = mtu"
  by (auto simp: mtu_of_def op_bind_cases op_map_err_cases op_simps dest: link_is_named)

end

interpretation real_netlink: netlink "real_get_link E" for E :: "'os os_env"
  by unfold_locales
    (auto simp: real_get_link_def Let_def split: prod.splits sum.splits option.splits)

interpretation mock_netlink: netlink "mock_get_link m" for m
  by unfold_locales
    (auto simp: mock_get_link_def ok_or_def split: option.splits dest: find_Some_iff)

interpretation unsupported_netlink: netlink unsupported_get_link
  by unfold_locales (simp add: unsupported_get_link_def op_simps)

section \<open>Properties\<close>

lemma filter_by_sandbox_loop_eq:
  "filter_by_sandbox_loop sandbox ifs (ins, outs) =
     (ins @ filter (\<lambda>i. if_sandbox i = sandbox) ifs, outs @ filter (\<lambda>i. if_sandbox i \<noteq> sandbox) ifs)"
  by (induction ifs arbitrary: ins outs) auto

lemma filter_by_sandbox_eq:
  "filter_by_sandbox sandbox ifs =
     (filter (\<lambda>i. if_sandbox i = sandbox) ifs, filter (\<lambda>i. if_sandbox i \<noteq> sandbox) ifs)"
  by (simp add: filter_by_sandbox_def filter_by_sandbox_loop_eq)

lemma filter_singletonD: "filter p xs = [x] \<Longrightarrow> p x"
  by (auto simp: filter_eq_Cons_iff)

lemma vm_tap_pair_iff:
  "vm_tap_pair result vm_id = Inr (vm_iface, tap) \<longleftrightarrow>
     filter (\<lambda>i. if_sandbox i = vm_id) (res_interfaces result) = [vm_iface] \<and>
     filter (\<lambda>i. if_sandbox i \<noteq> vm_id \<and> if_dev_name i = if_dev_name vm_iface) (res_interfaces result) = [tap]"
  by (auto simp: vm_tap_pair_def filter_by_sandbox_eq ifaces_with_name_def Let_def conj_commute
      split: list.splits if_splits)

text \<open>
  \<open>vm_tap_pair\<close> succeeds exactly when the VM's sandbox holds exactly one interface and exactly
  one interface outside of it has the same name; these two are the result.
\<close>

theorem vm_tap_pair_spec:
  "vm_tap_pair result vm_id = Inr (vm_iface, tap) \<longleftrightarrow>
     filter (\<lambda>i. if_sandbox i = vm_id) (res_interfaces result) = [vm_iface] \<and>
     filter (\<lambda>i. if_sandbox i \<noteq> vm_id \<and> if_dev_name i = if_dev_name vm_iface) (res_interfaces result) = [tap]"
  by (rule vm_tap_pair_iff)

lemma map_filter_guard:
  "(\<And>x. f x = (if p x then Some x else None)) \<Longrightarrow> List.map_filter f xs = filter p xs"
  by (induction xs) (simp_all add: map_filter_simps)

lemma interface_ips_eq:
  "interface_ips result name sandbox =
     filter (\<lambda>ip. \<exists>i. ip_interface ip = Some i \<and> i < length (res_interfaces result) \<and>
        if_dev_name (res_interfaces result ! i) = name \<and> if_sandbox (res_interfaces result ! i) = sandbox)
       (res_ips result)"
  unfolding interface_ips_def
  by (rule map_filter_guard) (auto simp: Let_def split: option.splits)

text \<open>
  C39: a successful static network configuration names the tap device outside the VM's sandbox, the
  mac address of the only interface inside it, the only address assigned to that interface, and the
  MTU the link lookup reported for the tap device.
\<close>

theorem static_network_conf_from_spec:
  assumes "static_network_conf_from result cid (real_get_link E) os = (Inr conf, os')"
  shows "\<exists>vm_iface tap ip l. vm_tap_pair result cid = Inr (vm_iface, tap) \<and>
    interface_ips result (if_dev_name vm_iface) cid = [ip] \<and>
    real_get_link E (if_sandbox tap) (if_dev_name tap) os = (Inr l, os') \<and>
    link_name l = tap_name conf \<and> tap_name conf = if_dev_name vm_iface \<and> vm_mtu conf = link_mtu l \<and>
    vm_mac_addr conf = if_mac vm_iface \<and> vm_ip_config conf = Some ip \<and>
    vm_nameservers conf = dns_nameservers (res_dns result)"
proof -
  from assms obtain vm_iface tap where pair: "vm_tap_pair result cid = Inr (vm_iface, tap)"
    by (auto simp: static_network_conf_from_def split: sum.splits)
  then have sb: "if_sandbox vm_iface = cid" "if_dev_name tap = if_dev_name vm_iface"
    by (auto simp: vm_tap_pair_iff dest!: filter_singletonD)
  with assms pair obtain ip mtu where ip: "interface_ips result (if_dev_name vm_iface) cid = [ip]"
    and mtu: "mtu_of (if_dev_name tap) (if_sandbox tap) (real_get_link E) os = (Inr mtu, os')"
    and conf: "tap_name conf = if_dev_name tap" "vm_mtu conf = mtu" "vm_mac_addr conf = if_mac vm_iface"
      "vm_ip_config conf = Some ip" "vm_nameservers conf = dns_nameservers (res_dns result)"
    by (auto simp: static_network_conf_from_def op_bind_cases op_simps Let_def split: list.splits)
  from real_netlink.mtu_of_link [OF mtu] pair ip conf sb show ?thesis by auto
qed

text \<open>
  The real link lookup takes the MTU from the host's own \<open>/sys/class/net\<close>, whatever network
  namespace it is asked about: with two namespace paths it gives the same answer, so the MTU of a tap
  device inside another namespace is not found, or is the one of a host device of the same name.
\<close>

theorem real_get_link_ignores_namespace:
  assumes "real_get_link E ns name os = (Inr l, os')"
  shows "real_get_link E ns' name os = (Inr l, os') \<and>
    (\<exists>os1 text os2. fs_metadata E (path_join sys_class_net name) os = (Inr (), os1) \<and>
       fs_read_to_string E (path_join (path_join sys_class_net name) ''mtu'') os1 = (Inr text, os2) \<and>
       parse_int 32 (trim text) = Some (link_mtu l))"
proof -
  have "real_get_link E ns' name os = real_get_link E ns name os" by (simp add: real_get_link_def)
  with assms show ?thesis
    by (auto simp: real_get_link_def Let_def split: prod.splits sum.splits option.splits)
qed

end
