(* ===== verification/Kernel_Args.thy ===== *)
theory Kernel_Args
  imports Sdk_Error "HOL-Library.List_Lexorder" "HOL-Library.Char_ord"
begin

text \<open>
  \<open>src/kernelargs.rs\<close>: kernel command lines as ordered maps from keys to optional values. The
  \<open>BTreeMap<String, Option<String>>\<close> is a list of entries in strictly ascending key order (bytewise,
  as Rust compares strings); \<open>iter\<close> is the list itself. The contract of an ordered map is the
  locale \<open>ordered_map\<close>, interpreted on that list.
\<close>

section \<open>The ordered map contract\<close>

locale ordered_map =
  fixes empty :: "'m"
    and insert :: "'k::linorder \<Rightarrow> 'v \<Rightarrow> 'm \<Rightarrow> 'm"
    and lookup :: "'m \<Rightarrow> 'k \<Rightarrow> 'v option"
    and entries :: "'m \<Rightarrow> ('k \<times> 'v) list"
    and invar :: "'m \<Rightarrow> bool"
  assumes invar_empty: "invar empty"
    and invar_insert: "invar m \<Longrightarrow> invar (insert k v m)"
    and lookup_empty: "lookup empty k = None"
    and lookup_insert: "invar m \<Longrightarrow> lookup (insert k v m) = (lookup m)(k \<mapsto> v)"
    and entries_lookup: "invar m \<Longrightarrow> map_of (entries m) = lookup m"
    and entries_sorted: "invar m \<Longrightarrow> sorted_wrt (<) (map fst (entries m))"
    and entries_inj: "invar m \<Longrightarrow> invar n \<Longrightarrow> entries m = entries n \<Longrightarrow> m = n"
begin

text \<open>Collecting pairs (\<open>FromIterator\<close>, or a loop of insertions): the last pair of a key wins.\<close>

lemma fold_insert:
  assumes "invar m"
  shows "invar (fold (\<lambda>(k, v). insert k v) ps m)"
    and "lookup (fold (\<lambda>(k, v). insert k v) ps m) = lookup m ++ map_of (rev ps)"
  using assms
  by (induction ps arbitrary: m) (auto simp: invar_insert lookup_insert map_add_def fun_eq_iff
        split: option.splits)

text \<open>Two maps with the same lookups are equal: entries are determined by order and content.\<close>

lemma map_ext:
  assumes "invar m" "invar n" "lookup m = lookup n"
  shows "m = n"
proof (rule entries_inj [OF assms(1,2)])
  have s: "sorted (map fst (entries x)) \<and> distinct (map fst (entries x))" if "invar x" for x
    using entries_sorted [OF that] by (simp add: strict_sorted_iff)
  have "map_of (entries m) = map_of (entries n)"
    using assms by (simp add: entries_lookup)
  with s assms have eq: "set (entries m) = set (entries n)"
    by (simp add: map_of_inject_set)
  have "inj_on fst (set (entries m) \<union> set (entries n))"
    using s [OF assms(1)] by (simp add: eq [symmetric] distinct_map)
  then show "entries m = entries n"
    by (rule map_sorted_distinct_set_unique) (use s assms eq in simp_all)
qed

text \<open>Inserting the entries of a map into the empty one rebuilds it.\<close>

lemma rebuild:
  assumes "invar m"
  shows "fold (\<lambda>(k, v). insert k v) (entries m) empty = m"
proof (rule map_ext)
  from entries_sorted [OF assms] have "distinct (map fst (entries m))"
    by (simp add: strict_sorted_iff)
  then have "map_of (rev (entries m)) = map_of (entries m)"
    by (subst map_of_inject_set) (simp_all add: rev_map [symmetric])
  with assms show "lookup (fold (\<lambda>(k, v). insert k v) (entries m) empty) = lookup m"
    by (simp add: fold_insert(2) invar_empty entries_lookup map_add_def lookup_empty fun_eq_iff
        split: option.splits)
qed (simp_all add: fold_insert(1) invar_empty assms)

end

section \<open>BTreeMap as a sorted list of entries\<close>

fun bt_insert :: "'k::linorder \<Rightarrow> 'v \<Rightarrow> ('k \<times> 'v) list \<Rightarrow> ('k \<times> 'v) list" where
  "bt_insert k v [] = [(k, v)]"
| "bt_insert k v ((k', v') # m) =
     (if k < k' then (k, v) # (k', v') # m
      else if k = k' then (k, v) # m
      else (k', v') # bt_insert k v m)"

definition bt_invar :: "('k::linorder \<times> 'v) list \<Rightarrow> bool" where
  "bt_invar m \<longleftrightarrow> sorted_wrt (<) (map fst m)"

lemma set_bt_insert: "fst ` set (bt_insert k v m) = insert k (fst ` set m)"
  by (induction k v m rule: bt_insert.induct) auto

lemma bt_invar_insert: "bt_invar m \<Longrightarrow> bt_invar (bt_insert k v m)"
proof (induction k v m rule: bt_insert.induct)
  case (2 k v k' v' m)
  then show ?case
    using set_bt_insert [of k v m] by (auto simp: bt_invar_def)
qed (simp add: bt_invar_def)

lemma map_of_bt_insert: "map_of (bt_insert k v m) = (map_of m)(k \<mapsto> v)"
  by (induction k v m rule: bt_insert.induct) (auto simp: fun_eq_iff)

interpretation bt: ordered_map "[]" bt_insert map_of "\<lambda>m. m" bt_invar
  by unfold_locales (auto simp: bt_invar_insert map_of_bt_insert, auto simp: bt_invar_def)

section \<open>KernelArgs\<close>

type_synonym kernel_args = "(string \<times> string option) list"

definition kernel_args_new :: kernel_args where
  "kernel_args_new = []"

definition insert_flag :: "string \<Rightarrow> kernel_args \<Rightarrow> kernel_args" where
  "insert_flag key m = bt_insert key None m"

definition insert_value :: "string \<Rightarrow> string \<Rightarrow> kernel_args \<Rightarrow> kernel_args" where
  "insert_value key v m = bt_insert key (Some v) m"

text \<open>\<open>From<[_; N]>\<close> and \<open>FromIterator\<close>.\<close>

definition kernel_args_from_iter :: "(string \<times> string option) list \<Rightarrow> kernel_args" where
  "kernel_args_from_iter ps = fold (\<lambda>(k, v). bt_insert k v) ps []"

definition kernel_args_from :: "(string \<times> string option) list \<Rightarrow> kernel_args" where
  "kernel_args_from ps = kernel_args_from_iter ps"

definition render_arg :: "string \<times> string option \<Rightarrow> string" where
  "render_arg = (\<lambda>(key, v). case v of Some x \<Rightarrow> key @ ''='' @ x | None \<Rightarrow> key)"

definition kernel_args_display :: "kernel_args \<Rightarrow> string" where
  "kernel_args_display m = join '' '' (map render_arg m)"

text \<open>\<open>pair.splitn(2, '=')\<close>: the key is what precedes the first equals sign.\<close>

definition parse_pair :: "string \<Rightarrow> string \<times> string option" where
  "parse_pair pair =
     (case split_once (CHR ''='') pair of
        None \<Rightarrow> (pair, None)
      | Some (key, v) \<Rightarrow> (key, Some v))"

fun parse_pairs :: "string list \<Rightarrow> kernel_args \<Rightarrow> kernel_args" where
  "parse_pairs [] parsed = parsed"
| "parse_pairs (pair # pairs) parsed =
     (let (key, v) = parse_pair pair in parse_pairs pairs (bt_insert key v parsed))"

definition parse_kernel_args :: "string \<Rightarrow> kernel_args" where
  "parse_kernel_args raw = parse_pairs (split_whitespace raw) kernel_args_new"

text \<open>\<open>contains_key\<close> through \<open>Deref\<close>.\<close>

definition kernel_args_contains :: "string \<Rightarrow> kernel_args \<Rightarrow> bool" where
  "kernel_args_contains key m \<longleftrightarrow> map_of m key \<noteq> None"

lemma parse_pairs_fold: "parse_pairs ps m = fold (\<lambda>(k, v). bt_insert k v) (map parse_pair ps) m"
  by (induction ps arbitrary: m) (auto split: prod.splits)

lemma parse_kernel_args_from_iter:
  "parse_kernel_args raw = kernel_args_from_iter (map parse_pair (split_whitespace raw))"
  by (simp add: parse_kernel_args_def kernel_args_new_def parse_pairs_fold kernel_args_from_iter_def)

lemma parse_kernel_args_invar: "bt_invar (parse_kernel_args raw)"
  by (simp add: parse_kernel_args_from_iter kernel_args_from_iter_def bt.fold_insert bt.invar_empty)

subsection \<open>Well-formed arguments\<close>

text \<open>
  What a rendered entry must satisfy to be read back: no white space, no equals sign in the key,
  and a flag is not empty.
\<close>

definition arg_ok :: "string \<times> string option \<Rightarrow> bool" where
  "arg_ok = (\<lambda>(key, v). ws_free key \<and> CHR ''='' \<notin> set key \<and>
     (case v of None \<Rightarrow> key \<noteq> [] | Some x \<Rightarrow> ws_free x))"

lemma ascii_eq_sign: "ascii (CHR ''='')" "\<not> ascii_ws (CHR ''='')"
  by (simp_all add: ascii_def ascii_ws_def)

lemma render_arg_ok: "arg_ok p \<Longrightarrow> render_arg p \<noteq> [] \<and> ws_free (render_arg p)"
  by (auto simp: arg_ok_def render_arg_def ascii_eq_sign ws_free_ascii intro!: ws_free_append
      simp del: ws_free.simps(2) split: prod.splits option.splits)

lemma parse_render_arg: "arg_ok p \<Longrightarrow> parse_pair (render_arg p) = p"
  by (auto simp: arg_ok_def render_arg_def parse_pair_def split_once_None [THEN iffD2]
      split: prod.splits option.splits)

lemma kernel_args_display_tokens:
  "list_all arg_ok m \<Longrightarrow> split_whitespace (kernel_args_display m) = map render_arg m"
  unfolding kernel_args_display_def
  by (rule split_whitespace_join) (auto simp: list_all_iff dest: render_arg_ok)

text \<open>Tokens of a command line contain no white space.\<close>

lemma ws_len_append_pos: "0 < ws_len s \<Longrightarrow> ws_len (s @ t) = ws_len s"
  by (auto simp: ws_len_def split: list.splits if_splits)

lemma ws_free_iff: "ws_free s \<longleftrightarrow> (\<forall>i < length s. ws_len (drop i s) = 0)"
proof (induction s)
  case (Cons c s)
  have "(\<forall>i < length (c # s). ws_len (drop i (c # s)) = 0) \<longleftrightarrow>
        ws_len (c # s) = 0 \<and> (\<forall>i < length s. ws_len (drop i s) = 0)"
    by (auto simp: less_Suc_eq_0_disj)
  with Cons show ?case by simp
qed simp

lemma ws_tokens_ws_free:
  assumes "\<forall>i < length acc. ws_len (drop i (rev acc @ s)) = 0" "t \<in> set (ws_tokens acc s)"
  shows "ws_free t"
  using assms
proof (induction acc s rule: ws_tokens.induct)
  case (1 acc)
  then show ?case by (auto simp: ws_free_iff split: if_splits)
next
  case (2 acc c s)
  have pre: "ws_free (rev acc)"
    unfolding ws_free_iff
  proof (intro allI impI)
    fix i assume "i < length (rev acc)"
    with "2.prems"(1) have "ws_len (drop i (rev acc) @ c # s) = 0" by simp
    then show "ws_len (drop i (rev acc)) = 0"
      using ws_len_append_pos [of "drop i (rev acc)" "c # s"] by fastforce
  qed
  show ?case
  proof (cases "ws_len (c # s) = 0")
    case True
    have "\<forall>i < length (c # acc). ws_len (drop i (rev (c # acc) @ s)) = 0"
      using "2.prems"(1) True by (auto simp: less_Suc_eq)
    with 2 True show ?thesis by simp
  next
    case False
    with 2 pre show ?thesis by (auto split: if_splits)
  qed
qed

lemma split_whitespace_ws_free: "t \<in> set (split_whitespace s) \<Longrightarrow> ws_free t"
  unfolding split_whitespace_def by (rule ws_tokens_ws_free [of "[]"]) simp_all

lemma ws_free_appendD: "ws_free (s @ t) \<Longrightarrow> ws_free s" "ws_free (s @ t) \<Longrightarrow> ws_free t"
proof -
  assume "ws_free (s @ t)"
  then have all: "\<forall>i < length (s @ t). ws_len (drop i (s @ t)) = 0" by (simp only: ws_free_iff)
  have "ws_len (drop i s) = 0" if "i < length s" for i
  proof -
    from all [rule_format, of i] that have "ws_len (drop i s @ t) = 0" by simp
    then show ?thesis using ws_len_append_pos [of "drop i s" t] by (cases "ws_len (drop i s)") auto
  qed
  then show "ws_free s" by (simp add: ws_free_iff)
  have "ws_len (drop i t) = 0" if "i < length t" for i
    using all [rule_format, of "length s + i"] that by simp
  then show "ws_free t" by (simp add: ws_free_iff)
qed

lemma parse_pair_ok:
  assumes "t \<noteq> []" "ws_free t"
  shows "arg_ok (parse_pair t)"
proof (cases "split_once (CHR ''='') t")
  case None
  with assms show ?thesis using split_once_None [of "CHR ''=''" t] by (simp add: parse_pair_def arg_ok_def)
next
  case (Some kv)
  then obtain key v where kv: "kv = (key, v)" and t: "t = key @ CHR ''='' # v" "CHR ''='' \<notin> set key"
    by (cases kv) (auto simp: split_once_Some)
  from assms(2) t(1) have "ws_free key" "ws_free (CHR ''='' # v)" by (auto dest: ws_free_appendD)
  with Some kv t(2) show ?thesis by (simp add: parse_pair_def arg_ok_def)
qed

lemma set_fold_bt_insert: "set (fold (\<lambda>(k, v). bt_insert k v) ps m) \<subseteq> set ps \<union> set m"
proof (induction ps arbitrary: m)
  case (Cons p ps)
  have "set (bt_insert k v n) \<subseteq> insert (k, v) (set n)" for k v and n :: "('a \<times> 'b) list"
    by (induction k v n rule: bt_insert.induct) auto
  with Cons show ?case by (cases p) fastforce
qed simp

lemma parse_kernel_args_ok: "list_all arg_ok (parse_kernel_args raw)"
proof -
  have "set (parse_kernel_args raw) \<subseteq> parse_pair ` set (split_whitespace raw)"
    using set_fold_bt_insert [of "map parse_pair (split_whitespace raw)" "[]"]
    by (simp add: parse_kernel_args_from_iter kernel_args_from_iter_def)
  moreover have "arg_ok (parse_pair t)" if "t \<in> set (split_whitespace raw)" for t
    using that by (auto intro: parse_pair_ok split_whitespace_ws_free dest: split_whitespace_nonempty)
  ultimately show ?thesis unfolding list_all_iff by blast
qed

subsection \<open>Properties\<close>

lemma parse_display:
  assumes "bt_invar m" "list_all arg_ok m"
  shows "parse_kernel_args (kernel_args_display m) = m"
proof -
  have "map parse_pair (map render_arg m) = m"
    using assms(2) by (simp add: map_idI list_all_iff parse_render_arg)
  with assms show ?thesis
    by (simp only: parse_kernel_args_from_iter kernel_args_display_tokens kernel_args_from_iter_def)
      (rule bt.rebuild)
qed

text \<open>
  C7: printing a kernel command line and parsing it again gives back the same arguments, for
  every argument set whose entries can be told apart on a command line (no white space inside
  keys or values, no equals sign inside a key, no empty flag).
\<close>

theorem kernel_args_roundtrip:
  assumes "bt_invar m" "list_all arg_ok m"
  shows "parse_kernel_args (kernel_args_display m) = m"
  using assms by (rule parse_display)

theorem kernel_args_roundtrip_witness:
  "parse_kernel_args (kernel_args_display [(''console'', Some ''ttyS0''), (''quiet'', None)]) =
     [(''console'', Some ''ttyS0''), (''quiet'', None)]"
  by (rule kernel_args_roundtrip)
    (simp_all add: bt_invar_def arg_ok_def ws_len_def ascii_ws_def wide_ws2_def wide_ws3_def
      less_list_code)

text \<open>
  Parsing any string and printing the result is a normal form: parsing the printed string
  again gives the same arguments, whatever the string was.
\<close>

theorem kernel_args_normal_form:
  "parse_kernel_args (kernel_args_display (parse_kernel_args raw)) = parse_kernel_args raw"
  by (rule parse_display) (rule parse_kernel_args_invar, rule parse_kernel_args_ok)

text \<open>
  The value of a key is the one of the last token with that key on the command line: a token
  without an equals sign is a flag, otherwise the value is everything after the first one.
\<close>

theorem parse_kernel_args_last_wins:
  "map_of (parse_kernel_args raw) key =
     map_of (rev (map parse_pair (split_whitespace raw))) key"
  by (simp add: parse_kernel_args_from_iter kernel_args_from_iter_def bt.fold_insert bt.invar_empty)

end
