(* ===== verification/Api_Models.thy ===== *)
theory Api_Models
  imports Sdk_Error "HOL-Library.Word"
begin

text \<open>
  \<open>src/models/\<close>: the payloads of the Firecracker API, one record per struct, fields in source order
  (with a prefix per record, since Isabelle's field names are global); the constants; and the
  \<open>ClientOps\<close> trait of \<open>src/client/firecracker_client.rs\<close> as a record of operations, with its
  default methods. \<open>'j\<close> is the type of JSON values (\<open>serde_json::Value\<close>), \<open>i64\<close> fields are \<open>int\<close>.
  How payloads are written as JSON is the business of serde and not modelled.
\<close>

section \<open>Payloads\<close>

record token_bucket =
  tb_size :: "int option"
  tb_one_time_burst :: "int option"
  tb_refill_time :: "int option"

record rate_limiter =
  rl_bandwidth :: "token_bucket option"
  rl_ops :: "token_bucket option"

record balloon =
  bl_amount_mib :: "int option"
  bl_deflate_on_oom :: "bool option"
  bl_stats_polling_intervals :: int

record 'j balloon_stats =
  bs_raw :: "(string \<times> 'j) list"

record balloon_stats_update =
  bsu_stats_polling_intervals :: "int option"

record balloon_update =
  bu_amount_mib :: "int option"

record boot_source =
  bo_kernel_image_path :: "string option"
  bo_initrd_path :: "string option"
  bo_boot_args :: "string option"

record drive =
  dr_drive_id :: "string option"
  dr_path_on_host :: "string option"
  dr_is_root_device :: "bool option"
  dr_is_read_only :: "bool option"
  dr_partuuid :: "string option"
  dr_rate_limiter :: "rate_limiter option"
  dr_cache_type :: "string option"
  dr_io_engine :: "string option"

record entropy_device =
  en_rate_limiter :: "rate_limiter option"

record firecracker_version =
  fv_firecracker_version :: string

record instance_action_info =
  ia_action_type :: "string option"

record 'j instance_info =
  ii_app_name :: "string option"
  ii_id :: "string option"
  ii_state :: "string option"
  ii_vmm_version :: "string option"
  ii_raw :: "(string \<times> 'j) list"

record logger =
  lg_log_path :: "string option"
  lg_level :: "string option"
  lg_show_level :: "bool option"
  lg_show_log_origin :: "bool option"

record machine_configuration =
  mc_vcpu_count :: "int option"
  mc_mem_size_mib :: "int option"
  mc_smt :: "bool option"
  mc_track_dirty_pages :: "bool option"
  mc_cpu_template :: "string option"

record memory_backend =
  mb_backend_type :: "string option"
  mb_backend_path :: "string option"

record metrics =
  me_metrics_path :: "string option"

record mmds_config =
  mm_ipv4_address :: "string option"
  mm_network_interfaces :: "string list"
  mm_version :: "string option"

record network_interface_model =
  nm_iface_id :: "string option"
  nm_guest_mac :: "string option"
  nm_host_dev_name :: "string option"
  nm_rx_rate_limiter :: "rate_limiter option"
  nm_tx_rate_limiter :: "rate_limiter option"

record partial_drive =
  pd_drive_id :: "string option"
  pd_path_on_host :: "string option"

record partial_network_interface =
  pn_iface_id :: "string option"
  pn_rx_rate_limiter :: "rate_limiter option"
  pn_tx_rate_limiter :: "rate_limiter option"

record snapshot_create_params =
  sc_mem_file_path :: "string option"
  sc_snapshot_path :: "string option"

record snapshot_load_params =
  sl_mem_file_path :: "string option"
  sl_mem_backend :: "memory_backend option"
  sl_snapshot_path :: "string option"
  sl_enable_diff_snapshots :: bool
  sl_resume_vm :: bool

record vm =
  vm_state :: "string option"

record vsock_model =
  vs_vsock_id :: "string option"
  vs_guest_cid :: "int option"
  vs_uds_path :: "string option"

record full_vm_configuration =
  fc_balloon :: "balloon option"
  fc_drives :: "drive list"
  fc_boot_source :: "boot_source option"
  fc_logger :: "logger option"
  fc_machine_config :: "machine_configuration option"
  fc_metrics :: "metrics option"
  fc_mmds_config :: "mmds_config option"
  fc_network_interfaces :: "network_interface_model list"
  fc_vsock :: "vsock_model option"

section \<open>Constants, defaults and constructors\<close>

definition CPU_TEMPLATE_C3 :: string where "CPU_TEMPLATE_C3 = ''C3''"
definition CPU_TEMPLATE_T2 :: string where "CPU_TEMPLATE_T2 = ''T2''"
definition CPU_TEMPLATE_T2S :: string where "CPU_TEMPLATE_T2S = ''T2S''"
definition CPU_TEMPLATE_T2CL :: string where "CPU_TEMPLATE_T2CL = ''T2CL''"
definition CPU_TEMPLATE_T2A :: string where "CPU_TEMPLATE_T2A = ''T2A''"
definition CPU_TEMPLATE_V1N1 :: string where "CPU_TEMPLATE_V1N1 = ''V1N1''"
definition CPU_TEMPLATE_NONE :: string where "CPU_TEMPLATE_NONE = ''None''"

text \<open>\<open>models::Error\<close>, the body of an error response.\<close>

record fault =
  fault_message :: "string option"

definition DRIVE_CACHE_TYPE_WRITEBACK :: string where
  "DRIVE_CACHE_TYPE_WRITEBACK = ''Writeback''"
definition DRIVE_IO_ENGINE_ASYNC :: string where
  "DRIVE_IO_ENGINE_ASYNC = ''Async''"
definition INSTANCE_ACTION_INSTANCE_START :: string where
  "INSTANCE_ACTION_INSTANCE_START = ''InstanceStart''"
definition INSTANCE_ACTION_SEND_CTRL_ALT_DEL :: string where
  "INSTANCE_ACTION_SEND_CTRL_ALT_DEL = ''SendCtrlAltDel''"
definition MMDS_VERSION_V1 :: string where
  "MMDS_VERSION_V1 = ''V1''"
definition MMDS_VERSION_V2 :: string where
  "MMDS_VERSION_V2 = ''V2''"
definition VM_STATE_PAUSED :: string where
  "VM_STATE_PAUSED = ''Paused''"
definition VM_STATE_RESUMED :: string where
  "VM_STATE_RESUMED = ''Resumed''"

definition token_bucket_default :: token_bucket where
  "token_bucket_default =
    \<lparr>tb_size = None, tb_one_time_burst = None, tb_refill_time = None\<rparr>"

definition balloon_default :: balloon where
  "balloon_default =
    \<lparr>bl_amount_mib = None, bl_deflate_on_oom = None, bl_stats_polling_intervals = 0\<rparr>"

definition drive_default :: drive where
  "drive_default =
    \<lparr>dr_drive_id = None, dr_path_on_host = None, dr_is_root_device = None, dr_is_read_only =
     None, dr_partuuid = None, dr_rate_limiter = None, dr_cache_type = None, dr_io_engine =
     None\<rparr>"

definition machine_configuration_default :: machine_configuration where
  "machine_configuration_default =
    \<lparr>mc_vcpu_count = None, mc_mem_size_mib = None, mc_smt = None, mc_track_dirty_pages = None,
     mc_cpu_template = None\<rparr>"

definition balloon_stats_default :: "'j balloon_stats" where
  "balloon_stats_default =
    \<lparr>bs_raw = []\<rparr>"

definition instance_info_default :: "'j instance_info" where
  "instance_info_default =
    \<lparr>ii_app_name = None, ii_id = None, ii_state = None, ii_vmm_version = None, ii_raw = []\<rparr>"

definition full_vm_configuration_default :: full_vm_configuration where
  "full_vm_configuration_default =
    \<lparr>fc_balloon = None, fc_drives = [], fc_boot_source = None, fc_logger = None,
     fc_machine_config = None, fc_metrics = None, fc_mmds_config = None, fc_network_interfaces
     = [], fc_vsock = None\<rparr>"

definition machine_configuration_new :: "int \<Rightarrow> int \<Rightarrow> machine_configuration" where
  "machine_configuration_new vcpu_count mem_size_mib =
     machine_configuration_default\<lparr>mc_vcpu_count := Some vcpu_count, mc_mem_size_mib := Some mem_size_mib\<rparr>"

definition vm_paused :: vm where
  "vm_paused = \<lparr>vm_state = Some VM_STATE_PAUSED\<rparr>"

definition vm_resumed :: vm where
  "vm_resumed = \<lparr>vm_state = Some VM_STATE_RESUMED\<rparr>"

section \<open>The client interface\<close>

text \<open>
  The trait \<open>ClientOps\<close>: a client is the record of its methods, each an operation on the state
  \<open>'os\<close> of the world outside the SDK (the client's own state included); \<open>'e\<close> is how a method may fail.
\<close>

record ('j, 'os, 'e) client_ops =
  c_get_firecracker_version :: "('os, 'e, firecracker_version) op"
  c_put_logger :: "logger \<Rightarrow> ('os, 'e, unit) op"
  c_put_metrics :: "metrics \<Rightarrow> ('os, 'e, unit) op"
  c_put_machine_configuration :: "machine_configuration \<Rightarrow> ('os, 'e, unit) op"
  c_patch_machine_configuration :: "machine_configuration \<Rightarrow> ('os, 'e, unit) op"
  c_get_machine_configuration :: "('os, 'e, machine_configuration) op"
  c_put_guest_boot_source :: "boot_source \<Rightarrow> ('os, 'e, unit) op"
  c_put_cpu_configuration :: "'j \<Rightarrow> ('os, 'e, unit) op"
  c_put_entropy_device :: "entropy_device \<Rightarrow> ('os, 'e, unit) op"
  c_put_guest_drive_by_id :: "string \<Rightarrow> drive \<Rightarrow> ('os, 'e, unit) op"
  c_patch_guest_drive_by_id :: "string \<Rightarrow> partial_drive \<Rightarrow> ('os, 'e, unit) op"
  c_put_guest_network_interface_by_id :: "string \<Rightarrow> network_interface_model \<Rightarrow> ('os, 'e, unit) op"
  c_patch_guest_network_interface_by_id :: "string \<Rightarrow> partial_network_interface \<Rightarrow> ('os, 'e, unit) op"
  c_put_guest_vsock :: "vsock_model \<Rightarrow> ('os, 'e, unit) op"
  c_patch_vm :: "vm \<Rightarrow> ('os, 'e, unit) op"
  c_create_snapshot :: "snapshot_create_params \<Rightarrow> ('os, 'e, unit) op"
  c_load_snapshot :: "snapshot_load_params \<Rightarrow> ('os, 'e, unit) op"
  c_create_sync_action :: "instance_action_info \<Rightarrow> ('os, 'e, unit) op"
  c_put_mmds :: "'j \<Rightarrow> ('os, 'e, unit) op"
  c_get_mmds :: "('os, 'e, 'j) op"
  c_patch_mmds :: "'j \<Rightarrow> ('os, 'e, unit) op"
  c_put_mmds_config :: "mmds_config \<Rightarrow> ('os, 'e, unit) op"
  c_describe_instance :: "('os, 'e, 'j instance_info) op"
  c_put_balloon :: "balloon \<Rightarrow> ('os, 'e, unit) op"
  c_get_balloon_config :: "('os, 'e, balloon) op"
  c_patch_balloon :: "balloon_update \<Rightarrow> ('os, 'e, unit) op"
  c_get_balloon_stats :: "('os, 'e, 'j balloon_stats) op"
  c_patch_balloon_stats_interval :: "balloon_stats_update \<Rightarrow> ('os, 'e, unit) op"
  c_get_export_vm_config :: "('os, 'e, full_vm_configuration) op"

text \<open>
  The default methods: every request succeeds without an effect. \<open>empty_object\<close> is \<open>json!({})\<close>.
  \<open>NoopClient\<close> overrides none of them.
\<close>

definition default_client_ops :: "'j \<Rightarrow> ('j, 'os, 'e) client_ops" where
  "default_client_ops empty_object =
    \<lparr>c_get_firecracker_version = op_ok \<lparr>fv_firecracker_version = ''''\<rparr>,
     c_put_logger = (\<lambda>_. op_ok ()),
     c_put_metrics = (\<lambda>_. op_ok ()),
     c_put_machine_configuration = (\<lambda>_. op_ok ()),
     c_patch_machine_configuration = (\<lambda>_. op_ok ()),
     c_get_machine_configuration = op_ok machine_configuration_default,
     c_put_guest_boot_source = (\<lambda>_. op_ok ()),
     c_put_cpu_configuration = (\<lambda>_. op_ok ()),
     c_put_entropy_device = (\<lambda>_. op_ok ()),
     c_put_guest_drive_by_id = (\<lambda>_ _. op_ok ()),
     c_patch_guest_drive_by_id = (\<lambda>_ _. op_ok ()),
     c_put_guest_network_interface_by_id = (\<lambda>_ _. op_ok ()),
     c_patch_guest_network_interface_by_id = (\<lambda>_ _. op_ok ()),
     c_put_guest_vsock = (\<lambda>_. op_ok ()),
     c_patch_vm = (\<lambda>_. op_ok ()),
     c_create_snapshot = (\<lambda>_. op_ok ()),
     c_load_snapshot = (\<lambda>_. op_ok ()),
     c_create_sync_action = (\<lambda>_. op_ok ()),
     c_put_mmds = (\<lambda>_. op_ok ()),
     c_get_mmds = op_ok empty_object,
     c_patch_mmds = (\<lambda>_. op_ok ()),
     c_put_mmds_config = (\<lambda>_. op_ok ()),
     c_describe_instance = op_ok instance_info_default,
     c_put_balloon = (\<lambda>_. op_ok ()),
     c_get_balloon_config = op_ok balloon_default,
     c_patch_balloon = (\<lambda>_. op_ok ()),
     c_get_balloon_stats = op_ok balloon_stats_default,
     c_patch_balloon_stats_interval = (\<lambda>_. op_ok ()),
     c_get_export_vm_config = op_ok full_vm_configuration_default\<rparr>"

definition noop_client :: "'j \<Rightarrow> ('j, 'os, 'e) client_ops" where
  "noop_client empty_object = default_client_ops empty_object"

end
