(* ===== verification/Sdk_Network.thy ===== *)
theory Sdk_Network
  imports Cni_Util Kernel_Args Api_Models
begin

text \<open>
  \<open>src/network.rs\<close>, the part on network interfaces: their configuration, its validation, and the
  set-up of a CNI interface by way of the traits \<open>CniNetworkOperations\<close> and \<open>NetlinkOps\<close>. A cleanup
  closure is an operation on the outside world.
\<close>

section \<open>Data\<close>

definition DEFAULT_CNI_BIN_DIR :: string where
  "DEFAULT_CNI_BIN_DIR = ''/opt/cni/bin''"
definition DEFAULT_CNI_CONF_DIR :: string where
  "DEFAULT_CNI_CONF_DIR = ''/etc/cni/conf.d''"
definition DEFAULT_CNI_CACHE_DIR :: string where
  "DEFAULT_CNI_CACHE_DIR = ''/var/lib/cni''"

record ip_configuration =
  ipc_ip_addr :: ipv4_net
  ipc_gateway :: ipv4_addr
  ipc_nameservers :: "string list"
  ipc_if_name :: "string option"

record static_network_configuration =
  stc_mac_address :: "string option"
  stc_host_dev_name :: string
  stc_ip_configuration :: "ip_configuration option"

record cni_configuration =
  cni_network_name :: "string option"
  cni_network_config :: "string option"
  cni_if_name :: "string option"
  cni_vm_if_name :: "string option"
  cni_args :: "(string \<times> string) list"
  cni_bin_path :: "string list"
  cni_conf_dir :: "string option"
  cni_cache_dir :: "string option"
  cni_container_id :: "string option"
  cni_net_ns_path :: "string option"
  cni_force :: bool

record cni_runtime_conf =
  rc_container_id :: "string option"
  rc_net_ns :: "string option"
  rc_if_name :: "string option"
  rc_args :: "(string \<times> string) list"

record network_interface =
  static_configuration :: "static_network_configuration option"
  cni_configuration :: "cni_configuration option"
  allow_mmds :: bool
  in_rate_limiter :: "rate_limiter option"
  out_rate_limiter :: "rate_limiter option"

type_synonym network_interfaces = "network_interface list"

type_synonym 'os cleanup_fn = "('os, error, unit) op"

record 'os cni_network_operations =
  initialize_netns :: "string \<Rightarrow> ('os, error, 'os cleanup_fn list) op"
  invoke_cni :: "cni_configuration \<Rightarrow> ('os, error, cni_result \<times> 'os cleanup_fn list) op"

definition unsupported_cni_network_operations :: "'os cni_network_operations" where
  "unsupported_cni_network_operations =
     \<lparr>initialize_netns = (\<lambda>_. op_err (InvalidConfig ''CNI operations are not configured'')),
      invoke_cni = (\<lambda>_. op_err (InvalidConfig ''CNI operations are not configured''))\<rparr>"

section \<open>IP configuration\<close>

definition ip_configuration_new :: "ipv4_net \<Rightarrow> ipv4_addr \<Rightarrow> ip_configuration" where
  "ip_configuration_new ip_addr gateway =
     \<lparr>ipc_ip_addr = ip_addr, ipc_gateway = gateway, ipc_nameservers = [], ipc_if_name = None\<rparr>"

definition with_nameservers :: "string list \<Rightarrow> ip_configuration \<Rightarrow> ip_configuration" where
  "with_nameservers ns c = c\<lparr>ipc_nameservers := ns\<rparr>"

definition with_if_name :: "string \<Rightarrow> ip_configuration \<Rightarrow> ip_configuration" where
  "with_if_name n c = c\<lparr>ipc_if_name := Some n\<rparr>"

definition ip_configuration_validate :: "ip_configuration \<Rightarrow> unit result" where
  "ip_configuration_validate c =
     (if length (ipc_nameservers c) > 2 then Inl (InvalidConfig ''cannot specify more than 2 nameservers'')
      else Inr ())"

definition nth_or_empty :: "nat \<Rightarrow> string list \<Rightarrow> string" where
  "nth_or_empty i xs = (if i < length xs then xs ! i else [])"

definition ip_boot_param :: "ipnet_ops \<Rightarrow> ip_configuration \<Rightarrow> string" where
  "ip_boot_param N c =
     join '':''
       [octets_str (net_addr (ipc_ip_addr c)), [], octets_str (ipc_gateway c),
        octets_str (netmask N (ipc_ip_addr c)), [], unwrap_or [] (ipc_if_name c), ''off'',
        nth_or_empty 0 (ipc_nameservers c), nth_or_empty 1 (ipc_nameservers c), []]"

section \<open>Static and CNI configuration\<close>

definition static_configuration_new :: "string \<Rightarrow> static_network_configuration" where
  "static_configuration_new host_dev_name =
     \<lparr>stc_mac_address = None, stc_host_dev_name = host_dev_name, stc_ip_configuration = None\<rparr>"

definition with_mac_address :: "string \<Rightarrow> static_network_configuration \<Rightarrow> static_network_configuration" where
  "with_mac_address mac c = c\<lparr>stc_mac_address := Some mac\<rparr>"

definition with_ip_configuration ::
  "ip_configuration \<Rightarrow> static_network_configuration \<Rightarrow> static_network_configuration" where
  "with_ip_configuration ip c = c\<lparr>stc_ip_configuration := Some ip\<rparr>"

definition static_validate :: "static_network_configuration \<Rightarrow> unit result" where
  "static_validate c =
     (if stc_host_dev_name c = [] then
        Inl (InvalidConfig ''HostDevName must be provided if StaticNetworkConfiguration is provided'')
      else case stc_ip_configuration c of
          Some ip \<Rightarrow> rbind (ip_configuration_validate ip) (\<lambda>_. Inr ())
        | None \<Rightarrow> Inr ())"

definition cni_validate :: "cni_configuration \<Rightarrow> unit result" where
  "cni_validate c =
     (case (cni_network_name c, cni_network_config c) of
        (None, None) \<Rightarrow>
          Inl (InvalidConfig ''must specify either NetworkName or NetworkConfig in CNIConfiguration'')
      | (Some _, Some _) \<Rightarrow>
          Inl (InvalidConfig ''must not specify both NetworkName and NetworkConfig in CNIConfiguration'')
      | _ \<Rightarrow> Inr ())"

definition set_defaults :: "cni_configuration \<Rightarrow> cni_configuration" where
  "set_defaults c =
     (let c1 = (if cni_bin_path c = [] then c\<lparr>cni_bin_path := [DEFAULT_CNI_BIN_DIR]\<rparr> else c);
          c2 = (if cni_conf_dir c1 = None then c1\<lparr>cni_conf_dir := Some DEFAULT_CNI_CONF_DIR\<rparr> else c1)
      in if cni_cache_dir c2 = None then
           c2\<lparr>cni_cache_dir := Some (DEFAULT_CNI_CACHE_DIR @ ''/'' @ unwrap_or [] (cni_container_id c2))\<rparr>
         else c2)"

definition as_cni_runtime_conf :: "cni_configuration \<Rightarrow> cni_runtime_conf" where
  "as_cni_runtime_conf c =
     \<lparr>rc_container_id = cni_container_id c, rc_net_ns = cni_net_ns_path c, rc_if_name = cni_if_name c,
      rc_args = cni_args c\<rparr>"

section \<open>Interface lists\<close>

definition has_static_ip :: "network_interface \<Rightarrow> bool" where
  "has_static_ip i \<longleftrightarrow> Option.bind (static_configuration i) stc_ip_configuration \<noteq> None"

text \<open>The body of the loop of \<open>NetworkInterfaces::validate\<close>; \<open>n\<close> is the number of interfaces.\<close>

definition validate_iface :: "nat \<Rightarrow> kernel_args \<Rightarrow> network_interface \<Rightarrow> unit result" where
  "validate_iface n kernel_args i =
     (let has_cni = cni_configuration i \<noteq> None;
          has_static = static_configuration i \<noteq> None
      in
      if \<not> has_cni \<and> \<not> has_static then
        Inl (InvalidConfig ''must specify at least one of CNIConfiguration or StaticConfiguration'')
      else if has_cni \<and> has_static then
        Inl (InvalidConfig ''cannot provide both CNIConfiguration and StaticConfiguration'')
      else if (has_cni \<or> has_static_ip i) \<and> n > 1 then
        Inl (InvalidConfig ''cannot specify CNIConfiguration or IPConfiguration when multiple network interfaces are provided'')
      else if (has_cni \<or> has_static_ip i) \<and> kernel_args_contains ''ip'' kernel_args then
        Inl (InvalidConfig (''CNIConfiguration or IPConfiguration cannot be specified when '' @
          [CHR 0x22] @ ''ip='' @ [CHR 0x22] @ '' is already present in kernel boot args''))
      else
        rbind (case cni_configuration i of Some c \<Rightarrow> cni_validate c | None \<Rightarrow> Inr ()) (\<lambda>_.
          case static_configuration i of Some c \<Rightarrow> static_validate c | None \<Rightarrow> Inr ()))"

fun validate_loop :: "nat \<Rightarrow> kernel_args \<Rightarrow> network_interfaces \<Rightarrow> unit result" where
  "validate_loop n kernel_args [] = Inr ()"
| "validate_loop n kernel_args (i # is) =
     rbind (validate_iface n kernel_args i) (\<lambda>_. validate_loop n kernel_args is)"

definition interfaces_validate :: "network_interfaces \<Rightarrow> kernel_args \<Rightarrow> unit result" where
  "interfaces_validate is kernel_args = validate_loop (length is) kernel_args is"

abbreviation is_cni :: "network_interface \<Rightarrow> bool" where
  "is_cni i \<equiv> cni_configuration i \<noteq> None"

definition cni_interface :: "network_interfaces \<Rightarrow> network_interface option" where
  "cni_interface is = find is_cni is"

text \<open>\<open>cni_interface_mut\<close>: changing the interface it finds.\<close>

definition cni_interface_mut :: "(network_interface \<Rightarrow> network_interface) \<Rightarrow> network_interfaces \<Rightarrow> network_interfaces" where
  "cni_interface_mut f is = update_first is_cni f is"

definition static_ip_interface :: "network_interfaces \<Rightarrow> network_interface option" where
  "static_ip_interface is = find has_static_ip is"

text \<open>\<open>NetworkInterface::apply_cni_result\<close>: the interface after the call.\<close>

definition iface_apply_cni_result ::
  "ipnet_ops \<Rightarrow> network_interface \<Rightarrow> cni_result \<Rightarrow> 'os netlink_ops \<Rightarrow> ('os, error, network_interface) op" where
  "iface_apply_cni_result N i result get_link os =
     (if static_configuration i \<noteq> None then (Inr i, os)
      else case cni_configuration i of
          None \<Rightarrow> (Inl (InvalidConfig ''missing CNIConfiguration''), os)
        | Some cni \<Rightarrow>
          (case cni_container_id cni of
             None \<Rightarrow> (Inl (InvalidConfig ''missing CNI container id''), os)
           | Some cid \<Rightarrow>
             op_bind
               (op_map_err (\<lambda>e. InvalidConfig (vm_conf_error_display N e))
                 (static_network_conf_from result cid get_link))
               (\<lambda>conf. op_ok (i\<lparr>static_configuration := Some
                  \<lparr>stc_mac_address = vm_mac_addr conf, stc_host_dev_name = tap_name conf,
                   stc_ip_configuration = map_option (\<lambda>ip.
                     \<lparr>ipc_ip_addr = ip_address ip, ipc_gateway = ip_gateway ip,
                      ipc_nameservers = take 2 (vm_nameservers conf),
                      ipc_if_name = cni_vm_if_name cni\<rparr>) (vm_ip_config conf)\<rparr>\<rparr>)) os))"

definition apply_cni_result ::
  "ipnet_ops \<Rightarrow> cni_result \<Rightarrow> 'os netlink_ops \<Rightarrow> (network_interfaces \<times> 'os, error, unit) op" where
  "apply_cni_result N result get_link = (\<lambda>(is, os).
     case cni_interface is of
       None \<Rightarrow> (Inr (), (is, os))
     | Some i \<Rightarrow>
         (case iface_apply_cni_result N i result get_link os of
            (Inl e, os') \<Rightarrow> (Inl e, (is, os'))
          | (Inr i', os') \<Rightarrow> (Inr (), (cni_interface_mut (\<lambda>_. i') is, os'))))"

text \<open>
  \<open>setup_cni\<close>: the interface's CNI configuration is completed in place before the calls, so it stays
  so when one of them fails.
\<close>

definition completed_cni :: "string \<Rightarrow> string \<Rightarrow> cni_configuration \<Rightarrow> cni_configuration" where
  "completed_cni vm_id net_ns_path c =
     set_defaults (c\<lparr>cni_container_id := Some vm_id, cni_net_ns_path := Some net_ns_path\<rparr>)"

definition setup_cni ::
  "ipnet_ops \<Rightarrow> string \<Rightarrow> string \<Rightarrow> 'os cni_network_operations \<Rightarrow> 'os netlink_ops \<Rightarrow>
   (network_interfaces \<times> 'os, error, 'os cleanup_fn list) op" where
  "setup_cni N vm_id net_ns_path cni_ops get_link = (\<lambda>(is, os).
     case cni_interface is of
       None \<Rightarrow> (Inr [], (is, os))
     | Some i \<Rightarrow>
       (case cni_configuration i of
          None \<Rightarrow> (Inl (InvalidConfig ''missing CNIConfiguration''), (is, os))
        | Some c \<Rightarrow>
          (let cfg = completed_cni vm_id net_ns_path c;
               i1 = i\<lparr>cni_configuration := Some cfg\<rparr>;
               is1 = cni_interface_mut (\<lambda>_. i1) is
           in case initialize_netns cni_ops net_ns_path os of
                (Inl e, os1) \<Rightarrow> (Inl e, (is1, os1))
              | (Inr cleanup_funcs, os1) \<Rightarrow>
                (case invoke_cni cni_ops cfg os1 of
                   (Inl e, os2) \<Rightarrow> (Inl e, (is1, os2))
                 | (Inr (result, cni_cleanup_funcs), os2) \<Rightarrow>
                   (case iface_apply_cni_result N i1 result get_link os2 of
                      (Inl e, os3) \<Rightarrow> (Inl e, (is1, os3))
                    | (Inr i2, os3) \<Rightarrow>
                        (Inr (cleanup_funcs @ cni_cleanup_funcs),
                         (cni_interface_mut (\<lambda>_. i2) is1, os3)))))))"

section \<open>Validation\<close>

text \<open>What a single interface must satisfy, apart from the rules on the whole list.\<close>

definition iface_valid :: "network_interface \<Rightarrow> bool" where
  "iface_valid i \<longleftrightarrow>
     (cni_configuration i = None \<longleftrightarrow> static_configuration i \<noteq> None) \<and>
     (case cni_configuration i of None \<Rightarrow> True
      | Some c \<Rightarrow> (cni_network_name c = None \<longleftrightarrow> cni_network_config c \<noteq> None)) \<and>
     (case static_configuration i of None \<Rightarrow> True
      | Some c \<Rightarrow> stc_host_dev_name c \<noteq> [] \<and>
          (case stc_ip_configuration c of None \<Rightarrow> True | Some ip \<Rightarrow> length (ipc_nameservers ip) \<le> 2))"

lemma cni_validate_ok: "is_ok (cni_validate c) \<longleftrightarrow> (cni_network_name c = None \<longleftrightarrow> cni_network_config c \<noteq> None)"
  by (auto simp: cni_validate_def split: option.splits)

lemma static_validate_ok:
  "is_ok (static_validate c) \<longleftrightarrow> stc_host_dev_name c \<noteq> [] \<and>
     (case stc_ip_configuration c of None \<Rightarrow> True | Some ip \<Rightarrow> length (ipc_nameservers ip) \<le> 2)"
  by (auto simp: static_validate_def ip_configuration_validate_def split: option.splits)

lemma validate_iface_ok:
  "is_ok (validate_iface n ka i) \<longleftrightarrow>
     iface_valid i \<and> (is_cni i \<or> has_static_ip i \<longrightarrow> n \<le> 1 \<and> \<not> kernel_args_contains ''ip'' ka)"
  by (cases "cni_configuration i"; cases "static_configuration i")
    (auto simp: validate_iface_def iface_valid_def Let_def is_ok_rbind cni_validate_ok static_validate_ok)

lemma validate_loop_ok:
  "is_ok (validate_loop n ka is) \<longleftrightarrow> (\<forall>i \<in> set is. is_ok (validate_iface n ka i))"
  by (induction "is") (auto simp: is_ok_rbind)

text \<open>
  C30: a list of network interfaces is accepted exactly when every interface has either a CNI or a
  static configuration that is itself well-formed, and, if one of them uses CNI or a static IP, it is
  the only interface and the kernel arguments do not set \<open>ip\<close>.
\<close>

theorem interfaces_validate_spec:
  "is_ok (interfaces_validate is ka) \<longleftrightarrow>
     list_all iface_valid is \<and>
     (list_ex (\<lambda>i. is_cni i \<or> has_static_ip i) is \<longrightarrow>
        length is = 1 \<and> \<not> kernel_args_contains ''ip'' ka)"
  unfolding interfaces_validate_def validate_loop_ok validate_iface_ok list_all_iff list_ex_iff
  by (cases "is") auto

theorem interfaces_validate_spec_witness:
  "is_ok (interfaces_validate [\<lparr>static_configuration = Some (static_configuration_new ''tap0''),
      cni_configuration = None, allow_mmds = False, in_rate_limiter = None, out_rate_limiter = None\<rparr>]
    (parse_kernel_args ''ip=dhcp''))"
  using interfaces_validate_spec [of "[\<lparr>static_configuration = Some (static_configuration_new ''tap0''),
      cni_configuration = None, allow_mmds = False, in_rate_limiter = None, out_rate_limiter = None\<rparr>]"
      "parse_kernel_args ''ip=dhcp''"]
  by (simp add: iface_valid_def static_configuration_new_def has_static_ip_def)

section \<open>The two renderings of the boot parameter\<close>

lemma vmconf_boot_param:
  "vmconf_ip_boot_param N (conf\<lparr>vm_ip_config := Some ip, vm_if_name := name\<rparr>) =
     ip_boot_param N \<lparr>ipc_ip_addr = ip_address ip, ipc_gateway = ip_gateway ip,
       ipc_nameservers = take 2 (vm_nameservers conf), ipc_if_name = name\<rparr>"
proof (cases "vm_nameservers conf")
  case (Cons a as)
  then show ?thesis
    by (cases as) (simp_all add: vmconf_ip_boot_param_def ip_boot_param_def nth_or_empty_def Let_def)
qed (simp add: vmconf_ip_boot_param_def ip_boot_param_def nth_or_empty_def Let_def)

lemma ip_boot_param_device:
  "ip_boot_param N c = ip_boot_param N (c\<lparr>ipc_if_name := None\<rparr>) \<longleftrightarrow> unwrap_or [] (ipc_if_name c) = []"
  by (simp add: ip_boot_param_def)

lemma static_network_conf_derived:
  "static_network_conf_from result cid get_link os = (Inr conf, os') \<Longrightarrow> \<exists>ip. vm_ip_config conf = Some ip \<and> vm_if_name conf = None"
  by (auto simp: static_network_conf_from_def op_bind_cases op_simps Let_def split: sum.splits list.splits)

text \<open>
  C31: the two implementations of the kernel's \<open>ip=\<close> parameter on what is derived from one CNI result.
  The IP configuration that the interface gets renders as the network configuration derived from the
  result does once it is given the VM's interface name of the CNI configuration (only the first two
  nameservers count, so truncating their list makes no difference). As derived it has no interface name,
  and the two parameters are the same exactly when the CNI configuration names no VM interface either.
\<close>

theorem ip_boot_param_equivalence:
  assumes run: "iface_apply_cni_result N i result get_link os = (Inr i', os')"
    and cni: "static_configuration i = None" "cni_configuration i = Some cni"
  shows "\<exists>cid conf st ip. cni_container_id cni = Some cid \<and>
    static_network_conf_from result cid get_link os = (Inr conf, os') \<and>
    static_configuration i' = Some st \<and> stc_ip_configuration st = Some ip \<and>
    ip_boot_param N ip = vmconf_ip_boot_param N (conf\<lparr>vm_if_name := cni_vm_if_name cni\<rparr>) \<and>
    (ip_boot_param N ip = vmconf_ip_boot_param N conf \<longleftrightarrow> unwrap_or [] (cni_vm_if_name cni) = [])"
proof -
  from run cni obtain cid conf where cid: "cni_container_id cni = Some cid"
    and conf: "static_network_conf_from result cid get_link os = (Inr conf, os')"
    and i': "i' = i\<lparr>static_configuration := Some
      \<lparr>stc_mac_address = vm_mac_addr conf, stc_host_dev_name = tap_name conf,
       stc_ip_configuration = map_option (\<lambda>ip.
         \<lparr>ipc_ip_addr = ip_address ip, ipc_gateway = ip_gateway ip,
          ipc_nameservers = take 2 (vm_nameservers conf), ipc_if_name = cni_vm_if_name cni\<rparr>) (vm_ip_config conf)\<rparr>\<rparr>"
    by (auto simp: iface_apply_cni_result_def op_bind_cases op_map_err_cases op_simps split: option.splits)
  from static_network_conf_derived [OF conf] obtain ip where
    ip: "vm_ip_config conf = Some ip" "vm_if_name conf = None" by blast
  let ?ip = "\<lparr>ipc_ip_addr = ip_address ip, ipc_gateway = ip_gateway ip,
     ipc_nameservers = take 2 (vm_nameservers conf), ipc_if_name = cni_vm_if_name cni\<rparr>"
  have name: "vmconf_ip_boot_param N (conf\<lparr>vm_if_name := n\<rparr>) = ip_boot_param N (?ip\<lparr>ipc_if_name := n\<rparr>)" for n
    using vmconf_boot_param [where conf = conf and ip = ip and name = n] ip(1) by (cases conf) simp
  have "vmconf_ip_boot_param N conf = ip_boot_param N (?ip\<lparr>ipc_if_name := None\<rparr>)"
    using name [of None] ip(2) by (cases conf) simp
  with name [of "cni_vm_if_name cni"] ip_boot_param_device [of N ?ip] cid conf i' ip show ?thesis by auto
qed

section \<open>CNI set-up\<close>

lemma iface_apply_cni_result_ok:
  assumes "iface_apply_cni_result N i result get_link os = (Inr i', os')"
  shows "static_configuration i' \<noteq> None" "cni_configuration i' = cni_configuration i"
    "static_configuration i = None \<Longrightarrow> static_configuration i' = Some st \<Longrightarrow>
       stc_ip_configuration st = Some ip \<Longrightarrow> length (ipc_nameservers ip) \<le> 2"
  using assms
  by (auto simp: iface_apply_cni_result_def op_bind_cases op_simps map_option_case
      split: if_splits option.splits)

text \<open>
  C32: a successful CNI set-up changes the first CNI interface only: it completes its CNI
  configuration and leaves it with a static configuration of at most two nameservers; the cleanup
  functions are those of the network namespace followed by those of the CNI plugins.
\<close>

theorem setup_cni_success:
  assumes run: "setup_cni N vm_id net_ns ops get_link (is, os) = (Inr fs, (is', os'))"
    and cni: "cni_interface is = Some i" and fresh: "static_configuration i = None"
  shows "\<exists>pre post c i' st fs1 fs2 result os1 os2.
    is = pre @ i # post \<and> is' = pre @ i' # post \<and> cni_configuration i = Some c \<and>
    cni_configuration i' = Some (completed_cni vm_id net_ns c) \<and> static_configuration i' = Some st \<and>
    (case stc_ip_configuration st of None \<Rightarrow> True | Some ip \<Rightarrow> length (ipc_nameservers ip) \<le> 2) \<and>
    initialize_netns ops net_ns os = (Inr fs1, os1) \<and>
    invoke_cni ops (completed_cni vm_id net_ns c) os1 = (Inr (result, fs2), os2) \<and> fs = fs1 @ fs2"
proof -
  from cni have "find is_cni is = Some i" by (simp add: cni_interface_def)
  from find_split [OF this]
  obtain pre post where split: "is = pre @ i # post" "is_cni i" "\<forall>y \<in> set pre. \<not> is_cni y" by blast
  then obtain c where c: "cni_configuration i = Some c" by auto
  let ?cfg = "completed_cni vm_id net_ns c"
  let ?i1 = "i\<lparr>cni_configuration := Some ?cfg\<rparr>"
  from run cni c obtain fs1 os1 result fs2 os2 i2 where
    steps: "initialize_netns ops net_ns os = (Inr fs1, os1)"
      "invoke_cni ops ?cfg os1 = (Inr (result, fs2), os2)"
      "iface_apply_cni_result N ?i1 result get_link os2 = (Inr i2, os')"
    and res: "fs = fs1 @ fs2" "is' = update_first is_cni (\<lambda>_. i2) (update_first is_cni (\<lambda>_. ?i1) is)"
    by (auto simp: setup_cni_def cni_interface_mut_def Let_def split: prod.splits sum.splits)
  have "is' = pre @ i2 # post"
    unfolding res(2) split(1) using split(2,3) by (simp add: update_first_split)
  moreover obtain st where st: "static_configuration i2 = Some st"
    using iface_apply_cni_result_ok(1) [OF steps(3)] by auto
  moreover have "case stc_ip_configuration st of None \<Rightarrow> True | Some ip \<Rightarrow> length (ipc_nameservers ip) \<le> 2"
    using iface_apply_cni_result_ok(3) [OF steps(3) _ st] fresh by (simp split: option.splits)
  moreover have "cni_configuration i2 = Some ?cfg"
    using iface_apply_cni_result_ok(2) [OF steps(3)] by simp
  ultimately show ?thesis using split(1) steps(1,2) res(1) c by blast
qed

end
