(* ===== verification/Devices.thy ===== *)
theory Devices
  imports Api_Models
begin

text \<open>
  The builders of device payloads: \<open>src/drives.rs\<close>, \<open>src/rate_limiter.rs\<close>, \<open>src/balloon.rs\<close>,
  \<open>src/snapshot.rs\<close> and \<open>src/pointer_helpers.rs\<close>. Option closures (\<open>DriveOpt\<close>, \<open>RateLimiterOpt\<close>,
  \<open>BalloonOpt\<close>) are functions on the payload they update, applied in order.
\<close>

section \<open>Drives\<close>

definition ROOT_DRIVE_NAME :: string where
  "ROOT_DRIVE_NAME = ''root_drive''"

definition with_drive_id :: "string \<Rightarrow> drive \<Rightarrow> drive" where
  "with_drive_id i d = d\<lparr>dr_drive_id := Some i\<rparr>"

definition with_read_only :: "bool \<Rightarrow> drive \<Rightarrow> drive" where
  "with_read_only flag d = d\<lparr>dr_is_read_only := Some flag\<rparr>"

definition with_partuuid :: "string \<Rightarrow> drive \<Rightarrow> drive" where
  "with_partuuid p d = d\<lparr>dr_partuuid := Some p\<rparr>"

definition with_rate_limiter :: "rate_limiter \<Rightarrow> drive \<Rightarrow> drive" where
  "with_rate_limiter l d = d\<lparr>dr_rate_limiter := Some l\<rparr>"

definition with_cache_type :: "string \<Rightarrow> drive \<Rightarrow> drive" where
  "with_cache_type c d = d\<lparr>dr_cache_type := Some c\<rparr>"

definition with_io_engine :: "string \<Rightarrow> drive \<Rightarrow> drive" where
  "with_io_engine e d = d\<lparr>dr_io_engine := Some e\<rparr>"

record drives_builder =
  db_root_drive :: drive
  db_drives :: "drive list"

definition drives_builder_new :: "string \<Rightarrow> drives_builder" where
  "drives_builder_new root_drive_path =
     \<lparr>db_root_drive = drive_default\<lparr>dr_drive_id := Some ROOT_DRIVE_NAME,
        dr_path_on_host := Some root_drive_path, dr_is_root_device := Some True,
        dr_is_read_only := Some False\<rparr>,
      db_drives = []\<rparr>"

definition with_root_drive :: "string \<Rightarrow> (drive \<Rightarrow> drive) list \<Rightarrow> drives_builder \<Rightarrow> drives_builder" where
  "with_root_drive root_drive_path opts b =
     b\<lparr>db_root_drive := fold (\<lambda>opt. opt) opts
        (drive_default\<lparr>dr_drive_id := Some ROOT_DRIVE_NAME,
          dr_path_on_host := Some root_drive_path, dr_is_root_device := Some True,
          dr_is_read_only := Some False\<rparr>)\<rparr>"

definition add_drive :: "string \<Rightarrow> bool \<Rightarrow> (drive \<Rightarrow> drive) list \<Rightarrow> drives_builder \<Rightarrow> drives_builder" where
  "add_drive path read_only opts b =
     b\<lparr>db_drives := db_drives b @ [fold (\<lambda>opt. opt) opts
        (drive_default\<lparr>dr_drive_id := Some (nat_str (length (db_drives b))),
          dr_path_on_host := Some path, dr_is_root_device := Some False,
          dr_is_read_only := Some read_only\<rparr>)]\<rparr>"

definition drives_build :: "drives_builder \<Rightarrow> drive list" where
  "drives_build b = db_drives b @ [db_root_drive b]"

section \<open>Rate limiters\<close>

definition new_rate_limiter ::
  "token_bucket \<Rightarrow> token_bucket \<Rightarrow> (rate_limiter \<Rightarrow> rate_limiter) list \<Rightarrow> rate_limiter" where
  "new_rate_limiter bandwidth ops opts =
     fold (\<lambda>opt. opt) opts \<lparr>rl_bandwidth = Some bandwidth, rl_ops = Some ops\<rparr>"

text \<open>The builder wraps the bucket: \<open>TokenBucketBuilder { bucket }\<close>.\<close>

record token_bucket_builder =
  tbb_bucket :: token_bucket

definition with_bucket_size :: "int \<Rightarrow> token_bucket_builder \<Rightarrow> token_bucket_builder" where
  "with_bucket_size sz b = b\<lparr>tbb_bucket := (tbb_bucket b)\<lparr>tb_size := Some sz\<rparr>\<rparr>"

text \<open>
  A \<open>Duration\<close> is its seconds (\<open>u64\<close>) and nanoseconds; \<open>as_millis\<close> is a \<open>u128\<close>, and \<open>as i64\<close> keeps
  its low 64 bits.
\<close>

definition duration_as_millis :: "64 word \<Rightarrow> nat \<Rightarrow> nat" where
  "duration_as_millis secs nanos = unat secs * 1000 + nanos div 1000000"

definition with_refill_duration :: "64 word \<Rightarrow> nat \<Rightarrow> token_bucket_builder \<Rightarrow> token_bucket_builder" where
  "with_refill_duration secs nanos b =
     b\<lparr>tbb_bucket := (tbb_bucket b)\<lparr>tb_refill_time :=
        Some (sint (of_nat (duration_as_millis secs nanos) :: 64 word))\<rparr>\<rparr>"

definition with_initial_size :: "int \<Rightarrow> token_bucket_builder \<Rightarrow> token_bucket_builder" where
  "with_initial_size sz b = b\<lparr>tbb_bucket := (tbb_bucket b)\<lparr>tb_one_time_burst := Some sz\<rparr>\<rparr>"

definition bucket_build :: "token_bucket_builder \<Rightarrow> token_bucket" where
  "bucket_build b = tbb_bucket b"

section \<open>Balloon\<close>

definition with_stats_polling_intervals :: "int \<Rightarrow> balloon \<Rightarrow> balloon" where
  "with_stats_polling_intervals i b = b\<lparr>bl_stats_polling_intervals := i\<rparr>"

record balloon_device =
  bd_balloon :: balloon

definition balloon_device_new :: "int \<Rightarrow> bool \<Rightarrow> (balloon \<Rightarrow> balloon) list \<Rightarrow> balloon_device" where
  "balloon_device_new amount_mib deflate_on_oom opts =
     \<lparr>bd_balloon = fold (\<lambda>opt. opt) opts
        (balloon_default\<lparr>bl_amount_mib := Some amount_mib, bl_deflate_on_oom := Some deflate_on_oom\<rparr>)\<rparr>"

definition balloon_device_build :: "balloon_device \<Rightarrow> balloon" where
  "balloon_device_build d = bd_balloon d"

definition update_amount_mib :: "int \<Rightarrow> balloon_device \<Rightarrow> balloon_device" where
  "update_amount_mib amount_mib d = d\<lparr>bd_balloon := (bd_balloon d)\<lparr>bl_amount_mib := Some amount_mib\<rparr>\<rparr>"

definition update_stats_polling_intervals :: "int \<Rightarrow> balloon_device \<Rightarrow> balloon_device" where
  "update_stats_polling_intervals i d =
     d\<lparr>bd_balloon := (bd_balloon d)\<lparr>bl_stats_polling_intervals := i\<rparr>\<rparr>"

section \<open>Snapshot configuration\<close>

record snapshot_config =
  sn_mem_file_path :: "string option"
  sn_mem_backend :: "memory_backend option"
  sn_snapshot_path :: "string option"
  sn_enable_diff_snapshots :: bool
  sn_resume_vm :: bool

definition snapshot_config_default :: snapshot_config where
  "snapshot_config_default = \<lparr>sn_mem_file_path = None, sn_mem_backend = None,
     sn_snapshot_path = None, sn_enable_diff_snapshots = False, sn_resume_vm = False\<rparr>"

definition with_paths :: "string \<Rightarrow> string \<Rightarrow> snapshot_config" where
  "with_paths mem_file_path snapshot_path =
     snapshot_config_default\<lparr>
       sn_mem_file_path := (if mem_file_path \<noteq> [] then Some mem_file_path else None),
       sn_snapshot_path := (if snapshot_path \<noteq> [] then Some snapshot_path else None)\<rparr>"

definition get_mem_backend_path :: "snapshot_config \<Rightarrow> string option" where
  "get_mem_backend_path s =
     opt_or (Option.bind (sn_mem_backend s) mb_backend_path) (sn_mem_file_path s)"

section \<open>Pointer helpers\<close>

definition bool_value :: "bool option \<Rightarrow> bool" where
  "bool_value v = unwrap_or False v"

definition bool_ptr :: "bool \<Rightarrow> bool option" where
  "bool_ptr v = Some v"

definition string_value :: "string option \<Rightarrow> string" where
  "string_value v = unwrap_or [] v"

definition string_ptr :: "string \<Rightarrow> string option" where
  "string_ptr v = Some v"

definition int64_ptr :: "int \<Rightarrow> int option" where
  "int64_ptr v = Some v"

definition int64_value :: "int option \<Rightarrow> int" where
  "int64_value v = unwrap_or 0 v"

definition int_ptr :: "int \<Rightarrow> int option" where
  "int_ptr v = Some v"

definition int_value :: "int option \<Rightarrow> int" where
  "int_value v = unwrap_or 0 v"

section \<open>Properties\<close>

text \<open>The drive list under construction: ids are the positions, the root drive comes last.\<close>

definition build_drives :: "string \<Rightarrow> (string \<times> bool) list \<Rightarrow> drive list" where
  "build_drives root ds =
     drives_build (fold (\<lambda>(path, ro). add_drive path ro []) ds (drives_builder_new root))"

lemma fold_add_drive_ids:
  "map dr_drive_id (db_drives b) = map (Some \<circ> nat_str) [0..<length (db_drives b)] \<Longrightarrow>
   map dr_drive_id (db_drives (fold (\<lambda>(path, ro). add_drive path ro []) ds b)) =
     map (Some \<circ> nat_str) [0..<length (db_drives b) + length ds] \<and>
   db_root_drive (fold (\<lambda>(path, ro). add_drive path ro []) ds b) = db_root_drive b"
proof (induction ds arbitrary: b)
  case (Cons d ds)
  obtain path ro where d: "d = (path, ro)" by fastforce
  from Cons.IH [of "add_drive path ro [] b"] Cons.prems show ?case
    by (simp add: d add_drive_def)
qed simp

lemma nat_str_neq_root: "nat_str n \<noteq> ROOT_DRIVE_NAME"
proof
  assume "nat_str n = ROOT_DRIVE_NAME"
  then have "CHR ''r'' \<in> set (nat_str n)" by (simp add: ROOT_DRIVE_NAME_def)
  moreover have "CHR ''r'' \<notin> set (nat_str n)" by (rule nat_str_no_byte) simp
  ultimately show False by simp
qed

lemma fold_add_drive_root:
  "(\<And>d. d \<in> set (db_drives b) \<Longrightarrow> dr_is_root_device d = Some False) \<Longrightarrow>
   d \<in> set (db_drives (fold (\<lambda>(path, ro). add_drive path ro []) ds b)) \<Longrightarrow> dr_is_root_device d = Some False"
proof (induction ds arbitrary: b)
  case (Cons e ds)
  obtain path ro where e: "e = (path, ro)" by fastforce
  show ?case
    by (rule Cons.IH [of "add_drive path ro [] b"]) (use Cons.prems in \<open>auto simp: add_drive_def e\<close>)
qed simp

text \<open>
  The drives built without overriding options have pairwise different ids, and exactly one of
  them, the last one, is the root device.
\<close>

theorem build_drives_ids:
  "distinct (map dr_drive_id (build_drives root ds)) \<and> length (build_drives root ds) = Suc (length ds) \<and>
   filter (\<lambda>d. dr_is_root_device d = Some True) (build_drives root ds) = [last (build_drives root ds)] \<and>
   dr_path_on_host (last (build_drives root ds)) = Some root"
proof -
  let ?b = "fold (\<lambda>(path, ro). add_drive path ro []) ds (drives_builder_new root)"
  from fold_add_drive_ids [of "drives_builder_new root" ds]
  have ids: "map dr_drive_id (db_drives ?b) = map (Some \<circ> nat_str) [0..<length ds]"
    and root: "db_root_drive ?b = db_root_drive (drives_builder_new root)"
    by (simp_all add: drives_builder_new_def)
  have rid: "dr_drive_id (db_root_drive ?b) = Some ROOT_DRIVE_NAME"
    unfolding root by (simp add: drives_builder_new_def)
  have len: "length (db_drives ?b) = length ds"
    using arg_cong [OF ids, of length] by (simp only: length_map length_upt diff_zero)
  have "distinct (map (Some \<circ> nat_str) [0..<length ds])"
    by (simp add: distinct_map inj_on_def nat_str_inj)
  moreover have "Some ROOT_DRIVE_NAME \<notin> set (map (Some \<circ> nat_str) [0..<length ds])"
    using nat_str_neq_root by (auto dest: sym)
  ultimately have "distinct (map dr_drive_id (build_drives root ds))"
    unfolding build_drives_def drives_build_def map_append ids
    by (simp add: rid del: set_map)
  moreover have "filter (\<lambda>d. dr_is_root_device d = Some True) (db_drives ?b) = []"
    using fold_add_drive_root [of "drives_builder_new root" _ ds]
    by (auto simp: filter_empty_conv drives_builder_new_def)
  ultimately show ?thesis
    by (simp add: build_drives_def drives_build_def len root) (simp add: drives_builder_new_def)
qed

lemma sint_of_nat_64: "sint (of_nat n :: 64 word) = (int n + 2 ^ 63) mod 2 ^ 64 - 2 ^ 63"
  using int_word_sint [where ?'a = 64, of "int n"] by simp

text \<open>
  The refill time is the duration in milliseconds exactly as long as that fits an \<open>i64\<close>; a
  longer duration is silently reduced modulo 2 to the 64, into the range of \<open>i64\<close>.
\<close>

theorem with_refill_duration_wraps:
  "\<exists>r. tb_refill_time (bucket_build (with_refill_duration secs nanos b)) = Some r \<and>
     - (2 ^ 63) \<le> r \<and> r < 2 ^ 63 \<and>
     (int (duration_as_millis secs nanos) - r) mod 2 ^ 64 = 0 \<and>
     (r = int (duration_as_millis secs nanos) \<longleftrightarrow> duration_as_millis secs nanos < 2 ^ 63)"
proof -
  let ?n = "int (duration_as_millis secs nanos)"
  let ?r = "(?n + 2 ^ 63) mod 2 ^ 64 - 2 ^ 63"
  have val: "tb_refill_time (bucket_build (with_refill_duration secs nanos b)) = Some ?r"
    by (simp add: bucket_build_def with_refill_duration_def sint_of_nat_64)
  have lo: "- (2 ^ 63) \<le> ?r" and hi: "?r < 2 ^ 63"
    using pos_mod_bound [of "2 ^ 64" "?n + 2 ^ 63"] by simp_all
  have cong: "(?n - ?r) mod 2 ^ 64 = 0" by (simp add: mod_simps algebra_simps)
  have exact: "?r = ?n" if "?n < 2 ^ 63"
  proof -
    from that have "(?n + 2 ^ 63) mod 2 ^ 64 = ?n + 2 ^ 63" by (intro mod_pos_pos_trivial) simp_all
    then show ?thesis by simp
  qed
  have "?n < 2 ^ 63 \<longleftrightarrow> duration_as_millis secs nanos < 2 ^ 63" by simp
  with exact hi have "?r = ?n \<longleftrightarrow> duration_as_millis secs nanos < 2 ^ 63" by metis
  with val lo hi cong show ?thesis by (intro exI [of _ ?r] conjI)
qed

end
