(* ===== verification/Handler_List.thy ===== *)
theory Handler_List
  imports Sdk_Error
begin

text \<open>
  \<open>src/handlers.rs\<close>: named handlers, the operations on handler lists, the default handler chains
  and their adaptation to snapshot loading. A handler list is generic in the representation \<open>'f\<close>
  of the handler functions: the closures of the source are the constructors of \<open>handler_fn\<close>,
  whose effect on a machine is given in the theory of the machine.
\<close>

section \<open>Handlers and handler lists\<close>

record 'f handler =
  hname :: string
  hfunc :: 'f

type_synonym 'f handler_list = "'f handler list"

definition handler_new :: "string \<Rightarrow> 'f \<Rightarrow> 'f handler" where
  "handler_new n f = \<lparr>hname = n, hfunc = f\<rparr>"

definition hl_prepend :: "'f handler list \<Rightarrow> 'f handler_list \<Rightarrow> 'f handler_list" where
  "hl_prepend hs l = hs @ l"

definition hl_append :: "'f handler list \<Rightarrow> 'f handler_list \<Rightarrow> 'f handler_list" where
  "hl_append hs l = l @ hs"

text \<open>The loop of \<open>append_after\<close>: the new list so far and whether something was inserted.\<close>

fun append_after_loop ::
  "string \<Rightarrow> 'f handler \<Rightarrow> 'f handler list \<Rightarrow> 'f handler list \<times> bool \<Rightarrow> 'f handler list \<times> bool" where
  "append_after_loop after h [] (new_list, inserted) = (new_list, inserted)"
| "append_after_loop after h (x # xs) (new_list, inserted) =
     (if hname x = after then append_after_loop after h xs (new_list @ [x] @ [h], True)
      else append_after_loop after h xs (new_list @ [x], inserted))"

definition hl_append_after :: "string \<Rightarrow> 'f handler \<Rightarrow> 'f handler_list \<Rightarrow> 'f handler_list" where
  "hl_append_after after h l =
     (let (new_list, inserted) = append_after_loop after h l ([], False)
      in if inserted then new_list else l)"

definition hl_len :: "'f handler_list \<Rightarrow> nat" where
  "hl_len l = length l"

definition hl_has :: "string \<Rightarrow> 'f handler_list \<Rightarrow> bool" where
  "hl_has n l = list_ex (\<lambda>h. hname h = n) l"

definition hl_swap :: "'f handler \<Rightarrow> 'f handler_list \<Rightarrow> 'f handler_list" where
  "hl_swap h l = map (\<lambda>x. if hname x = hname h then h else x) l"

definition hl_swappend :: "'f handler \<Rightarrow> 'f handler_list \<Rightarrow> 'f handler_list" where
  "hl_swappend h l = (if hl_has (hname h) l then hl_swap h l else hl_append [h] l)"

definition hl_remove :: "string \<Rightarrow> 'f handler_list \<Rightarrow> 'f handler_list" where
  "hl_remove n l = filter (\<lambda>h. hname h \<noteq> n) l"

definition hl_clear :: "'f handler_list \<Rightarrow> 'f handler_list" where
  "hl_clear l = []"

text \<open>\<open>HandlerList::run\<close>, for a meaning \<open>exec\<close> of the handler functions.\<close>

definition hl_run :: "('f \<Rightarrow> ('s, 'e, unit) op) \<Rightarrow> 'f handler_list \<Rightarrow> ('s, 'e, unit) op" where
  "hl_run exec l = op_for (\<lambda>h. exec (hfunc h)) l"

record 'f handlers =
  validation :: "'f handler_list"
  fc_init :: "'f handler_list"

section \<open>The handlers of the SDK\<close>

definition START_VMM_HANDLER_NAME :: string where
  "START_VMM_HANDLER_NAME = ''fcinit.StartVMM''"
definition BOOTSTRAP_LOGGING_HANDLER_NAME :: string where
  "BOOTSTRAP_LOGGING_HANDLER_NAME = ''fcinit.BootstrapLogging''"
definition CREATE_LOG_FILES_HANDLER_NAME :: string where
  "CREATE_LOG_FILES_HANDLER_NAME = ''fcinit.CreateLogFilesHandler''"
definition CREATE_MACHINE_HANDLER_NAME :: string where
  "CREATE_MACHINE_HANDLER_NAME = ''fcinit.CreateMachine''"
definition CREATE_BOOT_SOURCE_HANDLER_NAME :: string where
  "CREATE_BOOT_SOURCE_HANDLER_NAME = ''fcinit.CreateBootSource''"
definition ATTACH_DRIVES_HANDLER_NAME :: string where
  "ATTACH_DRIVES_HANDLER_NAME = ''fcinit.AttachDrives''"
definition CREATE_NETWORK_INTERFACES_HANDLER_NAME :: string where
  "CREATE_NETWORK_INTERFACES_HANDLER_NAME = ''fcinit.CreateNetworkInterfaces''"
definition ADD_VSOCKS_HANDLER_NAME :: string where
  "ADD_VSOCKS_HANDLER_NAME = ''fcinit.AddVsocks''"
definition NEW_SET_METADATA_HANDLER_NAME :: string where
  "NEW_SET_METADATA_HANDLER_NAME = ''fcinit.SetMetadata''"
definition CONFIG_MMDS_HANDLER_NAME :: string where
  "CONFIG_MMDS_HANDLER_NAME = ''fcinit.ConfigMmds''"
definition LINK_FILES_TO_ROOTFS_HANDLER_NAME :: string where
  "LINK_FILES_TO_ROOTFS_HANDLER_NAME = ''fcinit.LinkFilesToRootFS''"
definition SETUP_NETWORK_HANDLER_NAME :: string where
  "SETUP_NETWORK_HANDLER_NAME = ''fcinit.SetupNetwork''"
definition SETUP_KERNEL_ARGS_HANDLER_NAME :: string where
  "SETUP_KERNEL_ARGS_HANDLER_NAME = ''fcinit.SetupKernelArgs''"
definition LOAD_SNAPSHOT_HANDLER_NAME :: string where
  "LOAD_SNAPSHOT_HANDLER_NAME = ''fcinit.LoadSnapshot''"
definition VALIDATE_CFG_HANDLER_NAME :: string where
  "VALIDATE_CFG_HANDLER_NAME = ''validate.Cfg''"
definition VALIDATE_JAILER_CFG_HANDLER_NAME :: string where
  "VALIDATE_JAILER_CFG_HANDLER_NAME = ''validate.JailerCfg''"
definition VALIDATE_NETWORK_CFG_HANDLER_NAME :: string where
  "VALIDATE_NETWORK_CFG_HANDLER_NAME = ''validate.NetworkCfg''"
definition VALIDATE_LOAD_SNAPSHOT_CFG_HANDLER_NAME :: string where
  "VALIDATE_LOAD_SNAPSHOT_CFG_HANDLER_NAME = ''validate.LoadSnapshotCfg''"

lemmas handler_name_defs =
  START_VMM_HANDLER_NAME_def BOOTSTRAP_LOGGING_HANDLER_NAME_def CREATE_LOG_FILES_HANDLER_NAME_def
  CREATE_MACHINE_HANDLER_NAME_def CREATE_BOOT_SOURCE_HANDLER_NAME_def
  ATTACH_DRIVES_HANDLER_NAME_def CREATE_NETWORK_INTERFACES_HANDLER_NAME_def
  ADD_VSOCKS_HANDLER_NAME_def NEW_SET_METADATA_HANDLER_NAME_def CONFIG_MMDS_HANDLER_NAME_def
  LINK_FILES_TO_ROOTFS_HANDLER_NAME_def SETUP_NETWORK_HANDLER_NAME_def
  SETUP_KERNEL_ARGS_HANDLER_NAME_def LOAD_SNAPSHOT_HANDLER_NAME_def VALIDATE_CFG_HANDLER_NAME_def
  VALIDATE_JAILER_CFG_HANDLER_NAME_def VALIDATE_NETWORK_CFG_HANDLER_NAME_def
  VALIDATE_LOAD_SNAPSHOT_CFG_HANDLER_NAME_def

text \<open>
  The closures the source builds, by what they capture: \<open>SetMetadata\<close> the metadata value,
  \<open>LinkFiles\<close> the kernel file name. \<open>Custom\<close> is a closure supplied by the user of the SDK.
\<close>

datatype ('j, 'x) handler_fn =
    ValidateCfg | ValidateLoadSnapshotCfg | ValidateJailerCfg | ValidateNetworkCfg
  | StartVmm | CreateLogFiles | BootstrapLogging | CreateMachine | CreateBootSource
  | AttachDrives | CreateNetworkInterfaces | AddVsocks | SetMetadata 'j | ConfigMmds
  | SetupNetwork | SetupKernelArgs | LoadSnapshot | LinkFiles string | Custom 'x

definition config_validation_handler :: "('j, 'x) handler_fn handler" where
  "config_validation_handler =
     handler_new VALIDATE_CFG_HANDLER_NAME ValidateCfg"
definition load_snapshot_config_validation_handler :: "('j, 'x) handler_fn handler" where
  "load_snapshot_config_validation_handler =
     handler_new VALIDATE_LOAD_SNAPSHOT_CFG_HANDLER_NAME ValidateLoadSnapshotCfg"
definition jailer_config_validation_handler :: "('j, 'x) handler_fn handler" where
  "jailer_config_validation_handler =
     handler_new VALIDATE_JAILER_CFG_HANDLER_NAME ValidateJailerCfg"
definition network_config_validation_handler :: "('j, 'x) handler_fn handler" where
  "network_config_validation_handler =
     handler_new VALIDATE_NETWORK_CFG_HANDLER_NAME ValidateNetworkCfg"
definition start_vmm_handler :: "('j, 'x) handler_fn handler" where
  "start_vmm_handler =
     handler_new START_VMM_HANDLER_NAME StartVmm"
definition create_log_files_handler :: "('j, 'x) handler_fn handler" where
  "create_log_files_handler =
     handler_new CREATE_LOG_FILES_HANDLER_NAME CreateLogFiles"
definition bootstrap_logging_handler :: "('j, 'x) handler_fn handler" where
  "bootstrap_logging_handler =
     handler_new BOOTSTRAP_LOGGING_HANDLER_NAME BootstrapLogging"
definition create_machine_handler :: "('j, 'x) handler_fn handler" where
  "create_machine_handler =
     handler_new CREATE_MACHINE_HANDLER_NAME CreateMachine"
definition create_boot_source_handler :: "('j, 'x) handler_fn handler" where
  "create_boot_source_handler =
     handler_new CREATE_BOOT_SOURCE_HANDLER_NAME CreateBootSource"
definition attach_drives_handler :: "('j, 'x) handler_fn handler" where
  "attach_drives_handler =
     handler_new ATTACH_DRIVES_HANDLER_NAME AttachDrives"
definition create_network_interfaces_handler :: "('j, 'x) handler_fn handler" where
  "create_network_interfaces_handler =
     handler_new CREATE_NETWORK_INTERFACES_HANDLER_NAME CreateNetworkInterfaces"
definition add_vsocks_handler :: "('j, 'x) handler_fn handler" where
  "add_vsocks_handler =
     handler_new ADD_VSOCKS_HANDLER_NAME AddVsocks"
definition new_set_metadata_handler :: "'j \<Rightarrow> ('j, 'x) handler_fn handler" where
  "new_set_metadata_handler metadata =
     handler_new NEW_SET_METADATA_HANDLER_NAME (SetMetadata metadata)"
definition config_mmds_handler :: "('j, 'x) handler_fn handler" where
  "config_mmds_handler =
     handler_new CONFIG_MMDS_HANDLER_NAME ConfigMmds"
definition setup_network_handler :: "('j, 'x) handler_fn handler" where
  "setup_network_handler =
     handler_new SETUP_NETWORK_HANDLER_NAME SetupNetwork"
definition setup_kernel_args_handler :: "('j, 'x) handler_fn handler" where
  "setup_kernel_args_handler =
     handler_new SETUP_KERNEL_ARGS_HANDLER_NAME SetupKernelArgs"
definition load_snapshot_handler :: "('j, 'x) handler_fn handler" where
  "load_snapshot_handler =
     handler_new LOAD_SNAPSHOT_HANDLER_NAME LoadSnapshot"

lemmas handler_ctor_defs =
  config_validation_handler_def load_snapshot_config_validation_handler_def
  jailer_config_validation_handler_def network_config_validation_handler_def
  start_vmm_handler_def create_log_files_handler_def bootstrap_logging_handler_def
  create_machine_handler_def create_boot_source_handler_def attach_drives_handler_def
  create_network_interfaces_handler_def add_vsocks_handler_def new_set_metadata_handler_def
  config_mmds_handler_def setup_network_handler_def setup_kernel_args_handler_def
  load_snapshot_handler_def handler_new_def

definition default_handlers :: "('j, 'x) handler_fn handlers" where
  "default_handlers =
     \<lparr>validation = hl_append [network_config_validation_handler] [],
      fc_init = hl_append
        [setup_network_handler, setup_kernel_args_handler, start_vmm_handler,
         create_log_files_handler, bootstrap_logging_handler, create_machine_handler,
         create_boot_source_handler, attach_drives_handler, create_network_interfaces_handler,
         add_vsocks_handler, config_mmds_handler] []\<rparr>"

definition snapshot_removed_names :: "string list" where
  "snapshot_removed_names =
     [SETUP_KERNEL_ARGS_HANDLER_NAME, CREATE_MACHINE_HANDLER_NAME, CREATE_BOOT_SOURCE_HANDLER_NAME,
      ATTACH_DRIVES_HANDLER_NAME, CREATE_NETWORK_INTERFACES_HANDLER_NAME, CONFIG_MMDS_HANDLER_NAME]"

definition adapt_handlers_for_snapshot ::
  "('j, 'x) handler_fn handlers \<Rightarrow> ('j, 'x) handler_fn handlers" where
  "adapt_handlers_for_snapshot hs =
     (let hs1 = fold (\<lambda>n h. h\<lparr>fc_init := hl_remove n (fc_init h)\<rparr>) snapshot_removed_names hs;
          hs2 = hs1\<lparr>validation :=
                  hl_append [load_snapshot_config_validation_handler]
                    (hl_remove VALIDATE_LOAD_SNAPSHOT_CFG_HANDLER_NAME
                      (hl_remove VALIDATE_CFG_HANDLER_NAME (validation hs1)))\<rparr>
      in hs2\<lparr>fc_init :=
             hl_append [load_snapshot_handler] (hl_remove LOAD_SNAPSHOT_HANDLER_NAME (fc_init hs2))\<rparr>)"

lemmas hl_defs = hl_prepend_def hl_append_def hl_len_def hl_has_def hl_swap_def hl_swappend_def
  hl_remove_def hl_clear_def

section \<open>The contract of a handler list\<close>

text \<open>What the machine, the options and the jailer rely on when they edit a handler list.\<close>

locale handler_registry =
  fixes names :: "'l \<Rightarrow> string list"
    and name_of :: "'h \<Rightarrow> string"
    and has :: "string \<Rightarrow> 'l \<Rightarrow> bool"
    and append :: "'h list \<Rightarrow> 'l \<Rightarrow> 'l"
    and swap :: "'h \<Rightarrow> 'l \<Rightarrow> 'l"
    and remove :: "string \<Rightarrow> 'l \<Rightarrow> 'l"
  assumes has_iff: "has n l \<longleftrightarrow> n \<in> set (names l)"
    and names_append: "names (append hs l) = names l @ map name_of hs"
    and names_swap: "names (swap h l) = names l"
    and names_remove: "names (remove n l) = filter (\<lambda>m. m \<noteq> n) (names l)"
begin

lemma has_remove: "has m (remove n l) \<longleftrightarrow> has m l \<and> m \<noteq> n"
  by (auto simp: has_iff names_remove)

lemma has_append: "has m (append hs l) \<longleftrightarrow> has m l \<or> m \<in> name_of ` set hs"
  by (auto simp: has_iff names_append)

text \<open>Replace-or-append keeps names unique and makes the handler present.\<close>

lemma swappend_distinct:
  assumes "distinct (names l)" "l' = (if has (name_of h) l then swap h l else append [h] l)"
  shows "distinct (names l')" "has (name_of h) l'" "length (names l') \<le> Suc (length (names l))"
  using assms by (auto simp: has_iff names_append names_swap)

text \<open>Replace: what is removed and appended again ends up once, at the end.\<close>

lemma remove_append_last: "names (append [h] (remove (name_of h) l)) =
    filter (\<lambda>m. m \<noteq> name_of h) (names l) @ [name_of h]"
  by (simp add: names_append names_remove)

end

interpretation hl: handler_registry "map hname" hname hl_has hl_append hl_swap hl_remove
proof
  show "map hname (hl_swap h l) = map hname l" for h :: "'a handler" and l
    by (induction l) (auto simp: hl_swap_def)
  show "map hname (hl_remove n l) = filter (\<lambda>m. m \<noteq> n) (map hname l)" for n and l :: "'a handler list"
    by (simp add: hl_remove_def filter_map o_def)
qed (auto simp: hl_has_def list_ex_iff hl_append_def)

section \<open>Editing and running handler lists\<close>

lemma append_after_loop_eq:
  "append_after_loop after h l (acc, ins) =
     (acc @ concat (map (\<lambda>x. if hname x = after then [x, h] else [x]) l), ins \<or> hl_has after l)"
  by (induction l arbitrary: acc ins) (auto simp: hl_has_def)

lemma append_after_eq:
  "hl_append_after after h l = concat (map (\<lambda>x. if hname x = after then [x, h] else [x]) l)"
proof (cases "hl_has after l")
  case False
  then have "concat (map (\<lambda>x. if hname x = after then [x, h] else [x]) l) = l"
    by (induction l) (auto simp: hl_has_def)
  with False show ?thesis by (simp add: hl_append_after_def append_after_loop_eq)
qed (simp add: hl_append_after_def append_after_loop_eq)

lemma hl_remove_append_after:
  "hname h \<noteq> after \<Longrightarrow> hname h \<notin> hname ` set l \<Longrightarrow> hl_remove (hname h) (hl_append_after after h l) = l"
  by (induction l) (auto simp: append_after_eq hl_remove_def)

text \<open>
  \<open>append_after\<close> puts the new handler right behind every handler of the given name and
  changes nothing else; in particular a list without that name is returned as it was.
\<close>

theorem append_after_spec:
  "hl_append_after after h (l1 @ x # l2) =
     hl_append_after after h l1 @ (if hname x = after then [x, h] else [x]) @ hl_append_after after h l2
   \<and> (\<not> hl_has after l \<longleftrightarrow> hl_append_after after h l = l)"
proof
  have "length (hl_append_after after h l) = length l + length (filter (\<lambda>x. hname x = after) l)"
    by (induction l) (auto simp: append_after_eq)
  then have "hl_append_after after h l = l \<Longrightarrow> \<not> hl_has after l"
    by (auto simp: hl_has_def list_ex_iff filter_empty_conv)
  moreover have "\<not> hl_has after l \<Longrightarrow> hl_append_after after h l = l"
    by (simp add: hl_append_after_def append_after_loop_eq)
  ultimately show "\<not> hl_has after l \<longleftrightarrow> hl_append_after after h l = l" by blast
qed (simp add: append_after_eq)

text \<open>Running a list: the handlers before the first failing one have run, none after it.\<close>

lemma hl_run_append: "hl_run exec (l1 @ l2) = op_then (hl_run exec l1) (hl_run exec l2)"
  by (simp add: hl_run_def op_for_append)

lemma hl_run_error_iff:
  "hl_run exec l s = (Inl e, t) \<longleftrightarrow>
     (\<exists>pre h post u. l = pre @ h # post \<and> hl_run exec pre s = (Inr (), u) \<and>
        exec (hfunc h) u = (Inl e, t))"
proof (induction l arbitrary: s)
  case (Cons x l)
  show ?case
  proof
    assume run: "hl_run exec (x # l) s = (Inl e, t)"
    show "\<exists>pre h post u. x # l = pre @ h # post \<and> hl_run exec pre s = (Inr (), u) \<and>
        exec (hfunc h) u = (Inl e, t)"
    proof (cases "exec (hfunc x) s")
      case (Pair r u)
      show ?thesis
      proof (cases r)
        case (Inl e')
        with run Pair have "exec (hfunc x) s = (Inl e, t)" by (simp add: hl_run_def op_bind_def)
        then show ?thesis by (intro exI [of _ "[]"]) (simp add: hl_run_def op_simps)
      next
        case (Inr y)
        with run Pair have "hl_run exec l u = (Inl e, t)" by (simp add: hl_run_def op_bind_def)
        then obtain pre h post v where "l = pre @ h # post" "hl_run exec pre u = (Inr (), v)"
          "exec (hfunc h) v = (Inl e, t)" using Cons.IH by blast
        with Pair Inr show ?thesis
          by (intro exI [of _ "x # pre"]) (auto simp: hl_run_def op_bind_def)
      qed
    qed
  next
    assume "\<exists>pre h post u. x # l = pre @ h # post \<and> hl_run exec pre s = (Inr (), u) \<and>
        exec (hfunc h) u = (Inl e, t)"
    then obtain pre h post u where "x # l = pre @ h # post" "hl_run exec pre s = (Inr (), u)"
        "exec (hfunc h) u = (Inl e, t)" by blast
    then show "hl_run exec (x # l) s = (Inl e, t)"
      by (simp add: hl_run_append op_bind_def) (simp add: hl_run_def op_bind_def)
  qed
qed (simp add: hl_run_def op_simps)

text \<open>
  \<open>HandlerList::run\<close> fails exactly when some handler fails after all the handlers before it
  succeeded, with that handler's error and the state that handler left: no later handler runs.
\<close>

theorem hl_run_stops_at_first_error:
  "hl_run exec l s = (Inl e, t) \<longleftrightarrow>
     (\<exists>pre h post u. l = pre @ h # post \<and> hl_run exec pre s = (Inr (), u) \<and>
        exec (hfunc h) u = (Inl e, t))"
  by (rule hl_run_error_iff)

section \<open>Snapshot adaptation\<close>

lemma fold_hl_remove:
  "fold (\<lambda>n h. h\<lparr>fc_init := hl_remove n (fc_init h)\<rparr>) ns hs =
     hs\<lparr>fc_init := filter (\<lambda>h. hname h \<notin> set ns) (fc_init hs)\<rparr>"
  by (induction ns arbitrary: hs) (auto simp: hl_remove_def conj_commute)

lemma adapt_handlers_for_snapshot_eq:
  "adapt_handlers_for_snapshot hs =
     hs\<lparr>validation :=
          filter (\<lambda>h. hname h \<notin> {VALIDATE_CFG_HANDLER_NAME, VALIDATE_LOAD_SNAPSHOT_CFG_HANDLER_NAME})
            (validation hs) @ [load_snapshot_config_validation_handler],
        fc_init :=
          filter (\<lambda>h. hname h \<notin> set snapshot_removed_names \<union> {LOAD_SNAPSHOT_HANDLER_NAME})
            (fc_init hs) @ [load_snapshot_handler]\<rparr>"
  unfolding adapt_handlers_for_snapshot_def fold_hl_remove Let_def
  by (simp add: hl_remove_def hl_append_def conj_commute)

text \<open>
  C33: adapting handlers for a snapshot removes exactly the boot-time handlers (kernel arguments, machine,
  boot source, drives, network interfaces, MMDS, by the names they are registered under) and the
  validation of a boot configuration, keeps every other handler with its function in its place, ends
  both lists with the snapshot handler, once; doing it twice is the same as doing it once. Of the default
  handlers there remain the network, the start of the VMM, the log files, the logging and the vsocks.
\<close>

theorem adapt_handlers_for_snapshot_spec:
  "fc_init (adapt_handlers_for_snapshot hs) =
     filter (\<lambda>h. hname h \<notin> {''fcinit.SetupKernelArgs'', ''fcinit.CreateMachine'', ''fcinit.CreateBootSource'',
         ''fcinit.AttachDrives'', ''fcinit.CreateNetworkInterfaces'', ''fcinit.ConfigMmds'', ''fcinit.LoadSnapshot''})
       (fc_init hs) @ [\<lparr>hname = ''fcinit.LoadSnapshot'', hfunc = LoadSnapshot\<rparr>]
   \<and> validation (adapt_handlers_for_snapshot hs) =
     filter (\<lambda>h. hname h \<notin> {''validate.Cfg'', ''validate.LoadSnapshotCfg''}) (validation hs) @
       [\<lparr>hname = ''validate.LoadSnapshotCfg'', hfunc = ValidateLoadSnapshotCfg\<rparr>]
   \<and> adapt_handlers_for_snapshot (adapt_handlers_for_snapshot hs) = adapt_handlers_for_snapshot hs
   \<and> map hfunc (fc_init (adapt_handlers_for_snapshot default_handlers)) =
     [SetupNetwork, StartVmm, CreateLogFiles, BootstrapLogging, AddVsocks, LoadSnapshot]"
proof (intro conjI)
  show "map hfunc (fc_init (adapt_handlers_for_snapshot default_handlers)) =
     [SetupNetwork, StartVmm, CreateLogFiles, BootstrapLogging, AddVsocks, LoadSnapshot]"
    by (simp add: adapt_handlers_for_snapshot_eq snapshot_removed_names_def default_handlers_def hl_append_def
        handler_ctor_defs handler_name_defs)
qed (auto simp: adapt_handlers_for_snapshot_eq snapshot_removed_names_def handler_name_defs
    load_snapshot_handler_def load_snapshot_config_validation_handler_def handler_new_def intro!: filter_cong)

end
