(* ===== verification/Sdk_Config.thy ===== *)
theory Sdk_Config
  imports Sdk_Network Devices Handler_List
begin

text \<open>
  \<open>src/config.rs\<close> (with the data of \<open>src/jailer.rs\<close> and \<open>src/vsock/mod.rs\<close> it contains): the
  configuration of a machine and its validation. A \<open>FifoLogWriter\<close> is a shared handle. A chroot
  strategy (\<open>dyn HandlersAdapter\<close>) is the operation \<open>adapt_handlers\<close> on the handlers.
\<close>

section \<open>Data\<close>

definition DEFAULT_NET_NS_DIR :: string where
  "DEFAULT_NET_NS_DIR = ''/var/run/netns''"
definition FIRECRACKER_INIT_TIMEOUT_ENV :: string where
  "FIRECRACKER_INIT_TIMEOUT_ENV = ''FIRECRACKER_GO_SDK_INIT_TIMEOUT_SECONDS''"
definition DEFAULT_FIRECRACKER_INIT_TIMEOUT_SECONDS :: int where
  "DEFAULT_FIRECRACKER_INIT_TIMEOUT_SECONDS = 3"
definition DEFAULT_FORWARD_SIGNALS :: "int list" where
  "DEFAULT_FORWARD_SIGNALS = [2, 3, 15, 1, 6]"

record seccomp_config =
  sec_enabled :: bool
  sec_filter :: "string option"

datatype mmds_version = MMDSv1 | MMDSv2

record vsock_device =
  vd_id :: string
  vd_path :: string
  vd_cid :: "32 word"

type_synonym ('j, 'x) sdk_handlers = "('j, 'x) handler_fn handlers"

record ('j, 'x) jailer_config =
  jc_gid :: "int option"
  jc_uid :: "int option"
  jc_id :: string
  jc_numa_node :: "int option"
  jc_exec_file :: string
  jc_jailer_binary :: "string option"
  jc_chroot_base_dir :: "string option"
  jc_daemonize :: bool
  jc_chroot_strategy :: "(('j, 'x) sdk_handlers, error, unit) op option"
  jc_cgroup_version :: "string option"
  jc_cgroup_args :: "string list"
  jc_parent_cgroup :: "string option"
  jc_stdin :: command_stdio
  jc_stdout :: command_stdio
  jc_stderr :: command_stdio

record ('j, 'x) config =
  socket_path :: string
  log_path :: "string option"
  log_fifo :: "string option"
  log_level :: "string option"
  metrics_path :: "string option"
  metrics_fifo :: "string option"
  kernel_image_path :: string
  initrd_path :: "string option"
  kernel_args :: string
  drives :: "drive list"
  cfg_network_interfaces :: network_interfaces
  fifo_log_writer :: "nat option"
  vsock_devices :: "vsock_device list"
  machine_cfg :: machine_configuration
  disable_validation :: bool
  jailer_cfg :: "('j, 'x) jailer_config option"
  vmid :: string
  net_ns :: "string option"
  forward_signals :: "int list option"
  seccomp :: seccomp_config
  mmds_address :: "ipv4_addr option"
  cfg_mmds_version :: mmds_version
  snapshot :: snapshot_config

definition config_default :: "('j, 'x) config" where
  "config_default = \<lparr>socket_path = [], log_path = None, log_fifo = None, log_level = None,
     metrics_path = None, metrics_fifo = None, kernel_image_path = [], initrd_path = None,
     kernel_args = [], drives = [], cfg_network_interfaces = [], fifo_log_writer = None,
     vsock_devices = [], machine_cfg = machine_configuration_default, disable_validation = False,
     jailer_cfg = None, vmid = [], net_ns = None, forward_signals = None,
     seccomp = \<lparr>sec_enabled = False, sec_filter = None\<rparr>, mmds_address = None,
     cfg_mmds_version = MMDSv1, snapshot = snapshot_config_default\<rparr>"

section \<open>Operations\<close>

definition has_snapshot :: "('j, 'x) config \<Rightarrow> bool" where
  "has_snapshot c \<longleftrightarrow> get_mem_backend_path (snapshot c) \<noteq> None \<or> sn_snapshot_path (snapshot c) \<noteq> None"

definition validate_existing_path :: "'os os_env \<Rightarrow> string \<Rightarrow> string \<Rightarrow> ('os, error, unit) op" where
  "validate_existing_path E kind path =
     op_map_err (\<lambda>e. InvalidConfig (''failed to stat '' @ kind @ '', '' @ debug_str path @ '': '' @ io_text e))
       (fs_metadata E path)"

text \<open>The rejection of a socket path that exists.\<close>

definition validate_socket_absent :: "'os os_env \<Rightarrow> string \<Rightarrow> ('os, error, unit) op" where
  "validate_socket_absent E path os =
     (case fs_metadata E path os of
        (Inr _, os') \<Rightarrow> (Inl (InvalidConfig (''socket '' @ path @ '' already exists'')), os')
      | (Inl _, os') \<Rightarrow> (Inr (), os'))"

text \<open>The loop over the drives that breaks at the first root device.\<close>

fun validate_root_drive :: "'os os_env \<Rightarrow> drive list \<Rightarrow> ('os, error, unit) op" where
  "validate_root_drive E [] = op_ok ()"
| "validate_root_drive E (d # ds) =
     (if dr_is_root_device d = Some True then
        validate_existing_path E ''host drive path'' (unwrap_or [] (dr_path_on_host d))
      else validate_root_drive E ds)"

definition config_validate :: "'os os_env \<Rightarrow> ('j, 'x) config \<Rightarrow> ('os, error, unit) op" where
  "config_validate E c =
     (if disable_validation c then op_ok ()
      else
        op_then (validate_existing_path E ''kernel image path'' (kernel_image_path c)) (
        op_then (case initrd_path c of
            Some p \<Rightarrow> validate_existing_path E ''initrd image path'' p | None \<Rightarrow> op_ok ()) (
        op_then (validate_root_drive E (drives c)) (
        op_then (validate_socket_absent E (socket_path c)) (
        if unwrap_or 0 (mc_vcpu_count (machine_cfg c)) < 1 then
          op_err (InvalidConfig ''machine needs a nonzero VcpuCount'')
        else if unwrap_or 0 (mc_mem_size_mib (machine_cfg c)) < 1 then
          op_err (InvalidConfig ''machine needs a nonzero amount of memory'')
        else op_ok ())))))"

definition validate_load_snapshot :: "'os os_env \<Rightarrow> ('j, 'x) config \<Rightarrow> ('os, error, unit) op" where
  "validate_load_snapshot E c =
     (if disable_validation c then op_ok ()
      else
        op_then (op_for (\<lambda>d. validate_existing_path E ''drive path'' (unwrap_or [] (dr_path_on_host d)))
          (drives c)) (
        op_then (validate_socket_absent E (socket_path c)) (
        op_then (validate_existing_path E ''snapshot memory path''
          (unwrap_or [] (get_mem_backend_path (snapshot c)))) (
        op_then (validate_existing_path E ''snapshot path''
          (unwrap_or [] (sn_snapshot_path (snapshot c)))) (op_ok ())))))"

definition validate_network :: "('j, 'x) config \<Rightarrow> unit result" where
  "validate_network c = interfaces_validate (cfg_network_interfaces c) (parse_kernel_args (kernel_args c))"

definition root_drive_present :: "('j, 'x) config \<Rightarrow> bool" where
  "root_drive_present c \<longleftrightarrow>
     initrd_path c \<noteq> None \<or> list_ex (\<lambda>d. dr_is_root_device d = Some True) (drives c)"

definition config_sample :: "string \<Rightarrow> ('j, 'x) config" where
  "config_sample root_drive_path =
     config_default\<lparr>drives := drives_build (drives_builder_new root_drive_path),
       machine_cfg := machine_configuration_new 1 128\<rparr>"

definition normalized_forward_signals :: "('j, 'x) config \<Rightarrow> int list" where
  "normalized_forward_signals c = unwrap_or DEFAULT_FORWARD_SIGNALS (forward_signals c)"

section \<open>Properties\<close>

text \<open>Operations that leave the state alone and succeed exactly when a condition holds.\<close>

definition checks :: "'s \<Rightarrow> ('s, 'e, 'a) op \<Rightarrow> bool \<Rightarrow> bool" where
  "checks s m b \<longleftrightarrow> snd (m s) = s \<and> (is_ok (fst (m s)) \<longleftrightarrow> b)"

lemma checks_intros:
  "checks s (op_ok x) True"
  "checks s (op_err e) False"
  "checks s m b \<Longrightarrow> checks s n c \<Longrightarrow> checks s (op_then m n) (b \<and> c)"
  "(b \<Longrightarrow> checks s m c) \<Longrightarrow> (\<not> b \<Longrightarrow> checks s n d) \<Longrightarrow> checks s (if b then m else n) (if b then c else d)"
  "checks s m b \<Longrightarrow> checks s (op_map_err f m) b"
  by (auto simp: checks_def op_simps op_bind_def op_map_err_def is_ok_def map_err_def
      split: sum.splits prod.splits)

lemma checks_for:
  "(\<And>x. checks s (f x) (p x)) \<Longrightarrow> checks s (op_for f xs) (list_all p xs)"
  by (induction xs) (auto intro!: checks_intros)

text \<open>
  A file system that answers \<open>metadata\<close> by a fixed predicate and does not change: what validation
  checks is a statement about the set of existing paths.
\<close>

definition static_fs :: "'os os_env \<Rightarrow> (string \<Rightarrow> bool) \<Rightarrow> 'os \<Rightarrow> bool" where
  "static_fs E present os \<longleftrightarrow> (\<forall>p. checks os (fs_metadata E p) (present p))"

lemma checks_path: "static_fs E present os \<Longrightarrow> checks os (validate_existing_path E kind p) (present p)"
  by (simp add: static_fs_def validate_existing_path_def checks_intros)

lemma checks_socket: "static_fs E present os \<Longrightarrow> checks os (validate_socket_absent E p) (\<not> present p)"
  unfolding static_fs_def checks_def validate_socket_absent_def
  by (drule spec [of _ p]) (auto simp: is_ok_def split: prod.splits sum.splits)

lemma checks_root_drive:
  assumes "static_fs E present os"
  shows "checks os (validate_root_drive E ds)
    (case find (\<lambda>d. dr_is_root_device d = Some True) ds of
       None \<Rightarrow> True | Some d \<Rightarrow> present (unwrap_or [] (dr_path_on_host d)))"
  by (induction ds) (auto intro: checks_intros checks_path [OF assms])

lemma checks_cong: "checks s m b \<Longrightarrow> (b \<longleftrightarrow> c) \<Longrightarrow> checks s m c"
  by simp

text \<open>
  C29: on a file system that does not change, a configuration is accepted exactly when validation is
  disabled, or the kernel image, the initrd (if any) and the first root drive (if any) exist, the
  API socket does not, and the machine has at least one vcpu and some memory.
\<close>

theorem config_validate_spec:
  assumes "static_fs E present os"
  shows "is_ok (fst (config_validate E c os)) \<longleftrightarrow>
    disable_validation c \<or>
    present (kernel_image_path c) \<and> (case initrd_path c of None \<Rightarrow> True | Some p \<Rightarrow> present p) \<and>
    (case find (\<lambda>d. dr_is_root_device d = Some True) (drives c) of
       None \<Rightarrow> True | Some d \<Rightarrow> present (unwrap_or [] (dr_path_on_host d))) \<and>
    \<not> present (socket_path c) \<and>
    unwrap_or 0 (mc_vcpu_count (machine_cfg c)) \<ge> 1 \<and> unwrap_or 0 (mc_mem_size_mib (machine_cfg c)) \<ge> 1"
    (is "_ \<longleftrightarrow> ?rhs")
proof -
  have initrd: "checks os (case initrd_path c of
      Some p \<Rightarrow> validate_existing_path E ''initrd image path'' p | None \<Rightarrow> op_ok ())
    (case initrd_path c of None \<Rightarrow> True | Some p \<Rightarrow> present p)"
    by (cases "initrd_path c") (auto intro: checks_intros checks_path [OF assms])
  have "checks os (config_validate E c) ?rhs"
    unfolding config_validate_def
    by (rule checks_cong, (rule checks_intros checks_path [OF assms] checks_socket [OF assms]
        checks_root_drive [OF assms] initrd)+) auto
  then show ?thesis by (auto simp: checks_def)
qed

text \<open>
  On a file system that does not change, a configuration for loading a snapshot is accepted
  exactly when validation is disabled, or every drive, the memory file and the snapshot file exist
  and the API socket does not.
\<close>

theorem validate_load_snapshot_spec:
  assumes "static_fs E present os"
  shows "is_ok (fst (validate_load_snapshot E c os)) \<longleftrightarrow>
    disable_validation c \<or>
    list_all (\<lambda>d. present (unwrap_or [] (dr_path_on_host d))) (drives c) \<and> \<not> present (socket_path c) \<and>
    present (unwrap_or [] (get_mem_backend_path (snapshot c))) \<and>
    present (unwrap_or [] (sn_snapshot_path (snapshot c)))"
    (is "_ \<longleftrightarrow> ?rhs")
proof -
  have "checks os (validate_load_snapshot E c) ?rhs"
    unfolding validate_load_snapshot_def
    by (rule checks_cong, (rule checks_intros checks_path [OF assms] checks_socket [OF assms]
        checks_for)+) auto
  then show ?thesis by (auto simp: checks_def)
qed

end
