(* ===== verification/Sdk_Jailer.thy ===== *)
theory Sdk_Jailer
  imports Sdk_Config
begin

text \<open>
  \<open>src/jailer.rs\<close>: the jailer's command line, the jail's root directory, the adaptation of a machine
  to it (\<open>jail\<close>), and the handler that links the machine's files into the jail.
\<close>

section \<open>Command line\<close>

definition DEFAULT_JAILER_PATH :: string where
  "DEFAULT_JAILER_PATH = ''/srv/jailer''"
definition DEFAULT_JAILER_BIN :: string where
  "DEFAULT_JAILER_BIN = ''jailer''"
definition ROOTFS_FOLDER_NAME :: string where
  "ROOTFS_FOLDER_NAME = ''root''"
definition DEFAULT_SOCKET_PATH :: string where
  "DEFAULT_SOCKET_PATH = ''/run/firecracker.socket''"

record jailer_command_builder =
  jb_bin :: "string option"
  jb_id :: string
  jb_uid :: int
  jb_gid :: int
  jb_exec_file :: string
  jb_node :: int
  jb_chroot_base_dir :: "string option"
  jb_netns :: "string option"
  jb_daemonize :: bool
  jb_firecracker_args :: "string list"
  jb_cgroup_version :: "string option"
  jb_cgroup_args :: "string list"
  jb_parent_cgroup :: "string option"
  jb_stdin :: command_stdio
  jb_stdout :: command_stdio
  jb_stderr :: command_stdio

definition jb_default :: jailer_command_builder where
  "jb_default = \<lparr>jb_bin = None, jb_id = [], jb_uid = 0, jb_gid = 0, jb_exec_file = [], jb_node = 0,
     jb_chroot_base_dir = None, jb_netns = None, jb_daemonize = False, jb_firecracker_args = [],
     jb_cgroup_version = None, jb_cgroup_args = [], jb_parent_cgroup = None,
     jb_stdin = StdioInherit, jb_stdout = StdioInherit, jb_stderr = StdioInherit\<rparr>"

definition jb_with_bin :: "string \<Rightarrow> jailer_command_builder \<Rightarrow> jailer_command_builder" where
  "jb_with_bin v b = b\<lparr>jb_bin := Some v\<rparr>"
definition jb_with_id :: "string \<Rightarrow> jailer_command_builder \<Rightarrow> jailer_command_builder" where
  "jb_with_id v b = b\<lparr>jb_id := v\<rparr>"
definition jb_with_uid :: "int \<Rightarrow> jailer_command_builder \<Rightarrow> jailer_command_builder" where
  "jb_with_uid v b = b\<lparr>jb_uid := v\<rparr>"
definition jb_with_gid :: "int \<Rightarrow> jailer_command_builder \<Rightarrow> jailer_command_builder" where
  "jb_with_gid v b = b\<lparr>jb_gid := v\<rparr>"
definition jb_with_exec_file :: "string \<Rightarrow> jailer_command_builder \<Rightarrow> jailer_command_builder" where
  "jb_with_exec_file v b = b\<lparr>jb_exec_file := v\<rparr>"
definition jb_with_numa_node :: "int \<Rightarrow> jailer_command_builder \<Rightarrow> jailer_command_builder" where
  "jb_with_numa_node v b = b\<lparr>jb_node := v\<rparr>"
definition jb_with_cgroup_args :: "string list \<Rightarrow> jailer_command_builder \<Rightarrow> jailer_command_builder" where
  "jb_with_cgroup_args v b = b\<lparr>jb_cgroup_args := v\<rparr>"
definition jb_with_parent_cgroup :: "string \<Rightarrow> jailer_command_builder \<Rightarrow> jailer_command_builder" where
  "jb_with_parent_cgroup v b = b\<lparr>jb_parent_cgroup := Some v\<rparr>"
definition jb_with_chroot_base_dir :: "string \<Rightarrow> jailer_command_builder \<Rightarrow> jailer_command_builder" where
  "jb_with_chroot_base_dir v b = b\<lparr>jb_chroot_base_dir := Some v\<rparr>"
definition jb_with_netns :: "string \<Rightarrow> jailer_command_builder \<Rightarrow> jailer_command_builder" where
  "jb_with_netns v b = b\<lparr>jb_netns := Some v\<rparr>"
definition jb_with_daemonize :: "bool \<Rightarrow> jailer_command_builder \<Rightarrow> jailer_command_builder" where
  "jb_with_daemonize v b = b\<lparr>jb_daemonize := v\<rparr>"
definition jb_with_firecracker_args :: "string list \<Rightarrow> jailer_command_builder \<Rightarrow> jailer_command_builder" where
  "jb_with_firecracker_args v b = b\<lparr>jb_firecracker_args := v\<rparr>"
definition jb_with_cgroup_version :: "string \<Rightarrow> jailer_command_builder \<Rightarrow> jailer_command_builder" where
  "jb_with_cgroup_version v b = b\<lparr>jb_cgroup_version := Some v\<rparr>"
definition jb_with_stdin :: "command_stdio \<Rightarrow> jailer_command_builder \<Rightarrow> jailer_command_builder" where
  "jb_with_stdin v b = b\<lparr>jb_stdin := v\<rparr>"
definition jb_with_stdout :: "command_stdio \<Rightarrow> jailer_command_builder \<Rightarrow> jailer_command_builder" where
  "jb_with_stdout v b = b\<lparr>jb_stdout := v\<rparr>"
definition jb_with_stderr :: "command_stdio \<Rightarrow> jailer_command_builder \<Rightarrow> jailer_command_builder" where
  "jb_with_stderr v b = b\<lparr>jb_stderr := v\<rparr>"

definition jb_new :: jailer_command_builder where
  "jb_new = jb_with_bin DEFAULT_JAILER_BIN jb_default"

lemmas jb_defs [model_defs] =
  jb_default_def jb_with_bin_def jb_with_id_def jb_with_uid_def jb_with_gid_def jb_with_exec_file_def
  jb_with_numa_node_def jb_with_cgroup_args_def jb_with_parent_cgroup_def jb_with_chroot_base_dir_def
  jb_with_netns_def jb_with_daemonize_def jb_with_firecracker_args_def jb_with_cgroup_version_def
  jb_with_stdin_def jb_with_stdout_def jb_with_stderr_def jb_new_def

definition get_numa_cpuset :: "'os os_env \<Rightarrow> int \<Rightarrow> 'os \<Rightarrow> string \<times> 'os" where
  "get_numa_cpuset E node os =
     (case fs_read_to_string E (''/sys/devices/system/node/node'' @ int_str node @ ''/cpulist'') os of
        (r, os') \<Rightarrow> (unwrap_or [] (map_option (trim_end_matches (CHR 0x0A)) (ok_of r)), os'))"

text \<open>The argument list for a given cpu set of the NUMA node.\<close>

definition jb_args_for :: "string \<Rightarrow> jailer_command_builder \<Rightarrow> string list" where
  "jb_args_for cpuset b =
     [''--id'', jb_id b, ''--uid'', int_str (jb_uid b), ''--gid'', int_str (jb_gid b),
      ''--exec-file'', jb_exec_file b] @
     (if cpuset \<noteq> [] then
        [''--cgroup'', ''cpuset.mems='' @ int_str (jb_node b), ''--cgroup'', ''cpuset.cpus='' @ cpuset]
      else []) @
     concat (map (\<lambda>a. [''--cgroup'', a]) (jb_cgroup_args b)) @
     (case jb_cgroup_version b of Some v \<Rightarrow> [''--cgroup-version'', v] | None \<Rightarrow> []) @
     (case jb_parent_cgroup b of Some v \<Rightarrow> [''--parent-cgroup'', v] | None \<Rightarrow> []) @
     (case jb_chroot_base_dir b of Some v \<Rightarrow> [''--chroot-base-dir'', v] | None \<Rightarrow> []) @
     (case jb_netns b of Some v \<Rightarrow> [''--netns'', v] | None \<Rightarrow> []) @
     (if jb_daemonize b then [''--daemonize''] else []) @
     (if jb_firecracker_args b \<noteq> [] then [''--''] @ jb_firecracker_args b else [])"

definition jb_args :: "'os os_env \<Rightarrow> jailer_command_builder \<Rightarrow> 'os \<Rightarrow> string list \<times> 'os" where
  "jb_args E b os = (case get_numa_cpuset E (jb_node b) os of (cpuset, os') \<Rightarrow> (jb_args_for cpuset b, os'))"

definition jb_get_bin :: "jailer_command_builder \<Rightarrow> string" where
  "jb_get_bin b = unwrap_or DEFAULT_JAILER_BIN (jb_bin b)"

definition jb_build :: "'os os_env \<Rightarrow> jailer_command_builder \<Rightarrow> 'os \<Rightarrow> vm_command \<times> 'os" where
  "jb_build E b os =
     (case jb_args E b os of (args, os') \<Rightarrow>
        (vb_build (vb_with_stderr (jb_stderr b) (vb_with_stdout (jb_stdout b)
          (vb_with_stdin (jb_stdin b) (vb_with_args args (vb_with_bin (jb_get_bin b) vb_default))))), os'))"

section \<open>Paths of the jail\<close>

definition join_chroot_path :: "string \<Rightarrow> string \<Rightarrow> string" where
  "join_chroot_path rootfs p = path_join rootfs (trim_start_matches (CHR ''/'') p)"

definition jailer_rootfs :: "('j, 'x) jailer_config \<Rightarrow> string" where
  "jailer_rootfs j =
     path_join
       (path_join
         (path_join (unwrap_or DEFAULT_JAILER_PATH (jc_chroot_base_dir j))
           (unwrap_or ''firecracker'' (file_name (jc_exec_file j))))
         (jc_id j))
       ROOTFS_FOLDER_NAME"

definition path_cstring :: "string \<Rightarrow> string result" where
  "path_cstring path =
     (if CHR 0x00 \<in> set path then Inl (InvalidConfig (''path contains interior NUL byte: '' @ debug_str path))
      else Inr path)"

definition chown_path :: "'os os_env \<Rightarrow> string \<Rightarrow> 32 word \<Rightarrow> 32 word \<Rightarrow> ('os, error, unit) op" where
  "chown_path E path uid gid =
     op_bind (\<lambda>os. (path_cstring path, os)) (\<lambda>path. op_io (fs_chown E path uid gid))"

section \<open>Jailing a machine\<close>

text \<open>
  \<open>jail\<close> changes the configuration, the machine's command and its handlers; it reads the NUMA node's
  cpu list.
\<close>

record ('j, 'x, 'os) jail_state =
  js_cfg :: "('j, 'x) config"
  js_command :: "vm_command option"
  js_handlers :: "('j, 'x) sdk_handlers"
  js_os :: 'os

definition jail_builder ::
  "('j, 'x) jailer_config \<Rightarrow> string list \<Rightarrow> string option \<Rightarrow> jailer_command_builder" where
  "jail_builder j firecracker_args netns =
     (let b0 = jb_with_stderr (jc_stderr j) (jb_with_stdout (jc_stdout j) (jb_with_stdin (jc_stdin j)
            (jb_with_daemonize (jc_daemonize j) (jb_with_firecracker_args firecracker_args
            (jb_with_cgroup_args (jc_cgroup_args j) (jb_with_exec_file (jc_exec_file j)
            (jb_with_numa_node (unwrap_or 0 (jc_numa_node j)) (jb_with_gid (unwrap_or 0 (jc_gid j))
            (jb_with_uid (unwrap_or 0 (jc_uid j)) (jb_with_id (jc_id j) jb_new))))))))));
          b1 = (case jc_jailer_binary j of Some v \<Rightarrow> jb_with_bin v b0 | None \<Rightarrow> b0);
          b2 = (case jc_chroot_base_dir j of Some v \<Rightarrow> jb_with_chroot_base_dir v b1 | None \<Rightarrow> b1);
          b3 = (case jc_cgroup_version j of Some v \<Rightarrow> jb_with_cgroup_version v b2 | None \<Rightarrow> b2);
          b4 = (case jc_parent_cgroup j of Some v \<Rightarrow> jb_with_parent_cgroup v b3 | None \<Rightarrow> b3)
      in case netns of Some v \<Rightarrow> jb_with_netns v b4 | None \<Rightarrow> b4)"

definition jail :: "'os os_env \<Rightarrow> (('j, 'x, 'os) jail_state, error, unit) op" where
  "jail E s =
     (case jailer_cfg (js_cfg s) of
        None \<Rightarrow> (Inl (InvalidConfig ''jailer config was not set for use''), s)
      | Some j \<Rightarrow>
          (let cfg = js_cfg s;
               machine_socket_path = (if socket_path cfg = [] then DEFAULT_SOCKET_PATH else socket_path cfg);
               cfg' = cfg\<lparr>socket_path := join_chroot_path (jailer_rootfs j) machine_socket_path\<rparr>;
               firecracker_args = seccomp_args (sec_enabled (seccomp cfg)) (sec_filter (seccomp cfg)) @
                 [''--api-sock'', machine_socket_path];
               (command, os') = jb_build E (jail_builder j firecracker_args (net_ns cfg)) (js_os s);
               s' = s\<lparr>js_cfg := cfg', js_command := Some command, js_os := os'\<rparr>
           in case jc_chroot_strategy j of
                None \<Rightarrow> (Inr (), s')
              | Some adapt \<Rightarrow>
                  (case adapt (js_handlers s') of (r, hs) \<Rightarrow> (r, s'\<lparr>js_handlers := hs\<rparr>))))"

section \<open>Linking files into the jail\<close>

definition link_files_handler :: "string \<Rightarrow> ('j, 'x) handler_fn handler" where
  "link_files_handler kernel_image_file_name =
     handler_new LINK_FILES_TO_ROOTFS_HANDLER_NAME (LinkFiles kernel_image_file_name)"

text \<open>The loop over the drives; drives already linked keep their new path when a later one fails.\<close>

fun link_drives :: "'os os_env \<Rightarrow> string \<Rightarrow> drive list \<Rightarrow> 'os \<Rightarrow> (error + unit) \<times> drive list \<times> 'os" where
  "link_drives E rootfs [] os = (Inr (), [], os)"
| "link_drives E rootfs (d # ds) os =
     (case opt_filter (\<lambda>p. p \<noteq> []) (dr_path_on_host d) of
        None \<Rightarrow> (case link_drives E rootfs ds os of (r, ds', os') \<Rightarrow> (r, d # ds', os'))
      | Some host_path \<Rightarrow>
          (let drive_file_name = unwrap_or ''drive'' (file_name host_path) in
           case fs_hard_link E host_path (path_join rootfs drive_file_name) os of
             (Inl e, os1) \<Rightarrow> (Inl (Io e), d # ds, os1)
           | (Inr _, os1) \<Rightarrow>
               (case link_drives E rootfs ds os1 of
                  (r, ds', os') \<Rightarrow> (r, d\<lparr>dr_path_on_host := Some drive_file_name\<rparr> # ds', os'))))"

definition link_fifo ::
  "'os os_env \<Rightarrow> ('j, 'x) jailer_config \<Rightarrow> string option \<Rightarrow> 'os \<Rightarrow> (error + unit) \<times> string option \<times> 'os" where
  "link_fifo E j fifo_path os =
     (case opt_filter (\<lambda>p. p \<noteq> []) fifo_path of
        None \<Rightarrow> (Inr (), fifo_path, os)
      | Some host_path \<Rightarrow>
          (let name = unwrap_or ''fifo'' (file_name host_path);
               destination = path_join (jailer_rootfs j) name
           in case fs_hard_link E host_path destination os of
                (Inl e, os1) \<Rightarrow> (Inl (Io e), fifo_path, os1)
              | (Inr _, os1) \<Rightarrow>
                  (case chown_path E destination (word_of_int (unwrap_or 0 (jc_uid j)))
                      (word_of_int (unwrap_or 0 (jc_gid j))) os1 of
                     (Inl e, os2) \<Rightarrow> (Inl e, fifo_path, os2)
                   | (Inr _, os2) \<Rightarrow> (Inr (), Some name, os2))))"

definition link_files :: "'os os_env \<Rightarrow> string \<Rightarrow> (('j, 'x) config \<times> 'os, error, unit) op" where
  "link_files E kernel_file = (\<lambda>(cfg, os).
     case jailer_cfg cfg of
       None \<Rightarrow> (Inl (InvalidConfig ''jailer config was not set for use''), (cfg, os))
     | Some j \<Rightarrow>
       (let rootfs = jailer_rootfs j in
        case fs_hard_link E (kernel_image_path cfg) (path_join rootfs kernel_file) os of
          (Inl e, os1) \<Rightarrow> (Inl (Io e), (cfg, os1))
        | (Inr _, os1) \<Rightarrow>
          (case (case opt_filter (\<lambda>p. p \<noteq> []) (initrd_path cfg) of
                   None \<Rightarrow> (Inr None, os1)
                 | Some p \<Rightarrow>
                     (let name = unwrap_or ''initrd'' (file_name p) in
                      case fs_hard_link E p (path_join rootfs name) os1 of
                        (Inl e, os2) \<Rightarrow> (Inl (Io e), os2)
                      | (Inr _, os2) \<Rightarrow> (Inr (Some name), os2))) of
             (Inl e, os2) \<Rightarrow> (Inl e, (cfg, os2))
           | (Inr initrd_file_name, os2) \<Rightarrow>
             (case link_drives E rootfs (drives cfg) os2 of
                (Inl e, ds, os3) \<Rightarrow> (Inl e, (cfg\<lparr>drives := ds\<rparr>, os3))
              | (Inr _, ds, os3) \<Rightarrow>
                (let cfg1 = cfg\<lparr>drives := ds, kernel_image_path := kernel_file\<rparr>;
                     cfg2 = (case initrd_file_name of
                        Some n \<Rightarrow> cfg1\<lparr>initrd_path := Some n\<rparr> | None \<Rightarrow> cfg1)
                 in case link_fifo E j (log_fifo cfg2) os3 of
                      (Inl e, _, os4) \<Rightarrow> (Inl e, (cfg2, os4))
                    | (Inr _, lf, os4) \<Rightarrow>
                      (let cfg3 = cfg2\<lparr>log_fifo := lf\<rparr> in
                       case link_fifo E j (metrics_fifo cfg3) os4 of
                         (Inl e, _, os5) \<Rightarrow> (Inl e, (cfg3, os5))
                       | (Inr _, mf, os5) \<Rightarrow> (Inr (), (cfg3\<lparr>metrics_fifo := mf\<rparr>, os5))))))))"

section \<open>The naive chroot strategy\<close>

record naive_chroot_strategy =
  ncs_kernel_image_path :: string

definition naive_chroot_strategy_new :: "string \<Rightarrow> naive_chroot_strategy" where
  "naive_chroot_strategy_new kernel_image = \<lparr>ncs_kernel_image_path = kernel_image\<rparr>"

definition naive_adapt_handlers ::
  "naive_chroot_strategy \<Rightarrow> (('j, 'x) sdk_handlers, error, unit) op" where
  "naive_adapt_handlers st hs =
     (if \<not> hl_has CREATE_LOG_FILES_HANDLER_NAME (fc_init hs) then
        (Inl (InvalidConfig ''required handler is missing from FcInit's list''), hs)
      else
        (Inr (), hs\<lparr>fc_init := hl_append_after CREATE_LOG_FILES_HANDLER_NAME
           (link_files_handler (unwrap_or ''vmlinux'' (file_name (ncs_kernel_image_path st))))
           (fc_init hs)\<rparr>))"

section \<open>Properties\<close>

lemma jb_args_for_tail:
  "jb_firecracker_args b \<noteq> [] \<Longrightarrow> \<exists>front. jb_args_for cpuset b = front @ ''--'' # jb_firecracker_args b"
  by (simp add: jb_args_for_def)

lemma jail_builder_args [simp]:
  "jb_firecracker_args (jail_builder j fa ns) = fa"
  "jb_id (jail_builder j fa ns) = jc_id j"
  "jb_exec_file (jail_builder j fa ns) = jc_exec_file j"
  by (simp_all add: jail_builder_def jb_defs Let_def split: option.splits)

lemma jb_build_args: "jb_build E b os = (c, os') \<Longrightarrow> \<exists>cpuset. cmd_args c = jb_args_for cpuset b"
  by (auto simp: jb_build_def jb_args_def vb_defs split: prod.splits)

lemma jailer_rootfs_end: "jailer_rootfs j \<noteq> []" "last (jailer_rootfs j) \<noteq> CHR ''/''"
  by (auto simp: jailer_rootfs_def path_join_def ROOTFS_FOLDER_NAME_def)

lemmas join_rootfs = path_join_relative [OF _ jailer_rootfs_end]

lemma join_chroot_path_eq:
  "join_chroot_path (jailer_rootfs j) p = jailer_rootfs j @ ''/'' @ trim_start_matches (CHR ''/'') p"
  unfolding join_chroot_path_def by (rule join_rootfs) (rule trim_start_matches_hd)

lemma jail_result:
  assumes "jailer_cfg (js_cfg s) = Some j"
  defines "sock \<equiv> (if socket_path (js_cfg s) = [] then DEFAULT_SOCKET_PATH else socket_path (js_cfg s))"
  shows "js_cfg (snd (jail E s)) = (js_cfg s)\<lparr>socket_path := join_chroot_path (jailer_rootfs j) sock\<rparr>"
    and "\<exists>c front. js_command (snd (jail E s)) = Some c \<and>
      cmd_args c = front @ ''--'' # seccomp_args (sec_enabled (seccomp (js_cfg s))) (sec_filter (seccomp (js_cfg s))) @
        [''--api-sock'', sock]"
    and "jc_chroot_strategy j = None \<Longrightarrow> fst (jail E s) = Inr () \<and> js_handlers (snd (jail E s)) = js_handlers s"
    and "jc_chroot_strategy j = Some adapt \<Longrightarrow>
      fst (jail E s) = fst (adapt (js_handlers s)) \<and> js_handlers (snd (jail E s)) = snd (adapt (js_handlers s))"
proof -
  let ?fa = "seccomp_args (sec_enabled (seccomp (js_cfg s))) (sec_filter (seccomp (js_cfg s))) @ [''--api-sock'', sock]"
  let ?b = "jail_builder j ?fa (net_ns (js_cfg s))"
  obtain c os' where build: "jb_build E ?b (js_os s) = (c, os')" by fastforce
  obtain cpuset where cp: "cmd_args c = jb_args_for cpuset ?b" using jb_build_args [OF build] by blast
  have "jb_firecracker_args ?b \<noteq> []" by simp
  from jb_args_for_tail [OF this, of cpuset] obtain front where
    "cmd_args c = front @ ''--'' # ?fa" unfolding cp jail_builder_args by blast
  then show "\<exists>c front. js_command (snd (jail E s)) = Some c \<and> cmd_args c = front @ ''--'' # ?fa"
    using assms(1) build by (auto simp: jail_def Let_def sock_def split: option.splits prod.splits)
  show "js_cfg (snd (jail E s)) = (js_cfg s)\<lparr>socket_path := join_chroot_path (jailer_rootfs j) sock\<rparr>"
    "jc_chroot_strategy j = None \<Longrightarrow> fst (jail E s) = Inr () \<and> js_handlers (snd (jail E s)) = js_handlers s"
    "jc_chroot_strategy j = Some adapt \<Longrightarrow>
      fst (jail E s) = fst (adapt (js_handlers s)) \<and> js_handlers (snd (jail E s)) = snd (adapt (js_handlers s))"
    using assms(1) by (auto simp: jail_def Let_def sock_def split: option.splits prod.splits)
qed

text \<open>
  C38: jailing a machine moves the host's API socket below the jail's root directory: its path is the
  root directory, a slash, and the configured path without its leading slashes (the default one when none
  is configured), so that, by its components, a path without \<open>..\<close> leads to the same place below the root
  as it does in the jail. The jailed VMM gets the configured path, behind the jailer's own arguments.
\<close>

theorem jail_socket_path:
  assumes "jailer_cfg (js_cfg s) = Some j"
    and "path = (if socket_path (js_cfg s) = [] then ''/run/firecracker.socket'' else socket_path (js_cfg s))"
    and "host = socket_path (js_cfg (snd (jail E s)))"
  shows "host = jailer_rootfs j @ ''/'' @ trim_start_matches (CHR ''/'') path \<and>
    (''..'' \<notin> set (split_slash path) \<longrightarrow> resolved host = resolved (jailer_rootfs j) @ resolved path) \<and>
    (\<exists>c front. js_command (snd (jail E s)) = Some c \<and>
      cmd_args c = front @ ''--'' # seccomp_args (sec_enabled (seccomp (js_cfg s))) (sec_filter (seccomp (js_cfg s))) @
        [''--api-sock'', path])"
proof -
  have path: "(if socket_path (js_cfg s) = [] then DEFAULT_SOCKET_PATH else socket_path (js_cfg s)) = path"
    by (simp add: assms(2) DEFAULT_SOCKET_PATH_def)
  from jail_result(1,2) [OF assms(1), of E, unfolded path] resolved_below [of path "jailer_rootfs j"]
  show ?thesis by (simp add: assms(3) join_chroot_path_eq)
qed

lemma plain_file_name: "plain_name d \<Longrightarrow> plain_name (unwrap_or d (file_name p))"
  by (cases "file_name p") (auto dest: file_name_plain)

text \<open>The name a host path has inside the jail; absent and empty paths stay as they are.\<close>

definition linked_path :: "string \<Rightarrow> string option \<Rightarrow> string option" where
  "linked_path dflt p =
     (case opt_filter (\<lambda>p. p \<noteq> []) p of None \<Rightarrow> p | Some h \<Rightarrow> Some (unwrap_or dflt (file_name h)))"

text \<open>
  What is to be linked into the jail, in order: the host's path, the name in the jail, and whether the
  link is given to the jail's user.
\<close>

definition jail_entry :: "string \<Rightarrow> bool \<Rightarrow> string option \<Rightarrow> (string \<times> string \<times> bool) list" where
  "jail_entry dflt own p =
     (case opt_filter (\<lambda>p. p \<noteq> []) p of None \<Rightarrow> [] | Some h \<Rightarrow> [(h, unwrap_or dflt (file_name h), own)])"

definition link_plan :: "string \<Rightarrow> ('j, 'x) config \<Rightarrow> (string \<times> string \<times> bool) list" where
  "link_plan kernel_file cfg =
     [(kernel_image_path cfg, kernel_file, False)] @ jail_entry ''initrd'' False (initrd_path cfg) @
     concat (map (\<lambda>d. jail_entry ''drive'' False (dr_path_on_host d)) (drives cfg)) @
     jail_entry ''fifo'' True (log_fifo cfg) @ jail_entry ''fifo'' True (metrics_fifo cfg)"

definition link_step :: "'os os_env \<Rightarrow> ('j, 'x) jailer_config \<Rightarrow> string \<times> string \<times> bool \<Rightarrow> ('os, error, unit) op" where
  "link_step E j = (\<lambda>(host, name, own).
     op_then (op_io (fs_hard_link E host (jailer_rootfs j @ ''/'' @ name)))
       (if own then chown_path E (jailer_rootfs j @ ''/'' @ name) (word_of_int (unwrap_or 0 (jc_uid j)))
          (word_of_int (unwrap_or 0 (jc_gid j)))
        else op_ok ()))"

lemma join_rootfs_plain: "plain_name n \<Longrightarrow> path_join (jailer_rootfs j) n = jailer_rootfs j @ ''/'' @ n"
  by (rule join_rootfs) (cases n, auto simp: plain_name_def)

lemma plain_defaults: "plain_name ''drive''" "plain_name ''fifo''" "plain_name ''initrd''" "plain_name ''vmlinux''"
  by (simp_all add: plain_name_def)

lemmas join_rootfs_name = join_rootfs_plain [OF plain_file_name [OF plain_defaults(1)]]
  join_rootfs_plain [OF plain_file_name [OF plain_defaults(2)]] join_rootfs_plain [OF plain_file_name [OF plain_defaults(3)]]
  join_rootfs_plain [OF plain_file_name [OF plain_defaults(4)]]

lemma jail_entry_plain: "plain_name dflt \<Longrightarrow> list_all (\<lambda>(_, n, _). plain_name n) (jail_entry dflt own p)"
  by (auto simp: jail_entry_def intro: plain_file_name split: option.splits)

lemma link_drives_plan:
  assumes "link_drives E (jailer_rootfs j) ds os = (r, ds', os')"
  shows "op_for (link_step E j) (concat (map (\<lambda>d. jail_entry ''drive'' False (dr_path_on_host d)) ds)) os = (r, os')"
    and "is_ok r \<Longrightarrow> ds' = map (\<lambda>d. d\<lparr>dr_path_on_host := linked_path ''drive'' (dr_path_on_host d)\<rparr>) ds"
proof -
  have "op_for (link_step E j) (concat (map (\<lambda>d. jail_entry ''drive'' False (dr_path_on_host d)) ds)) os = (r, os') \<and>
    (is_ok r \<longrightarrow> ds' = map (\<lambda>d. d\<lparr>dr_path_on_host := linked_path ''drive'' (dr_path_on_host d)\<rparr>) ds)"
    using assms
  proof (induction ds arbitrary: os ds')
    case (Cons d ds)
    show ?case
    proof (cases "opt_filter (\<lambda>p. p \<noteq> []) (dr_path_on_host d)")
      case None
      then have "jail_entry ''drive'' False (dr_path_on_host d) = []" "linked_path ''drive'' (dr_path_on_host d) = dr_path_on_host d"
        by (simp_all add: jail_entry_def linked_path_def)
      with Cons None show ?thesis by (auto split: prod.splits)
    next
      case (Some h)
      then have "jail_entry ''drive'' False (dr_path_on_host d) = [(h, unwrap_or ''drive'' (file_name h), False)]"
        "linked_path ''drive'' (dr_path_on_host d) = Some (unwrap_or ''drive'' (file_name h))"
        by (simp_all add: jail_entry_def linked_path_def)
      with Cons Some show ?thesis
        by (auto simp: Let_def link_step_def join_rootfs_name op_bind_def op_map_err_def op_ok_def map_err_def
            split: prod.splits sum.splits)
    qed
  qed (auto simp: op_ok_def)
  then show "op_for (link_step E j) (concat (map (\<lambda>d. jail_entry ''drive'' False (dr_path_on_host d)) ds)) os = (r, os')"
    "is_ok r \<Longrightarrow> ds' = map (\<lambda>d. d\<lparr>dr_path_on_host := linked_path ''drive'' (dr_path_on_host d)\<rparr>) ds" by blast+
qed

lemma link_fifo_plan:
  assumes "link_fifo E j f os = (r, f', os')"
  shows "op_for (link_step E j) (jail_entry ''fifo'' True f) os = (r, os')" and "is_ok r \<Longrightarrow> f' = linked_path ''fifo'' f"
  using assms
  by (auto simp: link_fifo_def jail_entry_def linked_path_def Let_def link_step_def join_rootfs_name op_bind_def
      op_map_err_def op_simps map_err_def split: option.splits prod.splits sum.splits)

lemma link_initrd_plan:
  assumes "(case opt_filter (\<lambda>p. p \<noteq> []) p of
       None \<Rightarrow> (Inr None, os)
     | Some p \<Rightarrow>
         (let name = unwrap_or ''initrd'' (file_name p) in
          case fs_hard_link E p (path_join (jailer_rootfs j) name) os of
            (Inl e, os2) \<Rightarrow> (Inl (Io e), os2)
          | (Inr _, os2) \<Rightarrow> (Inr (Some name), os2))) = (r, os')"
  shows "op_for (link_step E j) (jail_entry ''initrd'' False p) os = (rbind r (\<lambda>_. Inr ()), os')"
    and "r = Inr n \<Longrightarrow> (case n of Some x \<Rightarrow> Some x | None \<Rightarrow> p) = linked_path ''initrd'' p"
  using assms
  by (auto simp: jail_entry_def linked_path_def Let_def link_step_def join_rootfs_name op_bind_def
      op_map_err_def op_simps map_err_def split: option.splits prod.splits sum.splits)

lemma link_plan_plain: "plain_name kf \<Longrightarrow> list_all (\<lambda>(_, name, _). plain_name name) (link_plan kf cfg)"
proof -
  assume plain: "plain_name kf"
  note entries = jail_entry_plain [OF plain_defaults(1)] jail_entry_plain [OF plain_defaults(2)] jail_entry_plain [OF plain_defaults(3)]
  have "list_all (\<lambda>(_, n, _). plain_name n) (concat (map (\<lambda>d. jail_entry ''drive'' False (dr_path_on_host d)) ds))" for ds
    by (induction ds) (simp_all add: entries)
  with plain entries show ?thesis by (simp add: link_plan_def)
qed

text \<open>
  C37: linking the files into the jail. For the kernel file name that the naive chroot strategy gives,
  the handler makes exactly the hard links of the plan, in its order and until the first that fails:
  kernel, initrd, every drive and the two fifos (the latter are also given to the jail's user), each directly in
  the jail's root directory under a plain file name. When all were made, the configuration names each of them
  by that name, and nothing else of the configuration has changed.
\<close>

theorem link_files_rewrites_paths:
  assumes run: "link_files E kf (cfg, os) = (r, (cfg', os'))"
    and jailed: "jailer_cfg cfg = Some j" and kf: "kf = unwrap_or ''vmlinux'' (file_name kernel_path)"
  shows "op_for (link_step E j) (link_plan kf cfg) os = (r, os') \<and>
    list_all (\<lambda>(_, name, _). plain_name name) (link_plan kf cfg) \<and>
    (is_ok r \<longrightarrow>
      cfg' = cfg\<lparr>drives := map (\<lambda>d. d\<lparr>dr_path_on_host := linked_path ''drive'' (dr_path_on_host d)\<rparr>) (drives cfg),
        kernel_image_path := kf, initrd_path := linked_path ''initrd'' (initrd_path cfg),
        log_fifo := linked_path ''fifo'' (log_fifo cfg), metrics_fifo := linked_path ''fifo'' (metrics_fifo cfg)\<rparr>)"
  (is "_ \<and> _ \<and> (_ \<longrightarrow> ?linked)")
proof (intro conjI)
  have plain: "plain_name kf" unfolding kf by (rule plain_file_name [OF plain_defaults(4)])
  then show "list_all (\<lambda>(_, name, _). plain_name name) (link_plan kf cfg)" by (rule link_plan_plain)
  obtain r1 os1 where 1: "fs_hard_link E (kernel_image_path cfg) (path_join (jailer_rootfs j) kf) os = (r1, os1)" by fastforce
  obtain r2 os2 where 2: "(case opt_filter (\<lambda>p. p \<noteq> []) (initrd_path cfg) of
       None \<Rightarrow> (Inr None, os1)
     | Some p \<Rightarrow>
         (let name = unwrap_or ''initrd'' (file_name p) in
          case fs_hard_link E p (path_join (jailer_rootfs j) name) os1 of
            (Inl e, os2) \<Rightarrow> (Inl (Io e), os2)
          | (Inr _, os2) \<Rightarrow> (Inr (Some name), os2))) = (r2, os2)" by (rule prod.exhaust)
  obtain r3 ds os3 where 3: "link_drives E (jailer_rootfs j) (drives cfg) os2 = (r3, ds, os3)" by (metis prod.exhaust)
  obtain r4 lf os4 where 4: "link_fifo E j (log_fifo cfg) os3 = (r4, lf, os4)" by (metis prod.exhaust)
  obtain r5 mf os5 where 5: "link_fifo E j (metrics_fifo cfg) os4 = (r5, mf, os5)" by (metis prod.exhaust)
  note plan = link_initrd_plan [OF 2] link_drives_plan [OF 3] link_fifo_plan [OF 4] link_fifo_plan [OF 5]
  have "link_step E j (kernel_image_path cfg, kf, False) os = (map_err Io r1, os1)"
    using 1 join_rootfs_plain [OF plain, of j] by (cases r1) (simp_all add: link_step_def op_bind_def op_map_err_def op_simps)
  then show "op_for (link_step E j) (link_plan kf cfg) os = (r, os')"
    using run 1 2 3 4 5 plan jailed
    by (cases r1; cases r2; cases r3; cases r4; cases r5)
      (auto simp: link_plan_def op_for_append op_bind_def link_files_def Let_def split: option.splits)
  show "is_ok r \<longrightarrow> ?linked"
  proof
    assume ok: "is_ok r"
    let ?c = "cfg\<lparr>drives := ds, kernel_image_path := kf\<rparr>"
    from run 1 2 3 4 5 jailed ok have "is_ok r1" "is_ok r2" "is_ok r3"
      by (cases r1; cases r2; cases r3; auto simp: link_files_def Let_def)+
    then obtain n where n: "r1 = Inr ()" "r2 = Inr n" "r3 = Inr ()" by (auto simp: is_ok_iff)
    let ?c2 = "case n of Some x \<Rightarrow> ?c\<lparr>initrd_path := Some x\<rparr> | None \<Rightarrow> ?c"
    have fifos: "log_fifo ?c2 = log_fifo cfg" "metrics_fifo (?c2\<lparr>log_fifo := lf\<rparr>) = metrics_fifo cfg" by (cases n; simp)+
    have "link_files E kf (cfg, os) = (case r4 of
         Inl e \<Rightarrow> (Inl e, (?c2, os4))
       | Inr _ \<Rightarrow> (case r5 of
           Inl e \<Rightarrow> (Inl e, (?c2\<lparr>log_fifo := lf\<rparr>, os5))
         | Inr _ \<Rightarrow> (Inr (), (?c2\<lparr>log_fifo := lf, metrics_fifo := mf\<rparr>, os5))))"
      using 1 3 4 5 fifos unfolding link_files_def Let_def
      by (simp add: jailed 2 [unfolded Let_def] n split: sum.splits)
    with run ok have "is_ok r4" "is_ok r5" "cfg' = ?c2\<lparr>log_fifo := lf, metrics_fifo := mf\<rparr>"
      by (auto split: sum.splits)
    moreover have "?c2 = ?c\<lparr>initrd_path := linked_path ''initrd'' (initrd_path cfg)\<rparr>"
      using plan(2) [OF n(2)] by (cases n) (auto dest: sym)
    ultimately show ?linked
      using plan(4,6,8) n(3) by simp
  qed
qed

text \<open>
  The naive chroot strategy refuses handlers without the log file step, and otherwise puts the
  linking of files right behind it.
\<close>

theorem naive_adapt_handlers_spec:
  "naive_adapt_handlers st hs =
     (if CREATE_LOG_FILES_HANDLER_NAME \<in> hname ` set (fc_init hs)
      then (Inr (), hs\<lparr>fc_init := concat (map (\<lambda>h.
          if hname h = CREATE_LOG_FILES_HANDLER_NAME
          then [h, link_files_handler (unwrap_or ''vmlinux'' (file_name (ncs_kernel_image_path st)))]
          else [h]) (fc_init hs))\<rparr>)
      else (Inl (InvalidConfig ''required handler is missing from FcInit's list''), hs))"
  by (simp add: naive_adapt_handlers_def append_after_eq hl.has_iff)

end
