(* ===== verification/Polling.thy ===== *)
theory Polling
  imports Os_Env
begin

text \<open>
  Polling loops: a body that either returns a result or asks for another round. A loop that has used
  up its fuel has no result. The clock laws under which the SDK's deadline loops end are stated once,
  and the interface between a loop and its body is the locale \<open>polling\<close>.
\<close>

fun poll :: "nat \<Rightarrow> ('s \<Rightarrow> 'r option \<times> 's) \<Rightarrow> 's \<Rightarrow> 'r option \<times> 's" where
  "poll 0 body s = (None, s)"
| "poll (Suc fuel) body s =
     (case body s of
        (Some r, s') \<Rightarrow> (Some r, s')
      | (None, s') \<Rightarrow> poll fuel body s')"

lemma poll_mono: "poll n body s = (Some r, t) \<Longrightarrow> n \<le> m \<Longrightarrow> poll m body s = (Some r, t)"
proof (induction n arbitrary: s m)
  case (Suc n)
  then obtain m' where m: "m = Suc m'" "n \<le> m'" by (cases m) auto
  obtain r' s' where b: "body s = (r', s')" by fastforce
  show ?case using Suc.prems(1) Suc.IH [of s' m'] by (cases r') (simp_all add: b m)
qed simp

text \<open>The result of a loop is the result of its last round; all the rounds before went on.\<close>

lemma poll_last_round:
  "poll n body s = (Some r, t) \<Longrightarrow> \<exists>u. (\<lambda>a b. body a = (None, b))\<^sup>*\<^sup>* s u \<and> body u = (Some r, t)"
proof (induction n arbitrary: s)
  case (Suc n)
  obtain r' s' where b: "body s = (r', s')" by fastforce
  show ?case
  proof (cases r')
    case None
    with Suc b obtain u where "(\<lambda>a b. body a = (None, b))\<^sup>*\<^sup>* s' u" "body u = (Some r, t)" by auto
    with b None show ?thesis
      by (intro exI [of _ u]) (auto intro: converse_rtranclp_into_rtranclp)
  next
    case (Some x)
    with Suc b show ?thesis by auto
  qed
qed simp

locale polling =
  fixes body :: "'s \<Rightarrow> 'r option \<times> 's" and good :: "'s \<Rightarrow> bool" and remaining :: "'s \<Rightarrow> nat"
  assumes progress: "good s \<Longrightarrow> body s = (None, s') \<Longrightarrow> good s' \<and> remaining s' < remaining s"
begin

lemma poll_returns: "good s \<Longrightarrow> remaining s < fuel \<Longrightarrow> \<exists>r t. poll fuel body s = (Some r, t)"
proof (induction fuel arbitrary: s)
  case (Suc n)
  obtain r s' where b: "body s = (r, s')" by fastforce
  show ?case
  proof (cases r)
    case None
    with b progress [OF Suc.prems(1)] have "good s'" "remaining s' < remaining s" by auto
    with Suc b None show ?thesis by simp
  qed (use b in simp)
qed simp

text \<open>The result does not depend on how much fuel is left over.\<close>

lemma poll_fuel_irrelevant:
  assumes "good s" "remaining s < n" "remaining s < m"
  shows "poll n body s = poll m body s"
  using poll_returns [OF assms(1,2)] poll_returns [OF assms(1,3)] poll_mono
  by (metis nat_le_linear)

end

section \<open>Clock laws\<close>

text \<open>
  \<open>time\<close> is the monotonic clock in milliseconds: reading the clock gives the time of the state it
  leaves, sleeping takes at least as long as asked, and nothing runs backwards.
\<close>

definition clock_ok :: "'os os_env \<Rightarrow> ('os \<Rightarrow> nat) \<Rightarrow> bool" where
  "clock_ok E time \<longleftrightarrow>
     (\<forall>os. fst (clock_now E os) = time (snd (clock_now E os)) \<and> time os \<le> time (snd (clock_now E os))) \<and>
     (\<forall>n os. time os + n \<le> time (sleep_ms E n os)) \<and>
     (\<forall>p os. time os \<le> time (snd (fs_metadata E p os))) \<and>
     (\<forall>c os. time os \<le> time (snd (proc_try_wait E c os)))"

lemma clock_okD:
  assumes "clock_ok E time"
  shows "clock_now E os = (t, os') \<Longrightarrow> t = time os' \<and> time os \<le> t"
    and "time os + n \<le> time (sleep_ms E n os)"
    and "fs_metadata E p os = (r, os') \<Longrightarrow> time os \<le> time os'"
    and "proc_try_wait E c os = (r', os') \<Longrightarrow> time os \<le> time os'"
  using assms unfolding clock_ok_def by (metis fst_conv snd_conv)+

text \<open>
  The deadline loop shared by the waits: try something that may finish, give up when the clock has
  reached the deadline, sleep and try again.
\<close>

definition deadline_round ::
  "('s \<Rightarrow> nat \<times> 's) \<Rightarrow> ('s \<Rightarrow> 's) \<Rightarrow> nat \<Rightarrow> 'r \<Rightarrow> ('s \<Rightarrow> 'r option \<times> 's) \<Rightarrow> 's \<Rightarrow> 'r option \<times> 's" where
  "deadline_round now pause deadline timed_out attempt s =
     (case attempt s of
        (Some r, s1) \<Rightarrow> (Some r, s1)
      | (None, s1) \<Rightarrow>
          (case now s1 of
             (t, s2) \<Rightarrow> if t \<ge> deadline then (Some timed_out, s2) else (None, pause s2)))"

text \<open>
  The laws of time for such a loop, on the states that satisfy \<open>I\<close>: the loop stays in \<open>I\<close>, the clock
  read is the time of the state, sleeping takes time, and nothing runs backwards.
\<close>

definition timed ::
  "('s \<Rightarrow> bool) \<Rightarrow> ('s \<Rightarrow> nat \<times> 's) \<Rightarrow> ('s \<Rightarrow> 's) \<Rightarrow> ('s \<Rightarrow> 'r option \<times> 's) \<Rightarrow> ('s \<Rightarrow> nat) \<Rightarrow> bool" where
  "timed I now pause attempt time \<longleftrightarrow>
     (\<forall>s t s'. I s \<longrightarrow> now s = (t, s') \<longrightarrow> I s' \<and> t = time s' \<and> time s \<le> time s') \<and>
     (\<forall>s. I s \<longrightarrow> I (pause s) \<and> time s < time (pause s)) \<and>
     (\<forall>s r s'. I s \<longrightarrow> attempt s = (r, s') \<longrightarrow> I s' \<and> time s \<le> time s')"

lemma timedD:
  assumes "timed I now pause attempt time" "I s"
  shows "now s = (t, s') \<Longrightarrow> I s' \<and> t = time s' \<and> time s \<le> time s'"
    and "I (pause s) \<and> time s < time (pause s)"
    and "attempt s = (r, s') \<Longrightarrow> I s' \<and> time s \<le> time s'"
proof -
  note laws = assms(1) [unfolded timed_def]
  show "now s = (t, s') \<Longrightarrow> I s' \<and> t = time s' \<and> time s \<le> time s'"
    using laws [THEN conjunct1, rule_format, OF assms(2)] by blast
  show "I (pause s) \<and> time s < time (pause s)"
    by (rule laws [THEN conjunct2, THEN conjunct1, rule_format, OF assms(2)])
  show "attempt s = (r, s') \<Longrightarrow> I s' \<and> time s \<le> time s'"
    by (rule laws [THEN conjunct2, THEN conjunct2, rule_format, OF assms(2)])
qed

lemma deadline_round_progress:
  assumes laws: "timed I now pause attempt time" and I: "I s"
    and go: "deadline_round now pause deadline x attempt s = (None, s')"
  shows "I s'" "time s < time s'" "time s < deadline"
proof -
  from go obtain s1 t s2 where step: "attempt s = (None, s1)" "now s1 = (t, s2)" "t < deadline" "s' = pause s2"
    by (auto simp: deadline_round_def split: prod.splits option.splits if_splits)
  from timedD(3) [OF laws I step(1)] have 1: "I s1" "time s \<le> time s1" by simp_all
  from timedD(1) [OF laws 1(1) step(2)] have 2: "I s2" "t = time s2" "time s1 \<le> time s2" by simp_all
  from timedD(2) [OF laws 2(1)] have "I s'" "time s2 < time s'" by (simp_all add: step(4))
  with 1 2 step(3) show "I s'" "time s < time s'" "time s < deadline" by simp_all
qed

interpretation deadline: polling
  "deadline_round now pause deadline x attempt" "\<lambda>s. timed I now pause attempt time \<and> I s"
  "\<lambda>s. deadline - time s" for now pause deadline x attempt I time
proof
  fix s s'
  assume "timed I now pause attempt time \<and> I s"
    and go: "deadline_round now pause deadline x attempt s = (None, s')"
  then have laws: "timed I now pause attempt time" and I: "I s" by simp_all
  note step = deadline_round_progress [OF laws I go]
  from step(2,3) have "deadline - time s' < deadline - time s" by simp
  with laws step(1) show "(timed I now pause attempt time \<and> I s') \<and> deadline - time s' < deadline - time s"
    by simp
qed

section \<open>Retrying\<close>

text \<open>
  The loop of \<open>dial\<close> and \<open>accept\<close>: try; on an error that is temporary, and as long as the clock has not
  reached the deadline, sleep and try again.
\<close>

definition retry_round ::
  "('s \<Rightarrow> nat \<times> 's) \<Rightarrow> ('s \<Rightarrow> 's) \<Rightarrow> nat \<Rightarrow> ('e \<Rightarrow> bool) \<Rightarrow> ('s, 'e, 'a) op \<Rightarrow> 's \<Rightarrow> ('e + 'a) option \<times> 's" where
  "retry_round now pause deadline temporary attempt s =
     (case attempt s of
        (Inr x, s1) \<Rightarrow> (Some (Inr x), s1)
      | (Inl e, s1) \<Rightarrow>
          if temporary e then
            (case now s1 of
               (t, s2) \<Rightarrow> if t < deadline then (None, pause s2) else (Some (Inl e), s2))
          else (Some (Inl e), s1))"

text \<open>The laws of time for a retry loop whose pauses last at least \<open>interval\<close>.\<close>

definition retry_timed ::
  "('s \<Rightarrow> nat \<times> 's) \<Rightarrow> ('s \<Rightarrow> 's) \<Rightarrow> ('s, 'e, 'a) op \<Rightarrow> nat \<Rightarrow> ('s \<Rightarrow> nat) \<Rightarrow> bool" where
  "retry_timed now pause attempt interval time \<longleftrightarrow>
     0 < interval \<and>
     (\<forall>s t s'. now s = (t, s') \<longrightarrow> t = time s' \<and> time s \<le> time s') \<and>
     (\<forall>s. time s + interval \<le> time (pause s)) \<and>
     (\<forall>s r s'. attempt s = (r, s') \<longrightarrow> time s \<le> time s')"

lemma retry_timedD:
  assumes "retry_timed now pause attempt interval time"
  shows "0 < interval"
    and "now s = (t, s') \<Longrightarrow> t = time s' \<and> time s \<le> time s'"
    and "time s + interval \<le> time (pause s)"
    and "attempt s = (r, s') \<Longrightarrow> time s \<le> time s'"
  using assms unfolding retry_timed_def by blast+

text \<open>How many pauses fit into a time.\<close>

definition pauses :: "nat \<Rightarrow> nat \<Rightarrow> nat" where
  "pauses interval d = (d + interval - 1) div interval"

lemma pauses_less:
  assumes "0 < interval" "0 < d" "d' \<le> d - interval"
  shows "pauses interval d' < pauses interval d"
proof (cases "interval \<le> d")
  case True
  then have d: "d + interval - 1 = (d - 1) + interval" using assms(2) by simp
  have "d' + interval - 1 \<le> d - 1" using assms True by simp
  then have "pauses interval d' \<le> (d - 1) div interval" by (simp add: pauses_def div_le_mono)
  also have "\<dots> < pauses interval d" using assms(1) by (simp only: pauses_def d div_add_self2)
  finally show ?thesis .
next
  case False
  with assms have "d' = 0" by simp
  with assms(1) have "pauses interval d' = 0" by (simp add: pauses_def)
  moreover have "interval \<le> d + interval - 1" using assms(2) by simp
  then have "0 < pauses interval d" using assms(1) by (simp add: pauses_def div_greater_zero_iff)
  ultimately show ?thesis by simp
qed

lemma retry_round_continues:
  assumes "retry_round now pause deadline temporary attempt s = (None, s')"
  obtains e s1 t s2 where "attempt s = (Inl e, s1)" "temporary e" "now s1 = (t, s2)" "t < deadline" "s' = pause s2"
  using assms by (auto simp: retry_round_def split: prod.splits sum.splits if_splits)

interpretation retry: polling
  "retry_round now pause deadline temporary attempt" "\<lambda>_. retry_timed now pause attempt interval time"
  "\<lambda>s. pauses interval (deadline - time s)" for now pause deadline temporary attempt interval time
proof
  fix s s'
  assume laws: "retry_timed now pause attempt interval time"
    and go: "retry_round now pause deadline temporary attempt s = (None, s')"
  from go obtain e s1 t s2 where step: "attempt s = (Inl e, s1)" "now s1 = (t, s2)" "t < deadline" "s' = pause s2"
    by (rule retry_round_continues)
  note D = retry_timedD [OF laws]
  from D(4) [OF step(1)] D(2) [OF step(2)] D(3) [of s2] step(3,4)
  have "time s < deadline" "time s + interval \<le> time s'" by auto
  then have "pauses interval (deadline - time s') < pauses interval (deadline - time s)"
    using D(1) by (intro pauses_less) auto
  with laws show "retry_timed now pause attempt interval time \<and>
      pauses interval (deadline - time s') < pauses interval (deadline - time s)" by simp
qed

text \<open>
  How such a loop ends: with a result of its last attempt, which is a temporary error only when the
  clock has reached the deadline.
\<close>

lemma retry_ends:
  assumes "poll n (retry_round now pause deadline temporary attempt) s = (Some r, t)"
  obtains u v where "attempt u = (r, v)" "case r of Inr _ \<Rightarrow> t = v | Inl e \<Rightarrow>
    if temporary e then \<exists>now_t. now v = (now_t, t) \<and> deadline \<le> now_t else t = v"
proof -
  from poll_last_round [OF assms] obtain u where "retry_round now pause deadline temporary attempt u = (Some r, t)"
    by blast
  with that show thesis
    by (auto simp: retry_round_def split: prod.splits sum.splits if_splits)
qed

lemma retry_keeps:
  assumes now: "\<And>s. P s \<Longrightarrow> P (snd (now s))" and pause: "\<And>s. P s \<Longrightarrow> P (pause s)"
    and attempt: "\<And>s e s'. P s \<Longrightarrow> attempt s = (Inl e, s') \<Longrightarrow> P s'"
    and run: "poll n (retry_round now pause deadline temporary attempt) s = (r, t)" and P: "P s"
  shows "case r of Some (Inr x) \<Rightarrow> \<exists>u. P u \<and> attempt u = (Inr x, t) | _ \<Rightarrow> P t"
  using run P
proof (induction n arbitrary: s)
  case (Suc n)
  obtain a s1 where att: "attempt s = (a, s1)" by fastforce
  show ?case
  proof (cases a)
    case (Inl e)
    with attempt Suc.prems(2) att have s1: "P s1" by blast
    obtain c s2 where c: "now s1 = (c, s2)" by fastforce
    with now [OF s1] have s2: "P s2" by simp
    show ?thesis
      using Suc.prems(1) Suc.IH [of "pause s2"] pause [OF s2] s1 s2
      by (auto simp: retry_round_def att Inl c split: if_splits)
  next
    case (Inr x)
    with Suc.prems att show ?thesis by (auto simp: retry_round_def)
  qed
qed auto

end
