(* ===== verification/Sdk_Machine.thy ===== *)
theory Sdk_Machine
  imports Sdk_Jailer Polling
begin

text \<open>
  \<open>src/machine.rs\<close> (the struct \<open>Machine\<close> and its methods), the handler bodies of \<open>src/handlers.rs\<close>
  and \<open>env_value_or_default_int\<close> of \<open>src/utils.rs\<close>.

  A method works on a machine and the world: the pair of the \<open>machine\<close> record and the signal world
  (whose component \<open>sos\<close> is the state of the operating system, the VMM process behind the API
  included). Awaiting is sequential composition: a machine is borrowed mutably for a whole call, so
  nothing else runs on it meanwhile; what the rest of the world does is in the environment's
  operations.
\<close>

section \<open>The machine\<close>

record ('j, 'x, 'os) machine =
  cfg :: "('j, 'x) config"
  m_handlers :: "('j, 'x) sdk_handlers"
  client :: "('j, 'os, error) client_ops"
  cni_network_ops :: "'os cni_network_operations"
  netlink_ops :: "'os netlink_ops"
  command :: "vm_command option"
  process :: "child option"
  machine_config :: machine_configuration
  m_logger :: "nat option"
  exit_event :: bool
  signal_forwarder :: "64 word option"
  cleanup_funcs :: "'os cleanup_fn list"
  cleanup_done :: bool
  started :: bool
  fatal_err :: "error option"

type_synonym ('j, 'x, 'os) mstate = "('j, 'x, 'os) machine \<times> 'os sig_world"

section \<open>Lifting\<close>

definition on_os :: "('os, 'e, 'a) op \<Rightarrow> ('m \<times> 'os sig_world, 'e, 'a) op" where
  "on_os f = (\<lambda>(m, w). case f (sos w) of (r, os) \<Rightarrow> (r, (m, w\<lparr>sos := os\<rparr>)))"

definition on_sig :: "('os sig_world, 'e, 'a) op \<Rightarrow> ('m \<times> 'os sig_world, 'e, 'a) op" where
  "on_sig f = (\<lambda>(m, w). case f w of (r, w') \<Rightarrow> (r, (m, w')))"

definition get_m :: "('m \<times> 'w, 'e, 'm) op" where
  "get_m = (\<lambda>(m, w). (Inr m, (m, w)))"

definition upd_m :: "('m \<Rightarrow> 'm) \<Rightarrow> ('m \<times> 'w, 'e, unit) op" where
  "upd_m f = (\<lambda>(m, w). (Inr (), (f m, w)))"

definition on_client ::
  "(('j, 'os, error) client_ops \<Rightarrow> ('os, error, 'a) op) \<Rightarrow> (('j, 'x, 'os) mstate, error, 'a) op" where
  "on_client f = (\<lambda>(m, w). on_os (f (client m)) (m, w))"

lemmas lift_defs [model_defs] = on_os_def on_sig_def get_m_def upd_m_def on_client_def

section \<open>Small methods\<close>

definition env_value_or_default_int :: "'os os_env \<Rightarrow> string \<Rightarrow> int \<Rightarrow> 'os \<Rightarrow> int" where
  "env_value_or_default_int E env_name default_value os =
     unwrap_or default_value
       (opt_filter (\<lambda>v. v \<noteq> 0) (Option.bind (env_var E env_name os) (parse_int 32)))"

definition default_net_ns_path :: "('j, 'x, 'os) machine \<Rightarrow> string" where
  "default_net_ns_path m = DEFAULT_NET_NS_DIR @ ''/'' @ vmid (cfg m)"

definition log_file :: "('j, 'x, 'os) machine \<Rightarrow> string option" where
  "log_file m = log_fifo (cfg m)"

definition get_logger :: "('j, 'x, 'os) machine \<Rightarrow> nat option" where
  "get_logger m = m_logger m"

definition get_log_level :: "('j, 'x, 'os) machine \<Rightarrow> string option" where
  "get_log_level m = log_level (cfg m)"

definition signal_exit :: "('j, 'x, 'os) machine \<Rightarrow> ('j, 'x, 'os) machine" where
  "signal_exit m = m\<lparr>exit_event := True\<rparr>"

definition push_cleanup_func ::
  "'os cleanup_fn \<Rightarrow> ('j, 'x, 'os) machine \<Rightarrow> ('j, 'x, 'os) machine" where
  "push_cleanup_func f m = m\<lparr>cleanup_done := False, cleanup_funcs := cleanup_funcs m @ [f]\<rparr>"

definition push_cleanup_funcs ::
  "'os cleanup_fn list \<Rightarrow> ('j, 'x, 'os) machine \<Rightarrow> ('j, 'x, 'os) machine" where
  "push_cleanup_funcs fs m = m\<lparr>cleanup_done := False, cleanup_funcs := cleanup_funcs m @ fs\<rparr>"

definition remember_terminal_error :: "error \<Rightarrow> ('j, 'x, 'os) machine \<Rightarrow> ('j, 'x, 'os) machine" where
  "remember_terminal_error e m =
     (if fatal_err m = None then m\<lparr>fatal_err := Some (copy_error e)\<rparr> else m)"

definition exit_status_result :: "exit_status \<Rightarrow> unit result" where
  "exit_status_result st =
     (if es_success st then Inr () else Inl (Process (''firecracker exited: '' @ es_text st)))"

section \<open>Cleanup\<close>

text \<open>
  The loop of \<open>do_cleanup\<close>: pop the last function, run it, collect the error's text. The list of
  functions left is part of the state while it runs.
\<close>

function cleanup_loop :: "'os cleanup_fn list \<Rightarrow> string list \<Rightarrow> 'os \<Rightarrow> string list \<times> 'os" where
  "cleanup_loop fs errors os =
     (if fs = [] then (errors, os)
      else case last fs os of
          (Inl e, os') \<Rightarrow> cleanup_loop (butlast fs) (errors @ [error_display e]) os'
        | (Inr _, os') \<Rightarrow> cleanup_loop (butlast fs) errors os')"
  by pat_completeness auto
termination by (relation "measure (\<lambda>(fs, _, _). length fs)") auto

declare cleanup_loop.simps [simp del]

definition do_cleanup :: "(('j, 'x, 'os) mstate, error, unit) op" where
  "do_cleanup = (\<lambda>(m, w).
     if cleanup_done m then (Inr (), (m, w))
     else case cleanup_loop (cleanup_funcs m) [] (sos w) of
         (errors, os) \<Rightarrow>
           (if errors = [] then Inr () else Inl (Process (''cleanup failed: '' @ join ''; '' errors)),
            (m\<lparr>cleanup_done := True, cleanup_funcs := []\<rparr>, w\<lparr>sos := os\<rparr>)))"

section \<open>Process exit\<close>

definition shutdown_signal_forwarder :: "'os os_env \<Rightarrow> ('j, 'x, 'os) mstate \<Rightarrow> ('j, 'x, 'os) mstate" where
  "shutdown_signal_forwarder E = (\<lambda>(m, w).
     case signal_forwarder m of
       None \<Rightarrow> (m, w)
     | Some rid \<Rightarrow> (m\<lparr>signal_forwarder := None\<rparr>, forwarder_shutdown (sig_calls E) rid w))"

definition finalize_exit_result :: "'os os_env \<Rightarrow> unit result \<Rightarrow> (('j, 'x, 'os) mstate, error, unit) op" where
  "finalize_exit_result E exit_result s =
     (let (m1, w1) = shutdown_signal_forwarder E s in
      case do_cleanup (signal_exit m1, w1) of
        (cleanup_result, s2) \<Rightarrow>
          (case exit_result of
             Inl e \<Rightarrow> Inl (join_errors e (err_of cleanup_result))
           | Inr _ \<Rightarrow> cleanup_result, s2))"

definition wait_for_process_exit :: "'os os_env \<Rightarrow> (('j, 'x, 'os) mstate, error, unit) op" where
  "wait_for_process_exit E = (\<lambda>(m, w).
     case process m of
       None \<Rightarrow> (Inr (), (m, w))
     | Some c \<Rightarrow>
         op_bind (on_os (op_io (proc_wait E c))) (\<lambda>st s. (exit_status_result st, s))
           (m\<lparr>process := None\<rparr>, w))"

definition finalize_process_exit :: "'os os_env \<Rightarrow> (('j, 'x, 'os) mstate, error, unit) op" where
  "finalize_process_exit E s =
     (case wait_for_process_exit E s of (wait_result, s1) \<Rightarrow> finalize_exit_result E wait_result s1)"

definition finalize_observed_exit_status ::
  "'os os_env \<Rightarrow> exit_status \<Rightarrow> (('j, 'x, 'os) mstate, error, unit) op" where
  "finalize_observed_exit_status E st = finalize_exit_result E (exit_status_result st)"

text \<open>\<open>if let Err(error) = op { self.remember_terminal_error(error) }\<close>\<close>

definition remembering :: "(('j, 'x, 'os) mstate, error, unit) op \<Rightarrow> ('j, 'x, 'os) mstate \<Rightarrow> ('j, 'x, 'os) mstate" where
  "remembering f s =
     (case f s of
        (Inl e, (m, w)) \<Rightarrow> (remember_terminal_error e m, w)
      | (Inr _, s') \<Rightarrow> s')"

definition SIGTERM_SIGNAL :: int where
  "SIGTERM_SIGNAL = 15"
definition ESRCH_ERRNO :: int where
  "ESRCH_ERRNO = 3"

definition send_sigterm_to_vmm :: "'os os_env \<Rightarrow> (('j, 'x, 'os) mstate, error, unit) op" where
  "send_sigterm_to_vmm E = (\<lambda>(m, w).
     case process m of
       None \<Rightarrow> (Inr (), (m, w))
     | Some c \<Rightarrow>
         op_bind (on_os (op_io (proc_try_wait E c))) (\<lambda>st.
           if st \<noteq> None then op_ok ()
           else (\<lambda>(m, w).
             case proc_id E c (sos w) of
               None \<Rightarrow> (Inr (), (m, w))
             | Some pid \<Rightarrow>
                 (case on_os (proc_kill E (sint pid) SIGTERM_SIGNAL) (m, w) of
                    (Inr _, s) \<Rightarrow> (Inr (), s)
                  | (Inl e, s) \<Rightarrow>
                      (if io_os_code e \<noteq> Some ESRCH_ERRNO then Inl (Io e) else Inr (), s))))
           (m, w))"

definition stop_vmm :: "'os os_env \<Rightarrow> (('j, 'x, 'os) mstate, error, unit) op" where
  "stop_vmm E s =
     (case send_sigterm_to_vmm E s of
        (stop_result, (m, w)) \<Rightarrow>
          (stop_result,
           if is_ok stop_result \<and> (process m \<noteq> None \<or> \<not> cleanup_done m)
           then remembering (finalize_process_exit E) (m, w) else (m, w)))"

definition machine_wait :: "'os os_env \<Rightarrow> (('j, 'x, 'os) mstate, error, unit) op" where
  "machine_wait E = (\<lambda>(m, w).
     case (if process m \<noteq> None \<or> \<not> cleanup_done m
           then remembering (finalize_process_exit E) (m, w) else (m, w)) of
       (m', w') \<Rightarrow>
         (case fatal_err m' of Some e \<Rightarrow> Inl (copy_error e) | None \<Rightarrow> Inr (), (m', w')))"

definition machine_pid :: "'os os_env \<Rightarrow> (('j, 'x, 'os) mstate, error, 32 word) op" where
  "machine_pid E = (\<lambda>(m, w).
     case process m of
       None \<Rightarrow> (Inl (Process ''machine is not running''), (m, w))
     | Some c \<Rightarrow>
       (case proc_id E c (sos w) of
          None \<Rightarrow> (Inl (Process ''machine is not running''), (m, w))
        | Some p \<Rightarrow>
          (case on_os (op_io (proc_try_wait E c)) (m, w) of
             (Inl e, s) \<Rightarrow> (Inl e, s)
           | (Inr None, s) \<Rightarrow> (Inr p, s)
           | (Inr (Some st), (m1, w1)) \<Rightarrow>
               (Inl (Process ''machine process has exited''),
                remembering (finalize_observed_exit_status E st) (m1\<lparr>process := None\<rparr>, w1)))))"

text \<open>\<open>abort_start\<close> returns the error to report.\<close>

definition abort_message :: "error \<Rightarrow> error option \<Rightarrow> error option \<Rightarrow> error option \<Rightarrow> error" where
  "abort_message e stop_error wait_error cleanup_error =
     (if stop_error = None \<and> wait_error = None \<and> cleanup_error = None then e
      else Process (join ''; '' ([error_display e] @
        (case stop_error of Some x \<Rightarrow> [''stop error: '' @ error_display x] | None \<Rightarrow> []) @
        (case wait_error of Some x \<Rightarrow> [''wait error: '' @ error_display x] | None \<Rightarrow> []) @
        (case cleanup_error of Some x \<Rightarrow> [''cleanup error: '' @ error_display x] | None \<Rightarrow> []))))"

definition abort_start :: "'os os_env \<Rightarrow> error \<Rightarrow> ('j, 'x, 'os) mstate \<Rightarrow> error \<times> ('j, 'x, 'os) mstate" where
  "abort_start E e = (\<lambda>(m, w).
     let m0 = signal_exit m;
         (stop_error, s1) = (if process m0 \<noteq> None
           then (case stop_vmm E (m0, w) of (r, s) \<Rightarrow> (err_of r, s)) else (None, (m0, w)));
         s2 = shutdown_signal_forwarder E s1;
         (wait_result, s3) = wait_for_process_exit E s2;
         (cleanup_result, (m4, w4)) = do_cleanup s3;
         final_error = abort_message e stop_error (err_of wait_result) (err_of cleanup_result)
     in (copy_error final_error, (m4\<lparr>fatal_err := Some final_error\<rparr>, w4)))"

definition install_signal_forwarder :: "'os os_env \<Rightarrow> (('j, 'x, 'os) mstate, error, unit) op" where
  "install_signal_forwarder E = (\<lambda>(m, w).
     case forward_signals (cfg m) of
       None \<Rightarrow> (Inr (), (m, w))
     | Some signals \<Rightarrow>
       if signal_forwarder m \<noteq> None \<or> signals = [] then (Inr (), (m, w))
       else case process m of
           None \<Rightarrow> (Inl (Process ''machine is not running''), (m, w))
         | Some c \<Rightarrow>
           (case proc_id E c (sos w) of
              None \<Rightarrow> (Inl (Process ''machine process has exited''), (m, w))
            | Some cpid \<Rightarrow>
                op_bind (on_sig (forwarder_install (sig_calls E) signals cpid))
                  (\<lambda>fwd. upd_m (\<lambda>m. m\<lparr>signal_forwarder := fwd\<rparr>)) (m, w)))"

section \<open>Starting the VMM process\<close>

definition command_stdio :: "'os os_env \<Rightarrow> command_stdio \<Rightarrow> bool \<Rightarrow> ('os, error, unit) op" where
  "command_stdio E spec stdin =
     (case spec of
        StdioInherit \<Rightarrow> op_ok ()
      | StdioNull \<Rightarrow> op_ok ()
      | StdioPath path \<Rightarrow> if stdin then op_io (fs_open_read E path) else op_io (fs_open_append E path))"

text \<open>\<open>configure_command_netns\<close>: the namespace the child will enter, if any.\<close>

definition configure_command_netns :: "'os os_env \<Rightarrow> (('j, 'x, 'os) mstate, error, string option) op" where
  "configure_command_netns E = (\<lambda>(m, w).
     case net_ns (cfg m) of
       None \<Rightarrow> (Inr None, (m, w))
     | Some path \<Rightarrow>
         if jailer_cfg (cfg m) \<noteq> None then (Inr None, (m, w))
         else op_bind (on_os (op_io (fs_open_read E path))) (\<lambda>_. op_ok (Some path)) (m, w))"

text \<open>
  One round of \<open>wait_for_vmm_ready\<close> up to the deadline test. \<open>Some\<close> is the result of the loop.
\<close>

definition vmm_ready_attempt :: "'os os_env \<Rightarrow> ('j, 'x, 'os) mstate \<Rightarrow> (unit result) option \<times> ('j, 'x, 'os) mstate" where
  "vmm_ready_attempt E = (\<lambda>(m, w).
     case (case process m of
             None \<Rightarrow> (Inr None, (m, w))
           | Some c \<Rightarrow> on_os (op_io (proc_try_wait E c)) (m, w)) of
       (Inl e, s) \<Rightarrow> (Some (Inl e), s)
     | (Inr (Some st), (m1, w1)) \<Rightarrow>
         (Some (Inl (Process (''firecracker exited before creating API socket: '' @ es_text st))),
          (m1\<lparr>process := None\<rparr>, w1))
     | (Inr None, (m1, w1)) \<Rightarrow>
         (case on_os (fs_metadata E (socket_path (cfg m1))) (m1, w1) of
            (Inl _, s) \<Rightarrow> (None, s)
          | (Inr _, s) \<Rightarrow>
              (case on_client c_get_machine_configuration s of
                 (Inl _, s') \<Rightarrow> (None, s')
               | (Inr _, s') \<Rightarrow> (Some (Inr ()), s'))))"

definition machine_now :: "'os os_env \<Rightarrow> 'm \<times> 'os sig_world \<Rightarrow> nat \<times> 'm \<times> 'os sig_world" where
  "machine_now E = (\<lambda>(m, w). case clock_now E (sos w) of (t, os) \<Rightarrow> (t, (m, w\<lparr>sos := os\<rparr>)))"

definition machine_sleep :: "'os os_env \<Rightarrow> nat \<Rightarrow> 'm \<times> 'os sig_world \<Rightarrow> 'm \<times> 'os sig_world" where
  "machine_sleep E n = (\<lambda>(m, w). (m, w\<lparr>sos := sleep_ms E n (sos w)\<rparr>))"

text \<open>\<open>Instant + Duration\<close> in milliseconds: the seconds of an \<open>Instant\<close> are an \<open>i64\<close>, overflow panics.\<close>

definition instant_add :: "nat \<Rightarrow> nat \<Rightarrow> nat option" where
  "instant_add now_ms timeout_ms =
     (if (now_ms + timeout_ms) div 1000 < 2 ^ 63 then Some (now_ms + timeout_ms) else None)"

text \<open>A wait with a deadline: the loop around an attempt.\<close>

definition wait_with_deadline ::
  "'os os_env \<Rightarrow> nat \<Rightarrow> nat \<Rightarrow> string \<Rightarrow>
   ('m \<times> 'os sig_world \<Rightarrow> (unit result) option \<times> 'm \<times> 'os sig_world) \<Rightarrow> ('m \<times> 'os sig_world, exc, unit) op" where
  "wait_with_deadline E fuel timeout_ms message attempt s =
     (case machine_now E s of
        (t, s1) \<Rightarrow>
          (case instant_add t timeout_ms of
             None \<Rightarrow> (Inl Panic, s1)
           | Some deadline \<Rightarrow>
               (case poll fuel (deadline_round (machine_now E) (machine_sleep E 10) deadline
                    (Inl (Io (io_new TimedOut message))) attempt) s1 of
                  (None, s2) \<Rightarrow> (Inl OutOfFuel, s2)
                | (Some r, s2) \<Rightarrow> (map_err Err r, s2))))"

definition wait_for_vmm_ready :: "'os os_env \<Rightarrow> nat \<Rightarrow> nat \<Rightarrow> (('j, 'x, 'os) mstate, exc, unit) op" where
  "wait_for_vmm_ready E fuel timeout_ms =
     wait_with_deadline E fuel timeout_ms
       ''timed out while waiting for the Firecracker VMM to become reachable'' (vmm_ready_attempt E)"

text \<open>
  \<open>wait_for_socket\<close> polls a channel of errors first; \<open>recv\<close> is the channel's \<open>try_recv\<close>, \<open>None\<close> for
  an empty or disconnected channel.
\<close>

definition socket_attempt ::
  "'os os_env \<Rightarrow> ('os \<Rightarrow> error option \<times> 'os) \<Rightarrow> ('j, 'x, 'os) mstate \<Rightarrow> (unit result) option \<times> ('j, 'x, 'os) mstate" where
  "socket_attempt E recv = (\<lambda>(m, w).
     case recv (sos w) of
       (Some e, os) \<Rightarrow> (Some (Inl e), (m, w\<lparr>sos := os\<rparr>))
     | (None, os) \<Rightarrow>
         (case on_os (fs_metadata E (socket_path (cfg m))) (m, w\<lparr>sos := os\<rparr>) of
            (Inl _, s) \<Rightarrow> (None, s)
          | (Inr _, s) \<Rightarrow>
              (case on_client c_get_machine_configuration s of
                 (Inl _, s') \<Rightarrow> (None, s')
               | (Inr _, s') \<Rightarrow> (Some (Inr ()), s'))))"

definition wait_for_socket ::
  "'os os_env \<Rightarrow> nat \<Rightarrow> nat \<Rightarrow> ('os \<Rightarrow> error option \<times> 'os) \<Rightarrow> (('j, 'x, 'os) mstate, exc, unit) op" where
  "wait_for_socket E fuel timeout_ms recv =
     wait_with_deadline E fuel timeout_ms ''deadline exceeded while waiting for firecracker socket''
       (socket_attempt E recv)"

text \<open>An error makes the start fail; a panic or a loop without end is not caught.\<close>

definition aborting :: "'os os_env \<Rightarrow> (('j, 'x, 'os) mstate, exc, 'a) op \<Rightarrow> (('j, 'x, 'os) mstate, exc, 'a) op" where
  "aborting E f s =
     (case f s of
        (Inl (Err e), s') \<Rightarrow> (case abort_start E e s' of (e', s'') \<Rightarrow> (Inl (Err e'), s''))
      | r \<Rightarrow> r)"

definition init_timeout_secs :: "'os os_env \<Rightarrow> 'os \<Rightarrow> nat" where
  "init_timeout_secs E os =
     unat (word_of_int (env_value_or_default_int E FIRECRACKER_INIT_TIMEOUT_ENV
       DEFAULT_FIRECRACKER_INIT_TIMEOUT_SECONDS os) :: 64 word)"

definition start_vmm :: "'os os_env \<Rightarrow> nat \<Rightarrow> (('j, 'x, 'os) mstate, exc, unit) op" where
  "start_vmm E fuel = (\<lambda>(m, w).
     case command m of
       None \<Rightarrow> (Inl (Err (Process ''machine command is not configured'')), (m, w))
     | Some c \<Rightarrow>
       op_then (op_map_err Err (
         op_then (upd_m (\<lambda>m. m\<lparr>exit_event := False\<rparr>)) (
         op_then (on_os (command_stdio E (cmd_stdin c) True)) (
         op_then (on_os (command_stdio E (cmd_stdout c) False)) (
         op_then (on_os (command_stdio E (cmd_stderr c) False)) (
         op_bind (configure_command_netns E) (\<lambda>netns.
         op_bind (on_os (op_map_err (\<lambda>e. Process (io_text e)) (proc_spawn E c netns))) (\<lambda>spawned.
         op_then (upd_m (\<lambda>m. m\<lparr>process := Some spawned\<rparr>))
           (upd_m (\<lambda>m. push_cleanup_func (remove_file_if_present E (socket_path (cfg m))) m)))))))))) (
       op_then (aborting E (op_map_err Err (install_signal_forwarder E)))
         (\<lambda>(m, w). aborting E (wait_for_vmm_ready E fuel (1000 * init_timeout_secs E (sos w))) (m, w)))
       (m, w))"

section \<open>Log files\<close>

text \<open>The machine has its own copy of the jailer's function.\<close>

definition machine_path_cstring :: "string \<Rightarrow> string result" where
  "machine_path_cstring path =
     (if CHR 0x00 \<in> set path then Inl (InvalidConfig (''path contains interior NUL byte: '' @ debug_str path))
      else Inr path)"

definition create_fifo :: "'os os_env \<Rightarrow> string \<Rightarrow> ('os, error, unit) op" where
  "create_fifo E path =
     op_bind (\<lambda>os. (machine_path_cstring path, os)) (\<lambda>path. op_io (fs_mkfifo E path))"

definition create_fifo_or_file ::
  "'os os_env \<Rightarrow> string option \<Rightarrow> string option \<Rightarrow> (('j, 'x, 'os) mstate, error, unit) op" where
  "create_fifo_or_file E fifo_path file_path =
     (case opt_filter (\<lambda>p. p \<noteq> []) fifo_path of
        Some path \<Rightarrow>
          op_then (on_os (create_fifo E path)) (upd_m (push_cleanup_func (remove_file_if_present E path)))
      | None \<Rightarrow>
        (case opt_filter (\<lambda>p. p \<noteq> []) file_path of
           Some path \<Rightarrow> on_os (op_io (fs_open_append E path))
         | None \<Rightarrow> op_ok ()))"

definition capture_fifo_to_file :: "'os os_env \<Rightarrow> string \<Rightarrow> nat \<Rightarrow> ('os, error, unit) op" where
  "capture_fifo_to_file E fifo_path writer =
     op_bind (op_io (fs_open_fifo E fifo_path)) (\<lambda>_ os. (Inr (), spawn_capture E fifo_path writer os))"

definition warn :: "'os os_env \<Rightarrow> string \<Rightarrow> ('j, 'x, 'os) mstate \<Rightarrow> ('j, 'x, 'os) mstate" where
  "warn E message = (\<lambda>(m, w).
     case m_logger m of
       None \<Rightarrow> (m, w)
     | Some l \<Rightarrow> (m, w\<lparr>sos := trace_warn E l message (sos w)\<rparr>))"

definition create_log_files :: "'os os_env \<Rightarrow> (('j, 'x, 'os) mstate, error, unit) op" where
  "create_log_files E = (\<lambda>(m, w).
     let c = cfg m in
     op_then (create_fifo_or_file E (metrics_fifo c) (metrics_path c)) (
     op_then (create_fifo_or_file E (log_fifo c) (log_path c)) (
     case (opt_filter (\<lambda>p. p \<noteq> []) (log_fifo c), fifo_log_writer c) of
       (Some fifo, Some writer) \<Rightarrow>
         (\<lambda>s. case on_os (capture_fifo_to_file E fifo writer) s of
            (Inl e, s') \<Rightarrow>
              (Inr (), warn E (''capture_fifo_to_file('' @ debug_str fifo @ '') returned '' @
                 error_display e @ ''. continuing anyway.'') s')
          | (Inr _, s') \<Rightarrow> (Inr (), s'))
     | _ \<Rightarrow> op_ok ())) (m, w))"

section \<open>Requests to the VMM\<close>

text \<open>\<open>shutdown\<close> is compiled differently on \<open>aarch64\<close>.\<close>

definition shutdown :: "'os os_env \<Rightarrow> bool \<Rightarrow> (('j, 'x, 'os) mstate, error, unit) op" where
  "shutdown E aarch64 =
     (if aarch64 then stop_vmm E
      else on_client (\<lambda>c. c_create_sync_action c \<lparr>ia_action_type = Some INSTANCE_ACTION_SEND_CTRL_ALT_DEL\<rparr>))"

definition setup_network :: "ipnet_ops \<Rightarrow> (('j, 'x, 'os) mstate, error, unit) op" where
  "setup_network N = (\<lambda>(m, w).
     if cni_interface (cfg_network_interfaces (cfg m)) = None then (Inr (), (m, w))
     else
       (let path = unwrap_or (default_net_ns_path m) (net_ns (cfg m));
            c1 = (cfg m)\<lparr>net_ns := Some path\<rparr>
        in case setup_cni N (vmid c1) path (cni_network_ops m) (netlink_ops m)
               (cfg_network_interfaces c1, sos w) of
             (Inl e, (ifs, os)) \<Rightarrow> (Inl e, (m\<lparr>cfg := c1\<lparr>cfg_network_interfaces := ifs\<rparr>\<rparr>, w\<lparr>sos := os\<rparr>))
           | (Inr fs, (ifs, os)) \<Rightarrow>
               (Inr (), (push_cleanup_funcs fs (m\<lparr>cfg := c1\<lparr>cfg_network_interfaces := ifs\<rparr>\<rparr>), w\<lparr>sos := os\<rparr>))))"

text \<open>\<open>setup_kernel_args\<close> only changes the configuration.\<close>

definition setup_kernel_args :: "ipnet_ops \<Rightarrow> ('j, 'x) config \<Rightarrow> ('j, 'x) config" where
  "setup_kernel_args N c =
     (let args = parse_kernel_args (kernel_args c);
          args' = (case Option.bind (static_ip_interface (cfg_network_interfaces c))
              (\<lambda>i. Option.bind (static_configuration i) stc_ip_configuration) of
            Some ip \<Rightarrow> bt_insert ''ip'' (Some (ip_boot_param N ip)) args
          | None \<Rightarrow> args)
      in c\<lparr>kernel_args := kernel_args_display args'\<rparr>)"

definition setup_logging :: "(('j, 'x, 'os) mstate, error, unit) op" where
  "setup_logging = (\<lambda>(m, w).
     case opt_or (log_fifo (cfg m)) (log_path (cfg m)) of
       None \<Rightarrow> (Inr (), (m, w))
     | Some path \<Rightarrow>
         on_client (\<lambda>c. c_put_logger c \<lparr>lg_log_path = Some path, lg_level = log_level (cfg m),
           lg_show_level = Some True, lg_show_log_origin = Some False\<rparr>) (m, w))"

definition setup_metrics :: "(('j, 'x, 'os) mstate, error, unit) op" where
  "setup_metrics = (\<lambda>(m, w).
     case opt_or (metrics_fifo (cfg m)) (metrics_path (cfg m)) of
       None \<Rightarrow> (Inr (), (m, w))
     | Some path \<Rightarrow> on_client (\<lambda>c. c_put_metrics c \<lparr>me_metrics_path = Some path\<rparr>) (m, w))"

definition refresh_machine_configuration :: "(('j, 'x, 'os) mstate, error, unit) op" where
  "refresh_machine_configuration =
     op_bind (on_client c_get_machine_configuration) (\<lambda>mc. upd_m (\<lambda>m. m\<lparr>machine_config := mc\<rparr>))"

definition create_machine :: "(('j, 'x, 'os) mstate, error, unit) op" where
  "create_machine = (\<lambda>(m, w).
     op_then (on_client (\<lambda>c. c_put_machine_configuration c (machine_cfg (cfg m))))
       refresh_machine_configuration (m, w))"

definition create_boot_source ::
  "string \<Rightarrow> string option \<Rightarrow> string option \<Rightarrow> (('j, 'x, 'os) mstate, error, unit) op" where
  "create_boot_source image_path initrd args =
     on_client (\<lambda>c. c_put_guest_boot_source c
       \<lparr>bo_kernel_image_path = Some image_path, bo_initrd_path = initrd, bo_boot_args = args\<rparr>)"

definition create_network_interface ::
  "network_interface \<Rightarrow> nat \<Rightarrow> (('j, 'x, 'os) mstate, error, unit) op" where
  "create_network_interface i index =
     (case static_configuration i of
        None \<Rightarrow> op_err (InvalidConfig ''invalid nil state for network interface'')
      | Some st \<Rightarrow>
          on_client (\<lambda>c. c_put_guest_network_interface_by_id c (nat_str index)
            \<lparr>nm_iface_id = Some (nat_str index), nm_guest_mac = stc_mac_address st,
             nm_host_dev_name = Some (stc_host_dev_name st),
             nm_rx_rate_limiter = in_rate_limiter i, nm_tx_rate_limiter = out_rate_limiter i\<rparr>))"

definition create_network_interfaces :: "(('j, 'x, 'os) mstate, error, unit) op" where
  "create_network_interfaces = (\<lambda>(m, w).
     op_for (\<lambda>(index, i). create_network_interface i (index + 1))
       (List.enumerate 0 (cfg_network_interfaces (cfg m))) (m, w))"

definition attach_drive :: "drive \<Rightarrow> (('j, 'x, 'os) mstate, error, unit) op" where
  "attach_drive d = on_client (\<lambda>c. c_put_guest_drive_by_id c (unwrap_or [] (dr_drive_id d)) d)"

definition attach_drives :: "(('j, 'x, 'os) mstate, error, unit) op" where
  "attach_drives = (\<lambda>(m, w). op_for attach_drive (drives (cfg m)) (m, w))"

definition add_vsock :: "vsock_device \<Rightarrow> (('j, 'x, 'os) mstate, error, unit) op" where
  "add_vsock d = on_client (\<lambda>c. c_put_guest_vsock c
     \<lparr>vs_vsock_id = Some (vd_id d), vs_guest_cid = Some (uint (vd_cid d)), vs_uds_path = Some (vd_path d)\<rparr>)"

definition add_vsocks :: "(('j, 'x, 'os) mstate, error, unit) op" where
  "add_vsocks = (\<lambda>(m, w). op_for add_vsock (vsock_devices (cfg m)) (m, w))"

definition set_metadata :: "'j \<Rightarrow> (('j, 'x, 'os) mstate, error, unit) op" where
  "set_metadata metadata = on_client (\<lambda>c. c_put_mmds c metadata)"

definition update_metadata :: "'j \<Rightarrow> (('j, 'x, 'os) mstate, error, unit) op" where
  "update_metadata metadata = on_client (\<lambda>c. c_patch_mmds c metadata)"

text \<open>\<open>get_metadata\<close>: \<open>from_value\<close> is the deserialisation at the type asked for.\<close>

definition get_metadata :: "('j \<Rightarrow> string + 'a) \<Rightarrow> (('j, 'x, 'os) mstate, error, 'a) op" where
  "get_metadata from_value = op_bind (on_client c_get_mmds) (\<lambda>v s. (map_err Json (from_value v), s))"

fun version_to_model :: "mmds_version \<Rightarrow> string" where
  "version_to_model MMDSv1 = MMDS_VERSION_V1"
| "version_to_model MMDSv2 = MMDS_VERSION_V2"

definition mmds_interfaces :: "network_interfaces \<Rightarrow> string list" where
  "mmds_interfaces ifs =
     List.map_filter (\<lambda>(index, i). if allow_mmds i then Some (nat_str (index + 1)) else None)
       (List.enumerate 0 ifs)"

definition set_mmds_config ::
  "ipv4_addr option \<Rightarrow> network_interfaces \<Rightarrow> mmds_version \<Rightarrow> (('j, 'x, 'os) mstate, error, unit) op" where
  "set_mmds_config address ifs version =
     (let network_interfaces = mmds_interfaces ifs in
      if network_interfaces = [] then op_ok ()
      else on_client (\<lambda>c. c_put_mmds_config c \<lparr>mm_ipv4_address = map_option octets_str address,
        mm_network_interfaces = network_interfaces, mm_version = Some (version_to_model version)\<rparr>))"

definition get_firecracker_version :: "(('j, 'x, 'os) mstate, error, string) op" where
  "get_firecracker_version =
     op_bind (on_client c_get_firecracker_version) (\<lambda>v. op_ok (fv_firecracker_version v))"

definition describe_instance_info :: "(('j, 'x, 'os) mstate, error, 'j instance_info) op" where
  "describe_instance_info = on_client c_describe_instance"

definition update_guest_drive :: "string \<Rightarrow> string \<Rightarrow> (('j, 'x, 'os) mstate, error, unit) op" where
  "update_guest_drive drive_id path_on_host =
     on_client (\<lambda>c. c_patch_guest_drive_by_id c drive_id
       \<lparr>pd_drive_id = Some drive_id, pd_path_on_host = Some path_on_host\<rparr>)"

record rate_limiter_set =
  rls_in :: "rate_limiter option"
  rls_out :: "rate_limiter option"

definition update_guest_network_interface_rate_limit ::
  "string \<Rightarrow> rate_limiter_set \<Rightarrow> (('j, 'x, 'os) mstate, error, unit) op" where
  "update_guest_network_interface_rate_limit iface_id ls =
     on_client (\<lambda>c. c_patch_guest_network_interface_by_id c iface_id
       \<lparr>pn_iface_id = Some iface_id, pn_rx_rate_limiter = rls_in ls, pn_tx_rate_limiter = rls_out ls\<rparr>)"

definition pause_vm :: "(('j, 'x, 'os) mstate, error, unit) op" where
  "pause_vm = on_client (\<lambda>c. c_patch_vm c vm_paused)"

definition resume_vm :: "(('j, 'x, 'os) mstate, error, unit) op" where
  "resume_vm = on_client (\<lambda>c. c_patch_vm c vm_resumed)"

definition create_snapshot :: "string \<Rightarrow> string \<Rightarrow> (('j, 'x, 'os) mstate, error, unit) op" where
  "create_snapshot mem_file_path snap_path =
     on_client (\<lambda>c. c_create_snapshot c
       \<lparr>sc_mem_file_path = Some mem_file_path, sc_snapshot_path = Some snap_path\<rparr>)"

definition load_snapshot :: "(('j, 'x, 'os) mstate, error, unit) op" where
  "load_snapshot = (\<lambda>(m, w).
     let sn = snapshot (cfg m) in
     on_client (\<lambda>c. c_load_snapshot c
       \<lparr>sl_mem_file_path = sn_mem_file_path sn, sl_mem_backend = sn_mem_backend sn,
        sl_snapshot_path = sn_snapshot_path sn, sl_enable_diff_snapshots = sn_enable_diff_snapshots sn,
        sl_resume_vm = sn_resume_vm sn\<rparr>) (m, w))"

definition create_balloon :: "int \<Rightarrow> bool \<Rightarrow> int \<Rightarrow> (('j, 'x, 'os) mstate, error, unit) op" where
  "create_balloon amount_mib deflate_on_oom stats_polling_intervals =
     on_client (\<lambda>c. c_put_balloon c \<lparr>bl_amount_mib = Some amount_mib,
       bl_deflate_on_oom = Some deflate_on_oom, bl_stats_polling_intervals = stats_polling_intervals\<rparr>)"

definition get_balloon_config :: "(('j, 'x, 'os) mstate, error, balloon) op" where
  "get_balloon_config = on_client c_get_balloon_config"

definition update_balloon :: "int \<Rightarrow> (('j, 'x, 'os) mstate, error, unit) op" where
  "update_balloon amount_mib = on_client (\<lambda>c. c_patch_balloon c \<lparr>bu_amount_mib = Some amount_mib\<rparr>)"

definition get_balloon_stats :: "(('j, 'x, 'os) mstate, error, 'j balloon_stats) op" where
  "get_balloon_stats = on_client c_get_balloon_stats"

definition update_balloon_stats :: "int \<Rightarrow> (('j, 'x, 'os) mstate, error, unit) op" where
  "update_balloon_stats i =
     on_client (\<lambda>c. c_patch_balloon_stats_interval c \<lparr>bsu_stats_polling_intervals = Some i\<rparr>)"

definition get_export_vm_config :: "(('j, 'x, 'os) mstate, error, full_vm_configuration) op" where
  "get_export_vm_config = on_client c_get_export_vm_config"

definition start_instance :: "(('j, 'x, 'os) mstate, error, unit) op" where
  "start_instance = (\<lambda>(m, w).
     if has_snapshot (cfg m) then (Inr (), (m, w))
     else on_client (\<lambda>c. c_create_sync_action c
       \<lparr>ia_action_type = Some INSTANCE_ACTION_INSTANCE_START\<rparr>) (m, w))"

end
