(* ===== verification/Machine_Start.thy ===== *)
theory Machine_Start
  imports Sdk_Machine
begin

text \<open>
  The construction and the start of a machine: the bodies of the handlers of \<open>src/handlers.rs\<close>,
  \<open>Handlers::run\<close>, \<open>Machine::start\<close> and \<open>Machine::new_with_client\<close>.
\<close>

section \<open>Handler bodies\<close>

text \<open>\<open>on_cfg\<close>: a step that sees the configuration and the operating system only.\<close>

definition on_cfg ::
  "(('j, 'x) config \<times> 'os, error, unit) op \<Rightarrow> (('j, 'x, 'os) mstate, error, unit) op" where
  "on_cfg f = (\<lambda>(m, w). case f (cfg m, sos w) of (r, (c, os)) \<Rightarrow> (r, (m\<lparr>cfg := c\<rparr>, w\<lparr>sos := os\<rparr>)))"

definition load_snapshot_validation :: "'os os_env \<Rightarrow> (('j, 'x, 'os) mstate, error, unit) op" where
  "load_snapshot_validation E = (\<lambda>(m, w).
     if get_mem_backend_path (snapshot (cfg m)) = None \<or> sn_snapshot_path (snapshot (cfg m)) = None then
       (Inl (InvalidConfig ''snapshot load requires both memory backend and snapshot path''), (m, w))
     else on_os (validate_load_snapshot E (cfg m)) (m, w))"

definition jailer_config_validation :: "('j, 'x) config \<Rightarrow> unit result" where
  "jailer_config_validation c =
     (case jailer_cfg c of
        None \<Rightarrow> Inr ()
      | Some j \<Rightarrow>
          if \<not> root_drive_present c then
            Inl (InvalidConfig ''A root drive must be present in the drive list'')
          else if jc_chroot_strategy j = None then Inl (InvalidConfig ''ChrootStrategy cannot be nil'')
          else if jc_exec_file j = [] then
            Inl (InvalidConfig ''exec file must be specified when using jailer mode'')
          else if jc_id j = [] then Inl (InvalidConfig ''id must be specified when using jailer mode'')
          else if jc_gid j = None then Inl (InvalidConfig ''GID must be specified when using jailer mode'')
          else if jc_uid j = None then Inl (InvalidConfig ''UID must be specified when using jailer mode'')
          else if jc_numa_node j = None then
            Inl (InvalidConfig ''NUMA node must be specified when using jailer mode'')
          else Inr ())"

text \<open>
  The effect of each handler function. \<open>X\<close> gives the closures supplied by the user of the SDK a
  meaning.
\<close>

record ('j, 'x, 'os) menv =
  me_os :: "'os os_env"
  me_net :: ipnet_ops
  me_fuel :: nat
  me_custom :: "'x \<Rightarrow> (('j, 'x, 'os) mstate, error, unit) op"

fun exec :: "('j, 'x, 'os) menv \<Rightarrow> ('j, 'x) handler_fn \<Rightarrow> (('j, 'x, 'os) mstate, exc, unit) op" where
  "exec V ValidateCfg = op_map_err Err (\<lambda>(m, w). on_os (config_validate (me_os V) (cfg m)) (m, w))"
| "exec V ValidateLoadSnapshotCfg = op_map_err Err (load_snapshot_validation (me_os V))"
| "exec V ValidateJailerCfg = op_map_err Err (\<lambda>(m, w). (jailer_config_validation (cfg m), (m, w)))"
| "exec V ValidateNetworkCfg = op_map_err Err (\<lambda>(m, w). (validate_network (cfg m), (m, w)))"
| "exec V StartVmm = start_vmm (me_os V) (me_fuel V)"
| "exec V CreateLogFiles = op_map_err Err (create_log_files (me_os V))"
| "exec V BootstrapLogging = op_map_err Err (op_then setup_logging setup_metrics)"
| "exec V CreateMachine = op_map_err Err create_machine"
| "exec V CreateBootSource = op_map_err Err (\<lambda>(m, w).
     create_boot_source (kernel_image_path (cfg m)) (initrd_path (cfg m)) (Some (kernel_args (cfg m))) (m, w))"
| "exec V AttachDrives = op_map_err Err attach_drives"
| "exec V CreateNetworkInterfaces = op_map_err Err create_network_interfaces"
| "exec V AddVsocks = op_map_err Err add_vsocks"
| "exec V (SetMetadata metadata) = op_map_err Err (set_metadata metadata)"
| "exec V ConfigMmds = op_map_err Err (\<lambda>(m, w).
     set_mmds_config (mmds_address (cfg m)) (cfg_network_interfaces (cfg m)) (cfg_mmds_version (cfg m)) (m, w))"
| "exec V SetupNetwork = op_map_err Err (setup_network (me_net V))"
| "exec V SetupKernelArgs = op_map_err Err (upd_m (\<lambda>m. m\<lparr>cfg := setup_kernel_args (me_net V) (cfg m)\<rparr>))"
| "exec V LoadSnapshot = op_map_err Err load_snapshot"
| "exec V (LinkFiles kernel_file) = op_map_err Err (on_cfg (link_files (me_os V) kernel_file))"
| "exec V (Custom x) = op_map_err Err (me_custom V x)"

text \<open>\<open>Handlers::run\<close> and \<open>Machine::start\<close>.\<close>

definition handlers_run ::
  "('j, 'x, 'os) menv \<Rightarrow> ('j, 'x) sdk_handlers \<Rightarrow> (('j, 'x, 'os) mstate, exc, unit) op" where
  "handlers_run V hs = (\<lambda>(m, w).
     op_then (if \<not> disable_validation (cfg m) then hl_run (exec V) (validation hs) else op_ok ())
       (hl_run (exec V) (fc_init hs)) (m, w))"

definition start :: "('j, 'x, 'os) menv \<Rightarrow> (('j, 'x, 'os) mstate, exc, unit) op" where
  "start V = (\<lambda>(m, w).
     if started m then (Inl (Err AlreadyStarted), (m, w))
     else op_then (aborting (me_os V) (handlers_run V (m_handlers m)))
            (aborting (me_os V) (op_map_err Err start_instance)) (m\<lparr>started := True\<rparr>, w))"

section \<open>Construction\<close>

text \<open>
  The parameters \<open>real_cni\<close> and \<open>netlink\<close> are the default implementations \<open>RealCniNetworkOperations\<close>
  and \<open>RealNetlinkOps\<close>.
\<close>

definition initial_handlers :: "('j, 'x) config \<Rightarrow> ('j, 'x) sdk_handlers" where
  "initial_handlers c =
     (let hs = default_handlers;
          hs1 = hs\<lparr>validation := hl_append
            [if jailer_cfg c \<noteq> None then jailer_config_validation_handler else config_validation_handler]
            (validation hs)\<rparr>
      in if has_snapshot c then adapt_handlers_for_snapshot hs1 else hs1)"

definition new_with_client ::
  "'os os_env \<Rightarrow> 'os cni_network_operations \<Rightarrow> ('j, 'x) config \<Rightarrow> ('j, 'os, error) client_ops \<Rightarrow>
   ('os, error, ('j, 'x, 'os) machine) op" where
  "new_with_client E real_cni c0 cl os0 =
     (let (c1, os1) = (if vmid c0 = [] then (case uuid_v4 E os0 of (u, os) \<Rightarrow> (c0\<lparr>vmid := u\<rparr>, os)) else (c0, os0));
          c2 = (if forward_signals c1 = None
                then c1\<lparr>forward_signals := Some (normalized_forward_signals c1)\<rparr> else c1);
          hs = initial_handlers c2;
          c3 = (if net_ns c2 = None \<and> cni_interface (cfg_network_interfaces c2) \<noteq> None
                then c2\<lparr>net_ns := Some (DEFAULT_NET_NS_DIR @ ''/'' @ vmid c2)\<rparr> else c2);
          m = \<lparr>cfg = c3, m_handlers = hs, client = cl, cni_network_ops = real_cni,
               netlink_ops = real_get_link E, command = None, process = None,
               machine_config = machine_cfg c3, m_logger = None, exit_event = False,
               signal_forwarder = None, cleanup_funcs = [], cleanup_done = False, started = False,
               fatal_err = None\<rparr>
      in if jailer_cfg c3 \<noteq> None then
           (case jail E \<lparr>js_cfg = c3, js_command = None, js_handlers = hs, js_os = os1\<rparr> of
              (Inl e, s) \<Rightarrow> (Inl e, js_os s)
            | (Inr _, s) \<Rightarrow>
                (Inr (m\<lparr>cfg := js_cfg s, command := js_command s, m_handlers := js_handlers s\<rparr>), js_os s))
         else
           (Inr (m\<lparr>command := Some (vb_build
              (vb_with_args ([''--id'', vmid c3] @ seccomp_args (sec_enabled (seccomp c3)) (sec_filter (seccomp c3)))
                (vb_with_socket_path (socket_path c3) (vb_with_bin DEFAULT_FC_BIN vb_default))))\<rparr>), os1))"

text \<open>\<open>Machine::new\<close>; \<open>connect\<close> makes the client for a socket path.\<close>

definition machine_new ::
  "'os os_env \<Rightarrow> 'os cni_network_operations \<Rightarrow> 'j \<Rightarrow> (string \<Rightarrow> ('j, 'os, error) client_ops) \<Rightarrow> ('j, 'x) config \<Rightarrow>
   ('os, error, ('j, 'x, 'os) machine) op" where
  "machine_new E real_cni empty_object connect c =
     op_bind (new_with_client E real_cni c (noop_client empty_object))
       (\<lambda>m. op_ok (m\<lparr>client := connect (socket_path (cfg m))\<rparr>))"

section \<open>Cleanup functions\<close>

text \<open>Running a list of cleanup functions in a given order, and the texts of their errors.\<close>

fun run_cleanups :: "'os cleanup_fn list \<Rightarrow> 'os \<Rightarrow> string list \<times> 'os" where
  "run_cleanups [] os = ([], os)"
| "run_cleanups (f # fs) os =
     (case f os of (r, os1) \<Rightarrow>
        (case run_cleanups fs os1 of (errs, os2) \<Rightarrow>
          (case r of Inl e \<Rightarrow> error_display e # errs | Inr _ \<Rightarrow> errs, os2)))"

lemma cleanup_loop_eq:
  "cleanup_loop fs errors os = (case run_cleanups (rev fs) os of (errs, os') \<Rightarrow> (errors @ errs, os'))"
proof (induction fs arbitrary: errors os rule: rev_induct)
  case Nil
  then show ?case by (simp add: cleanup_loop.simps)
next
  case (snoc f fs)
  show ?case
    by (subst cleanup_loop.simps) (auto simp: snoc.IH split: prod.splits sum.splits)
qed

text \<open>
  C34: cleanup runs every registered function exactly once, the last registered first, even when some
  fail, and reports all their errors; the functions are gone afterwards, and a second cleanup does
  nothing.
\<close>

theorem do_cleanup_lifo_once:
  "do_cleanup (m, w) =
     (if cleanup_done m then (Inr (), (m, w))
      else case run_cleanups (rev (cleanup_funcs m)) (sos w) of
          (errs, os) \<Rightarrow>
            (if errs = [] then Inr () else Inl (Process (''cleanup failed: '' @ join ''; '' errs)),
             (m\<lparr>cleanup_done := True, cleanup_funcs := []\<rparr>, w\<lparr>sos := os\<rparr>)))
   \<and> do_cleanup (snd (do_cleanup (m, w))) = (Inr (), snd (do_cleanup (m, w)))"
  by (auto simp: do_cleanup_def cleanup_loop_eq split: prod.splits)

end
