(* ===== verification/Machine_Life.thy ===== *)
theory Machine_Life
  imports Machine_Start
begin

text \<open>
  The life cycle of a machine: what a failed start, a stop, a wait and an observed exit leave behind.
\<close>

section \<open>What finalisation does to the machine\<close>

text \<open>A machine whose process is gone and whose resources have been released.\<close>

definition settled :: "('j, 'x, 'os) machine \<Rightarrow> bool" where
  "settled m \<longleftrightarrow> process m = None \<and> signal_forwarder m = None \<and> cleanup_done m \<and> exit_event m"

definition after_cleanup :: "('j, 'x, 'os) machine \<Rightarrow> ('j, 'x, 'os) machine" where
  "after_cleanup m = m\<lparr>cleanup_done := True, cleanup_funcs := (if cleanup_done m then cleanup_funcs m else [])\<rparr>"

lemma after_cleanup_simps [simp]:
  "cleanup_done (after_cleanup m)" "process (after_cleanup m) = process m"
  "signal_forwarder (after_cleanup m) = signal_forwarder m" "exit_event (after_cleanup m) = exit_event m"
  "fatal_err (after_cleanup m) = fatal_err m" "started (after_cleanup m) = started m"
  "cfg (after_cleanup m) = cfg m" "client (after_cleanup m) = client m"
  "m_handlers (after_cleanup m) = m_handlers m"
  by (simp_all add: after_cleanup_def)

lemma do_cleanup_machine: "do_cleanup (m, w) = (r, (m', w')) \<Longrightarrow> m' = after_cleanup m"
  by (auto simp: do_cleanup_def after_cleanup_def split: if_splits prod.splits)

lemma shutdown_signal_forwarder_machine:
  "shutdown_signal_forwarder E (m, w) = (m', w') \<Longrightarrow> m' = m\<lparr>signal_forwarder := None\<rparr>"
  by (auto simp: shutdown_signal_forwarder_def split: option.splits)

lemma finalize_exit_result_machine:
  "finalize_exit_result E x (m, w) = (r, (m', w')) \<Longrightarrow>
     m' = after_cleanup (signal_exit (m\<lparr>signal_forwarder := None\<rparr>))"
  by (auto simp: finalize_exit_result_def Let_def split: prod.splits
      dest!: do_cleanup_machine shutdown_signal_forwarder_machine)

lemma wait_for_process_exit_machine:
  "wait_for_process_exit E (m, w) = (r, (m', w')) \<Longrightarrow> m' = m\<lparr>process := None\<rparr>"
  by (auto simp: wait_for_process_exit_def op_bind_def on_os_def split: option.splits prod.splits sum.splits)

lemma finalize_process_exit_machine:
  assumes "finalize_process_exit E (m, w) = (r, (m', w'))"
  shows "m' = after_cleanup (signal_exit (m\<lparr>process := None, signal_forwarder := None\<rparr>))"
  using assms
  by (auto simp: finalize_process_exit_def split: prod.splits
      dest!: wait_for_process_exit_machine finalize_exit_result_machine)

lemma remembering_finalize:
  assumes "remembering (finalize_process_exit E) (m, w) = (m', w')"
  shows "settled m'" "started m' = started m" "fatal_err m = Some e \<Longrightarrow> fatal_err m' = Some e"
    "cfg m' = cfg m"
  using assms
  by (auto simp: remembering_def remember_terminal_error_def settled_def signal_exit_def
      split: prod.splits sum.splits if_splits dest!: finalize_process_exit_machine)

lemma send_sigterm_machine: "send_sigterm_to_vmm E (m, w) = (r, (m', w')) \<Longrightarrow> m' = m"
  by (auto simp: send_sigterm_to_vmm_def op_bind_def on_os_def op_ok_def
      split: option.splits prod.splits sum.splits if_splits)

lemma stop_vmm_machine:
  assumes "stop_vmm E (m, w) = (r, (m', w'))"
  shows "started m' = started m" "cfg m' = cfg m" "r = Inr () \<Longrightarrow> process m' = None \<and> cleanup_done m'"
    "r = Inr () \<Longrightarrow> process m \<noteq> None \<or> \<not> cleanup_done m \<Longrightarrow> settled m'"
    "exit_event m \<Longrightarrow> exit_event m'"
proof -
  obtain m1 w1 where send: "send_sigterm_to_vmm E (m, w) = (r, (m1, w1))"
    using assms by (auto simp: stop_vmm_def split: prod.splits)
  note m1 = send_sigterm_machine [OF send]
  consider "m' = m" "\<not> (is_ok r \<and> (process m \<noteq> None \<or> \<not> cleanup_done m))"
    | "remembering (finalize_process_exit E) (m, w1) = (m', w')"
    using assms send m1 by (auto simp: stop_vmm_def split: if_splits)
  then show "started m' = started m" "cfg m' = cfg m" "r = Inr () \<Longrightarrow> process m' = None \<and> cleanup_done m'"
    "r = Inr () \<Longrightarrow> process m \<noteq> None \<or> \<not> cleanup_done m \<Longrightarrow> settled m'"
    "exit_event m \<Longrightarrow> exit_event m'"
    by (cases; auto dest: remembering_finalize simp: settled_def)+
qed

section \<open>A failed start\<close>

lemma abort_start_machine:
  assumes "abort_start E e (m, w) = (e', (m', w'))"
  shows "settled m'" "\<exists>f. fatal_err m' = Some f \<and> e' = copy_error f" "started m' = started m"
    "cfg m' = cfg m"
proof -
  let ?m0 = "signal_exit m"
  obtain se m1 w1 where s1: "(if process ?m0 \<noteq> None
      then (case stop_vmm E (?m0, w) of (r, s) \<Rightarrow> (err_of r, s)) else (None, (?m0, w))) = (se, (m1, w1))"
    by (metis prod.exhaust)
  obtain m2 w2 where s2: "shutdown_signal_forwarder E (m1, w1) = (m2, w2)" by fastforce
  obtain wr m3 w3 where s3: "wait_for_process_exit E (m2, w2) = (wr, (m3, w3))" by (metis prod.exhaust)
  obtain cr m4 w4 where s4: "do_cleanup (m3, w3) = (cr, (m4, w4))" by (metis prod.exhaust)
  let ?f = "abort_message e se (err_of wr) (err_of cr)"
  have m1: "exit_event m1" "started m1 = started m" "cfg m1 = cfg m"
    using s1 by (auto simp: signal_exit_def split: if_splits prod.splits dest: stop_vmm_machine)
  have eq: "e' = copy_error ?f" "m' = m4\<lparr>fatal_err := Some ?f\<rparr>"
    using assms s1 s2 s3 s4 by (auto simp: abort_start_def Let_def)
  note ms = shutdown_signal_forwarder_machine [OF s2] wait_for_process_exit_machine [OF s3]
    do_cleanup_machine [OF s4]
  show "settled m'" "\<exists>f. fatal_err m' = Some f \<and> e' = copy_error f" "started m' = started m" "cfg m' = cfg m"
    using m1 by (simp_all add: settled_def eq ms)
qed

lemma machine_wait_settled:
  "settled m \<Longrightarrow> machine_wait E (m, w) =
     (case fatal_err m of Some e \<Rightarrow> Inl (copy_error e) | None \<Rightarrow> Inr (), (m, w))"
  by (simp add: machine_wait_def settled_def)

text \<open>
  C36: waiting is idempotent: a second wait changes nothing and gives the result of the first.
\<close>

theorem machine_wait_idempotent: "machine_wait E (snd (machine_wait E s)) = machine_wait E s"
proof -
  obtain m w where s: "s = (m, w)" by fastforce
  show ?thesis
  proof (cases "process m \<noteq> None \<or> \<not> cleanup_done m")
    case True
    obtain m' w' where fin: "remembering (finalize_process_exit E) (m, w) = (m', w')" by fastforce
    with True have "machine_wait E s =
        (case fatal_err m' of Some e \<Rightarrow> Inl (copy_error e) | None \<Rightarrow> Inr (), (m', w'))"
      by (simp add: machine_wait_def s)
    with machine_wait_settled [OF remembering_finalize(1) [OF fin]] show ?thesis by simp
  qed (simp add: machine_wait_def s)
qed

text \<open>
  C35: a stop that succeeds leaves a machine without a process and with its cleanup done; the process
  id is then refused, and the first error that was recorded is never overwritten by the exit of the
  process.
\<close>

theorem stop_vmm_success:
  assumes "stop_vmm E (m, w) = (Inr (), (m', w'))"
  shows "process m' = None \<and> cleanup_done m' \<and> started m' = started m \<and>
    machine_pid E (m', w') = (Inl (Process ''machine is not running''), (m', w')) \<and>
    (fatal_err m \<noteq> None \<longrightarrow> fatal_err m' = fatal_err m)"
proof -
  obtain m1 w1 where send: "send_sigterm_to_vmm E (m, w) = (Inr (), (m1, w1))"
    using assms by (auto simp: stop_vmm_def split: prod.splits)
  note m1 = send_sigterm_machine [OF send]
  have "fatal_err m' = Some e" if "fatal_err m = Some e" for e
    using assms send m1 that by (auto simp: stop_vmm_def split: if_splits dest: remembering_finalize)
  with stop_vmm_machine [OF assms] show ?thesis by (auto simp: machine_pid_def)
qed

section \<open>Starting twice\<close>

abbreviation is_started :: "('j, 'x, 'os) mstate \<Rightarrow> bool" where
  "is_started s \<equiv> started (fst s)"

lemma keeps_lift [keeps_intros]:
  "keeps is_started (on_os f)" "keeps is_started (on_client g)" "keeps is_started (on_sig h)"
  by (auto simp: keeps_def on_os_def on_client_def on_sig_def split: prod.splits)

lemma keeps_upd [keeps_intros]: "(\<And>m. started m \<Longrightarrow> started (f m)) \<Longrightarrow> keeps is_started (upd_m f)"
  by (auto simp: keeps_def upd_m_def)

lemma keeps_plain: "(\<And>m w. started m \<Longrightarrow> started (fst (snd (f (m, w))))) \<Longrightarrow> keeps is_started f"
  by (auto simp: keeps_def)

lemma abort_start_started: "started (fst (snd (abort_start E e (m, w)))) = started m"
  using abort_start_machine(3) [of E e m w] by (metis prod.collapse)

lemma keeps_aborting [keeps_intros]: "keeps is_started f \<Longrightarrow> keeps is_started (aborting E f)"
proof (rule keepsI)
  fix s :: "('a, 'b, 'c) mstate"
  assume f: "keeps is_started f" and s: "is_started s"
  obtain r m w where fs: "f s = (r, (m, w))" by (metis prod.exhaust)
  with keepsD [OF f s] have "started m" by simp
  with fs abort_start_started [of E _ m w] show "is_started (snd (aborting E f s))"
    by (auto simp: aborting_def split: prod.splits sum.splits exc.splits) (metis fst_conv snd_conv)
qed

lemma poll_keeps:
  "(\<And>s r s'. P s \<Longrightarrow> body s = (r, s') \<Longrightarrow> P s') \<Longrightarrow> P s \<Longrightarrow> P (snd (poll n body s))"
  by (induction n arbitrary: s) (auto split: prod.splits option.splits)

lemma keeps_app:
  "(\<And>m w. started m \<Longrightarrow> \<exists>g. keeps is_started g \<and> f (m, w) = g (m, w)) \<Longrightarrow> keeps is_started f"
  unfolding keeps_def by (metis fst_conv prod.collapse)

lemma keeps_read: "(\<And>m w. keeps P (f m w)) \<Longrightarrow> keeps P (\<lambda>(m, w). f m w (m, w))"
  by (auto simp: keeps_def)

lemma keeps_start_vmm [keeps_intros]: "keeps is_started (start_vmm E fuel)"
proof -
  have att: "started m \<Longrightarrow> vmm_ready_attempt E (m, w) = (r, (m', w')) \<Longrightarrow> started m'"
    for m :: "('a, 'b, 'c) machine" and w r m' w'
    by (auto simp: vmm_ready_attempt_def on_os_def on_client_def
        split: option.splits prod.splits sum.splits)
  have wait: "keeps is_started (wait_for_vmm_ready E fuel t :: (('a, 'b, 'c) mstate, exc, unit) op)" for t
  proof (rule keepsI)
    fix s :: "('a, 'b, 'c) mstate"
    assume s: "is_started s"
    obtain now s1 where now: "machine_now E s = (now, s1)" by (cases "machine_now E s")
    with s have s1: "is_started s1" by (auto simp: machine_now_def split: prod.splits)
    have "is_started (snd (poll fuel (deadline_round (machine_now E) (machine_sleep E 10) d x
        (vmm_ready_attempt E)) s1))" for d x
      by (rule poll_keeps [where P = is_started, OF _ s1])
        (auto simp: deadline_round_def machine_now_def machine_sleep_def dest: att
          split: prod.splits option.splits if_splits)
    then show "is_started (snd (wait_for_vmm_ready E fuel t s))"
      by (auto simp: wait_for_vmm_ready_def wait_with_deadline_def now s1 split: option.splits prod.splits)
        (metis snd_conv fst_conv)+
  qed
  have wait_at: "keeps is_started (\<lambda>(m :: ('a, 'b, 'c) machine, w).
      aborting E (wait_for_vmm_ready E fuel (t w)) (m, w))" for t
    by (rule keeps_read) (intro keeps_intros wait)
  have netns: "keeps is_started (configure_command_netns E :: (('a, 'b, 'c) mstate, error, string option) op)"
    by (rule keeps_plain) (auto simp: configure_command_netns_def op_bind_def on_os_def op_ok_def
        split: option.splits prod.splits sum.splits)
  have fwd: "keeps is_started (install_signal_forwarder E :: (('a, 'b, 'c) mstate, error, unit) op)"
    by (rule keeps_plain) (auto simp: install_signal_forwarder_def op_bind_def on_sig_def upd_m_def
        split: option.splits prod.splits sum.splits)
  show ?thesis
  proof (rule keeps_app)
    fix m :: "('a, 'b, 'c) machine" and w
    assume "started m"
    show "\<exists>g. keeps is_started g \<and> start_vmm E fuel (m, w) = g (m, w)"
    proof (cases "command m")
      case None
      then show ?thesis
        by (intro exI [of _ "op_err (Err (Process ''machine command is not configured''))"])
          (simp add: keeps_intros start_vmm_def op_simps)
    next
      case (Some c)
      show ?thesis
        unfolding start_vmm_def
        by (simp add: Some, rule exI, rule conjI [OF _ refl])
          (auto intro!: keeps_intros wait_at netns fwd simp: push_cleanup_func_def)
    qed
  qed
qed

lemma keeps_map_cfg: "keeps is_started (on_cfg f)"
  by (rule keeps_plain) (auto simp: on_cfg_def split: prod.splits)

lemma keeps_create_log_files: "keeps is_started (create_log_files E)"
proof -
  have c: "keeps is_started (create_fifo_or_file E a b :: (('a, 'b, 'c) mstate, error, unit) op)" for a b
    unfolding create_fifo_or_file_def by (auto intro!: keeps_intros simp: push_cleanup_func_def)
  have wrn: "started m \<Longrightarrow> started (fst (warn E msg (m, w)))" for m :: "('a, 'b, 'c) machine" and msg w
    by (auto simp: warn_def split: option.splits)
  have last: "keeps is_started (\<lambda>s :: ('a, 'b, 'c) mstate. case on_os (capture_fifo_to_file E fifo writer) s of
        (Inl e, s') \<Rightarrow> (Inr () :: error + unit, warn E (msg e) s') | (Inr _, s') \<Rightarrow> (Inr (), s'))" for fifo writer msg
    by (rule keeps_plain) (auto simp: on_os_def wrn split: prod.splits sum.splits)
  show ?thesis
  proof (rule keeps_app)
    fix m :: "('a, 'b, 'c) machine" and w
    show "\<exists>g. keeps is_started g \<and> create_log_files E (m, w) = g (m, w)"
      unfolding create_log_files_def Let_def
      by (simp only: prod.case, rule exI, rule conjI [OF _ refl])
        (auto intro!: keeps_intros c last split: option.splits)
  qed
qed

lemma keeps_for_at:
  "(\<And>x. keeps is_started (f x)) \<Longrightarrow> keeps is_started (\<lambda>(m, w). op_for f (g m) (m, w))"
  by (rule keeps_app) (auto intro!: keeps_intros)

lemma keeps_pure: "keeps is_started (\<lambda>(m, w). (g m, (m, w)))"
  by (auto simp: keeps_def)

lemma keeps_requests:
  "keeps is_started setup_logging" "keeps is_started setup_metrics" "keeps is_started create_machine"
  "keeps is_started (create_boot_source img initrd args)" "keeps is_started (set_metadata j)"
  "keeps is_started (set_mmds_config address ifs version)" "keeps is_started load_snapshot"
  "keeps is_started (load_snapshot_validation E)" "keeps is_started (setup_network N)"
  "keeps is_started start_instance"
  by (rule keeps_plain, auto simp: setup_logging_def setup_metrics_def create_machine_def
      refresh_machine_configuration_def create_boot_source_def set_metadata_def set_mmds_config_def
      load_snapshot_def load_snapshot_validation_def setup_network_def start_instance_def
      push_cleanup_funcs_def lift_defs op_ok_def op_bind_def Let_def
      split: prod.splits sum.splits option.splits)+

lemma keeps_request_loops:
  "keeps is_started attach_drives" "keeps is_started add_vsocks" "keeps is_started create_network_interfaces"
  unfolding attach_drives_def add_vsocks_def create_network_interfaces_def
  by (rule keeps_for_at, auto simp: attach_drive_def add_vsock_def create_network_interface_def
      intro!: keeps_intros split: option.splits)+

lemma exec_keeps_started: "(\<And>x. h \<noteq> Custom x) \<Longrightarrow> keeps is_started (exec V h)"
  by (cases h)
    (auto intro!: keeps_map_err keeps_bind keeps_upd keeps_start_vmm keeps_requests keeps_request_loops
      keeps_map_cfg keeps_create_log_files keeps_pure keeps_read keeps_lift)

lemma hl_run_keeps_started:
  "(\<And>h x. h \<in> set hs \<Longrightarrow> hfunc h \<noteq> Custom x) \<Longrightarrow> keeps is_started (hl_run (exec V) hs)"
  unfolding hl_run_def by (rule keeps_for) (auto intro: exec_keeps_started)

text \<open>
  C24: a machine can be started once only. Whatever the first start did, and however it ended, a
  second one is refused and changes nothing (handlers supplied by the user apart, which may change
  any field of the machine).
\<close>

theorem start_only_once:
  assumes "\<And>h x. h \<in> set (validation (m_handlers m)) \<union> set (fc_init (m_handlers m)) \<Longrightarrow> hfunc h \<noteq> Custom x"
  shows "start V (snd (start V (m, w))) = (Inl (Err AlreadyStarted), snd (start V (m, w)))"
proof (cases "started m")
  case False
  have run: "keeps is_started (handlers_run V (m_handlers m))"
    unfolding handlers_run_def
    by (rule keeps_app, simp only: prod.case, rule exI, rule conjI [OF _ refl])
      (use assms in \<open>auto intro!: keeps_intros hl_run_keeps_started\<close>)
  have "keeps is_started (op_then (aborting (me_os V) (handlers_run V (m_handlers m)))
      (aborting (me_os V) (op_map_err Err start_instance)))"
    by (intro keeps_intros run keeps_requests)
  from keepsD [OF this, of "(m\<lparr>started := True\<rparr>, w)"] False
  have "is_started (snd (start V (m, w)))" by (simp add: start_def)
  then show ?thesis by (cases "snd (start V (m, w))") (simp add: start_def)
qed (simp add: start_def)

end
