(* ===== verification/Machine_Wait.thy ===== *)
theory Machine_Wait
  imports Machine_Life
begin

text \<open>
  The waits of a machine: they end by their deadline, and what makes them panic instead. Also the
  interplay of a machine with the signal manager and with the CNI set-up.
\<close>

section \<open>Deadlines\<close>

text \<open>A machine whose client does not turn back the clock.\<close>

definition steady_client :: "('os \<Rightarrow> nat) \<Rightarrow> ('j, 'os, error) client_ops \<Rightarrow> bool" where
  "steady_client time cl \<longleftrightarrow> (\<forall>os. time os \<le> time (snd (c_get_machine_configuration cl os)))"

lemma machine_clock:
  assumes "clock_ok E time"
  shows "machine_now E (m, w) = (t, (m', w')) \<Longrightarrow> m' = m \<and> t = time (sos w') \<and> time (sos w) \<le> time (sos w')"
    and "time (sos w) + n \<le> time (sos (snd (machine_sleep E n (m, w))))"
  using clock_okD(1) [OF assms, of "sos w"] clock_okD(2) [OF assms, of "sos w" n]
  by (auto simp: machine_now_def machine_sleep_def split: prod.splits)

lemma on_os_le:
  assumes "\<And>os r os'. f os = (r, os') \<Longrightarrow> time os \<le> time os'" "on_os f (m, w) = (r, (m', w'))"
  shows "m' = m \<and> time (sos w) \<le> (time (sos w') :: nat)"
  using assms(2) by (auto simp: on_os_def split: prod.splits dest: assms(1))

lemma probe_steps:
  assumes ok: "clock_ok E time" and cl: "steady_client time (client m)"
  shows "on_os (fs_metadata E p) (m, w) = (r, (m', w')) \<Longrightarrow> m' = m \<and> time (sos w) \<le> time (sos w')"
    and "on_client c_get_machine_configuration (m, w) = (r', (m', w')) \<Longrightarrow> m' = m \<and> time (sos w) \<le> time (sos w')"
    and "on_os (op_io (proc_try_wait E c)) (m, w) = (r'', (m', w')) \<Longrightarrow> m' = m \<and> time (sos w) \<le> time (sos w')"
proof -
  show "on_os (fs_metadata E p) (m, w) = (r, (m', w')) \<Longrightarrow> m' = m \<and> time (sos w) \<le> time (sos w')"
    by (erule on_os_le [rotated]) (rule clock_okD(3) [OF ok])
  have "time os \<le> time os'" if "c_get_machine_configuration (client m) os = (x, os')" for os x os'
    using cl that unfolding steady_client_def by (metis snd_conv)
  note get = on_os_le [where f = "c_get_machine_configuration (client m)", OF this]
  show "on_client c_get_machine_configuration (m, w) = (r', (m', w')) \<Longrightarrow> m' = m \<and> time (sos w) \<le> time (sos w')"
    unfolding on_client_def prod.case by (rule get)
  show "on_os (op_io (proc_try_wait E c)) (m, w) = (r'', (m', w')) \<Longrightarrow> m' = m \<and> time (sos w) \<le> time (sos w')"
    by (erule on_os_le [rotated]) (auto simp: op_map_err_cases dest: clock_okD(4) [OF ok])
qed

lemma vmm_ready_attempt_steady:
  assumes ok: "clock_ok E time" and cl: "steady_client time (client m)"
    and run: "vmm_ready_attempt E (m, w) = (r, (m', w'))"
  shows "client m' = client m \<and> time (sos w) \<le> time (sos w')"
proof -
  note probe = probe_steps [OF ok cl]
  have tail: "client m' = client m \<and> time (sos w1) \<le> time (sos w')"
    if "(case on_os (fs_metadata E (socket_path (cfg m))) (m, w1) of
            (Inl _, s) \<Rightarrow> (None, s)
          | (Inr _, s) \<Rightarrow> (case on_client c_get_machine_configuration s of
               (Inl _, s') \<Rightarrow> (None, s') | (Inr _, s') \<Rightarrow> (Some (Inr ()), s'))) = (r, (m', w'))" for w1
    using that by (auto split: prod.splits sum.splits dest!: probe(1,2) intro: order_trans)
  show ?thesis
  proof (cases "process m")
    case None
    with run tail [of w] show ?thesis by (simp add: vmm_ready_attempt_def)
  next
    case (Some c)
    obtain st m1 w1 where tw: "on_os (op_io (proc_try_wait E c)) (m, w) = (st, (m1, w1))" by (metis prod.exhaust)
    note t1 = probe(3) [OF tw]
    show ?thesis
      using run tw t1 tail [of w1] Some
      by (auto simp: vmm_ready_attempt_def split: sum.splits option.splits)
  qed
qed

lemma wait_with_deadline_returns:
  assumes ok: "clock_ok E time"
    and att: "\<And>m w r m' w'. I m \<Longrightarrow> attempt (m, w) = (r, (m', w')) \<Longrightarrow> I m' \<and> time (sos w) \<le> time (sos w')"
    and I: "I m" and fuel: "timeout_ms < fuel"
    and no_panic: "\<And>t os. clock_now E (sos w) = (t, os) \<Longrightarrow> (t + timeout_ms) div 1000 < 2 ^ 63"
  shows "\<exists>r s. wait_with_deadline E fuel timeout_ms msg attempt (m, w) = (map_err Err r, s)"
proof -
  obtain t m1 w1 where now: "machine_now E (m, w) = (t, (m1, w1))" by (metis prod.exhaust)
  note t = machine_clock(1) [OF ok now]
  have clk: "clock_now E (sos w) = (t, sos w1)" using now by (auto simp: machine_now_def split: prod.splits)
  have laws: "timed (\<lambda>(m, w). I m) (machine_now E) (machine_sleep E 10) attempt (\<lambda>(m, w). time (sos w))"
    unfolding timed_def split_paired_All prod.case
  proof (intro conjI allI impI)
    fix m w t m' w'
    assume "I m" and now: "machine_now E (m, w) = (t, (m', w'))"
    with machine_clock(1) [OF ok now] show "I m'" "t = time (sos w')" "time (sos w) \<le> time (sos w')"
      by simp_all
  next
    fix m w
    assume "I m"
    then show "case machine_sleep E 10 (m, w) of (m, w) \<Rightarrow> I m"
      "time (sos w) < (case machine_sleep E 10 (m, w) of (m, w) \<Rightarrow> time (sos w))"
      using machine_clock(2) [OF ok, of w 10 m] by (simp_all add: machine_sleep_def)
  next
    fix m w r m' w'
    assume "I m" "attempt (m, w) = (r, (m', w'))"
    from att [OF this] show "I m'" "time (sos w) \<le> time (sos w')" by simp_all
  qed
  let ?d = "t + timeout_ms" and ?x = "Inl (Io (io_new TimedOut msg)) :: unit result"
  have rem: "?d - time (sos w1) < fuel" using t fuel by simp
  have "\<exists>r s. poll fuel (deadline_round (machine_now E) (machine_sleep E 10) ?d ?x attempt) (m1, w1) = (Some r, s)"
    by (rule deadline.poll_returns [where I = "\<lambda>(m, w). I m" and time = "\<lambda>(m, w). time (sos w)"])
      (use laws I t rem in auto)
  then show ?thesis using now no_panic [OF clk] by (auto simp: wait_with_deadline_def instant_add_def)
qed

text \<open>
  C25: waiting for the VMM to come up returns, with success or an error, once the loop may go round
  more often than the timeout has milliseconds, whatever the VMM does, provided the clock runs and
  the deadline is in the range of the clock.
\<close>

theorem wait_for_vmm_ready_returns:
  assumes "clock_ok E time" "steady_client time (client m)" "timeout_ms < fuel"
    and "(fst (clock_now E (sos w)) + timeout_ms) div 1000 < 2 ^ 63"
  shows "\<exists>r s. wait_for_vmm_ready E fuel timeout_ms (m, w) = (map_err Err r, s)"
  unfolding wait_for_vmm_ready_def
  by (rule wait_with_deadline_returns [where I = "\<lambda>m. steady_client time (client m)", OF assms(1)])
    (use assms vmm_ready_attempt_steady [OF assms(1)] in \<open>fastforce+\<close>)

lemma negative_timeout_overflows:
  fixes v :: int
  assumes "- (2 ^ 31) \<le> v" "v < 0"
  shows "2 ^ 63 \<le> unat (word_of_int v :: 64 word)"
proof -
  have "uint (word_of_int v :: 64 word) = v mod 2 ^ 64" by (simp add: uint_word_of_int)
  also have "\<dots> = (v + 2 ^ 64) mod 2 ^ 64" by simp
  also have "\<dots> = v + 2 ^ 64" using assms by (intro mod_pos_pos_trivial) simp_all
  finally have "int (2 ^ 63) \<le> int (unat (word_of_int v :: 64 word))" using assms by (simp only: uint_nat [symmetric]) simp
  then show ?thesis by (simp only: of_nat_le_iff)
qed

text \<open>
  C40: a negative value of the environment variable for the initial timeout is cast to an unsigned
  number of seconds near 2 to the 64, and computing the deadline panics: the wait never starts, and
  the child process is not reaped.
\<close>

theorem negative_init_timeout_panics:
  assumes "env_var E FIRECRACKER_INIT_TIMEOUT_ENV (sos w) = Some text" "parse_int 32 text = Some v" "v < 0"
  shows "fst (wait_for_vmm_ready E fuel (1000 * init_timeout_secs E (sos w)) (m, w)) = Inl Panic"
proof -
  from parse_int_bounds [OF assms(2)] have "- (2 ^ 31) \<le> v" by simp
  with assms have secs: "2 ^ 63 \<le> init_timeout_secs E (sos w)"
    using negative_timeout_overflows [of v] by (simp add: init_timeout_secs_def env_value_or_default_int_def)
  have "instant_add t (1000 * init_timeout_secs E (sos w)) = None" for t
    using secs div_le_mono [of "1000 * init_timeout_secs E (sos w)" "t + 1000 * init_timeout_secs E (sos w)" 1000]
    by (simp add: instant_add_def)
  then show ?thesis
    by (simp add: wait_for_vmm_ready_def wait_with_deadline_def split: prod.splits)
qed

end
