(* ===== verification/Failed_Start.thy ===== *)
theory Failed_Start
  imports Machine_Life
begin

text \<open>
  A start that fails. The source catches an error in up to two places on its way out, in \<open>start_vmm\<close> and in
  \<open>start\<close>, and calls \<open>abort_start\<close> at each. Here a start is described in terms of what is done about an error,
  so that the start of the source can be compared with one that does nothing about it: however often the
  error was caught, the machine was taken down once, from the state in which the error occurred.
\<close>

section \<open>A start and what is done about its errors\<close>

definition start_vmm_with ::
  "((('j, 'x, 'os) mstate, exc, unit) op \<Rightarrow> (('j, 'x, 'os) mstate, exc, unit) op) \<Rightarrow>
   'os os_env \<Rightarrow> nat \<Rightarrow> (('j, 'x, 'os) mstate, exc, unit) op" where
  "start_vmm_with guard E fuel = (\<lambda>(m, w).
     case command m of
       None \<Rightarrow> (Inl (Err (Process ''machine command is not configured'')), (m, w))
     | Some c \<Rightarrow>
       op_then (op_map_err Err (
         op_then (upd_m (\<lambda>m. m\<lparr>exit_event := False\<rparr>)) (
         op_then (on_os (command_stdio E (cmd_stdin c) True)) (
         op_then (on_os (command_stdio E (cmd_stdout c) False)) (
         op_then (on_os (command_stdio E (cmd_stderr c) False)) (
         op_bind (configure_command_netns E) (\<lambda>netns.
         op_bind (on_os (op_map_err (\<lambda>e. Process (io_text e)) (proc_spawn E c netns))) (\<lambda>spawned.
         op_then (upd_m (\<lambda>m. m\<lparr>process := Some spawned\<rparr>))
           (upd_m (\<lambda>m. push_cleanup_func (remove_file_if_present E (socket_path (cfg m))) m)))))))))) (
       op_then (guard (op_map_err Err (install_signal_forwarder E)))
         (\<lambda>(m, w). guard (wait_for_vmm_ready E fuel (1000 * init_timeout_secs E (sos w))) (m, w)))
       (m, w))"

definition exec_with ::
  "((('j, 'x, 'os) mstate, exc, unit) op \<Rightarrow> (('j, 'x, 'os) mstate, exc, unit) op) \<Rightarrow>
   ('j, 'x, 'os) menv \<Rightarrow> ('j, 'x) handler_fn \<Rightarrow> (('j, 'x, 'os) mstate, exc, unit) op" where
  "exec_with guard V h = (if h = StartVmm then start_vmm_with guard (me_os V) (me_fuel V) else exec V h)"

definition handlers_run_with ::
  "((('j, 'x, 'os) mstate, exc, unit) op \<Rightarrow> (('j, 'x, 'os) mstate, exc, unit) op) \<Rightarrow>
   ('j, 'x, 'os) menv \<Rightarrow> ('j, 'x) sdk_handlers \<Rightarrow> (('j, 'x, 'os) mstate, exc, unit) op" where
  "handlers_run_with guard V hs = (\<lambda>(m, w).
     op_then (if \<not> disable_validation (cfg m) then hl_run (exec_with guard V) (validation hs) else op_ok ())
       (hl_run (exec_with guard V) (fc_init hs)) (m, w))"

definition start_with ::
  "((('j, 'x, 'os) mstate, exc, unit) op \<Rightarrow> (('j, 'x, 'os) mstate, exc, unit) op) \<Rightarrow>
   ('j, 'x, 'os) menv \<Rightarrow> (('j, 'x, 'os) mstate, exc, unit) op" where
  "start_with guard V = (\<lambda>(m, w).
     if started m then (Inl (Err AlreadyStarted), (m, w))
     else op_then (guard (handlers_run_with guard V (m_handlers m)))
            (guard (op_map_err Err start_instance)) (m\<lparr>started := True\<rparr>, w))"

text \<open>The start of the source aborts on errors.\<close>

lemma exec_aborting: "exec_with (aborting (me_os V)) V = exec V"
  by (rule ext) (simp add: exec_with_def start_vmm_with_def start_vmm_def)

lemma start_aborting: "start_with (aborting (me_os V)) V = start V"
  unfolding start_with_def handlers_run_with_def exec_aborting start_def handlers_run_def ..

section \<open>Aborting once and twice\<close>

text \<open>The outcome after an error, when the machine has been taken down from the state it occurred in.\<close>

definition tidied ::
  "'os os_env \<Rightarrow> error \<Rightarrow> ('j, 'x, 'os) mstate \<Rightarrow> (exc + unit) \<times> ('j, 'x, 'os) mstate \<Rightarrow> bool" where
  "tidied E e s res \<longleftrightarrow> (\<exists>e' m' w' f. abort_start E e s = (e', (m', w')) \<and> copy_error f = e' \<and>
     res = (Inl (Err e'), (m'\<lparr>fatal_err := Some f\<rparr>, w')))"

text \<open>Aborting what has been taken down changes nothing but the copy of the error.\<close>

lemma abort_settled:
  "settled m \<Longrightarrow> abort_start E e (m, w) = (copy_error e, (m\<lparr>fatal_err := Some e\<rparr>, w))"
  by (simp add: abort_start_def settled_def signal_exit_def shutdown_signal_forwarder_def wait_for_process_exit_def
      do_cleanup_def abort_message_def)

lemma tidied_abort:
  assumes "tidied E e s (Inl (Err e1), s1)" "abort_start E e1 s1 = (e2, s2)"
  shows "tidied E e s (Inl (Err e2), s2)"
proof -
  from assms(1) obtain m' w' f where ab: "abort_start E e s = (e1, (m', w'))" and f: "copy_error f = e1"
    and s1: "s1 = (m'\<lparr>fatal_err := Some f\<rparr>, w')" by (auto simp: tidied_def)
  obtain m w where s: "s = (m, w)" by fastforce
  from abort_start_machine(1) [of E e m w] ab s have "settled (m'\<lparr>fatal_err := Some f\<rparr>)" by (simp add: settled_def)
  from abort_settled [OF this, of E e1 w'] assms(2) s1 have res: "e2 = copy_error e1" "s2 = (m'\<lparr>fatal_err := Some e1\<rparr>, w')"
    by simp_all
  have e1: "copy_error e1 = e1" unfolding f [symmetric] by (rule copy_error_idem)
  with ab res show ?thesis unfolding tidied_def by (intro exI [of _ e1] exI [of _ m'] exI [of _ w']) simp
qed

text \<open>
  Two outcomes: the same, or the first is an error and in the second the machine has been taken down.
\<close>

definition tidied_up ::
  "'os os_env \<Rightarrow> (exc + unit) \<times> ('j, 'x, 'os) mstate \<Rightarrow> (exc + unit) \<times> ('j, 'x, 'os) mstate \<Rightarrow> bool" where
  "tidied_up E res res' \<longleftrightarrow> res' = res \<or> (\<exists>e s. res = (Inl (Err e), s) \<and> tidied E e s res')"

lemma tidied_up_refl: "tidied_up E res res"
  by (simp add: tidied_up_def)

lemma tidied_up_then:
  assumes "tidied_up E (f s) (g s)" "\<And>s. tidied_up E (h s) (k s)"
  shows "tidied_up E (op_then f h s) (op_then g k s)"
proof (cases "g s = f s")
  case True
  with assms(2) show ?thesis
    by (auto simp: op_bind_def tidied_up_refl split: prod.splits sum.splits)
next
  case False
  with assms(1) obtain e t where f: "f s = (Inl (Err e), t)" and g: "tidied E e t (g s)" by (auto simp: tidied_up_def)
  from g obtain e' t' where "g s = (Inl (Err e'), t')" by (auto simp: tidied_def)
  with f g show ?thesis by (simp add: tidied_up_def op_bind_def)
qed

text \<open>Behind an abort an error has been taken care of, whether it had been before or not.\<close>

lemma tidied_aborting:
  assumes "tidied_up E (f s) (g s)"
  shows "(\<exists>e t. f s = (Inl (Err e), t) \<and> tidied E e t (aborting E g s)) \<or> ((\<nexists>e t. f s = (Inl (Err e), t)) \<and> aborting E g s = f s)"
proof (cases "\<exists>e t. f s = (Inl (Err e), t)")
  case True
  then obtain e t where f: "f s = (Inl (Err e), t)" by blast
  obtain ea ma wa where ab: "abort_start E e t = (ea, (ma, wa))" by (metis prod.exhaust)
  obtain m w where t: "t = (m, w)" by fastforce
  have once: "tidied E e t (Inl (Err ea), (ma, wa))"
    using abort_start_machine(2) [of E e m w] ab t unfolding tidied_def by auto
  from assms f consider "g s = (Inl (Err e), t)" | "tidied E e t (g s)" by (auto simp: tidied_up_def)
  then have "tidied E e t (aborting E g s)"
  proof cases
    case 1
    with once ab show ?thesis by (simp add: aborting_def)
  next
    case 2
    then obtain e1 s1 where g: "g s = (Inl (Err e1), s1)" by (auto simp: tidied_def)
    obtain e2 s2 where "abort_start E e1 s1 = (e2, s2)" by (metis prod.exhaust)
    with tidied_abort 2 g show ?thesis by (simp add: aborting_def)
  qed
  with f show ?thesis by blast
next
  case False
  with assms have "g s = f s" by (auto simp: tidied_up_def)
  with False show ?thesis by (auto simp: aborting_def split: prod.splits sum.splits exc.splits)
qed

lemma tidied_up_aborting: "tidied_up E (f s) (g s) \<Longrightarrow> tidied_up E (f s) (aborting E g s)"
  using tidied_aborting [of E f s g] by (auto simp: tidied_up_def)

lemma tidied_up_for: "(\<And>x s. tidied_up E (f x s) (g x s)) \<Longrightarrow> tidied_up E (op_for f xs s) (op_for g xs s)"
  by (induction xs arbitrary: s) (auto simp: tidied_up_refl intro: tidied_up_then)

lemma tidied_up_start_vmm: "tidied_up E (start_vmm_with (\<lambda>f. f) E fuel s) (start_vmm_with (aborting E) E fuel s)"
proof -
  obtain m w where s: "s = (m, w)" by fastforce
  show ?thesis
    by (auto simp: s start_vmm_with_def tidied_up_refl split: option.split
        intro!: tidied_up_then tidied_up_aborting)
qed

lemma tidied_up_handlers:
  "tidied_up (me_os V) (handlers_run_with (\<lambda>f. f) V hs s) (handlers_run_with (aborting (me_os V)) V hs s)"
proof -
  have exec: "tidied_up (me_os V) (exec_with (\<lambda>f. f) V h s) (exec_with (aborting (me_os V)) V h s)" for h s
    by (simp add: exec_with_def tidied_up_refl tidied_up_start_vmm)
  obtain m w where s: "s = (m, w)" by fastforce
  show ?thesis
    unfolding s handlers_run_with_def hl_run_def prod.case
    by (rule tidied_up_then) (auto intro: tidied_up_for exec tidied_up_refl)
qed

text \<open>
  A start that fails has failed without its guards, too, and the machine has been taken down from there.
\<close>

lemma failed_start:
  assumes "start V (m, w) = (Inl (Err e), s')" "\<not> started m"
  shows "\<exists>e0 s1. start_with (\<lambda>f. f) V (m, w) = (Inl (Err e0), s1) \<and> tidied (me_os V) e0 s1 (Inl (Err e), s')"
proof -
  let ?E = "me_os V" and ?s = "(m\<lparr>started := True\<rparr>, w)"
  let ?run = "handlers_run_with (\<lambda>f. f) V (m_handlers m)" and ?run' = "handlers_run_with (aborting ?E) V (m_handlers m)"
  have start: "op_then (aborting ?E ?run') (aborting ?E (op_map_err Err start_instance)) ?s = (Inl (Err e), s')"
    using assms by (simp add: start_with_def flip: start_aborting)
  have plain: "start_with (\<lambda>f. f) V (m, w) = op_then ?run (op_map_err Err start_instance) ?s"
    using assms(2) by (simp add: start_with_def)
  from tidied_aborting [of ?E ?run ?s ?run', OF tidied_up_handlers] show ?thesis
  proof
    assume "\<exists>e t. ?run ?s = (Inl (Err e), t) \<and> tidied ?E e t (aborting ?E ?run' ?s)"
    then obtain e0 t where run: "?run ?s = (Inl (Err e0), t)" and tidy: "tidied ?E e0 t (aborting ?E ?run' ?s)" by blast
    then obtain e1 s1 where "aborting ?E ?run' ?s = (Inl (Err e1), s1)" by (auto simp: tidied_def)
    with start run tidy plain show ?thesis by (auto simp: op_bind_def)
  next
    assume no: "(\<nexists>e t. ?run ?s = (Inl (Err e), t)) \<and> aborting ?E ?run' ?s = ?run ?s"
    then have no_err: "?run ?s \<noteq> (Inl (Err e), s')" by blast
    obtain r2 s2 where r2: "?run ?s = (r2, s2)" by (rule prod.exhaust)
    have "op_then ?run (aborting ?E (op_map_err Err start_instance)) ?s = (Inl (Err e), s')"
      using start no by (simp add: op_bind_def)
    with r2 no_err have run: "?run ?s = (Inr (), s2)" "aborting ?E (op_map_err Err start_instance) s2 = (Inl (Err e), s')"
      by (cases r2; simp add: op_bind_def)+
    from tidied_aborting [of ?E "op_map_err Err start_instance" s2 "op_map_err Err start_instance", OF tidied_up_refl]
    obtain e0 t where "op_map_err Err start_instance s2 = (Inl (Err e0), t)" "tidied ?E e0 t (Inl (Err e), s')"
      unfolding run(2) by metis
    with run plain show ?thesis by (auto simp: op_bind_def)
  qed
qed

section \<open>What taking down a machine does\<close>

definition pending_cleanups :: "('j, 'x, 'os) machine \<Rightarrow> 'os cleanup_fn list" where
  "pending_cleanups m = (if cleanup_done m then [] else cleanup_funcs m)"

text \<open>The worlds that the steps of an abort lead to.\<close>

definition unhook :: "'os os_env \<Rightarrow> 64 word option \<Rightarrow> 'os sig_world \<Rightarrow> 'os sig_world" where
  "unhook E fwd w = (case fwd of None \<Rightarrow> w | Some rid \<Rightarrow> forwarder_shutdown (sig_calls E) rid w)"

definition reap :: "'os os_env \<Rightarrow> child option \<Rightarrow> 'os sig_world \<Rightarrow> 'os sig_world" where
  "reap E c w = (case c of None \<Rightarrow> w | Some c \<Rightarrow> w\<lparr>sos := snd (proc_wait E c (sos w))\<rparr>)"

text \<open>
  Asking the VMM to end: a process that runs is sent \<open>SIGTERM\<close> (15), which is well also if it is gone by
  then (\<open>ESRCH\<close>, 3). And the world when it has been stopped: asked to end, waited for, and its signal
  registration given up; the last two the other way round when it could not be asked.
\<close>

definition terminate :: "'os os_env \<Rightarrow> child option \<Rightarrow> 'os sig_world \<Rightarrow> bool \<times> 'os sig_world" where
  "terminate E c w =
     (case c of
        None \<Rightarrow> (True, w)
      | Some c \<Rightarrow>
          (case proc_try_wait E c (sos w) of
             (Inl _, os) \<Rightarrow> (False, w\<lparr>sos := os\<rparr>)
           | (Inr (Some _), os) \<Rightarrow> (True, w\<lparr>sos := os\<rparr>)
           | (Inr None, os) \<Rightarrow>
               (case proc_id E c os of
                  None \<Rightarrow> (True, w\<lparr>sos := os\<rparr>)
                | Some pid \<Rightarrow>
                    (case proc_kill E (sint pid) 15 os of
                       (r, os') \<Rightarrow> (\<forall>e. r = Inl e \<longrightarrow> io_os_code e = Some 3, w\<lparr>sos := os'\<rparr>)))))"

definition stopped_world :: "'os os_env \<Rightarrow> ('j, 'x, 'os) mstate \<Rightarrow> 'os sig_world" where
  "stopped_world E = (\<lambda>(m, w).
     case terminate E (process m) w of
       (asked, w1) \<Rightarrow>
         if asked then unhook E (signal_forwarder m) (reap E (process m) w1)
         else reap E (process m) (unhook E (signal_forwarder m) w1))"

lemma send_sigterm_terminates:
  "send_sigterm_to_vmm E (m, w) = (r, (m1, w1)) \<Longrightarrow> terminate E (process m) w = (is_ok r, w1)"
  by (auto simp: send_sigterm_to_vmm_def terminate_def SIGTERM_SIGNAL_def ESRCH_ERRNO_def op_bind_def on_os_def
      op_map_err_def op_simps split: option.splits prod.splits sum.splits if_splits)

lemma shutdown_state: "shutdown_signal_forwarder E (m, w) = (m\<lparr>signal_forwarder := None\<rparr>, unhook E (signal_forwarder m) w)"
  by (auto simp: shutdown_signal_forwarder_def unhook_def split: option.split)

lemma wait_state: "\<exists>r. wait_for_process_exit E (m, w) = (r, (m\<lparr>process := None\<rparr>, reap E (process m) w))"
  by (cases "process m"; cases "proc_wait E (the (process m)) (sos w)"; cases "fst (proc_wait E (the (process m)) (sos w))")
    (auto simp: wait_for_process_exit_def reap_def op_bind_def on_os_def op_map_err_def)

lemma cleanup_state:
  "\<exists>r. do_cleanup (m, w) = (r, (after_cleanup m, w\<lparr>sos := snd (run_cleanups (rev (pending_cleanups m)) (sos w))\<rparr>))"
  by (cases "run_cleanups (rev (cleanup_funcs m)) (sos w)")
    (auto simp: do_cleanup_def cleanup_loop_eq pending_cleanups_def after_cleanup_def)

lemma send_sigterm_exit:
  "send_sigterm_to_vmm E (signal_exit m, w) = (r, (m1, w1)) \<Longrightarrow> send_sigterm_to_vmm E (m, w) = (r, (m, w1))"
  by (auto simp: send_sigterm_to_vmm_def signal_exit_def op_bind_def on_os_def op_map_err_def op_simps
      split: option.splits prod.splits sum.splits if_splits)

lemma stopped_world_eq:
  assumes "send_sigterm_to_vmm E (m, w) = (r, (m1, w1))"
  shows "stopped_world E (m, w) =
    (if is_ok r then unhook E (signal_forwarder m) (reap E (process m) w1)
     else reap E (process m) (unhook E (signal_forwarder m) w1))"
  by (simp add: stopped_world_def send_sigterm_terminates [OF assms])

lemma finalize_world:
  "\<exists>r. finalize_process_exit E (m, w) = (r, (after_cleanup (signal_exit (m\<lparr>process := None, signal_forwarder := None\<rparr>)),
     (unhook E (signal_forwarder m) (reap E (process m) w))
       \<lparr>sos := snd (run_cleanups (rev (pending_cleanups m)) (sos (unhook E (signal_forwarder m) (reap E (process m) w))))\<rparr>))"
proof -
  let ?m = "signal_exit (m\<lparr>process := None, signal_forwarder := None\<rparr>)" and ?w = "unhook E (signal_forwarder m) (reap E (process m) w)"
  obtain x where x: "wait_for_process_exit E (m, w) = (x, (m\<lparr>process := None\<rparr>, reap E (process m) w))"
    using wait_state by blast
  obtain y where "do_cleanup (?m, ?w) = (y, (after_cleanup ?m, ?w\<lparr>sos := snd (run_cleanups (rev (pending_cleanups ?m)) (sos ?w))\<rparr>))"
    using cleanup_state by blast
  moreover have "pending_cleanups ?m = pending_cleanups m" by (simp add: pending_cleanups_def signal_exit_def)
  ultimately show ?thesis
    by (simp add: finalize_process_exit_def finalize_exit_result_def x shutdown_state)
qed

text \<open>
  Aborting stops the VMM and runs the cleanup functions that are pending, once: a stop that succeeded has
  done so already, and the rest of the abort then finds nothing left to do.
\<close>

lemma abort_start_world:
  assumes run: "abort_start E e (m, w) = (e', (m', w'))" and w2: "w2 = stopped_world E (m, w)"
  shows "w' = w2\<lparr>sos := snd (run_cleanups (rev (pending_cleanups m)) (sos w2))\<rparr>"
proof -
  let ?m0 = "signal_exit m"
  obtain r m1 w1 where send: "send_sigterm_to_vmm E (?m0, w) = (r, (m1, w1))" by (metis prod.exhaust)
  have m1: "m1 = ?m0" by (rule send_sigterm_machine [OF send])
  note w2 = w2 [unfolded stopped_world_eq [OF send_sigterm_exit [OF send]]]
  have fields: "process ?m0 = process m" "signal_forwarder ?m0 = signal_forwarder m"
    "pending_cleanups ?m0 = pending_cleanups m" by (simp_all add: signal_exit_def pending_cleanups_def)
  show ?thesis
  proof (cases "process m \<noteq> None \<and> is_ok r")
    case True
    obtain mr wr where fin: "remembering (finalize_process_exit E) (?m0, w1) = (mr, wr)" by fastforce
    from finalize_world [of E ?m0 w1] fin have "wr = w2\<lparr>sos := snd (run_cleanups (rev (pending_cleanups m)) (sos w2))\<rparr>"
      using True by (auto simp: remembering_def fields w2 split: sum.splits)
    moreover have "settled mr" by (rule remembering_finalize(1) [OF fin])
    moreover have "stop_vmm E (?m0, w) = (r, (mr, wr))"
      using True send m1 fin by (simp add: stop_vmm_def fields)
    ultimately show ?thesis
      using run True
      by (simp add: abort_start_def fields Let_def settled_def shutdown_state unhook_def wait_for_process_exit_def do_cleanup_def)
  next
    case False
    have "process m = None \<Longrightarrow> r = Inr () \<and> w1 = w" using send by (auto simp: send_sigterm_to_vmm_def fields)
    with False have w2': "w2 = reap E (process m) (unhook E (signal_forwarder m) w1)" by (auto simp: w2 reap_def)
    have stop: "(if process ?m0 \<noteq> None then (case stop_vmm E (?m0, w) of (r, s) \<Rightarrow> (err_of r, s)) else (None, (?m0, w))) =
        (if process m \<noteq> None then err_of r else None, (?m0, w1))"
      using False send m1 \<open>process m = None \<Longrightarrow> r = Inr () \<and> w1 = w\<close> by (auto simp: stop_vmm_def fields)
    let ?m2 = "?m0\<lparr>signal_forwarder := None\<rparr>" and ?w2 = "unhook E (signal_forwarder m) w1"
    obtain x where x: "wait_for_process_exit E (?m2, ?w2) = (x, (?m2\<lparr>process := None\<rparr>, w2))"
      using wait_state [of E ?m2 ?w2] by (auto simp: fields w2')
    obtain y where y: "do_cleanup (?m2\<lparr>process := None\<rparr>, w2) = (y, (after_cleanup (?m2\<lparr>process := None\<rparr>),
        w2\<lparr>sos := snd (run_cleanups (rev (pending_cleanups (?m2\<lparr>process := None\<rparr>))) (sos w2))\<rparr>))"
      using cleanup_state by blast
    from run [unfolded abort_start_def prod.case Let_def, unfolded stop prod.case, unfolded shutdown_state fields,
      unfolded x prod.case, unfolded y prod.case] show ?thesis
      by (auto simp: pending_cleanups_def signal_exit_def)
  qed
qed

section \<open>Giving up the signal registration\<close>

lemma release_loop_registrations: "registrations (mgr (release_loop A xs w)) = registrations (mgr w)"
proof (induction xs arbitrary: w)
  case (Cons x xs)
  have "registrations (mgr (release_signal A x w)) = registrations (mgr w)"
    by (auto simp: release_signal_def Let_def split: option.split)
  with Cons show ?case by (simp add: Let_def)
qed simp

lemma unhook_registration:
  "fwd = Some rid \<Longrightarrow> poisoned w \<or> map_of (registrations (mgr (unhook E fwd w))) rid = None"
  by (auto simp: unhook_def forwarder_shutdown_def unregister_def Let_def unregister_inner_def shutdown_if_idle_def
      take_shutdown_if_idle_def worker_shutdown_def release_signals_def release_loop_registrations delete_conv'
      split: option.split prod.split)

text \<open>All but the signal registration leaves the manager alone.\<close>

lemma stopped_world_registration:
  assumes "signal_forwarder m = Some rid"
  shows "poisoned w \<or> map_of (registrations (mgr (stopped_world E (m, w)))) rid = None"
proof -
  obtain r m1 w1 where send: "send_sigterm_to_vmm E (m, w) = (r, (m1, w1))" by (metis prod.exhaust)
  then have same: "mgr w1 = mgr w \<and> poisoned w1 = poisoned w"
    by (auto simp: send_sigterm_to_vmm_def op_bind_def on_os_def op_map_err_def op_simps
        split: option.splits prod.splits sum.splits if_splits)
  have reap: "mgr (reap E c v) = mgr v \<and> poisoned (reap E c v) = poisoned v" for c v
    by (simp add: reap_def split: option.split)
  from unhook_registration [OF assms, of w1 E] unhook_registration [OF assms, of "reap E (process m) w1" E] same reap
  show ?thesis by (auto simp: stopped_world_eq [OF send])
qed

text \<open>
  C4: the first start of a machine, when it fails with an error, leaves nothing behind. Compared with the
  same start without any error handling, which ends in the state in which the error occurred: from there
  the VMM has been asked to end and waited for, its registration for signals has been given up (unless the
  manager's lock was poisoned), and then every cleanup function that was pending has been run, once, the last
  registered first. The machine has no process and no forwarder any more, its exit event is set, and
  waiting for it reports the very same error again without doing anything.
\<close>

theorem start_failure_settles:
  assumes "start V (m, w) = (Inl (Err e), (m', w'))" "\<not> started m"
  shows "\<exists>e0 m1 w1 w2. start_with (\<lambda>f. f) V (m, w) = (Inl (Err e0), (m1, w1)) \<and>
    w2 = stopped_world (me_os V) (m1, w1) \<and>
    w' = w2\<lparr>sos := snd (run_cleanups (rev (pending_cleanups m1)) (sos w2))\<rparr> \<and>
    (\<forall>rid. signal_forwarder m1 = Some rid \<longrightarrow> poisoned w1 \<or> map_of (registrations (mgr w')) rid = None) \<and>
    process m' = None \<and> signal_forwarder m' = None \<and> cleanup_done m' \<and> exit_event m' \<and>
    machine_wait (me_os V) (m', w') = (Inl e, (m', w'))"
proof -
  from failed_start [OF assms] obtain e0 m1 w1 ma f where
    plain: "start_with (\<lambda>f. f) V (m, w) = (Inl (Err e0), (m1, w1))"
    and ab: "abort_start (me_os V) e0 (m1, w1) = (e, (ma, w'))"
    and m': "m' = ma\<lparr>fatal_err := Some f\<rparr>" and f: "copy_error f = e"
    by (auto simp: tidied_def)
  from abort_start_machine(1) [OF ab] have "settled m'" by (simp add: m' settled_def)
  moreover have "machine_wait (me_os V) (m', w') = (Inl e, (m', w'))"
    using machine_wait_settled [OF \<open>settled m'\<close>] f m' by simp
  moreover note w' = abort_start_world [OF ab refl]
  moreover have "poisoned w1 \<or> map_of (registrations (mgr w')) rid = None" if "signal_forwarder m1 = Some rid" for rid
    using stopped_world_registration [OF that, of w1 "me_os V"] w' by simp
  ultimately show ?thesis using plain unfolding settled_def by blast
qed

end
