(* ===== verification/Start_Frame.thy ===== *)
theory Start_Frame
  imports Machine_Life
begin

text \<open>
  What the steps of a start that prepare a machine leave alone: an observation of the outside world that no
  call of the SDK's environment changes, and a predicate on machines that only the machine's own steps could
  break. The steps are shown once, in the locale \<open>start_frame\<close>, to keep every such predicate.
\<close>

section \<open>Operations that an observation does not see\<close>

definition leaves :: "('os \<Rightarrow> 'l) \<Rightarrow> ('os, 'e, 'a) op \<Rightarrow> bool" where
  "leaves log f \<longleftrightarrow> (\<forall>os. log (snd (f os)) = log os)"

definition quiet_sig :: "('os \<Rightarrow> 'l) \<Rightarrow> 'os sig_api \<Rightarrow> bool" where
  "quiet_sig log A \<longleftrightarrow>
     (\<forall>s h os. log (snd (libc_signal A s h os)) = log os) \<and>
     (\<forall>os. log (snd (libc_pipe A os)) = log os) \<and>
     (\<forall>fd b os. log (libc_write A fd b os) = log os) \<and>
     (\<forall>fd os. log (close_fd A fd os) = log os) \<and>
     (\<forall>os. log (join_worker A os) = log os)"

definition quiet_env :: "('os \<Rightarrow> 'l) \<Rightarrow> 'os os_env \<Rightarrow> bool" where
  "quiet_env log E \<longleftrightarrow>
     (\<forall>p. leaves log (fs_metadata E p)) \<and> (\<forall>p. leaves log (fs_read_to_string E p)) \<and>
     (\<forall>p. leaves log (fs_remove_file E p)) \<and> (\<forall>p. leaves log (fs_open_read E p)) \<and>
     (\<forall>p. leaves log (fs_open_append E p)) \<and> (\<forall>p. leaves log (fs_open_fifo E p)) \<and>
     (\<forall>p. leaves log (fs_mkfifo E p)) \<and>
     (\<forall>c n. leaves log (proc_spawn E c n)) \<and> (\<forall>c. leaves log (proc_try_wait E c)) \<and>
     (\<forall>c. leaves log (proc_wait E c)) \<and> (\<forall>p s. leaves log (proc_kill E p s)) \<and>
     (\<forall>os. log (snd (clock_now E os)) = log os) \<and> (\<forall>n os. log (sleep_ms E n os) = log os) \<and>
     (\<forall>l t os. log (trace_warn E l t os) = log os) \<and> (\<forall>p w os. log (spawn_capture E p w os) = log os) \<and>
     quiet_sig log (sig_calls E)"

lemma leavesD: "leaves log f \<Longrightarrow> f os = (r, os') \<Longrightarrow> log os' = log os"
  unfolding leaves_def by (metis snd_conv)

lemma leaves_ok [keeps_intros]: "leaves log (op_ok x)"
  and leaves_err [keeps_intros]: "leaves log (op_err e)"
  by (simp_all add: leaves_def op_simps)

lemma leaves_pure [keeps_intros]: "leaves log (\<lambda>os. (r, os))"
  by (simp add: leaves_def)

lemma leaves_bind [keeps_intros]: "leaves log f \<Longrightarrow> (\<And>x. leaves log (g x)) \<Longrightarrow> leaves log (op_bind f g)"
  by (auto simp: leaves_def op_bind_def split: prod.splits sum.splits) (metis snd_conv)+

lemma leaves_map_err [keeps_intros]: "leaves log f \<Longrightarrow> leaves log (op_map_err g f)"
  by (auto simp: leaves_def op_map_err_def split: prod.splits) (metis snd_conv)

lemma leaves_if [keeps_intros]: "leaves log f \<Longrightarrow> leaves log g \<Longrightarrow> leaves log (if b then f else g)"
  by simp

lemma leaves_option [keeps_intros]:
  "leaves log f \<Longrightarrow> (\<And>x. leaves log (g x)) \<Longrightarrow> leaves log (case v of None \<Rightarrow> f | Some x \<Rightarrow> g x)"
  by (cases v) auto

lemma leaves_for [keeps_intros]: "(\<And>x. leaves log (f x)) \<Longrightarrow> leaves log (op_for f xs)"
  by (induction xs) (auto intro: keeps_intros)

lemma quiet_envD:
  assumes "quiet_env log E"
  shows "leaves log (fs_metadata E p)" "leaves log (fs_read_to_string E p)" "leaves log (fs_remove_file E p)"
    "leaves log (fs_open_read E p)" "leaves log (fs_open_append E p)" "leaves log (fs_open_fifo E p)"
    "leaves log (fs_mkfifo E p)" "leaves log (proc_spawn E cmd ns)" "leaves log (proc_try_wait E c)"
    "leaves log (proc_wait E c)" "leaves log (proc_kill E i s)" "log (snd (clock_now E os)) = log os"
    "log (sleep_ms E n os) = log os" "log (trace_warn E l t os) = log os"
    "log (spawn_capture E p wr os) = log os" "quiet_sig log (sig_calls E)"
  using assms by (simp_all add: quiet_env_def)

section \<open>Signals\<close>

lemma release_loop_log:
  assumes "quiet_sig log A"
  shows "log (sos (release_loop A ss w)) = log (sos w)"
proof (induction ss arbitrary: w)
  case (Cons s ss)
  have "log (sos (release_signal A s w)) = log (sos w)"
    using assms by (auto simp: quiet_sig_def release_signal_def Let_def split: option.splits)
  with Cons show ?case by (simp add: Let_def)
qed simp

lemma register_loop_log:
  assumes "quiet_sig log A"
  shows "log (sos (snd (register_loop A ss applied w))) = log (sos w)"
proof (induction ss arbitrary: applied w)
  case (Cons s ss)
  have sig: "log os' = log os" if "libc_signal A s h os = (p, os')" for s h os p os'
    using assms that unfolding quiet_sig_def by (metis snd_conv)
  show ?case
    by (auto simp: Let_def Cons.IH release_signals_def release_loop_log [OF assms] sig split: prod.splits)
qed simp

lemma shutdown_if_idle_log: "quiet_sig log A \<Longrightarrow> log (sos (shutdown_if_idle A w)) = log (sos w)"
  by (auto simp: quiet_sig_def shutdown_if_idle_def take_shutdown_if_idle_def worker_shutdown_def Let_def
      split: option.splits prod.splits if_splits)

lemma ensure_worker_log: "quiet_sig log A \<Longrightarrow> log (sos (snd (ensure_worker A w))) = log (sos w)"
  unfolding quiet_sig_def ensure_worker_def
  by (cases "libc_pipe A (sos w)"; cases "fst (libc_pipe A (sos w))") (auto dest!: spec [of _ "sos w"])

lemma register_inner_log:
  assumes "quiet_sig log A" "register_inner A ss pid w = (r, w')"
  shows "log (sos w') = log (sos w)"
proof -
  obtain r1 w1 where 1: "ensure_worker A w = (r1, w1)" by fastforce
  obtain r2 w2 where 2: "register_loop A ss [] w1 = (r2, w2)" by fastforce
  have "log (sos w1) = log (sos w)" "log (sos w2) = log (sos w1)"
    using ensure_worker_log [OF assms(1), of w] register_loop_log [OF assms(1), of ss "[]" w1] 1 2 by simp_all
  with assms(2) 1 2 show ?thesis by (auto simp: register_inner_def op_bind_cases Let_def)
qed

lemma forwarder_log:
  assumes "quiet_sig log A"
  shows "forwarder_install A ss pid w = (r, w') \<Longrightarrow> log (sos w') = log (sos w)"
    and "log (sos (forwarder_shutdown A rid w)) = log (sos w)"
proof -
  note logs = shutdown_if_idle_log [OF assms] register_inner_log [OF assms]
  show "forwarder_install A ss pid w = (r, w') \<Longrightarrow> log (sos w') = log (sos w)"
    by (auto simp: forwarder_install_def register_def op_bind_cases op_simps logs
        split: if_splits prod.splits sum.splits)
  show "log (sos (forwarder_shutdown A rid w)) = log (sos w)"
    by (auto simp: forwarder_shutdown_def unregister_def unregister_inner_def release_signals_def logs
        release_loop_log [OF assms] Let_def split: option.splits)
qed

lemma leaves_remove_file: "quiet_env log E \<Longrightarrow> leaves log (remove_file_if_present E p)"
proof -
  assume "quiet_env log E"
  note q = quiet_envD(3) [OF this, of p]
  have "log (snd (remove_file_if_present E p os)) = log os" for os
  proof (cases "fs_remove_file E p os")
    case (Pair r os')
    from leavesD [OF q Pair] Pair show ?thesis 
      by (cases r) (auto simp: remove_file_if_present_def split: unit.splits)
  qed
  then show ?thesis by (simp add: leaves_def)
qed

lemma leaves_stdio: "quiet_env log E \<Longrightarrow> leaves log (command_stdio E spec b)"
  by (auto simp: command_stdio_def intro!: keeps_intros quiet_envD split: command_stdio.splits)

lemma leaves_validation:
  assumes "quiet_env log E"
  shows "leaves log (config_validate E c)" "leaves log (validate_load_snapshot E c)"
proof -
  have path: "leaves log (validate_existing_path E k p)" for k p
    unfolding validate_existing_path_def by (intro keeps_intros quiet_envD(1) [OF assms])
  have socket: "leaves log (validate_socket_absent E p)" for p
    unfolding leaves_def
  proof
    fix os
    obtain r os' where "fs_metadata E p os = (r, os')" by fastforce
    with leavesD [OF quiet_envD(1) [OF assms] this] show "log (snd (validate_socket_absent E p os)) = log os"
      by (cases r) (simp_all add: validate_socket_absent_def)
  qed
  have root: "leaves log (validate_root_drive E ds)" for ds
    by (induction ds) (auto intro: keeps_intros path)
  show "leaves log (config_validate E c)"
    unfolding config_validate_def by (intro keeps_intros path socket root)
  show "leaves log (validate_load_snapshot E c)"
    unfolding validate_load_snapshot_def by (intro keeps_intros path socket)
qed

lemma apply_log:
  assumes "\<And>ns n. leaves log (get_link ns n)" "iface_apply_cni_result N i res get_link os = (r, os')"
  shows "log os' = log os"
proof -
  have "leaves log (static_network_conf_from res cid get_link)" for cid
    unfolding static_network_conf_from_def leaves_def
    using assms(1) by (auto simp: mtu_of_def op_bind_def op_simps leaves_def op_map_err_def Let_def
        split: sum.splits prod.splits list.splits) (metis snd_conv)+
  then have "leaves log (op_bind (op_map_err g (static_network_conf_from res cid get_link)) (\<lambda>conf. op_ok (h conf)))"
    for g cid and h :: "static_network_conf \<Rightarrow> network_interface"
    by (intro keeps_intros)
  note leavesD [OF this]
  with assms(2) show ?thesis
    by (auto simp: iface_apply_cni_result_def split: if_splits option.splits)
qed

section \<open>Predicates that the preparing steps keep\<close>

text \<open>The parts of a machine that matter: two machines agree on them.\<close>

definition same_core :: "('j, 'x, 'os) machine \<Rightarrow> ('j, 'x, 'os) machine \<Rightarrow> bool" where
  "same_core m m' \<longleftrightarrow> client m' = client m \<and> cni_network_ops m' = cni_network_ops m \<and> netlink_ops m' = netlink_ops m \<and>
     cfg m' = cfg m \<and> cleanup_funcs m' = cleanup_funcs m \<and> cleanup_done m' = cleanup_done m"

locale start_frame =
  fixes E :: "'os os_env" and log :: "'os \<Rightarrow> 'l" and cl :: "('j, 'os, error) client_ops"
    and P :: "('j, 'x, 'os) mstate \<Rightarrow> bool"
  assumes quiet: "P s \<Longrightarrow> quiet_env log E"
    and probe: "P s \<Longrightarrow> leaves log (c_get_machine_configuration cl)"
    and the_client: "P (m, w) \<Longrightarrow> client m = cl"
    and frame: "P (m, w) \<Longrightarrow> same_core m m' \<Longrightarrow> log (sos w') = log (sos w) \<Longrightarrow> P (m', w')"
    and push: "P (m, w) \<Longrightarrow> leaves log f \<Longrightarrow> P (push_cleanup_func f m, w)"
    and cleanup: "P (m, w) \<Longrightarrow> do_cleanup (m, w) = (r, (m', w')) \<Longrightarrow> P (m', w')"
    and new_args: "P (m, w) \<Longrightarrow> P (m\<lparr>cfg := (cfg m)\<lparr>kernel_args := ka\<rparr>\<rparr>, w)"
begin

text \<open>The conditions on the environment may be assumed: without them there is no state to speak of.\<close>

lemma quietly: "(quiet_env log E \<Longrightarrow> keeps P f) \<Longrightarrow> keeps P f"
  using quiet by (auto simp: keeps_def)

lemma plain: "(\<And>m w r m' w'. P (m, w) \<Longrightarrow> f (m, w) = (r, (m', w')) \<Longrightarrow> P (m', w')) \<Longrightarrow> keeps P f"
  by (auto simp: keeps_def) (metis prod.collapse)

lemma at: "(\<And>m w. P (m, w) \<Longrightarrow> P (snd (f (m, w)))) \<Longrightarrow> keeps P f"
  unfolding keeps_def by (metis prod.collapse)

lemma app: "(\<And>m w. P (m, w) \<Longrightarrow> \<exists>g. keeps P g \<and> f (m, w) = g (m, w)) \<Longrightarrow> keeps P f"
  unfolding keeps_def by (metis prod.collapse)

lemma reading: "(\<And>m w. P (m, w) \<Longrightarrow> keeps P (f m w)) \<Longrightarrow> keeps P (\<lambda>(m, w). f m w (m, w))"
  by (auto simp: keeps_def)

lemma pure: "keeps P (\<lambda>(m, w). (g m, (m, w)))"
  by (rule at) simp

lemma keep_os: "leaves log f \<Longrightarrow> keeps P (on_os f)"
proof (rule plain)
  fix m w r m' w'
  assume f: "leaves log f" and P: "P (m, w)" and run: "on_os f (m, w) = (r, (m', w'))"
  obtain r1 os where 1: "f (sos w) = (r1, os)" by fastforce
  with run have "m' = m" "w' = w\<lparr>sos := os\<rparr>" by (simp_all add: on_os_def)
  with leavesD [OF f 1] show "P (m', w')" by (intro frame [OF P]) (simp_all add: same_core_def)
qed

lemma keep_osD: "P s \<Longrightarrow> leaves log f \<Longrightarrow> on_os f s = (r, s') \<Longrightarrow> P s'"
  using keepsD [OF keep_os] by (metis snd_conv)

lemma keep_os_at: "(\<And>m. leaves log (f m)) \<Longrightarrow> keeps P (\<lambda>(m, w). on_os (f m) (m, w))"
  by (rule reading) (rule keep_os)

lemma keep_upd: "(\<And>m. same_core m (f m)) \<Longrightarrow> keeps P (upd_m f)"
  by (rule at) (auto simp: upd_m_def intro: frame)

lemma keep_client: "leaves log (f cl) \<Longrightarrow> keeps P (on_client f)"
  by (rule plain) (auto simp: on_client_def the_client dest: keep_osD)

lemma keep_push: "leaves log f \<Longrightarrow> keeps P (upd_m (push_cleanup_func f))"
  by (rule at) (auto simp: upd_m_def intro: push)

lemma keep_get: "keeps P (on_client c_get_machine_configuration)"
  using keep_client probe by (auto simp: keeps_def)

subsection \<open>Ending\<close>

lemma keep_shutdown: "P (m, w) \<Longrightarrow> P (shutdown_signal_forwarder E (m, w))"
  using forwarder_log(2) [OF quiet_envD(16) [OF quiet]]
  by (auto simp: shutdown_signal_forwarder_def same_core_def intro: frame split: option.splits)

lemma keep_wait_exit: "keeps P (wait_for_process_exit E)"
proof (rule quietly)
  assume q: "quiet_env log E"
  have go: "keeps P (op_bind (on_os (op_io (proc_wait E c))) (\<lambda>st s. (exit_status_result st, s)))" for c
    by (intro keeps_bind keep_os leaves_map_err quiet_envD(10) [OF q]) (simp add: keeps_def)
  have "P (m\<lparr>process := None\<rparr>, w)" if "P (m, w)" for m w
    by (rule frame [OF that]) (simp_all add: same_core_def)
  then show "keeps P (wait_for_process_exit E)"
    by (intro at) (auto simp: wait_for_process_exit_def intro!: keepsD [OF go] split: option.splits)
qed

lemma keep_finalize: "keeps P (finalize_process_exit E)"
proof (rule plain)
  fix m w r m' w'
  assume P: "P (m, w)" and run: "finalize_process_exit E (m, w) = (r, (m', w'))"
  obtain r1 m1 w1 where 1: "wait_for_process_exit E (m, w) = (r1, (m1, w1))" by (metis prod.exhaust)
  obtain m2 w2 where 2: "shutdown_signal_forwarder E (m1, w1) = (m2, w2)" by fastforce
  obtain r3 m3 w3 where 3: "do_cleanup (signal_exit m2, w2) = (r3, (m3, w3))" by (metis prod.exhaust)
  have "P (m1, w1)" using keepsD [OF keep_wait_exit P] 1 by simp
  from keep_shutdown [OF this] 2 have "P (m2, w2)" by simp
  then have "P (signal_exit m2, w2)" by (rule frame) (simp_all add: same_core_def signal_exit_def)
  from cleanup [OF this 3] run 1 2 3 show "P (m', w')"
    by (auto simp: finalize_process_exit_def finalize_exit_result_def)
qed

lemma keep_sigterm: "keeps P (send_sigterm_to_vmm E)"
proof (rule quietly)
  assume q: "quiet_env log E"
  have kill: "keeps P (\<lambda>(m, w).
      case proc_id E c (sos w) of
        None \<Rightarrow> (Inr (), (m, w))
      | Some pid \<Rightarrow>
          (case on_os (proc_kill E (sint pid) SIGTERM_SIGNAL) (m, w) of
             (Inr _, s) \<Rightarrow> (Inr (), s)
           | (Inl e, s) \<Rightarrow> (if io_os_code e \<noteq> Some ESRCH_ERRNO then Inl (Io e) else Inr (), s)))" for c
    by (rule at) (auto split: option.splits prod.splits sum.splits dest: keep_osD [OF _ quiet_envD(11) [OF q]])
  have "keeps P (op_bind (on_os (op_io (proc_try_wait E p))) (\<lambda>st.
      if st \<noteq> None then op_ok ()
      else (\<lambda>(m, w).
        case proc_id E p (sos w) of
          None \<Rightarrow> (Inr (), (m, w))
        | Some pid \<Rightarrow>
            (case on_os (proc_kill E (sint pid) SIGTERM_SIGNAL) (m, w) of
               (Inr _, s) \<Rightarrow> (Inr (), s)
             | (Inl e, s) \<Rightarrow> (if io_os_code e \<noteq> Some ESRCH_ERRNO then Inl (Io e) else Inr (), s)))))" for p
    by (intro keeps_bind keeps_if keeps_ok kill keep_os leaves_map_err quiet_envD(9) [OF q])
  then show "keeps P (send_sigterm_to_vmm E)"
    by (intro at) (auto simp: send_sigterm_to_vmm_def dest: keepsD split: option.splits)
qed

lemma keep_remembering: "keeps P f \<Longrightarrow> P (m, w) \<Longrightarrow> P (remembering f (m, w))"
proof -
  assume f: "keeps P f" and P: "P (m, w)"
  obtain r m1 w1 where run: "f (m, w) = (r, (m1, w1))" by (metis prod.exhaust)
  with keepsD [OF f P] have P1: "P (m1, w1)" by simp
  then have "P (remember_terminal_error e m1, w1)" for e
    by (rule frame) (simp_all add: same_core_def remember_terminal_error_def)
  with P1 run show ?thesis by (cases r) (simp_all add: remembering_def)
qed

lemma keep_stop: "keeps P (stop_vmm E)"
proof (rule at)
  fix m w
  assume P: "P (m, w)"
  obtain r m1 w1 where send: "send_sigterm_to_vmm E (m, w) = (r, (m1, w1))" by (metis prod.exhaust)
  with keepsD [OF keep_sigterm P] have "P (m1, w1)" by simp
  with keep_remembering [OF keep_finalize this] send show "P (snd (stop_vmm E (m, w)))"
    by (simp add: stop_vmm_def)
qed

lemma keep_abort:
  assumes P: "P (m, w)" and run: "abort_start E e (m, w) = (e', (m', w'))"
  shows "P (m', w')"
proof -
  let ?m0 = "signal_exit m"
  have P0: "P (?m0, w)" by (rule frame [OF P]) (simp_all add: same_core_def signal_exit_def)
  obtain se m1 w1 where s1: "(if process ?m0 \<noteq> None
      then (case stop_vmm E (?m0, w) of (r, s) \<Rightarrow> (err_of r, s)) else (None, (?m0, w))) = (se, (m1, w1))"
    by (metis prod.exhaust)
  obtain m2 w2 where s2: "shutdown_signal_forwarder E (m1, w1) = (m2, w2)" by fastforce
  obtain wr m3 w3 where s3: "wait_for_process_exit E (m2, w2) = (wr, (m3, w3))" by (metis prod.exhaust)
  obtain cr m4 w4 where s4: "do_cleanup (m3, w3) = (cr, (m4, w4))" by (metis prod.exhaust)
  have "P (m1, w1)"
    using s1 P0 keepsD [OF keep_stop P0] by (auto split: if_splits prod.splits)
  from keep_shutdown [OF this] s2 have "P (m2, w2)" by simp
  with keepsD [OF keep_wait_exit this] s3 have "P (m3, w3)" by simp
  from cleanup [OF this s4] have "P (m4, w4)" .
  then have "P (m4\<lparr>fatal_err := x\<rparr>, w4)" for x by (rule frame) (simp_all add: same_core_def)
  with run s1 s2 s3 s4 show ?thesis by (auto simp: abort_start_def Let_def)
qed

lemma keep_aborting: "keeps P f \<Longrightarrow> keeps P (aborting E f)"
proof (rule plain)
  fix m w r m' w'
  assume f: "keeps P f" and P: "P (m, w)" and run: "aborting E f (m, w) = (r, (m', w'))"
  obtain r1 m1 w1 where fs: "f (m, w) = (r1, (m1, w1))" by (metis prod.exhaust)
  with keepsD [OF f P] have "P (m1, w1)" by simp
  with run fs keep_abort [OF this] show "P (m', w')"
    by (auto simp: aborting_def split: sum.splits exc.splits prod.splits)
qed

subsection \<open>Starting the VMM\<close>

lemma keep_probe:
  assumes P: "P s" and run: "(case on_os (fs_metadata E p) s of
            (Inl _, s) \<Rightarrow> (None, s)
          | (Inr _, s) \<Rightarrow> (case on_client c_get_machine_configuration s of
               (Inl _, s') \<Rightarrow> (None, s') | (Inr _, s') \<Rightarrow> (Some (Inr ()), s'))) = (r, s')"
  shows "P s'"
proof -
  obtain r1 s1 where 1: "on_os (fs_metadata E p) s = (r1, s1)" by (metis prod.exhaust)
  note P1 = keep_osD [OF P quiet_envD(1) [OF quiet [OF P]] 1]
  obtain r2 s2 where 2: "on_client c_get_machine_configuration s1 = (r2, s2)" by (metis prod.exhaust)
  have P2: "P s2" using keepsD [OF keep_get P1] 2 by (metis snd_conv)
  show ?thesis using run 1 2 P1 P2 by (cases r1; cases r2) simp_all
qed

lemma keep_attempt:
  assumes P: "P (m, w)" and run: "vmm_ready_attempt E (m, w) = (r, s')"
  shows "P s'"
proof (cases "process m")
  case None
  with run keep_probe [OF P] show ?thesis by (simp add: vmm_ready_attempt_def)
next
  case (Some p)
  obtain st m1 w1 where tw: "on_os (op_io (proc_try_wait E p)) (m, w) = (st, (m1, w1))" by (metis prod.exhaust)
  note P1 = keep_osD [OF P leaves_map_err [OF quiet_envD(9) [OF quiet [OF P]]] tw]
  show ?thesis
  proof (cases st)
    case (Inr v)
    have "P (m1\<lparr>process := None\<rparr>, w1)" by (rule frame [OF P1]) (simp_all add: same_core_def)
    with run Some tw Inr P1 keep_probe [OF P1, of "socket_path (cfg m1)" r s'] show ?thesis
      by (cases v) (auto simp: vmm_ready_attempt_def simp del: split_paired_All)
  qed (use run Some tw P1 in \<open>simp add: vmm_ready_attempt_def\<close>)
qed

lemma keep_clock:
  assumes P: "P s"
  shows "machine_now E s = (t, s') \<Longrightarrow> P s'" and "P (machine_sleep E n s)"
proof -
  obtain m w where s: "s = (m, w)" by fastforce
  note q = quiet [OF P] and frame = frame [OF P [unfolded s]]
  show "machine_now E s = (t, s') \<Longrightarrow> P s'"
    using quiet_envD(12) [OF q, of "sos w"]
    by (cases "clock_now E (sos w)") (auto simp: s machine_now_def same_core_def intro: frame)
  show "P (machine_sleep E n s)"
    using quiet_envD(13) [OF q] by (auto simp: s machine_sleep_def same_core_def intro: frame)
qed

lemma keep_wait_ready: "keeps P (wait_for_vmm_ready E fuel t)"
proof (rule keepsI)
  fix s
  assume P: "P s"
  obtain now s1 where now: "machine_now E s = (now, s1)" by (metis prod.exhaust)
  note P1 = keep_clock(1) [OF P now]
  have att: "P s'" if "P s" "vmm_ready_attempt E s = (r, s')" for s s' r
    using keep_attempt that by (cases s) blast
  have "P (snd (poll fuel (deadline_round (machine_now E) (machine_sleep E 10) d x (vmm_ready_attempt E)) s1))" for d x
    by (rule poll_keeps [where P = P, OF _ P1])
      (auto simp: deadline_round_def split: prod.splits option.splits if_splits intro: keep_clock(2) dest: att keep_clock(1))
  then show "P (snd (wait_for_vmm_ready E fuel t s))"
    by (auto simp: wait_for_vmm_ready_def wait_with_deadline_def now P1 split: option.splits prod.splits)
      (metis snd_conv)+
qed

lemma keep_install: "keeps P (install_signal_forwarder E)"
proof -
  have sig: "keeps P (on_sig (forwarder_install (sig_calls E) ss pid))" for ss pid
    using forwarder_log(1) [OF quiet_envD(16) [OF quiet]]
    by (intro plain) (auto simp: on_sig_def same_core_def split: prod.splits intro: frame)
  have go: "keeps P (op_bind (on_sig (forwarder_install (sig_calls E) ss pid))
      (\<lambda>fwd. upd_m (\<lambda>m. m\<lparr>signal_forwarder := fwd\<rparr>)))" for ss pid
    by (intro keeps_bind sig keep_upd) (simp add: same_core_def)
  show ?thesis
    by (rule at) (auto simp: install_signal_forwarder_def intro: keepsD [OF go] split: option.splits)
qed

lemma keep_netns: "keeps P (configure_command_netns E)"
proof (rule quietly)
  assume q: "quiet_env log E"
  have go: "keeps P (op_bind (on_os (op_io (fs_open_read E p))) (\<lambda>_. op_ok v))" for p v
    by (intro keeps_bind keeps_ok keep_os leaves_map_err quiet_envD(4) [OF q])
  show "keeps P (configure_command_netns E)"
    by (rule at) (auto simp: configure_command_netns_def intro: keepsD [OF go] split: option.splits)
qed

lemma keep_start_vmm: "keeps P (start_vmm E fuel)"
proof (rule quietly)
  assume q: "quiet_env log E"
  have wait_at: "keeps P (\<lambda>(m, w). aborting E (wait_for_vmm_ready E fuel (t w)) (m, w))" for t
    by (rule reading) (intro keep_aborting keep_wait_ready)
  have pushed: "keeps P (upd_m (\<lambda>m. push_cleanup_func (remove_file_if_present E (socket_path (cfg m))) m))"
    by (rule at) (auto simp: upd_m_def intro: push leaves_remove_file [OF q])
  show "keeps P (start_vmm E fuel)"
  proof (rule app)
    fix m w
    show "\<exists>g. keeps P g \<and> start_vmm E fuel (m, w) = g (m, w)"
    proof (cases "command m")
      case None
      then show ?thesis
        by (intro exI [of _ "op_err (Err (Process ''machine command is not configured''))"])
          (simp add: keeps_intros start_vmm_def op_simps)
    next
      case (Some c)
      show ?thesis
        unfolding start_vmm_def
        by (simp add: Some, rule exI, rule conjI [OF _ refl])
          (intro keeps_bind keeps_map_err keep_aborting keep_install wait_at keep_netns pushed
            keep_os leaves_stdio [OF q] leaves_map_err quiet_envD(8) [OF q] keep_upd; simp add: same_core_def)
    qed
  qed
qed

subsection \<open>The other preparing handlers\<close>

lemma keep_create_log_files: "keeps P (create_log_files E)"
proof (rule quietly)
  assume q: "quiet_env log E"
  have fifo: "leaves log (create_fifo E p)" for p
    unfolding create_fifo_def by (intro keeps_intros quiet_envD(7) [OF q])
  have c: "keeps P (create_fifo_or_file E a b)" for a b
    unfolding create_fifo_or_file_def
    by (intro keeps_option keeps_bind keeps_ok keep_os fifo keep_push leaves_remove_file [OF q] leaves_map_err quiet_envD(5) [OF q])
  have cap: "leaves log (capture_fifo_to_file E p wr)" for p wr
    unfolding capture_fifo_to_file_def
    by (intro leaves_bind leaves_map_err quiet_envD(6) [OF q]) (simp add: leaves_def quiet_envD(15) [OF q])
  have warned: "P (warn E t (m, w))" if "P (m, w)" for t m w
    using frame [OF that] quiet_envD(14) [OF q] that by (auto simp: warn_def same_core_def split: option.splits)
  have last: "keeps P (\<lambda>s. case on_os (capture_fifo_to_file E fifo writer) s of
        (Inl e, s') \<Rightarrow> (Inr () :: error + unit, warn E (msg e) s') | (Inr _, s') \<Rightarrow> (Inr (), s'))" for fifo writer msg
    by (rule at) (auto split: prod.splits sum.splits dest: keep_osD [OF _ cap] intro!: warned)
  show "keeps P (create_log_files E)"
  proof (rule app)
    fix m w
    show "\<exists>g. keeps P g \<and> create_log_files E (m, w) = g (m, w)"
      unfolding create_log_files_def Let_def
      by (simp only: prod.case, rule exI, rule conjI [OF _ refl])
        (auto intro!: keeps_bind keeps_ok c last split: option.splits)
  qed
qed

lemma keep_kernel_args: "keeps P (upd_m (\<lambda>m. m\<lparr>cfg := setup_kernel_args N (cfg m)\<rparr>))"
  by (rule at) (auto simp: upd_m_def setup_kernel_args_def Let_def intro: new_args)

text \<open>The handlers that prepare the machine, but for the set-up of the network.\<close>

lemma keep_exec:
  assumes "me_os V = E" "h \<in> {ValidateCfg, ValidateLoadSnapshotCfg, ValidateJailerCfg, ValidateNetworkCfg,
    SetupKernelArgs, StartVmm, CreateLogFiles}"
  shows "keeps P (exec V h)"
proof (rule quietly)
  assume q: "quiet_env log E"
  have snap: "keeps P (load_snapshot_validation E)"
    by (rule at) (auto simp: load_snapshot_validation_def intro: keepsD [OF keep_os [OF leaves_validation(2) [OF q]]])
  from assms(2) show "keeps P (exec V h)"
    by (auto simp: assms(1) intro!: keeps_map_err snap pure keep_start_vmm keep_create_log_files keep_kernel_args
        keep_os_at leaves_validation(1) [OF q])
qed

end

end
