(* ===== verification/Api_Trace.thy ===== *)
theory Api_Trace
  imports Start_Frame "HOL-Library.Sublist"
begin

text \<open>
  The requests a machine sends to the VMM: which handler sends which requests, and what the whole of a
  start sends, in which order, when it succeeds and when it fails half way. The outside world keeps a
  log of the requests that change the VMM; nothing but the client writes to it.
\<close>

section \<open>Requests and their log\<close>

datatype 'j api_request =
    PutLogger logger | PutMetrics metrics | PutMachineConfig machine_configuration
  | PutBootSource boot_source | PutDrive string drive | PutInterface string network_interface_model
  | PutVsock vsock_model | PutMmds 'j | PutMmdsConfig mmds_config
  | PutSnapshotLoad snapshot_load_params | PutAction instance_action_info

text \<open>
  An operation that writes to the log: all it has to write when it succeeds, a beginning of it otherwise. A
  log is a list of anything, of requests or of bytes.
\<close>

definition writes :: "('os \<Rightarrow> 'l list) \<Rightarrow> 'l list \<Rightarrow> ('os, 'e, 'a) op \<Rightarrow> bool" where
  "writes log x f \<longleftrightarrow>
     (\<forall>os. \<exists>k. prefix k x \<and> log (snd (f os)) = log os @ k \<and> (is_ok (fst (f os)) \<longrightarrow> k = x))"

text \<open>The client logs every request it sends, in the form \<open>ren\<close> gives it.\<close>

definition logging_client ::
  "('j api_request \<Rightarrow> 'l list) \<Rightarrow> ('os \<Rightarrow> 'l list) \<Rightarrow> ('j, 'os, error) client_ops \<Rightarrow> bool" where
  "logging_client ren log cl \<longleftrightarrow>
     leaves log (c_get_machine_configuration cl) \<and>
     (\<forall>x. writes log (ren (PutLogger x)) (c_put_logger cl x)) \<and>
     (\<forall>x. writes log (ren (PutMetrics x)) (c_put_metrics cl x)) \<and>
     (\<forall>x. writes log (ren (PutMachineConfig x)) (c_put_machine_configuration cl x)) \<and>
     (\<forall>x. writes log (ren (PutBootSource x)) (c_put_guest_boot_source cl x)) \<and>
     (\<forall>i x. writes log (ren (PutDrive i x)) (c_put_guest_drive_by_id cl i x)) \<and>
     (\<forall>i x. writes log (ren (PutInterface i x)) (c_put_guest_network_interface_by_id cl i x)) \<and>
     (\<forall>x. writes log (ren (PutVsock x)) (c_put_guest_vsock cl x)) \<and>
     (\<forall>x. writes log (ren (PutMmds x)) (c_put_mmds cl x)) \<and>
     (\<forall>x. writes log (ren (PutMmdsConfig x)) (c_put_mmds_config cl x)) \<and>
     (\<forall>x. writes log (ren (PutSnapshotLoad x)) (c_load_snapshot cl x)) \<and>
     (\<forall>x. writes log (ren (PutAction x)) (c_create_sync_action cl x))"

definition quiet_cni :: "('os \<Rightarrow> 'l) \<Rightarrow> 'os cni_network_operations \<Rightarrow> bool" where
  "quiet_cni log ops \<longleftrightarrow>
     (\<forall>p os. log (snd (initialize_netns ops p os)) = log os \<and>
        (case fst (initialize_netns ops p os) of Inr fs \<Rightarrow> list_all (leaves log) fs | Inl _ \<Rightarrow> True)) \<and>
     (\<forall>c os. log (snd (invoke_cni ops c os)) = log os \<and>
        (case fst (invoke_cni ops c os) of Inr (_, fs) \<Rightarrow> list_all (leaves log) fs | Inl _ \<Rightarrow> True))"

lemma concat_map_concat: "concat (map f (concat xss)) = concat (map (\<lambda>xs. concat (map f xs)) xss)"
  by (induction xss) simp_all

lemma writesD:
  "writes log x f \<Longrightarrow> f os = (r, os') \<Longrightarrow> \<exists>k. prefix k x \<and> log os' = log os @ k \<and> (is_ok r \<longrightarrow> k = x)"
  unfolding writes_def by (metis fst_conv snd_conv)

section \<open>Steps that send nothing\<close>

text \<open>
  The states of a start, as far as requests are concerned: the log is \<open>L\<close>, the client is \<open>cl\<close>, what
  the machine may call later (its cleanup functions, its network operations) leaves the log alone, and
  of the configuration it was made with only the kernel arguments, the network interfaces and the
  network namespace have changed.
\<close>

definition same_boot :: "('j, 'x) config \<Rightarrow> ('j, 'x) config \<Rightarrow> bool" where
  "same_boot c0 c \<longleftrightarrow>
     (\<exists>ka ifs ns. c = c0\<lparr>kernel_args := ka, cfg_network_interfaces := ifs, net_ns := ns\<rparr>)"

lemma same_boot_upd:
  assumes "same_boot c0 c"
  shows "same_boot c0 (c\<lparr>kernel_args := ka\<rparr>)"
    and "same_boot c0 (c\<lparr>net_ns := ns, cfg_network_interfaces := ifs\<rparr>)"
proof -
  from assms obtain ka' ifs' ns' where c: "c = c0\<lparr>kernel_args := ka', cfg_network_interfaces := ifs', net_ns := ns'\<rparr>"
    unfolding same_boot_def by blast
  show "same_boot c0 (c\<lparr>kernel_args := ka\<rparr>)"
    unfolding same_boot_def by (intro exI [of _ ka] exI [of _ ifs'] exI [of _ ns']) (simp add: c)
  show "same_boot c0 (c\<lparr>net_ns := ns, cfg_network_interfaces := ifs\<rparr>)"
    unfolding same_boot_def by (intro exI [of _ ka'] exI [of _ ifs] exI [of _ ns]) (simp add: c)
qed

definition calm ::
  "('os \<Rightarrow> 'l) \<Rightarrow> ('j, 'os, error) client_ops \<Rightarrow> ('j, 'x) config \<Rightarrow> 'l \<Rightarrow> ('j, 'x, 'os) mstate \<Rightarrow> bool" where
  "calm log cl c0 L s \<longleftrightarrow>
     log (sos (snd s)) = L \<and> client (fst s) = cl \<and> list_all (leaves log) (cleanup_funcs (fst s)) \<and>
     quiet_cni log (cni_network_ops (fst s)) \<and> (\<forall>ns n. leaves log (netlink_ops (fst s) ns n)) \<and>
     same_boot c0 (cfg (fst s))"

lemma calm_simps:
  "calm log cl c0 L (m, w) \<longleftrightarrow> log (sos w) = L \<and> client m = cl \<and> list_all (leaves log) (cleanup_funcs m) \<and>
     quiet_cni log (cni_network_ops m) \<and> (\<forall>ns n. leaves log (netlink_ops m ns n)) \<and> same_boot c0 (cfg m)"
  by (simp add: calm_def)

lemma calm_upd [keeps_intros]:
  assumes "\<And>m. client (f m) = client m" "\<And>m. cni_network_ops (f m) = cni_network_ops m"
    "\<And>m. netlink_ops (f m) = netlink_ops m" "\<And>m. cfg (f m) = cfg m"
    and "\<And>m. list_all (leaves log) (cleanup_funcs m) \<Longrightarrow> list_all (leaves log) (cleanup_funcs (f m))"
  shows "keeps (calm log cl c0 L) (upd_m f)"
  using assms by (auto simp: keeps_def upd_m_def calm_simps)

lemma calm_on_client:
  "logging_client ren log cl \<Longrightarrow> keeps (calm log cl c0 L) (on_client c_get_machine_configuration)"
  by (auto simp: keeps_def on_client_def on_os_def logging_client_def calm_simps split: prod.splits dest: leavesD)

lemma calm_plain:
  "(\<And>m w r m' w'. calm log cl c0 L (m, w) \<Longrightarrow> f (m, w) = (r, (m', w')) \<Longrightarrow> calm log cl c0 L (m', w')) \<Longrightarrow>
   keeps (calm log cl c0 L) f"
  by (auto simp: keeps_def) (metis prod.collapse)

lemma calm_cleanup:
  assumes "calm log cl c0 L (m, w)" "do_cleanup (m, w) = (r, (m', w'))"
  shows "calm log cl c0 L (m', w')"
proof -
  have "log (snd (run_cleanups fs os)) = log os" if "list_all (leaves log) fs" for fs os
    using that by (induction fs arbitrary: os) (auto split: prod.splits dest: leavesD, metis snd_conv leavesD)
  then have "log os' = log os" if "list_all (leaves log) fs" "run_cleanups (rev fs) os = (e, os')" for fs os e os'
    using that by (metis list_all_rev snd_conv)
  with assms show ?thesis
    by (auto simp: do_cleanup_def cleanup_loop_eq calm_simps split: if_splits prod.splits)
qed

text \<open>All preparing steps keep such a state; the set-up of the network does, too.\<close>

interpretation calm: start_frame E log cl
    "\<lambda>s. quiet_env log E \<and> leaves log (c_get_machine_configuration cl) \<and> calm log cl c0 L s"
  for E :: "'os os_env" and log :: "'os \<Rightarrow> 'l" and cl :: "('j, 'os, error) client_ops" and c0 :: "('j, 'x) config" and L
proof (unfold_locales, goal_cases)
  case (6 m w r m' w')
  then show ?case by (metis calm_cleanup [of log cl c0 L m w r m' w'])
qed (simp_all add: calm_simps same_core_def push_cleanup_func_def same_boot_upd(1))

lemma calm_keeps:
  assumes "keeps (\<lambda>s. quiet_env log E \<and> leaves log (c_get_machine_configuration cl) \<and> calm log cl c0 L s) f"
    "quiet_env log E" "logging_client ren log cl"
  shows "keeps (calm log cl c0 L) f"
  using assms by (simp add: keeps_def logging_client_def)

lemma calm_abort:
  assumes "quiet_env log E" "logging_client ren log cl" "calm log cl c0 L (m, w)" "abort_start E e (m, w) = (e', (m', w'))"
  shows "calm log cl c0 L (m', w')"
  using calm.keep_abort [OF _ assms(4), of log cl c0 L] assms(1-3) by (simp add: logging_client_def)

lemma calm_aborting:
  assumes "quiet_env log E" "logging_client ren log cl" "keeps (calm log cl c0 L) f"
  shows "keeps (calm log cl c0 L) (aborting E f)"
  by (rule calm_keeps [OF calm.keep_aborting assms(1,2)]) (use assms in \<open>simp add: keeps_def\<close>)

lemma setup_cni_log:
  assumes "quiet_cni log ops" "\<And>ns n. leaves log (get_link ns n)"
    and run: "setup_cni N vm_id ns ops get_link (ifs, os) = (r, (ifs', os'))"
  shows "log os' = log os" "r = Inr fs \<Longrightarrow> list_all (leaves log) fs"
proof -
  have init: "log os1 = log os" "r1 = Inr fs1 \<Longrightarrow> list_all (leaves log) fs1"
    if "initialize_netns ops p os = (r1, os1)" for p os r1 os1 fs1
    using assms(1) that unfolding quiet_cni_def by (metis fst_conv snd_conv, metis fst_conv sum.case(2))
  have inv: "log os1 = log os" "r1 = Inr (res, fs1) \<Longrightarrow> list_all (leaves log) fs1"
    if "invoke_cni ops c os = (r1, os1)" for c os r1 os1 res fs1
    using assms(1) that unfolding quiet_cni_def by (metis snd_conv, metis (no_types, lifting) fst_conv sum.case(2) prod.case)
  note app = apply_log [OF assms(2)]
  show "log os' = log os"
    using run by (auto simp: setup_cni_def Let_def split: option.splits prod.splits sum.splits dest!: init(1) inv(1) app)
  show "r = Inr fs \<Longrightarrow> list_all (leaves log) fs"
    using run by (auto simp: setup_cni_def Let_def split: option.splits prod.splits sum.splits dest: init(2) inv(2))
qed

lemma calm_setup_network: "keeps (calm log cl c0 L) (setup_network N)"
proof (rule calm_plain)
  fix m w r m' w'
  assume c: "calm log cl c0 L (m, w)" and run: "setup_network N (m, w) = (r, (m', w'))"
  show "calm log cl c0 L (m', w')"
  proof (cases "cni_interface (cfg_network_interfaces (cfg m))")
    case None
    with c run show ?thesis by (simp add: setup_network_def)
  next
    case (Some i)
    let ?path = "unwrap_or (default_net_ns_path m) (net_ns (cfg m))"
    obtain r1 ifs os where cni: "setup_cni N (vmid (cfg m)) ?path (cni_network_ops m) (netlink_ops m)
        (cfg_network_interfaces (cfg m), sos w) = (r1, (ifs, os))" by (metis prod.exhaust)
    have q: "quiet_cni log (cni_network_ops m)" "\<And>ns n. leaves log (netlink_ops m ns n)"
      using c by (simp_all add: calm_simps)
    from setup_cni_log(1) [OF q cni] have log: "log os = log (sos w)" .
    show ?thesis
    proof (cases r1)
      case (Inl e)
      with c run Some cni log show ?thesis
        by (auto simp: setup_network_def Let_def calm_simps intro!: same_boot_upd)
    next
      case (Inr fs)
      from setup_cni_log(2) [OF q cni Inr] have "list_all (leaves log) fs" .
      with c run Some cni log Inr show ?thesis
        by (auto simp: setup_network_def Let_def calm_simps push_cleanup_funcs_def intro!: same_boot_upd)
    qed
  qed
qed

text \<open>The handlers that prepare the machine and send nothing.\<close>

definition prepares :: "('j, 'x) handler_fn \<Rightarrow> bool" where
  "prepares h \<longleftrightarrow> h \<in> {ValidateCfg, ValidateLoadSnapshotCfg, ValidateJailerCfg, ValidateNetworkCfg,
     SetupNetwork, SetupKernelArgs, StartVmm, CreateLogFiles}"

lemma exec_calm:
  assumes q: "quiet_env log (me_os V)" and l: "logging_client ren log cl" and h: "prepares h"
  shows "keeps (calm log cl c0 L) (exec V h)"
proof (cases "h = SetupNetwork")
  case True
  then show ?thesis by (simp add: keeps_map_err calm_setup_network)
next
  case False
  with h show ?thesis
    by (intro calm_keeps [OF calm.keep_exec [OF refl] q l]) (auto simp: prepares_def)
qed

section \<open>The handlers that send requests\<close>

text \<open>The requests of each handler, as a function of the configuration it sees.\<close>

definition logging_requests :: "('j, 'x) config \<Rightarrow> 'j api_request list" where
  "logging_requests c =
     (case opt_or (log_fifo c) (log_path c) of
        None \<Rightarrow> []
      | Some p \<Rightarrow> [PutLogger \<lparr>lg_log_path = Some p, lg_level = log_level c, lg_show_level = Some True,
          lg_show_log_origin = Some False\<rparr>]) @
     (case opt_or (metrics_fifo c) (metrics_path c) of
        None \<Rightarrow> [] | Some p \<Rightarrow> [PutMetrics \<lparr>me_metrics_path = Some p\<rparr>])"

definition drive_requests :: "('j, 'x) config \<Rightarrow> 'j api_request list" where
  "drive_requests c = map (\<lambda>d. PutDrive (unwrap_or [] (dr_drive_id d)) d) (drives c)"

definition interface_request :: "nat \<times> network_interface \<Rightarrow> 'j api_request list" where
  "interface_request = (\<lambda>(index, i).
     case static_configuration i of
       None \<Rightarrow> []
     | Some st \<Rightarrow> [PutInterface (nat_str (index + 1))
         \<lparr>nm_iface_id = Some (nat_str (index + 1)), nm_guest_mac = stc_mac_address st,
          nm_host_dev_name = Some (stc_host_dev_name st),
          nm_rx_rate_limiter = in_rate_limiter i, nm_tx_rate_limiter = out_rate_limiter i\<rparr>])"

definition interface_requests :: "('j, 'x) config \<Rightarrow> 'j api_request list" where
  "interface_requests c = concat (map interface_request (List.enumerate 0 (cfg_network_interfaces c)))"

definition vsock_requests :: "('j, 'x) config \<Rightarrow> 'j api_request list" where
  "vsock_requests c = map (\<lambda>d. PutVsock \<lparr>vs_vsock_id = Some (vd_id d), vs_guest_cid = Some (uint (vd_cid d)),
     vs_uds_path = Some (vd_path d)\<rparr>) (vsock_devices c)"

definition mmds_requests :: "('j, 'x) config \<Rightarrow> 'j api_request list" where
  "mmds_requests c =
     (if mmds_interfaces (cfg_network_interfaces c) = [] then []
      else [PutMmdsConfig \<lparr>mm_ipv4_address = map_option octets_str (mmds_address c),
        mm_network_interfaces = mmds_interfaces (cfg_network_interfaces c),
        mm_version = Some (version_to_model (cfg_mmds_version c))\<rparr>])"

definition snapshot_request :: "('j, 'x) config \<Rightarrow> 'j api_request" where
  "snapshot_request c = PutSnapshotLoad
     \<lparr>sl_mem_file_path = sn_mem_file_path (snapshot c), sl_mem_backend = sn_mem_backend (snapshot c),
      sl_snapshot_path = sn_snapshot_path (snapshot c),
      sl_enable_diff_snapshots = sn_enable_diff_snapshots (snapshot c), sl_resume_vm = sn_resume_vm (snapshot c)\<rparr>"

fun handler_requests :: "('j, 'x) config \<Rightarrow> ('j, 'x) handler_fn \<Rightarrow> 'j api_request list" where
  "handler_requests c BootstrapLogging = logging_requests c"
| "handler_requests c CreateMachine = [PutMachineConfig (machine_cfg c)]"
| "handler_requests c CreateBootSource = [PutBootSource \<lparr>bo_kernel_image_path = Some (kernel_image_path c),
     bo_initrd_path = initrd_path c, bo_boot_args = Some (kernel_args c)\<rparr>]"
| "handler_requests c AttachDrives = drive_requests c"
| "handler_requests c CreateNetworkInterfaces = interface_requests c"
| "handler_requests c AddVsocks = vsock_requests c"
| "handler_requests c (SetMetadata j) = [PutMmds j]"
| "handler_requests c ConfigMmds = mmds_requests c"
| "handler_requests c LoadSnapshot = [snapshot_request c]"
| "handler_requests c _ = []"

definition configures :: "('j, 'x) handler_fn \<Rightarrow> bool" where
  "configures h \<longleftrightarrow> (case h of
     BootstrapLogging \<Rightarrow> True | CreateMachine \<Rightarrow> True | CreateBootSource \<Rightarrow> True | AttachDrives \<Rightarrow> True
   | CreateNetworkInterfaces \<Rightarrow> True | AddVsocks \<Rightarrow> True | SetMetadata _ \<Rightarrow> True | ConfigMmds \<Rightarrow> True
   | LoadSnapshot \<Rightarrow> True | _ \<Rightarrow> False)"

text \<open>
  An operation sends the requests \<open>rs\<close> on machines with configuration \<open>c\<close>: all of them if it
  succeeds, the first few otherwise; and it does not change the configuration.
\<close>

definition sends ::
  "('os \<Rightarrow> 'l list) \<Rightarrow> ('j, 'os, error) client_ops \<Rightarrow> ('j, 'x) config \<Rightarrow> ('j, 'x) config \<Rightarrow> 'l list \<Rightarrow>
   (('j, 'x, 'os) mstate, 'e, 'a) op \<Rightarrow> bool" where
  "sends log cl c0 c rs f \<longleftrightarrow>
     (\<forall>L m w r m' w'. calm log cl c0 L (m, w) \<and> cfg m = c \<and> f (m, w) = (r, (m', w')) \<longrightarrow>
        cfg m' = c \<and> (\<exists>k. prefix k rs \<and> calm log cl c0 (L @ k) (m', w') \<and> (is_ok r \<longrightarrow> k = rs)))"

lemma sendsD:
  assumes "sends log cl c0 c rs f" "calm log cl c0 L (m, w)" "cfg m = c" "f (m, w) = (r, (m', w'))"
  obtains k where "cfg m' = c" "prefix k rs" "calm log cl c0 (L @ k) (m', w')" "is_ok r \<longrightarrow> k = rs"
  using assms unfolding sends_def by blast

lemma sendsI:
  assumes "\<And>L m w r m' w'. calm log cl c0 L (m, w) \<Longrightarrow> cfg m = c \<Longrightarrow> f (m, w) = (r, (m', w')) \<Longrightarrow>
    cfg m' = c \<and> (\<exists>k. prefix k rs \<and> calm log cl c0 (L @ k) (m', w') \<and> (is_ok r \<longrightarrow> k = rs))"
  shows "sends log cl c0 c rs f"
  using assms unfolding sends_def by blast

lemma sends_bind:
  assumes f: "sends log cl c0 c rs f" and g: "\<And>x. sends log cl c0 c rs' (g x)"
  shows "sends log cl c0 c (rs @ rs') (op_bind f g)"
proof (rule sendsI)
  fix L m w r m' w'
  assume s: "calm log cl c0 L (m, w)" "cfg m = c" and run: "op_bind f g (m, w) = (r, (m', w'))"
  obtain r1 m1 w1 where 1: "f (m, w) = (r1, (m1, w1))" by (metis prod.exhaust)
  from sendsD [OF f s 1] obtain k where k: "cfg m1 = c" "prefix k rs" "calm log cl c0 (L @ k) (m1, w1)"
    "is_ok r1 \<longrightarrow> k = rs" by blast
  show "cfg m' = c \<and> (\<exists>k. prefix k (rs @ rs') \<and> calm log cl c0 (L @ k) (m', w') \<and> (is_ok r \<longrightarrow> k = rs @ rs'))"
  proof (cases r1)
    case (Inl e)
    with run 1 have "r = Inl e" "m' = m1" "w' = w1" by (auto simp: op_bind_def)
    with k show ?thesis by (intro conjI exI [of _ k]) (auto intro: prefix_prefix)
  next
    case (Inr x)
    with run 1 have 2: "g x (m1, w1) = (r, (m', w'))" by (simp add: op_bind_def)
    from sendsD [OF g k(3,1) 2] obtain k' where "cfg m' = c" "prefix k' rs'"
      "calm log cl c0 ((L @ k) @ k') (m', w')" "is_ok r \<longrightarrow> k' = rs'" by blast
    with k(4) Inr show ?thesis by (intro conjI exI [of _ "rs @ k'"]) auto
  qed
qed

lemma sends_calm:
  assumes "\<And>L. keeps (calm log cl c0 L) f" "\<And>m w. cfg (fst (snd (f (m, w)))) = cfg m"
  shows "sends log cl c0 c [] f"
proof (rule sendsI)
  fix L m w r m' w'
  assume "calm log cl c0 L (m, w)" "cfg m = c" "f (m, w) = (r, (m', w'))"
  with keepsD [OF assms(1)] assms(2) [of m w] show "cfg m' = c \<and> (\<exists>k. prefix k [] \<and> calm log cl c0 (L @ k) (m', w') \<and> (is_ok r \<longrightarrow> k = []))"
    by (metis append_Nil2 fst_conv prefix_bot.extremum snd_conv)
qed

lemma sends_map_err:
  assumes "sends log cl c0 c rs f"
  shows "sends log cl c0 c rs (op_map_err g f)"
proof (rule sendsI)
  fix L m w r m' w'
  assume s: "calm log cl c0 L (m, w)" "cfg m = c" and run: "op_map_err g f (m, w) = (r, (m', w'))"
  obtain r1 m1 w1 where 1: "f (m, w) = (r1, (m1, w1))" by (metis prod.exhaust)
  with run have eq: "r = map_err g r1" "m' = m1" "w' = w1" by (auto simp: op_map_err_def)
  have "is_ok r \<longleftrightarrow> is_ok r1" unfolding eq by (cases r1) simp_all
  with sendsD [OF assms s 1] eq
  show "cfg m' = c \<and> (\<exists>k. prefix k rs \<and> calm log cl c0 (L @ k) (m', w') \<and> (is_ok r \<longrightarrow> k = rs))"
    by metis
qed

lemma sends_ok: "sends log cl c0 c [] (op_ok x)"
  by (rule sends_calm) (simp_all add: keeps_intros op_simps)

lemma sends_err: "sends log cl c0 c rs (op_err x)"
  by (rule sendsI, rule conjI, simp add: op_simps, rule exI [of _ "[]"]) (auto simp: op_simps)

lemma sends_for:
  "(\<And>x. sends log cl c0 c (h x) (f x)) \<Longrightarrow> sends log cl c0 c (concat (map h xs)) (op_for f xs)"
  by (induction xs) (auto intro!: sends_ok sends_bind)

lemma sends_read:
  assumes "\<And>m. cfg m = c \<Longrightarrow> sends log cl c0 c rs (f m)"
  shows "sends log cl c0 c rs (\<lambda>(m, w). f m (m, w))"
proof (rule sendsI)
  fix L m w r m' w'
  assume s: "calm log cl c0 L (m, w)" "cfg m = c" and run: "(case (m, w) of (m, w) \<Rightarrow> f m (m, w)) = (r, (m', w'))"
  from run have "f m (m, w) = (r, (m', w'))" by simp
  from sendsD [OF assms [OF s(2)] s this]
  show "cfg m' = c \<and> (\<exists>k. prefix k rs \<and> calm log cl c0 (L @ k) (m', w') \<and> (is_ok r \<longrightarrow> k = rs))" by metis
qed

lemma sends_client:
  assumes "writes log x (f cl)"
  shows "sends log cl c0 c x (on_client f)"
proof (rule sendsI)
  fix L m w r m' w'
  assume s: "calm log cl c0 L (m, w)" "cfg m = c" and run: "on_client f (m, w) = (r, (m', w'))"
  obtain r1 os where 1: "f cl (sos w) = (r1, os)" by fastforce
  from s have "client m = cl" by (simp add: calm_simps)
  with run 1 have "m' = m" "w' = w\<lparr>sos := os\<rparr>" by (simp_all add: on_client_def on_os_def)
  moreover have "r = r1" using run 1 \<open>client m = cl\<close> by (simp add: on_client_def on_os_def)
  ultimately show "cfg m' = c \<and> (\<exists>k. prefix k x \<and> calm log cl c0 (L @ k) (m', w') \<and> (is_ok r \<longrightarrow> k = x))"
    using s writesD [OF assms 1] by (auto simp: calm_simps)
qed

lemma logging_clientD:
  assumes "logging_client ren log cl"
  shows "writes log (ren (PutLogger a)) (c_put_logger cl a)" "writes log (ren (PutMetrics b)) (c_put_metrics cl b)"
    "writes log (ren (PutMachineConfig d)) (c_put_machine_configuration cl d)"
    "writes log (ren (PutBootSource e)) (c_put_guest_boot_source cl e)" "writes log (ren (PutDrive i f)) (c_put_guest_drive_by_id cl i f)"
    "writes log (ren (PutInterface i g)) (c_put_guest_network_interface_by_id cl i g)"
    "writes log (ren (PutVsock h)) (c_put_guest_vsock cl h)" "writes log (ren (PutMmds j)) (c_put_mmds cl j)"
    "writes log (ren (PutMmdsConfig k)) (c_put_mmds_config cl k)" "writes log (ren (PutSnapshotLoad n)) (c_load_snapshot cl n)"
    "writes log (ren (PutAction p)) (c_create_sync_action cl p)"
  using assms by (simp_all add: logging_client_def)

lemma sends_eq:
  assumes "sends log cl c0 c rs g" "\<And>m w. cfg m = c \<Longrightarrow> f (m, w) = g (m, w)"
  shows "sends log cl c0 c rs f"
proof (rule sendsI)
  fix L m w r m' w'
  assume s: "calm log cl c0 L (m, w)" "cfg m = c" and run: "f (m, w) = (r, (m', w'))"
  from run assms(2) [OF s(2)] have "g (m, w) = (r, (m', w'))" by simp
  from sendsD [OF assms(1) s this]
  show "cfg m' = c \<and> (\<exists>k. prefix k rs \<and> calm log cl c0 (L @ k) (m', w') \<and> (is_ok r \<longrightarrow> k = rs))" by metis
qed

lemma sends_opt:
  assumes "\<And>x. v = Some x \<Longrightarrow> sends log cl c0 c (h x) (f x)"
  shows "sends log cl c0 c (case v of None \<Rightarrow> [] | Some x \<Rightarrow> h x) (case v of None \<Rightarrow> op_ok y | Some x \<Rightarrow> f x)"
  using assms by (cases v) (simp_all add: sends_ok)

lemma sends_logging:
  assumes l: "logging_client ren log cl"
  shows "sends log cl c0 c (concat (map ren (logging_requests c))) (op_then setup_logging setup_metrics)"
  unfolding logging_requests_def map_append concat_append
proof (rule sends_bind)
  have "sends log cl c0 c (case opt_or (log_fifo c) (log_path c) of None \<Rightarrow> []
      | Some p \<Rightarrow> ren (PutLogger \<lparr>lg_log_path = Some p, lg_level = log_level c, lg_show_level = Some True,
          lg_show_log_origin = Some False\<rparr>)) setup_logging"
    by (rule sends_eq, rule sends_opt, rule sends_client, rule logging_clientD(1) [OF l])
      (auto simp: setup_logging_def op_simps split: option.splits)
  then show "sends log cl c0 c (concat (map ren (case opt_or (log_fifo c) (log_path c) of None \<Rightarrow> []
      | Some p \<Rightarrow> [PutLogger \<lparr>lg_log_path = Some p, lg_level = log_level c, lg_show_level = Some True,
          lg_show_log_origin = Some False\<rparr>]))) setup_logging"
    by (simp split: option.splits)
  have "sends log cl c0 c (case opt_or (metrics_fifo c) (metrics_path c) of
      None \<Rightarrow> [] | Some p \<Rightarrow> ren (PutMetrics \<lparr>me_metrics_path = Some p\<rparr>)) setup_metrics"
    by (rule sends_eq, rule sends_opt, rule sends_client, rule logging_clientD(2) [OF l])
      (auto simp: setup_metrics_def op_simps split: option.splits)
  then show "sends log cl c0 c (concat (map ren (case opt_or (metrics_fifo c) (metrics_path c) of
      None \<Rightarrow> [] | Some p \<Rightarrow> [PutMetrics \<lparr>me_metrics_path = Some p\<rparr>]))) setup_metrics"
    by (simp split: option.splits)
qed

lemma sends_create_machine:
  assumes l: "logging_client ren log cl"
  shows "sends log cl c0 c (ren (PutMachineConfig (machine_cfg c))) create_machine"
proof -
  have refresh: "sends log cl c0 c [] refresh_machine_configuration"
    unfolding refresh_machine_configuration_def
    by (rule sends_calm, intro keeps_bind calm_on_client [OF l] calm_upd)
      (auto simp: op_bind_def on_client_def on_os_def upd_m_def split: prod.splits sum.splits)
  have "sends log cl c0 c (ren (PutMachineConfig (machine_cfg c)) @ [])
      (op_then (on_client (\<lambda>cl. c_put_machine_configuration cl (machine_cfg c))) refresh_machine_configuration)"
    by (intro sends_bind sends_client logging_clientD(3) [OF l] refresh)
  then have "sends log cl c0 c (ren (PutMachineConfig (machine_cfg c)))
      (op_then (on_client (\<lambda>cl. c_put_machine_configuration cl (machine_cfg c))) refresh_machine_configuration)"
    by simp
  then show ?thesis by (rule sends_eq) (simp add: create_machine_def)
qed

lemma sends_attach_drives:
  assumes l: "logging_client ren log cl"
  shows "sends log cl c0 c (concat (map ren (drive_requests c))) attach_drives"
proof -
  have "sends log cl c0 c (concat (map (\<lambda>d. ren (PutDrive (unwrap_or [] (dr_drive_id d)) d)) (drives c)))
      (op_for attach_drive (drives c))"
    unfolding attach_drive_def by (intro sends_for sends_client logging_clientD(5) [OF l])
  then have "sends log cl c0 c (concat (map ren (drive_requests c))) (op_for attach_drive (drives c))"
    by (simp add: drive_requests_def o_def)
  then show ?thesis by (rule sends_eq) (simp add: attach_drives_def)
qed

lemma sends_add_vsocks:
  assumes l: "logging_client ren log cl"
  shows "sends log cl c0 c (concat (map ren (vsock_requests c))) add_vsocks"
proof -
  have "sends log cl c0 c (concat (map (\<lambda>d. ren (PutVsock \<lparr>vs_vsock_id = Some (vd_id d),
      vs_guest_cid = Some (uint (vd_cid d)), vs_uds_path = Some (vd_path d)\<rparr>)) (vsock_devices c)))
      (op_for add_vsock (vsock_devices c))"
    unfolding add_vsock_def by (intro sends_for sends_client logging_clientD(7) [OF l])
  then have "sends log cl c0 c (concat (map ren (vsock_requests c))) (op_for add_vsock (vsock_devices c))"
    by (simp add: vsock_requests_def o_def)
  then show ?thesis by (rule sends_eq) (simp add: add_vsocks_def)
qed

lemma sends_interfaces:
  assumes l: "logging_client ren log cl"
  shows "sends log cl c0 c (concat (map ren (interface_requests c))) create_network_interfaces"
proof -
  have "sends log cl c0 c (concat (map ren (interface_request x))) ((\<lambda>(index, i). create_network_interface i (index + 1)) x)" for x
  proof -
    obtain index i where x: "x = (index, i)" by fastforce
    show ?thesis
      unfolding x prod.case create_network_interface_def interface_request_def
      by (cases "static_configuration i") (simp_all add: sends_err sends_client logging_clientD(6) [OF l] del: add_Suc_right)
  qed
  from sends_for [OF this]
  have "sends log cl c0 c (concat (map ren (interface_requests c)))
      (op_for (\<lambda>(index, i). create_network_interface i (index + 1)) (List.enumerate 0 (cfg_network_interfaces c)))"
    by (simp add: interface_requests_def concat_map_concat o_def)
  then show ?thesis by (rule sends_eq) (simp add: create_network_interfaces_def)
qed

lemma sends_mmds:
  assumes l: "logging_client ren log cl"
  shows "sends log cl c0 c (concat (map ren (mmds_requests c)))
    (set_mmds_config (mmds_address c) (cfg_network_interfaces c) (cfg_mmds_version c))"
  by (simp add: mmds_requests_def set_mmds_config_def Let_def sends_ok sends_client logging_clientD(9) [OF l])

lemma exec_sends:
  assumes l: "logging_client ren log cl" and h: "configures h"
  shows "sends log cl c0 c (concat (map ren (handler_requests c h))) (exec V h)"
proof -
  have boot: "sends log cl c0 c (concat (map ren (handler_requests c CreateBootSource))) (\<lambda>(m, w).
     create_boot_source (kernel_image_path (cfg m)) (initrd_path (cfg m)) (Some (kernel_args (cfg m))) (m, w))"
    by (rule sends_eq [where g = "create_boot_source (kernel_image_path c) (initrd_path c) (Some (kernel_args c))"])
      (simp_all add: create_boot_source_def sends_client logging_clientD(4) [OF l])
  have mmds: "sends log cl c0 c (concat (map ren (mmds_requests c))) (\<lambda>(m, w).
     set_mmds_config (mmds_address (cfg m)) (cfg_network_interfaces (cfg m)) (cfg_mmds_version (cfg m)) (m, w))"
    by (rule sends_eq [OF sends_mmds [OF l]]) simp
  have snap: "sends log cl c0 c (ren (snapshot_request c)) load_snapshot"
    by (rule sends_eq [where g = "on_client (\<lambda>cl. c_load_snapshot cl _)"], rule sends_client,
        simp only: snapshot_request_def, rule logging_clientD(10) [OF l]) (simp add: load_snapshot_def Let_def)
  have meta: "sends log cl c0 c (ren (PutMmds j)) (set_metadata j)" for j
    unfolding set_metadata_def by (intro sends_client logging_clientD(8) [OF l])
  show ?thesis
    using h boot mmds snap meta
    by (cases h) (simp_all add: configures_def sends_map_err sends_logging [OF l] sends_create_machine [OF l]
        sends_attach_drives [OF l] sends_interfaces [OF l] sends_add_vsocks [OF l])
qed

lemma hl_run_sends:
  assumes "logging_client ren log cl" "list_all (\<lambda>h. configures (hfunc h)) hs"
  shows "sends log cl c0 c (concat (map ren (concat (map (\<lambda>h. handler_requests c (hfunc h)) hs)))) (hl_run (exec V) hs)"
  using assms(2)
  by (induction hs) (auto simp: hl_run_def sends_ok intro!: sends_bind exec_sends [OF assms(1)])

lemma sends_start_instance:
  assumes l: "logging_client ren log cl"
  shows "sends log cl c0 c (if has_snapshot c then []
    else ren (PutAction \<lparr>ia_action_type = Some INSTANCE_ACTION_INSTANCE_START\<rparr>)) start_instance"
  by (rule sends_eq [where g = "if has_snapshot c then op_ok ()
      else on_client (\<lambda>cl. c_create_sync_action cl \<lparr>ia_action_type = Some INSTANCE_ACTION_INSTANCE_START\<rparr>)"])
    (simp_all add: start_instance_def op_simps sends_ok sends_client logging_clientD(11) [OF l])

section \<open>The whole start\<close>

lemma sends_aborting:
  assumes q: "quiet_env log E" and l: "logging_client ren log cl" and f: "sends log cl c0 c rs f"
  shows "sends log cl c0 c rs (aborting E f)"
proof (rule sendsI)
  fix L m w r m' w'
  assume s: "calm log cl c0 L (m, w)" "cfg m = c" and run: "aborting E f (m, w) = (r, (m', w'))"
  obtain r1 m1 w1 where 1: "f (m, w) = (r1, (m1, w1))" by (metis prod.exhaust)
  from sendsD [OF f s 1] obtain k where k: "cfg m1 = c" "prefix k rs" "calm log cl c0 (L @ k) (m1, w1)"
    "is_ok r1 \<longrightarrow> k = rs" by blast
  show "cfg m' = c \<and> (\<exists>k. prefix k rs \<and> calm log cl c0 (L @ k) (m', w') \<and> (is_ok r \<longrightarrow> k = rs))"
  proof (cases "\<exists>e. r1 = Inl (Err e)")
    case True
    then obtain e where r1: "r1 = Inl (Err e)" by blast
    obtain e' m2 w2 where ab: "abort_start E e (m1, w1) = (e', (m2, w2))" by (metis prod.exhaust)
    with run 1 r1 have "r = Inl (Err e')" "m' = m2" "w' = w2" by (auto simp: aborting_def)
    with calm_abort [OF q l k(3) ab] abort_start_machine(4) [OF ab] k show ?thesis by auto
  next
    case False
    with run 1 have "r = r1" "m' = m1" "w' = w1"
      by (auto simp: aborting_def split: sum.splits exc.splits)
    with k show ?thesis by auto
  qed
qed

lemma aborting_bind: "aborting E (op_bind f g) = op_bind (aborting E f) (\<lambda>x. aborting E (g x))"
  by (auto simp: aborting_def op_bind_def fun_eq_iff split: prod.splits sum.splits exc.splits)

lemma op_bind_at: "f s = f' s \<Longrightarrow> op_bind f g s = op_bind f' g s"
  by (simp add: op_bind_def)

lemma hl_run_calm:
  assumes "quiet_env log (me_os V)" "logging_client ren log cl" "list_all (\<lambda>h. prepares (hfunc h)) hs"
  shows "keeps (calm log cl c0 L) (hl_run (exec V) hs)"
  using assms(3) unfolding hl_run_def
  by (intro keeps_for) (auto simp: list_all_iff intro: exec_calm [OF assms(1,2)])

definition start_request :: "('j, 'x) config \<Rightarrow> 'j api_request list" where
  "start_request c = (if has_snapshot c then []
     else [PutAction \<lparr>ia_action_type = Some INSTANCE_ACTION_INSTANCE_START\<rparr>])"

lemma start_requests:
  assumes q: "quiet_env log (me_os V)" and l: "logging_client ren log cl"
    and s: "calm log cl c0 L (m, w)" "\<not> started m"
    and hs: "fc_init (m_handlers m) = pre @ post"
      "list_all (\<lambda>h. prepares (hfunc h)) (validation (m_handlers m) @ pre)"
      "list_all (\<lambda>h. configures (hfunc h)) post"
    and run: "start V (m, w) = (r, (m', w'))"
  defines "rs \<equiv> \<lambda>c. concat (map ren (concat (map (\<lambda>h. handler_requests c (hfunc h)) post) @ start_request c))"
  shows "\<exists>k. prefix k (rs (cfg m')) \<and> calm log cl c0 (L @ k) (m', w') \<and> (is_ok r \<longrightarrow> k = rs (cfg m'))"
proof -
  let ?E = "me_os V" and ?P = "calm log cl c0"
  let ?val = "if \<not> disable_validation (cfg m) then hl_run (exec V) (validation (m_handlers m)) else op_ok ()"
  let ?prep = "op_then ?val (hl_run (exec V) pre)"
  let ?rest = "op_then (aborting ?E (hl_run (exec V) post)) (aborting ?E (op_map_err Err start_instance))"
  have "handlers_run V (m_handlers m) (m\<lparr>started := True\<rparr>, w) =
      op_then ?prep (hl_run (exec V) post) (m\<lparr>started := True\<rparr>, w)"
    by (simp add: handlers_run_def hs(1) hl_run_append op_bind_laws)
  then have "aborting ?E (handlers_run V (m_handlers m)) (m\<lparr>started := True\<rparr>, w) =
      aborting ?E (op_then ?prep (hl_run (exec V) post)) (m\<lparr>started := True\<rparr>, w)"
    by (simp only: aborting_def)
  then have run_eq: "op_bind (aborting ?E (handlers_run V (m_handlers m))) g (m\<lparr>started := True\<rparr>, w) =
      op_bind (aborting ?E (op_then ?prep (hl_run (exec V) post))) g (m\<lparr>started := True\<rparr>, w)"
    for g :: "unit \<Rightarrow> (('c, 'd, 'a) mstate, exc, unit) op"
    by (rule op_bind_at)
  have "start V (m, w) = op_then (aborting ?E (handlers_run V (m_handlers m)))
      (aborting ?E (op_map_err Err start_instance)) (m\<lparr>started := True\<rparr>, w)"
    using s(2) by (simp add: start_def)
  then have eq: "start V (m, w) = op_then (aborting ?E ?prep) ?rest (m\<lparr>started := True\<rparr>, w)"
    by (simp only: run_eq) (simp only: aborting_bind op_bind_laws(4))
  have prep: "keeps (?P L) (aborting ?E ?prep)"
    using hs(2) by (intro calm_aborting [OF q l] keeps_bind keeps_if keeps_ok hl_run_calm [OF q l]) simp_all
  have rest: "sends log cl c0 c (rs c) ?rest" for c
  proof -
    have "concat (map ren (start_request c)) = (if has_snapshot c then []
        else ren (PutAction \<lparr>ia_action_type = Some INSTANCE_ACTION_INSTANCE_START\<rparr>))"
      by (simp add: start_request_def)
    then show ?thesis
      unfolding rs_def map_append concat_append
      by (simp only:) (intro sends_bind sends_aborting [OF q l] sends_map_err sends_start_instance [OF l] hl_run_sends [OF l hs(3)])
  qed
  from s(1) have s': "?P L (m\<lparr>started := True\<rparr>, w)" by (simp add: calm_simps)
  obtain r1 m1 w1 where 1: "aborting ?E ?prep (m\<lparr>started := True\<rparr>, w) = (r1, (m1, w1))" by (metis prod.exhaust)
  with keepsD [OF prep s'] have c1: "?P L (m1, w1)" by simp
  show ?thesis
  proof (cases r1)
    case (Inl e)
    with run eq 1 have "r = Inl e" "m' = m1" "w' = w1" by (auto simp: op_bind_def)
    with c1 show ?thesis by (intro exI [of _ "[]"]) simp
  next
    case (Inr x)
    with run eq 1 have "?rest (m1, w1) = (r, (m', w'))" by (simp add: op_bind_def)
    from sendsD [OF rest c1 refl this] show ?thesis by metis
  qed
qed

section \<open>Machines as they are constructed\<close>

lemma real_get_link_leaves:
  assumes "quiet_env log E"
  shows "leaves log (real_get_link E ns n)"
proof -
  note q = leavesD [OF quiet_envD(1) [OF assms]] leavesD [OF quiet_envD(2) [OF assms]]
  have "log os' = log os" if "real_get_link E ns n os = (r, os')" for os r os'
    using that
    by (auto simp: real_get_link_def Let_def split: prod.splits sum.splits option.splits dest!: q)
  then show ?thesis unfolding leaves_def by (metis prod.collapse)
qed

lemma new_machine:
  assumes "new_with_client E real_cni c cl os = (Inr m, os')" "jailer_cfg c = None"
  shows "\<not> started m" "client m = cl" "cni_network_ops m = real_cni" "netlink_ops m = real_get_link E"
    "cleanup_funcs m = []" "m_handlers m = initial_handlers c"
    "\<exists>vid fs ns. cfg m = c\<lparr>vmid := vid, forward_signals := fs, net_ns := ns\<rparr>"
proof -
  have hs: "initial_handlers (c\<lparr>vmid := vid, forward_signals := fs\<rparr>) = initial_handlers c"
    "initial_handlers (c\<lparr>vmid := vid\<rparr>) = initial_handlers c"
    "initial_handlers (c\<lparr>forward_signals := fs\<rparr>) = initial_handlers c" for vid fs
    by (simp_all add: initial_handlers_def has_snapshot_def)
  have upd: "c\<lparr>vmid := vmid c\<rparr> = c" "c\<lparr>forward_signals := forward_signals c\<rparr> = c" "c\<lparr>net_ns := net_ns c\<rparr> = c"
    by simp_all
  show "\<not> started m" "client m = cl" "cni_network_ops m = real_cni" "netlink_ops m = real_get_link E"
    "cleanup_funcs m = []" "m_handlers m = initial_handlers c"
    using assms by (auto simp: new_with_client_def Let_def hs split: if_splits prod.splits)
  have "cfg m = c\<lparr>vmid := vmid (cfg m), forward_signals := forward_signals (cfg m), net_ns := net_ns (cfg m)\<rparr>"
    using assms by (cases c) (auto simp: new_with_client_def Let_def split: if_splits prod.splits)
  then show "\<exists>vid fs ns. cfg m = c\<lparr>vmid := vid, forward_signals := fs, net_ns := ns\<rparr>" by blast
qed

lemma new_machine_calm:
  assumes "new_with_client E real_cni c cl os = (Inr m, os')" "jailer_cfg c = None"
    and "quiet_env log E" "quiet_cni log real_cni"
  shows "calm log cl (cfg m) (log (sos w)) (m, w)"
proof -
  have "same_boot (cfg m) (cfg m)"
    unfolding same_boot_def
    by (intro exI [of _ "kernel_args (cfg m)"] exI [of _ "cfg_network_interfaces (cfg m)"] exI [of _ "net_ns (cfg m)"]) simp
  with new_machine [OF assms(1,2)] assms(4) real_get_link_leaves [OF assms(3)] show ?thesis
    by (simp add: calm_simps)
qed

text \<open>
  The requests that boot a machine, and those that restore one from a snapshot, as functions of a
  configuration.
\<close>

definition boot_requests :: "('j, 'x) config \<Rightarrow> 'j api_request list" where
  "boot_requests c =
     logging_requests c @ [PutMachineConfig (machine_cfg c)] @
     [PutBootSource \<lparr>bo_kernel_image_path = Some (kernel_image_path c), bo_initrd_path = initrd_path c,
        bo_boot_args = Some (kernel_args c)\<rparr>] @
     drive_requests c @ interface_requests c @ vsock_requests c @ mmds_requests c @
     [PutAction \<lparr>ia_action_type = Some INSTANCE_ACTION_INSTANCE_START\<rparr>]"

definition restore_requests :: "('j, 'x) config \<Rightarrow> 'j api_request list" where
  "restore_requests c = logging_requests c @ vsock_requests c @ [snapshot_request c]"

text \<open>A start changes only the kernel arguments and the network interfaces of what is sent.\<close>

definition settled_cfg :: "('j, 'x) config \<Rightarrow> ('j, 'x) config \<Rightarrow> ('j, 'x) config" where
  "settled_cfg c c' = c\<lparr>kernel_args := kernel_args c', cfg_network_interfaces := cfg_network_interfaces c'\<rparr>"

lemma same_boot_requests:
  assumes "same_boot (c\<lparr>vmid := vid, forward_signals := fs, net_ns := ns\<rparr>) c'"
  shows "boot_requests c' = boot_requests (settled_cfg c c')" "has_snapshot c' = has_snapshot c"
    "restore_requests c' = restore_requests c"
proof -
  from assms obtain ka ifs ns' where
    "c' = c\<lparr>vmid := vid, forward_signals := fs, net_ns := ns, kernel_args := ka, cfg_network_interfaces := ifs, net_ns := ns'\<rparr>"
    unfolding same_boot_def by auto
  then show "boot_requests c' = boot_requests (settled_cfg c c')" "has_snapshot c' = has_snapshot c"
    "restore_requests c' = restore_requests c"
    by (simp_all add: boot_requests_def restore_requests_def settled_cfg_def logging_requests_def drive_requests_def
        interface_requests_def vsock_requests_def mmds_requests_def snapshot_request_def has_snapshot_def
        split: option.split)
qed

lemma initial_handlers_boot:
  assumes "jailer_cfg c = None" "\<not> has_snapshot c"
  shows "\<exists>pre post. fc_init (initial_handlers c) = pre @ post \<and>
    list_all (\<lambda>h. prepares (hfunc h)) (validation (initial_handlers c) @ pre) \<and>
    list_all (\<lambda>h. configures (hfunc h)) post \<and>
    (\<forall>c'. concat (map (\<lambda>h. handler_requests c' (hfunc h)) post) @
       [PutAction \<lparr>ia_action_type = Some INSTANCE_ACTION_INSTANCE_START\<rparr>] = boot_requests c')"
  by (rule exI [of _ "[setup_network_handler, setup_kernel_args_handler, start_vmm_handler, create_log_files_handler]"],
      rule exI [of _ "[bootstrap_logging_handler, create_machine_handler, create_boot_source_handler,
        attach_drives_handler, create_network_interfaces_handler, add_vsocks_handler, config_mmds_handler]"])
    (use assms in \<open>simp add: initial_handlers_def Let_def default_handlers_def hl_append_def handler_ctor_defs
      prepares_def configures_def boot_requests_def\<close>)

lemma initial_handlers_snapshot:
  assumes "jailer_cfg c = None" "has_snapshot c"
  shows "\<exists>pre post. fc_init (initial_handlers c) = pre @ post \<and>
    list_all (\<lambda>h. prepares (hfunc h)) (validation (initial_handlers c) @ pre) \<and>
    list_all (\<lambda>h. configures (hfunc h)) post \<and>
    (\<forall>c'. concat (map (\<lambda>h. handler_requests c' (hfunc h)) post) = restore_requests c')"
  by (rule exI [of _ "[setup_network_handler, start_vmm_handler, create_log_files_handler]"],
      rule exI [of _ "[bootstrap_logging_handler, add_vsocks_handler, load_snapshot_handler]"])
    (use assms in \<open>simp add: initial_handlers_def Let_def default_handlers_def hl_append_def handler_ctor_defs
      prepares_def configures_def restore_requests_def adapt_handlers_for_snapshot_eq snapshot_removed_names_def
      handler_name_defs\<close>)

lemma boot_bytes:
  assumes new: "new_with_client (me_os V) real_cni c cl os = (Inr m, os')"
    and plain: "jailer_cfg c = None" "\<not> has_snapshot c"
    and env: "quiet_env log (me_os V)" "logging_client ren log cl" "quiet_cni log real_cni"
    and run: "start V (m, w) = (r, (m', w'))"
  shows "\<exists>k. prefix k (concat (map ren (boot_requests (settled_cfg c (cfg m'))))) \<and> log (sos w') = log (sos w) @ k \<and>
    (is_ok r \<longrightarrow> k = concat (map ren (boot_requests (settled_cfg c (cfg m')))))"
proof -
  obtain pre post where hs: "fc_init (m_handlers m) = pre @ post"
      "list_all (\<lambda>h. prepares (hfunc h)) (validation (m_handlers m) @ pre)"
      "list_all (\<lambda>h. configures (hfunc h)) post"
    and reqs: "\<And>c'. concat (map (\<lambda>h. handler_requests c' (hfunc h)) post) @
       [PutAction \<lparr>ia_action_type = Some INSTANCE_ACTION_INSTANCE_START\<rparr>] = boot_requests c'"
    using initial_handlers_boot [OF plain] unfolding new_machine(6) [OF new plain(1)] by metis
  from start_requests [OF env(1,2) new_machine_calm [OF new plain(1) env(1,3)] new_machine(1) [OF new plain(1)] hs run]
  obtain k where k: "prefix k (concat (map ren (concat (map (\<lambda>h. handler_requests (cfg m') (hfunc h)) post) @ start_request (cfg m'))))"
    "calm log cl (cfg m) (log (sos w) @ k) (m', w')"
    "is_ok r \<longrightarrow> k = concat (map ren (concat (map (\<lambda>h. handler_requests (cfg m') (hfunc h)) post) @ start_request (cfg m')))" by blast
  obtain vid fs ns where "cfg m = c\<lparr>vmid := vid, forward_signals := fs, net_ns := ns\<rparr>"
    using new_machine(7) [OF new plain(1)] by blast
  with k(2) have "same_boot (c\<lparr>vmid := vid, forward_signals := fs, net_ns := ns\<rparr>) (cfg m')" by (simp add: calm_simps)
  note same = same_boot_requests [OF this]
  from same(2) plain(2) have "start_request (cfg m') = [PutAction \<lparr>ia_action_type = Some INSTANCE_ACTION_INSTANCE_START\<rparr>]"
    by (simp add: start_request_def)
  with k reqs same(1) show ?thesis by (auto simp: calm_simps)
qed

text \<open>
  C1: what a start sends to the VMM. A machine made from a configuration without a jailer and without
  a snapshot sends, when it starts successfully, exactly the boot requests of its configuration, in
  this order: logger, metrics, machine configuration, boot source, every drive, every network
  interface, every vsock, the MMDS configuration and last the start of the instance; only the kernel
  arguments and the network interfaces may differ from the configuration it was made from. When the
  start fails, for whatever reason, it has sent a prefix of them, and so never started the instance
  without having configured all of it.
\<close>

theorem boot_request_sequence:
  assumes new: "new_with_client (me_os V) real_cni c cl os = (Inr m, os')"
    and plain: "jailer_cfg c = None" "\<not> has_snapshot c"
    and env: "quiet_env log (me_os V)" "logging_client (\<lambda>x. [x]) log cl" "quiet_cni log real_cni"
    and run: "start V (m, w) = (r, (m', w'))"
  shows "\<exists>k. prefix k (boot_requests (settled_cfg c (cfg m'))) \<and> log (sos w') = log (sos w) @ k \<and>
    (is_ok r \<longrightarrow> k = boot_requests (settled_cfg c (cfg m')))"
  using boot_bytes [OF new plain env run] by simp

lemma restore_bytes:
  assumes new: "new_with_client (me_os V) real_cni c cl os = (Inr m, os')"
    and snap: "jailer_cfg c = None" "has_snapshot c"
    and env: "quiet_env log (me_os V)" "logging_client ren log cl" "quiet_cni log real_cni"
    and run: "start V (m, w) = (r, (m', w'))"
  shows "\<exists>k. prefix k (concat (map ren (restore_requests c))) \<and> log (sos w') = log (sos w) @ k \<and>
    (is_ok r \<longrightarrow> k = concat (map ren (restore_requests c)))"
proof -
  obtain pre post where hs: "fc_init (m_handlers m) = pre @ post"
      "list_all (\<lambda>h. prepares (hfunc h)) (validation (m_handlers m) @ pre)"
      "list_all (\<lambda>h. configures (hfunc h)) post"
    and reqs: "\<And>c'. concat (map (\<lambda>h. handler_requests c' (hfunc h)) post) = restore_requests c'"
    using initial_handlers_snapshot [OF snap] unfolding new_machine(6) [OF new snap(1)] by metis
  from start_requests [OF env(1,2) new_machine_calm [OF new snap(1) env(1,3)] new_machine(1) [OF new snap(1)] hs run]
  obtain k where k: "prefix k (concat (map ren (concat (map (\<lambda>h. handler_requests (cfg m') (hfunc h)) post) @ start_request (cfg m'))))"
    "calm log cl (cfg m) (log (sos w) @ k) (m', w')"
    "is_ok r \<longrightarrow> k = concat (map ren (concat (map (\<lambda>h. handler_requests (cfg m') (hfunc h)) post) @ start_request (cfg m')))" by blast
  obtain vid fs ns where "cfg m = c\<lparr>vmid := vid, forward_signals := fs, net_ns := ns\<rparr>"
    using new_machine(7) [OF new snap(1)] by blast
  with k(2) have "same_boot (c\<lparr>vmid := vid, forward_signals := fs, net_ns := ns\<rparr>) (cfg m')" by (simp add: calm_simps)
  note same = same_boot_requests [OF this]
  from same(2) snap(2) have "start_request (cfg m') = []" by (simp add: start_request_def)
  with k reqs same(3) show ?thesis by (auto simp: calm_simps)
qed

text \<open>
  C3: restoring from a snapshot. A machine made from a configuration with a snapshot and without a
  jailer sends, when it starts successfully, exactly: logger, metrics, every vsock, and last the request
  to load the snapshot; it configures nothing else and never asks for the start of the instance. When
  the start fails it has sent a prefix of these requests.
\<close>

theorem restore_request_sequence:
  assumes new: "new_with_client (me_os V) real_cni c cl os = (Inr m, os')"
    and snap: "jailer_cfg c = None" "has_snapshot c"
    and env: "quiet_env log (me_os V)" "logging_client (\<lambda>x. [x]) log cl" "quiet_cni log real_cni"
    and run: "start V (m, w) = (r, (m', w'))"
  shows "\<exists>k. prefix k (restore_requests c) \<and> log (sos w') = log (sos w) @ k \<and>
    (is_ok r \<longrightarrow> k = restore_requests c)"
  using restore_bytes [OF new snap env run] by simp

end
