(* ===== verification/Toy_World.thy ===== *)
theory Toy_World
  imports Machine_Wait Failed_Start Api_Trace "HOL-Library.Code_Target_Nat"
begin

text \<open>
  A concrete, executable operating system, on which the hypotheses of the properties are discharged:
  files with their contents, a clock, one child process, the dispositions of signals, environment
  variables. Spawning a command creates the API socket it is told; killing the child ends it.
\<close>

section \<open>The operating system\<close>

record toy =
  t_files :: "(string \<times> string) list"
  t_clock :: nat
  t_running :: bool
  t_disp :: "int \<Rightarrow> nat"
  t_env :: "(string \<times> string) list"
  t_log :: "unit api_request list"
  t_wire :: "string list"

definition toy_not_found :: io_error where
  "toy_not_found = \<lparr>io_kind = NotFound, io_os_code = Some 2, io_text = ''No such file or directory'', io_inner = NoInner\<rparr>"

definition toy_exists :: "string \<Rightarrow> (toy, io_error, unit) op" where
  "toy_exists p s = (if map_of (t_files s) p \<noteq> None then Inr () else Inl toy_not_found, s)"

definition toy_read :: "string \<Rightarrow> (toy, io_error, string) op" where
  "toy_read p s = (ok_or toy_not_found (map_of (t_files s) p), s)"

definition toy_remove :: "string \<Rightarrow> (toy, io_error, unit) op" where
  "toy_remove p s =
     (if map_of (t_files s) p \<noteq> None then (Inr (), s\<lparr>t_files := AList.delete p (t_files s)\<rparr>)
      else (Inl toy_not_found, s))"

definition toy_create :: "string \<Rightarrow> (toy, io_error, unit) op" where
  "toy_create p s =
     (Inr (), if map_of (t_files s) p \<noteq> None then s else s\<lparr>t_files := (p, []) # t_files s\<rparr>)"

definition toy_link :: "string \<Rightarrow> string \<Rightarrow> (toy, io_error, unit) op" where
  "toy_link a b s =
     (case map_of (t_files s) a of
        None \<Rightarrow> (Inl toy_not_found, s)
      | Some c \<Rightarrow> (Inr (), s\<lparr>t_files := (b, c) # t_files s\<rparr>))"

definition toy_spawn :: "vm_command \<Rightarrow> string option \<Rightarrow> (toy, io_error, child) op" where
  "toy_spawn c ns s =
     (Inr 1, s\<lparr>t_running := True, t_files := (if length (cmd_args c) > 1 then cmd_args c ! 1 else [], []) # t_files s\<rparr>)"

definition toy_status :: exit_status where
  "toy_status = \<lparr>es_success = True, es_text = ''exit status: 0''\<rparr>"

definition toy_sig :: "toy sig_api" where
  "toy_sig = \<lparr>libc_signal = (\<lambda>s h os. if s = 9 then (SIG_ERR, os)
       else (t_disp os s, os\<lparr>t_disp := (t_disp os)(s := h)\<rparr>)),
     libc_pipe = (\<lambda>os. (Some (3, 4), os)), libc_write = (\<lambda>_ _ os. os), libc_kill = (\<lambda>_ _ os. os),
     close_fd = (\<lambda>_ os. os), join_worker = (\<lambda>os. os),
     last_os_error = (\<lambda>_. \<lparr>io_kind = InvalidInput, io_os_code = Some 22,
       io_text = ''Invalid argument'', io_inner = NoInner\<rparr>), handler_addr = 4096\<rparr>"

definition toy_env :: "toy os_env" where
  "toy_env =
    \<lparr>fs_metadata = toy_exists, fs_read_to_string = toy_read, fs_remove_file = toy_remove,
     fs_open_read = toy_exists, fs_open_append = toy_create, fs_open_fifo = toy_exists,
     fs_mkfifo = toy_create, fs_hard_link = toy_link, fs_chown = (\<lambda>p _ _. toy_exists p),
     proc_spawn = toy_spawn,
     proc_id = (\<lambda>_ s. if t_running s then Some 42 else None),
     proc_try_wait = (\<lambda>_ s. (Inr (if t_running s then None else Some toy_status), s)),
     proc_wait = (\<lambda>_ s. (Inr toy_status, s\<lparr>t_running := False\<rparr>)),
     proc_kill = (\<lambda>_ _ s. (Inr (), s\<lparr>t_running := False\<rparr>)),
     env_var = (\<lambda>n s. map_of (t_env s) n),
     clock_now = (\<lambda>s. (t_clock s, s)),
     sleep_ms = (\<lambda>n s. s\<lparr>t_clock := t_clock s + n\<rparr>),
     uuid_v4 = (\<lambda>s. (''0b5e7c1a'', s)),
     trace_warn = (\<lambda>_ _ s. s), spawn_capture = (\<lambda>_ _ s. s), sig_calls = toy_sig\<rparr>"

lemmas toy_defs = toy_env_def toy_exists_def toy_read_def toy_remove_def toy_create_def toy_link_def
  toy_spawn_def toy_status_def toy_sig_def toy_not_found_def

definition toy_state :: toy where
  "toy_state = \<lparr>t_files = [(''/vmlinux'', []), (''/rootfs.ext4'', []), (''/mem'', []), (''/snap'', []),
       (''/sys/class/net/eth0'', []), (''/sys/class/net/eth0/mtu'', ''1500'')],
     t_clock = 0, t_running = False, t_disp = (\<lambda>_. 0), t_env = [], t_log = [], t_wire = []\<rparr>"

definition toy_w :: "toy sig_world" where
  "toy_w = \<lparr>mgr = manager_default, pipe_write_fd = - 1, poisoned = False, sos = toy_state\<rparr>"

lemma toy_static_fs: "static_fs toy_env (\<lambda>p. map_of (t_files s) p \<noteq> None) s"
  by (simp add: static_fs_def checks_def toy_defs)

lemma toy_clock_ok: "clock_ok toy_env t_clock"
  by (simp add: clock_ok_def toy_defs)

section \<open>Concrete machines and the witnesses\<close>

definition toy_netmask :: ipnet_ops where
  "toy_netmask = \<lparr>netmask = (\<lambda>_. Ipv4Addr 255 255 255 0), net_debug = (\<lambda>_. [])\<rparr>"

definition toy_menv :: "(unit, unit, toy) menv" where
  "toy_menv = \<lparr>me_os = toy_env, me_net = toy_netmask, me_fuel = 4000, me_custom = (\<lambda>_. op_ok ())\<rparr>"

definition toy_cfg :: "(unit, unit) config" where
  "toy_cfg = (config_sample ''/rootfs.ext4'')\<lparr>socket_path := ''/run/fc.sock'', kernel_image_path := ''/vmlinux''\<rparr>"

definition toy_machine_of :: "(unit, unit) config \<Rightarrow> (unit, unit, toy) machine" where
  "toy_machine_of c =
     (case fst (new_with_client toy_env unsupported_cni_network_operations c (noop_client ()) toy_state) of
        Inr m \<Rightarrow> m
      | Inl _ \<Rightarrow> undefined)"

lemma toy_starts: "fst (start toy_menv (toy_machine_of toy_cfg, toy_w)) = Inr ()"
  by code_simp

definition toy_address :: cni_ip_config where
  "toy_address = \<lparr>ip_interface = Some 0, ip_address = \<lparr>net_addr = Ipv4Addr 10 0 0 2, net_prefix_len = 24\<rparr>,
     ip_gateway = Ipv4Addr 10 0 0 1\<rparr>"

definition toy_cni_result :: cni_result where
  "toy_cni_result = \<lparr>res_interfaces = [\<lparr>if_dev_name = ''eth0'', if_sandbox = ''vm'', if_mac = Some ''02:00''\<rparr>,
       \<lparr>if_dev_name = ''eth0'', if_sandbox = [], if_mac = None\<rparr>],
     res_ips = [toy_address], res_routes = [],
     res_dns = \<lparr>dns_nameservers = [''a'', ''b'', ''c''], dns_domain = None, dns_search = [], dns_options = []\<rparr>\<rparr>"

theorem real_get_link_ignores_namespace_witness:
  "fst (real_get_link toy_env ''/var/run/netns/other'' ''eth0'' toy_state) = fst (real_get_link toy_env [] ''eth0'' toy_state)"
proof -
  have "is_ok (fst (real_get_link toy_env [] ''eth0'' toy_state))" by code_simp
  then obtain l os' where run: "real_get_link toy_env [] ''eth0'' toy_state = (Inr l, os')"
    by (metis is_ok_iff prod.collapse)
  from real_get_link_ignores_namespace [OF run, of "''/var/run/netns/other''"] run show ?thesis by simp
qed

theorem static_network_conf_from_spec_witness:
  "\<exists>conf. fst (static_network_conf_from toy_cni_result ''vm'' (real_get_link toy_env) toy_state) = Inr conf \<and>
     tap_name conf = ''eth0'' \<and> vm_mac_addr conf = Some ''02:00'' \<and> vm_ip_config conf = Some toy_address"
proof -
  have "is_ok (fst (static_network_conf_from toy_cni_result ''vm'' (real_get_link toy_env) toy_state))"
    by code_simp
  then obtain conf os' where
    run: "static_network_conf_from toy_cni_result ''vm'' (real_get_link toy_env) toy_state = (Inr conf, os')"
    by (metis is_ok_iff prod.collapse)
  from static_network_conf_from_spec [OF this] run show ?thesis
    by (auto simp: vm_tap_pair_iff interface_ips_eq toy_cni_result_def toy_address_def)
qed

definition toy_cni :: cni_configuration where
  "toy_cni = \<lparr>cni_network_name = Some ''fcnet'', cni_network_config = None, cni_if_name = None, cni_vm_if_name = Some ''eth0'',
     cni_args = [], cni_bin_path = [], cni_conf_dir = None, cni_cache_dir = None, cni_container_id = None,
     cni_net_ns_path = None, cni_force = False\<rparr>"

definition toy_cni_iface :: network_interface where
  "toy_cni_iface = \<lparr>static_configuration = None, cni_configuration = Some toy_cni, allow_mmds = False,
     in_rate_limiter = None, out_rate_limiter = None\<rparr>"

definition toy_cni_ops :: "toy cni_network_operations" where
  "toy_cni_ops = \<lparr>initialize_netns = (\<lambda>p os. (Inr [op_ok ()], os)),
     invoke_cni = (\<lambda>c os. (Inr (toy_cni_result, [op_ok (), op_ok ()]), os))\<rparr>"

theorem ip_boot_param_equivalence_witness:
  "\<exists>conf os ip. static_network_conf_from toy_cni_result ''vm'' (real_get_link toy_env) toy_state = (Inr conf, os) \<and>
     ip_boot_param toy_netmask ip = vmconf_ip_boot_param toy_netmask (conf\<lparr>vm_if_name := Some ''eth0''\<rparr>) \<and>
     ip_boot_param toy_netmask ip \<noteq> vmconf_ip_boot_param toy_netmask conf"
proof -
  let ?cni = "toy_cni\<lparr>cni_container_id := Some ''vm''\<rparr>"
  let ?i = "toy_cni_iface\<lparr>cni_configuration := Some ?cni\<rparr>"
  let ?run = "iface_apply_cni_result toy_netmask ?i toy_cni_result (real_get_link toy_env) toy_state"
  have "is_ok (fst ?run)" by code_simp
  then obtain i' os' where run: "?run = (Inr i', os')" by (metis is_ok_iff prod.collapse)
  have "static_configuration ?i = None" "cni_configuration ?i = Some ?cni" by (simp_all add: toy_cni_iface_def)
  from ip_boot_param_equivalence [OF run this] show ?thesis by (auto simp: toy_cni_def)
qed

theorem setup_cni_success_witness:
  "\<exists>fs s. setup_cni toy_netmask ''vm'' ''/ns'' toy_cni_ops (real_get_link toy_env) ([toy_cni_iface], toy_state) = (Inr fs, s) \<and>
     length fs = 3"
proof -
  have "is_ok (fst (setup_cni toy_netmask ''vm'' ''/ns'' toy_cni_ops (real_get_link toy_env) ([toy_cni_iface], toy_state)))"
    by code_simp
  then obtain fs is' os' where
    run: "setup_cni toy_netmask ''vm'' ''/ns'' toy_cni_ops (real_get_link toy_env) ([toy_cni_iface], toy_state) = (Inr fs, (is', os'))"
    by (metis is_ok_iff prod.collapse)
  have "cni_interface [toy_cni_iface] = Some toy_cni_iface" "static_configuration toy_cni_iface = None"
    by (simp_all add: cni_interface_def toy_cni_iface_def)
  from setup_cni_success [OF run this] run show ?thesis
    by (auto simp: toy_cni_ops_def)
qed

theorem config_validate_spec_witness: "is_ok (fst (config_validate toy_env toy_cfg toy_state))"
  using config_validate_spec [OF toy_static_fs [of toy_state], of toy_cfg]
  by (simp add: toy_cfg_def config_sample_def config_default_def machine_configuration_new_def toy_state_def
      drives_builder_new_def drives_build_def machine_configuration_default_def drive_default_def ROOT_DRIVE_NAME_def)

theorem validate_load_snapshot_spec_witness:
  "is_ok (fst (validate_load_snapshot toy_env (toy_cfg\<lparr>drives := [], snapshot := with_paths ''/mem'' ''/snap''\<rparr>) toy_state))"
  using validate_load_snapshot_spec [OF toy_static_fs [of toy_state], of "toy_cfg\<lparr>drives := [], snapshot := with_paths ''/mem'' ''/snap''\<rparr>"]
  by (simp add: toy_cfg_def config_sample_def config_default_def toy_state_def with_paths_def get_mem_backend_path_def snapshot_config_default_def)

definition toy_jailer :: "(unit, unit) jailer_config" where
  "toy_jailer = \<lparr>jc_gid = Some 100, jc_uid = Some 100, jc_id = ''vm'', jc_numa_node = Some 0,
     jc_exec_file = ''/usr/bin/firecracker'', jc_jailer_binary = None, jc_chroot_base_dir = None, jc_daemonize = False,
     jc_chroot_strategy = None, jc_cgroup_version = None, jc_cgroup_args = [], jc_parent_cgroup = None,
     jc_stdin = StdioNull, jc_stdout = StdioInherit, jc_stderr = StdioInherit\<rparr>"

definition toy_jail :: "(unit, unit, toy) jail_state" where
  "toy_jail = \<lparr>js_cfg = toy_cfg\<lparr>jailer_cfg := Some toy_jailer\<rparr>, js_command = None, js_handlers = default_handlers, js_os = toy_state\<rparr>"

theorem jail_socket_path_witness:
  "resolved (socket_path (js_cfg (snd (jail toy_env toy_jail)))) =
     [''srv'', ''jailer'', ''firecracker'', ''vm'', ''root'', ''run'', ''fc.sock'']"
proof -
  have j: "jailer_cfg (js_cfg toy_jail) = Some toy_jailer" by (simp add: toy_jail_def)
  have "socket_path (js_cfg toy_jail) = ''/run/fc.sock''" by code_simp
  then have path: "''/run/fc.sock'' = (if socket_path (js_cfg toy_jail) = [] then ''/run/firecracker.socket'' else socket_path (js_cfg toy_jail))"
    by simp
  have "''..'' \<notin> set (split_slash ''/run/fc.sock'')" by code_simp
  with jail_socket_path [OF j path refl, of toy_env]
  have "resolved (socket_path (js_cfg (snd (jail toy_env toy_jail)))) = resolved (jailer_rootfs toy_jailer) @ resolved ''/run/fc.sock''"
    by blast
  also have "\<dots> = [''srv'', ''jailer'', ''firecracker'', ''vm'', ''root'', ''run'', ''fc.sock'']" by code_simp
  finally show ?thesis .
qed

text \<open>A path with \<open>..\<close> leaves the root directory on the host, where the jailed VMM would stay below it.\<close>

lemma jail_socket_escapes:
  "resolved (join_chroot_path (jailer_rootfs toy_jailer) ''/../../fc.sock'') = [''srv'', ''jailer'', ''firecracker'', ''fc.sock''] \<and>
   resolved ''/../../fc.sock'' = [''fc.sock'']"
  by code_simp

theorem link_files_rewrites_paths_witness:
  "\<exists>s. op_for (link_step toy_env toy_jailer) (link_plan ''vmlinux'' (toy_cfg\<lparr>jailer_cfg := Some toy_jailer\<rparr>)) toy_state = (Inr (), s) \<and>
     map_of (t_files s) ''/srv/jailer/firecracker/vm/root/rootfs.ext4'' = Some [] \<and>
     map_of (t_files s) ''/srv/jailer/firecracker/vm/root/vmlinux'' = Some []"
proof -
  let ?c = "toy_cfg\<lparr>jailer_cfg := Some toy_jailer\<rparr>" and ?files = "\<lambda>s. map_of (t_files s)"
  have ok: "fst (link_files toy_env ''vmlinux'' (?c, toy_state)) = Inr ()" by code_simp
  have files: "?files (snd (snd (link_files toy_env ''vmlinux'' (?c, toy_state)))) ''/srv/jailer/firecracker/vm/root/rootfs.ext4'' = Some []"
    "?files (snd (snd (link_files toy_env ''vmlinux'' (?c, toy_state)))) ''/srv/jailer/firecracker/vm/root/vmlinux'' = Some []"
    by code_simp+
  obtain cfg' s where run: "link_files toy_env ''vmlinux'' (?c, toy_state) = (Inr (), (cfg', s))"
    using ok by (metis prod.collapse)
  have kf: "''vmlinux'' = unwrap_or ''vmlinux'' (file_name ''/boot/vmlinux'')" by code_simp
  from link_files_rewrites_paths [OF run _ kf] files show ?thesis by (simp add: run)
qed

definition toy_refusing :: "(unit, unit, toy) machine" where
  "toy_refusing = (toy_machine_of toy_cfg)\<lparr>client := (noop_client ())\<lparr>c_put_machine_configuration := (\<lambda>_. op_err (Process ''refused''))\<rparr>\<rparr>"

theorem start_failure_settles_witness:
  "\<exists>m w. start toy_menv (toy_refusing, toy_w) = (Inl (Err (Process ''refused'')), (m, w)) \<and>
     map_of (t_files (sos w)) ''/run/fc.sock'' = None \<and> \<not> t_running (sos w) \<and>
     machine_wait toy_env (m, w) = (Inl (Process ''refused''), (m, w))"
proof -
  let ?run = "start toy_menv (toy_refusing, toy_w)"
  have res: "fst ?run = Inl (Err (Process ''refused''))" by code_simp
  have world: "map_of (t_files (sos (snd (snd ?run)))) ''/run/fc.sock'' = None \<and> \<not> t_running (sos (snd (snd ?run)))" by code_simp
  from res obtain m w where run: "?run = (Inl (Err (Process ''refused'')), (m, w))" by (metis prod.collapse)
  have "\<not> started toy_refusing" by code_simp
  from start_failure_settles [OF run this] world run show ?thesis by (auto simp: toy_menv_def)
qed

theorem stop_vmm_success_witness:
  "process (fst (snd (stop_vmm toy_env ((toy_machine_of toy_cfg)\<lparr>process := Some 7\<rparr>, toy_w\<lparr>sos := toy_state\<lparr>t_running := True\<rparr>\<rparr>)))) = None"
proof -
  let ?s = "((toy_machine_of toy_cfg)\<lparr>process := Some 7\<rparr>, toy_w\<lparr>sos := toy_state\<lparr>t_running := True\<rparr>\<rparr>)"
  have "fst (stop_vmm toy_env ?s) = Inr ()" by code_simp
  then obtain m' w' where run: "stop_vmm toy_env ?s = (Inr (), (m', w'))" by (metis prod.collapse)
  from stop_vmm_success [OF run] show ?thesis by (simp add: run)
qed

theorem start_only_once_witness:
  "fst (start toy_menv (snd (start toy_menv (toy_machine_of toy_cfg, toy_w)))) = Inl (Err AlreadyStarted)"
proof -
  have "list_all (\<lambda>h. hfunc h \<noteq> Custom ()) (validation (m_handlers (toy_machine_of toy_cfg)) @ fc_init (m_handlers (toy_machine_of toy_cfg)))"
    by code_simp
  then have "h \<in> set (validation (m_handlers (toy_machine_of toy_cfg))) \<union> set (fc_init (m_handlers (toy_machine_of toy_cfg))) \<Longrightarrow>
      hfunc h \<noteq> Custom x" for h x
    by (auto simp: list_all_iff)
  from start_only_once [of "toy_machine_of toy_cfg" toy_menv toy_w, OF this] show ?thesis by simp
qed

theorem wait_for_vmm_ready_returns_witness:
  "\<exists>r s. wait_for_vmm_ready toy_env 4000 3000 ((toy_machine_of toy_cfg)\<lparr>client := noop_client ()\<rparr>, toy_w) = (map_err Err r, s)"
proof (rule wait_for_vmm_ready_returns [OF toy_clock_ok])
  show "steady_client t_clock (client ((toy_machine_of toy_cfg)\<lparr>client := noop_client ()\<rparr>))"
    by (simp add: steady_client_def noop_client_def default_client_ops_def op_ok_def)
qed (simp_all add: toy_w_def toy_state_def toy_defs)

theorem negative_init_timeout_panics_witness:
  "\<exists>w. fst (wait_for_vmm_ready toy_env 10 (1000 * init_timeout_secs toy_env (sos w)) (toy_machine_of toy_cfg, w)) = Inl Panic"
proof -
  let ?w = "toy_w\<lparr>sos := toy_state\<lparr>t_env := [(FIRECRACKER_INIT_TIMEOUT_ENV, ''-1'')]\<rparr>\<rparr>"
  have "parse_int 32 ''-1'' = Some (- 1)" by code_simp
  from negative_init_timeout_panics [of toy_env ?w _ "- 1" 10 "toy_machine_of toy_cfg", OF _ this] show ?thesis
    by (intro exI [of _ ?w]) (simp add: toy_defs)
qed

text \<open>A client that records the requests and answers them all with success.\<close>

definition toy_put :: "unit api_request \<Rightarrow> (toy, error, unit) op" where
  "toy_put x s = (Inr (), s\<lparr>t_log := t_log s @ [x]\<rparr>)"

definition toy_client :: "(unit, toy, error) client_ops" where
  "toy_client = (noop_client ())\<lparr>c_put_logger := (\<lambda>x. toy_put (PutLogger x)),
     c_put_metrics := (\<lambda>x. toy_put (PutMetrics x)),
     c_put_machine_configuration := (\<lambda>x. toy_put (PutMachineConfig x)),
     c_put_guest_boot_source := (\<lambda>x. toy_put (PutBootSource x)),
     c_put_guest_drive_by_id := (\<lambda>i x. toy_put (PutDrive i x)),
     c_put_guest_network_interface_by_id := (\<lambda>i x. toy_put (PutInterface i x)),
     c_put_guest_vsock := (\<lambda>x. toy_put (PutVsock x)),
     c_load_snapshot := (\<lambda>x. toy_put (PutSnapshotLoad x)),
     c_create_sync_action := (\<lambda>x. toy_put (PutAction x)),
     c_put_mmds := (\<lambda>x. toy_put (PutMmds x)),
     c_put_mmds_config := (\<lambda>x. toy_put (PutMmdsConfig x))\<rparr>"

lemma toy_logging: "logging_client (\<lambda>x. [x]) t_log toy_client"
  by (simp add: logging_client_def toy_client_def toy_put_def noop_client_def default_client_ops_def writes_def
      leaves_def op_ok_def)

lemma toy_quiet: "quiet_env t_log toy_env"
  by (auto simp: quiet_env_def quiet_sig_def leaves_def toy_defs split: option.splits)

lemma toy_quiet_cni: "quiet_cni t_log unsupported_cni_network_operations"
  by (simp add: quiet_cni_def unsupported_cni_network_operations_def op_err_def)

theorem boot_request_sequence_witness:
  "\<exists>m w c'. fst (start toy_menv (m, toy_w)) = Inr () \<and> w = snd (snd (start toy_menv (m, toy_w))) \<and>
     t_log (sos w) = boot_requests (settled_cfg toy_cfg c') \<and> length (t_log (sos w)) = 4"
proof -
  let ?run = "new_with_client toy_env unsupported_cni_network_operations toy_cfg toy_client toy_state"
  let ?m = "case fst ?run of Inr m \<Rightarrow> m | Inl _ \<Rightarrow> undefined"
  have plain: "jailer_cfg toy_cfg = None" "\<not> has_snapshot toy_cfg" by code_simp+
  have "is_ok (fst ?run)" by code_simp
  then obtain m os where new: "?run = (Inr m, os)" by (metis is_ok_iff prod.collapse)
  have "fst (start toy_menv (?m, toy_w)) = Inr () \<and> length (t_log (sos (snd (snd (start toy_menv (?m, toy_w)))))) = 4"
    by code_simp
  then have ok: "fst (start toy_menv (m, toy_w)) = Inr ()" and len: "length (t_log (sos (snd (snd (start toy_menv (m, toy_w)))))) = 4"
    by (simp_all add: new)
  obtain m' w' where run: "start toy_menv (m, toy_w) = (Inr (), (m', w'))" using ok by (metis prod.collapse)
  have env: "me_os toy_menv = toy_env" by (simp add: toy_menv_def)
  from boot_request_sequence [of toy_menv, unfolded env, OF new plain toy_quiet toy_logging toy_quiet_cni run]
  have "t_log (sos w') = boot_requests (settled_cfg toy_cfg (cfg m'))" by (simp add: toy_w_def toy_state_def)
  with run len show ?thesis by (intro exI [of _ m] exI [of _ w'] exI [of _ "cfg m'"]) simp
qed

definition toy_snapshot_cfg :: "(unit, unit) config" where
  "toy_snapshot_cfg = toy_cfg\<lparr>drives := [], snapshot := with_paths ''/mem'' ''/snap'', log_path := Some ''/log''\<rparr>"

theorem restore_request_sequence_witness:
  "\<exists>m w. w = snd (snd (start toy_menv (m, toy_w))) \<and> t_log (sos w) = restore_requests toy_snapshot_cfg \<and>
     length (t_log (sos w)) = 2"
proof -
  let ?run = "new_with_client toy_env unsupported_cni_network_operations toy_snapshot_cfg toy_client toy_state"
  let ?m = "case fst ?run of Inr m \<Rightarrow> m | Inl _ \<Rightarrow> undefined"
  have snap: "jailer_cfg toy_snapshot_cfg = None" "has_snapshot toy_snapshot_cfg" by code_simp+
  have "is_ok (fst ?run)" by code_simp
  then obtain m os where new: "?run = (Inr m, os)" by (metis is_ok_iff prod.collapse)
  have "fst (start toy_menv (?m, toy_w)) = Inr () \<and> length (t_log (sos (snd (snd (start toy_menv (?m, toy_w)))))) = 2"
    by code_simp
  then have ok: "fst (start toy_menv (m, toy_w)) = Inr ()" and len: "length (t_log (sos (snd (snd (start toy_menv (m, toy_w)))))) = 2"
    by (simp_all add: new)
  obtain m' w' where run: "start toy_menv (m, toy_w) = (Inr (), (m', w'))" using ok by (metis prod.collapse)
  have env: "me_os toy_menv = toy_env" by (simp add: toy_menv_def)
  from restore_request_sequence [of toy_menv, unfolded env, OF new snap toy_quiet toy_logging toy_quiet_cni run]
  have "t_log (sos w') = restore_requests toy_snapshot_cfg" by (simp add: toy_w_def toy_state_def)
  with run len show ?thesis by (intro exI [of _ m] exI [of _ w']) simp
qed

end
