(* ===== verification/Http_Transport.thy ===== *)
theory Http_Transport
  imports Os_Env
begin

text \<open>
  \<open>src/client_transports.rs\<close>: one HTTP request and its response over a Unix socket. Durations are in
  nanoseconds. A future is the time it takes and its result, which is what a timeout looks at. What
  the peer sends on a connection is a finite sequence of events: bytes in the pieces they arrive in,
  delays and read errors; behind them the stream has ended, so every read terminates.
\<close>

section \<open>Durations\<close>

text \<open>\<open>\{:?\}\<close> of a \<open>Duration\<close>: the unit by its size, fractional digits without trailing zeros.\<close>

fun frac_digits :: "nat \<Rightarrow> nat \<Rightarrow> string" where
  "frac_digits frac divisor =
     (if frac = 0 \<or> divisor = 0 then []
      else digit_char (frac div divisor) # frac_digits (frac mod divisor) (divisor div 10))"

declare frac_digits.simps [simp del]

definition fmt_decimal :: "nat \<Rightarrow> nat \<Rightarrow> nat \<Rightarrow> string \<Rightarrow> string" where
  "fmt_decimal int_part frac divisor postfix =
     nat_str int_part @ (if frac = 0 then [] else ''.'' @ frac_digits frac divisor) @ postfix"

definition duration_debug :: "nat \<Rightarrow> string" where
  "duration_debug ns =
     (if ns \<ge> 10 ^ 9 then fmt_decimal (ns div 10 ^ 9) (ns mod 10 ^ 9) (10 ^ 8) ''s''
      else if ns \<ge> 10 ^ 6 then fmt_decimal (ns div 10 ^ 6) (ns mod 10 ^ 6) (10 ^ 5) ''ms''
      else if ns \<ge> 10 ^ 3 then fmt_decimal (ns div 10 ^ 3) (ns mod 10 ^ 3) (10 ^ 2) ([CHR 0xC2, CHR 0xB5] @ ''s'')
      else fmt_decimal ns 0 1 ''ns'')"

section \<open>Reading and writing with a timeout\<close>

definition run_with_timeout :: "nat option \<Rightarrow> string \<Rightarrow> nat \<times> (io_error + 'a) \<Rightarrow> io_error + 'a" where
  "run_with_timeout timeout operation future =
     (case timeout of
        Some duration \<Rightarrow>
          if fst future > duration
          then Inl (io_new TimedOut (operation @ '' timed out after '' @ duration_debug duration))
          else snd future
      | None \<Rightarrow> snd future)"

datatype read_event = Delay nat | Bytes string | ReadError io_error

text \<open>A read into a buffer of \<open>cap\<close> bytes: the future, and the events left.\<close>

fun stream_read :: "nat \<Rightarrow> read_event list \<Rightarrow> (nat \<times> (io_error + string)) \<times> read_event list" where
  "stream_read cap [] = ((0, Inr []), [])"
| "stream_read cap (Delay d # es) = (case stream_read cap es of ((t, r), es') \<Rightarrow> ((d + t, r), es'))"
| "stream_read cap (ReadError e # es) = ((0, Inl e), es)"
| "stream_read cap (Bytes bs # es) =
     (if length bs \<le> cap then ((0, Inr bs), es)
      else ((0, Inr (take cap bs)), Bytes (drop cap bs) # es))"

definition read_with_timeout ::
  "nat \<Rightarrow> nat option \<Rightarrow> read_event list \<Rightarrow> (io_error + string) \<times> read_event list" where
  "read_with_timeout cap timeout es =
     (case stream_read cap es of (future, es') \<Rightarrow> (run_with_timeout timeout ''read'' future, es'))"

type_synonym conn = nat

record 'os uds_api =
  uds_connect :: "string \<Rightarrow> ('os, io_error, conn) op"
  uds_write_all :: "conn \<Rightarrow> string \<Rightarrow> 'os \<Rightarrow> (nat \<times> (io_error + unit)) \<times> 'os"
  uds_replies :: "conn \<Rightarrow> 'os \<Rightarrow> read_event list \<times> 'os"

definition write_all_with_timeout ::
  "'os uds_api \<Rightarrow> conn \<Rightarrow> string \<Rightarrow> nat option \<Rightarrow> ('os, io_error, unit) op" where
  "write_all_with_timeout U c buffer timeout os =
     (case uds_write_all U c buffer os of (future, os') \<Rightarrow> (run_with_timeout timeout ''write'' future, os'))"

section \<open>HTTP\<close>

abbreviation crlf :: string where
  "crlf \<equiv> [CHR 0x0D, CHR 0x0A]"

definition request_text :: "string \<Rightarrow> string \<Rightarrow> string \<Rightarrow> string" where
  "request_text method path body =
     method @ '' '' @ path @ '' HTTP/1.1'' @ crlf @ ''Host: localhost'' @ crlf @
     ''User-Agent: firecracker-rs-sdk'' @ crlf @ ''Accept: application/json'' @ crlf @
     ''Connection: close'' @ crlf @ ''Content-Length: '' @ nat_str (length body) @ crlf @
     (if body \<noteq> [] then ''Content-Type: application/json'' @ crlf else []) @ crlf"

text \<open>\<open>windows(n).position(..)\<close>\<close>

fun find_window :: "string \<Rightarrow> string \<Rightarrow> nat option" where
  "find_window w [] = None"
| "find_window w (c # s) =
     (if take (length w) (c # s) = w then Some 0 else map_option Suc (find_window w s))"

definition delimiter :: string where
  "delimiter = [CHR 0x0D, CHR 0x0A, CHR 0x0D, CHR 0x0A]"

definition parse_http_status :: "string \<Rightarrow> nat result" where
  "parse_http_status head =
     (case lines (utf8_lossy head) of
        [] \<Rightarrow> Inl (Api 0 ''invalid HTTP response: missing status line'')
      | status_line # _ \<Rightarrow>
          (case split_whitespace status_line of
             _ # code # _ \<Rightarrow>
               ok_or (Api 0 ''invalid HTTP response: malformed status code'') (parse_uint (2 ^ 16) code)
           | _ \<Rightarrow> Inl (Api 0 ''invalid HTTP response: malformed status line'')))"

definition parse_http_response :: "string \<Rightarrow> string \<Rightarrow> string result" where
  "parse_http_response head body =
     rbind (parse_http_status head) (\<lambda>status.
       if \<not> (200 \<le> status \<and> status < 300) then Inl (Api status (utf8_lossy body)) else Inr body)"

definition response_must_not_have_body :: "string \<Rightarrow> nat \<Rightarrow> bool" where
  "response_must_not_have_body method status \<longleftrightarrow>
     eq_ignore_ascii_case method ''HEAD'' \<or> status = 204 \<or> status = 304 \<or> 100 \<le> status \<and> status < 200"

text \<open>The closure of the \<open>find_map\<close> over the header lines, and the search.\<close>

definition length_line :: "string \<Rightarrow> nat option" where
  "length_line line =
     (case split_once (CHR '':'') line of
        None \<Rightarrow> None
      | Some (name, v) \<Rightarrow>
          if eq_ignore_ascii_case name ''content-length'' then parse_uint (2 ^ 64) (trim v) else None)"

fun find_map :: "('a \<Rightarrow> 'b option) \<Rightarrow> 'a list \<Rightarrow> 'b option" where
  "find_map f [] = None"
| "find_map f (x # xs) = (case f x of Some y \<Rightarrow> Some y | None \<Rightarrow> find_map f xs)"

definition content_length :: "string \<Rightarrow> nat option" where
  "content_length head = find_map length_line (lines (utf8_lossy head))"

section \<open>Termination of the reads\<close>

fun weight :: "read_event list \<Rightarrow> nat" where
  "weight [] = 0"
| "weight (Delay d # es) = Suc (weight es)"
| "weight (ReadError e # es) = Suc (weight es)"
| "weight (Bytes bs # es) = Suc (length bs + weight es)"

lemma stream_read_weight: "stream_read cap es = ((t, Inr chunk), es') \<Longrightarrow> chunk \<noteq> [] \<Longrightarrow> weight es' < weight es"
proof (induction cap es arbitrary: t rule: stream_read.induct)
  case (2 cap d es)
  obtain t' r es'' where read: "stream_read cap es = ((t', r), es'')" by (metis prod.exhaust)
  with 2 show ?case by auto
qed (auto split: if_splits)

lemma read_weight: "read_with_timeout cap t es = (Inr chunk, es') \<Longrightarrow> chunk \<noteq> [] \<Longrightarrow> weight es' < weight es"
  by (auto simp: read_with_timeout_def run_with_timeout_def split: prod.splits option.splits if_splits
      intro: stream_read_weight)

section \<open>The loops\<close>

text \<open>Reading until the end of the headers: its position, what was read, and the events left.\<close>

function header_loop ::
  "nat option \<Rightarrow> string \<Rightarrow> read_event list \<Rightarrow> (nat \<times> string \<times> read_event list) result" where
  "header_loop timeout response es =
     (case read_with_timeout 1024 timeout es of
        (Inl e, _) \<Rightarrow> Inl (Io e)
      | (Inr chunk, es') \<Rightarrow>
          if chunk = [] then Inl (Api 0 ''unexpected EOF while reading HTTP response headers'')
          else
            (case find_window delimiter (response @ chunk) of
               Some position \<Rightarrow> Inr (position, response @ chunk, es')
             | None \<Rightarrow> header_loop timeout (response @ chunk) es'))"
  by pat_completeness auto
termination by (relation "measure (\<lambda>(_, _, es). weight es)") (auto dest!: sym [THEN read_weight])

text \<open>
  Reading a body of known length. A buffer of more than \<open>isize::MAX\<close> bytes cannot be allocated:
  \<open>vec!\<close> panics.
\<close>

function sized_loop :: "nat option \<Rightarrow> nat \<Rightarrow> string \<Rightarrow> read_event list \<Rightarrow> exc + string" where
  "sized_loop timeout n body es =
     (if length body < n then
        if n - length body \<ge> 2 ^ 63 then Inl Panic
        else
          (case read_with_timeout (n - length body) timeout es of
             (Inl e, _) \<Rightarrow> Inl (Err (Io e))
           | (Inr chunk, es') \<Rightarrow>
               if chunk = [] then Inr body else sized_loop timeout n (body @ chunk) es')
      else Inr body)"
  by pat_completeness auto
termination by (relation "measure (\<lambda>(_, _, _, es). weight es)") (auto dest!: sym [THEN read_weight])

text \<open>Reading a body up to the end of the stream.\<close>

function rest_loop :: "nat option \<Rightarrow> string \<Rightarrow> read_event list \<Rightarrow> string result" where
  "rest_loop timeout body es =
     (case read_with_timeout 1024 timeout es of
        (Inl e, _) \<Rightarrow> Inl (Io e)
      | (Inr chunk, es') \<Rightarrow> if chunk = [] then Inr body else rest_loop timeout (body @ chunk) es')"
  by pat_completeness auto
termination by (relation "measure (\<lambda>(_, _, es). weight es)") (auto dest!: sym [THEN read_weight])

declare header_loop.simps [simp del] sized_loop.simps [simp del] rest_loop.simps [simp del]

section \<open>A request and its response\<close>

definition receive_response :: "string \<Rightarrow> nat option \<Rightarrow> read_event list \<Rightarrow> exc + string" where
  "receive_response method timeout es =
     rbind (map_err Err (header_loop timeout [] es)) (\<lambda>(header_end, response, es1).
       let head = take header_end response;
           body = drop (header_end + length delimiter) response
       in rbind (map_err Err (parse_http_status head)) (\<lambda>status.
         case content_length head of
           Some n \<Rightarrow>
             rbind (sized_loop timeout n body es1) (\<lambda>body'. map_err Err (parse_http_response head (take n body')))
         | None \<Rightarrow>
             if response_must_not_have_body method status then map_err Err (parse_http_response head [])
             else rbind (map_err Err (rest_loop timeout body es1)) (\<lambda>body'.
               map_err Err (parse_http_response head body'))))"

definition raw_request_with_timeouts ::
  "'os uds_api \<Rightarrow> string \<Rightarrow> string \<Rightarrow> string \<Rightarrow> string option \<Rightarrow> nat option \<Rightarrow> nat option \<Rightarrow>
   ('os, exc, string) op" where
  "raw_request_with_timeouts U socket_path method path body read_timeout write_timeout =
     op_bind (op_map_err (\<lambda>e. Err (Io e)) (uds_connect U socket_path)) (\<lambda>stream.
     let body = unwrap_or [] body in
     op_then (op_map_err (\<lambda>e. Err (Io e)) (
       op_then (write_all_with_timeout U stream (request_text method path body) write_timeout)
         (if body \<noteq> [] then write_all_with_timeout U stream body write_timeout else op_ok ())))
     (\<lambda>os. case uds_replies U stream os of (es, os') \<Rightarrow> (receive_response method read_timeout es, os')))"

record unix_socket_transport =
  tr_socket_path :: string
  tr_request_timeout :: nat

definition transport_new :: "string \<Rightarrow> nat \<Rightarrow> unix_socket_transport" where
  "transport_new path timeout = \<lparr>tr_socket_path = path, tr_request_timeout = timeout\<rparr>"

definition transport_socket_path :: "unix_socket_transport \<Rightarrow> string" where
  "transport_socket_path t = tr_socket_path t"

definition transport_request_timeout :: "unix_socket_transport \<Rightarrow> nat" where
  "transport_request_timeout t = tr_request_timeout t"

definition new_unix_socket_transport :: "string \<Rightarrow> nat \<Rightarrow> unix_socket_transport" where
  "new_unix_socket_transport path timeout = transport_new path timeout"

definition raw_request ::
  "'os uds_api \<Rightarrow> unix_socket_transport \<Rightarrow> string \<Rightarrow> string \<Rightarrow> string option \<Rightarrow> ('os, exc, string) op" where
  "raw_request U t method path body =
     raw_request_with_timeouts U (tr_socket_path t) method path body
       (Some (tr_request_timeout t)) (Some (tr_request_timeout t))"

text \<open>\<open>encoded\<close> is the result of \<open>serde_json::to_vec\<close> on the payload.\<close>

definition raw_json_request_with_timeouts ::
  "'os uds_api \<Rightarrow> unix_socket_transport \<Rightarrow> string \<Rightarrow> string \<Rightarrow> (string + string) \<Rightarrow> nat option \<Rightarrow> nat option \<Rightarrow>
   ('os, exc, string) op" where
  "raw_json_request_with_timeouts U t method path encoded read_timeout write_timeout =
     (case encoded of
        Inl e \<Rightarrow> op_err (Err (Json e))
      | Inr body \<Rightarrow>
          raw_request_with_timeouts U (tr_socket_path t) method path (Some body) read_timeout write_timeout)"

definition raw_json_request ::
  "'os uds_api \<Rightarrow> unix_socket_transport \<Rightarrow> string \<Rightarrow> string \<Rightarrow> (string + string) \<Rightarrow> ('os, exc, string) op" where
  "raw_json_request U t method path encoded =
     raw_json_request_with_timeouts U t method path encoded (Some (tr_request_timeout t)) (Some (tr_request_timeout t))"

section \<open>What the peer sent, and how it was cut\<close>

text \<open>
  The bytes of a sequence of events, the sum of its delays, and the sequences without read errors and
  without empty pieces (an empty piece would be the end of the stream).
\<close>

fun sent :: "read_event list \<Rightarrow> string" where
  "sent [] = []"
| "sent (Bytes bs # es) = bs @ sent es"
| "sent (_ # es) = sent es"

fun delays :: "read_event list \<Rightarrow> nat" where
  "delays [] = 0"
| "delays (Delay d # es) = d + delays es"
| "delays (_ # es) = delays es"

fun clean :: "read_event list \<Rightarrow> bool" where
  "clean [] = True"
| "clean (Bytes bs # es) = (bs \<noteq> [] \<and> clean es)"
| "clean (Delay d # es) = clean es"
| "clean (ReadError e # es) = False"

definition in_time :: "nat option \<Rightarrow> read_event list \<Rightarrow> bool" where
  "in_time timeout es \<longleftrightarrow> (case timeout of None \<Rightarrow> True | Some d \<Rightarrow> delays es \<le> d)"

lemma stream_read_clean:
  assumes "clean es" "0 < cap"
  shows "\<exists>t chunk es'. stream_read cap es = ((t, Inr chunk), es') \<and> sent es = chunk @ sent es' \<and> clean es' \<and>
    t + delays es' \<le> delays es \<and> (chunk = [] \<longrightarrow> sent es = [])"
  using assms
proof (induction cap es rule: stream_read.induct)
  case (2 cap d es)
  then obtain t chunk es' where "stream_read cap es = ((t, Inr chunk), es')" "sent es = chunk @ sent es'" "clean es'"
    "t + delays es' \<le> delays es" "chunk = [] \<longrightarrow> sent es = []" by auto
  then show ?case by auto
next
  case (4 cap bs es)
  then show ?case by (cases "length bs \<le> cap") (auto simp flip: append_assoc)
qed auto

lemma read_clean:
  assumes "clean es" "0 < cap" "in_time timeout es"
  obtains chunk es' where "read_with_timeout cap timeout es = (Inr chunk, es')" "sent es = chunk @ sent es'"
    "clean es'" "in_time timeout es'" "chunk = [] \<longrightarrow> sent es = []"
proof -
  from stream_read_clean [OF assms(1,2)] obtain t chunk es' where
    "stream_read cap es = ((t, Inr chunk), es')" "sent es = chunk @ sent es'" "clean es'"
    "t + delays es' \<le> delays es" "chunk = [] \<longrightarrow> sent es = []" by blast
  with assms(3) that show thesis
    by (auto simp: read_with_timeout_def run_with_timeout_def in_time_def split: option.splits)
qed

lemma find_window_append: "find_window w s = Some p \<Longrightarrow> w \<noteq> [] \<Longrightarrow> find_window w (s @ t) = Some p \<and> p + length w \<le> length s"
proof (induction s arbitrary: p)
  case (Cons c s)
  show ?case
  proof (cases "take (length w) (c # s) = w")
    case True
    then have "length w \<le> length (c # s)" by (metis length_take min.cobounded1)
    with True Cons.prems show ?thesis by (auto simp: take_Cons' split: if_splits)
  next
    case False
    with Cons.prems obtain q where q: "find_window w s = Some q" "p = Suc q" by auto
    from Cons.IH [OF q(1) Cons.prems(2)] have "length w \<le> length s" by simp
    with False have "take (length w) (c # s @ t) \<noteq> w" by (simp add: take_Cons' split: if_splits)
    with False q Cons.IH [OF q(1) Cons.prems(2)] show ?thesis by simp
  qed
qed simp

lemma header_loop_clean:
  assumes "clean es" "in_time timeout es" "find_window delimiter response = None"
  shows "(find_window delimiter (response @ sent es) = None \<and>
      header_loop timeout response es = Inl (Api 0 ''unexpected EOF while reading HTTP response headers'')) \<or>
    (\<exists>p resp es'. find_window delimiter (response @ sent es) = Some p \<and>
      header_loop timeout response es = Inr (p, resp, es') \<and> resp @ sent es' = response @ sent es \<and>
      p + length delimiter \<le> length resp \<and> clean es' \<and> in_time timeout es')"
  using assms
proof (induction timeout response es rule: header_loop.induct)
  case (1 timeout response es)
  obtain chunk es' where read: "read_with_timeout 1024 timeout es = (Inr chunk, es')" "sent es = chunk @ sent es'"
    "clean es'" "in_time timeout es'" "chunk = [] \<longrightarrow> sent es = []"
    using read_clean [OF "1.prems"(1) _ "1.prems"(2), of 1024] by auto
  show ?case
  proof (cases "chunk = []")
    case True
    with read "1.prems"(3) show ?thesis by (subst header_loop.simps) simp
  next
    case False
    show ?thesis
    proof (cases "find_window delimiter (response @ chunk)")
      case None
      from "1.IH" [OF read(1) [symmetric] refl False None read(3,4) None] False None read(1,2) show ?thesis
        by (subst (1 2) header_loop.simps) simp
    next
      case (Some p)
      from find_window_append [OF Some, of "sent es'"] Some False read show ?thesis
        by (subst (1 2) header_loop.simps) (auto simp: delimiter_def)
    qed
  qed
qed

lemma sized_loop_clean:
  assumes "clean es" "in_time timeout es" "n < 2 ^ 63"
  shows "\<exists>b. sized_loop timeout n body es = Inr b \<and> take n b = take n (body @ sent es)"
  using assms
proof (induction timeout n body es rule: sized_loop.induct)
  case (1 timeout n body es)
  show ?case
  proof (cases "length body < n")
    case True
    then obtain chunk es' where read: "read_with_timeout (n - length body) timeout es = (Inr chunk, es')"
      "sent es = chunk @ sent es'" "clean es'" "in_time timeout es'" "chunk = [] \<longrightarrow> sent es = []"
      using read_clean [OF "1.prems"(1) _ "1.prems"(2), of "n - length body"] by auto
    from "1.prems"(3) have small: "\<not> n - length body \<ge> 2 ^ 63" by linarith
    show ?thesis
    proof (cases "chunk = []")
      case True
      with \<open>length body < n\<close> small read show ?thesis by (subst sized_loop.simps) auto
    next
      case False
      from "1.IH" [OF True small read(1) [symmetric] refl False read(3,4) "1.prems"(3)] read(2)
      show ?thesis by (subst sized_loop.simps) (use True small read(1) False in auto)
    qed
  qed (subst sized_loop.simps, simp)
qed

lemma rest_loop_clean:
  assumes "clean es" "in_time timeout es"
  shows "rest_loop timeout body es = Inr (body @ sent es)"
  using assms
proof (induction timeout body es rule: rest_loop.induct)
  case (1 timeout body es)
  obtain chunk es' where read: "read_with_timeout 1024 timeout es = (Inr chunk, es')" "sent es = chunk @ sent es'"
    "clean es'" "in_time timeout es'" "chunk = [] \<longrightarrow> sent es = []"
    using read_clean [OF "1.prems"(1) _ "1.prems"(2), of 1024] by auto
  show ?case
  proof (cases "chunk = []")
    case True
    with read show ?thesis by (subst rest_loop.simps) simp
  next
    case False
    from "1.IH" [OF read(1) [symmetric] refl False read(3,4)] False read(1,2) show ?thesis
      by (subst rest_loop.simps) simp
  qed
qed

section \<open>The specification: decoding a complete response\<close>

text \<open>
  What a response means, as a function of all the bytes the peer sends: the head ends at the first
  empty line, the body has the announced length (or what there is of it), is absent, or is the rest.
\<close>

definition decode_response :: "string \<Rightarrow> string \<Rightarrow> string result" where
  "decode_response method s =
     (case find_window delimiter s of
        None \<Rightarrow> Inl (Api 0 ''unexpected EOF while reading HTTP response headers'')
      | Some p \<Rightarrow>
          (let head = take p s; body = drop (p + length delimiter) s in
           rbind (parse_http_status head) (\<lambda>status.
             parse_http_response head
               (case content_length head of
                  Some n \<Rightarrow> take n body
                | None \<Rightarrow> if response_must_not_have_body method status then [] else body))))"

lemma receive_response_decode:
  assumes "clean es" "in_time timeout es"
    and "\<forall>p n. find_window delimiter (sent es) = Some p \<longrightarrow> content_length (take p (sent es)) = Some n \<longrightarrow> n < 2 ^ 63"
  shows "receive_response method timeout es = map_err Err (decode_response method (sent es))"
proof (cases "find_window delimiter (sent es)")
  case None
  with header_loop_clean [OF assms(1,2), of "[]"] show ?thesis
    by (auto simp: receive_response_def decode_response_def)
next
  case (Some p)
  with header_loop_clean [OF assms(1,2), of "[]"] obtain resp es' where
    loop: "header_loop timeout [] es = Inr (p, resp, es')" and split: "resp @ sent es' = sent es"
    and len: "p + length delimiter \<le> length resp" and es': "clean es'" "in_time timeout es'" by auto
  let ?head = "take p resp" and ?body = "drop (p + length delimiter) resp"
  have head: "take p (sent es) = ?head" and body: "drop (p + length delimiter) (sent es) = ?body @ sent es'"
    using len by (simp_all flip: split)
  have sized: "rbind (sized_loop timeout n ?body es') (\<lambda>b. map_err Err (parse_http_response ?head (take n b))) =
      map_err Err (parse_http_response ?head (take n (?body @ sent es')))" if "content_length ?head = Some n" for n
    using sized_loop_clean [OF es', of n ?body] assms(3) Some that head by auto
  show ?thesis
    by (cases "parse_http_status ?head"; cases "content_length ?head")
      (auto simp: receive_response_def decode_response_def Some loop head body Let_def sized rest_loop_clean [OF es'])
qed

text \<open>
  C8: reading a response implements its specification. However the peer's bytes are cut into pieces
  and whatever delays lie between them, as long as they add up to no more than the timeout and the
  announced length can be allocated, the transport returns what decoding the complete byte stream
  gives, errors included.
\<close>

theorem receive_response_refines:
  assumes "clean es" "in_time timeout es"
    and "\<forall>p n. find_window delimiter (sent es) = Some p \<longrightarrow> content_length (take p (sent es)) = Some n \<longrightarrow> n < 2 ^ 63"
  shows "receive_response method timeout es = map_err Err (decode_response method (sent es))"
  using assms by (rule receive_response_decode)

lemma stream_read_sent: "stream_read cap es = ((t, Inr chunk), es') \<Longrightarrow> \<exists>rest. sent es = chunk @ rest \<and> sent es' = rest"
proof (induction cap es arbitrary: t rule: stream_read.induct)
  case (2 cap d es)
  obtain t' r es'' where "stream_read cap es = ((t', r), es'')" by (metis prod.exhaust)
  with 2 show ?case by auto
qed (auto split: if_splits simp flip: append_assoc)

lemma header_loop_head:
  "header_loop timeout response es = Inr (p, resp, es') \<Longrightarrow>
     \<exists>rest. resp @ rest = response @ sent es \<and> find_window delimiter resp = Some p"
proof (induction timeout response es rule: header_loop.induct)
  case (1 timeout response es)
  obtain r es1 where read: "read_with_timeout 1024 timeout es = (r, es1)" by fastforce
  with "1.prems" obtain chunk where r: "r = Inr chunk" "chunk \<noteq> []"
    by (subst (asm) header_loop.simps) (auto split: sum.splits if_splits)
  from read r(1) obtain t where "stream_read 1024 es = ((t, Inr chunk), es1)"
    by (auto simp: read_with_timeout_def run_with_timeout_def split: prod.splits option.splits if_splits)
  from stream_read_sent [OF this] have sent: "sent es = chunk @ sent es1" by auto
  show ?case
  proof (cases "find_window delimiter (response @ chunk)")
    case None
    with "1.prems" read r have "header_loop timeout (response @ chunk) es1 = Inr (p, resp, es')"
      by (subst (asm) header_loop.simps) simp
    from "1.IH" [OF read [symmetric] r None this] sent show ?thesis by simp
  next
    case (Some q)
    with "1.prems" read r have "q = p" "resp = response @ chunk" by (subst (asm) header_loop.simps, simp)+
    with Some sent show ?thesis by auto
  qed
qed

text \<open>
  C10: a request succeeds only on a response of the peer with a status from 200 to 299; whatever the
  peer sends, however it is cut, delayed or broken off, anything else is an error.
\<close>

theorem success_has_status_2xx:
  assumes "receive_response method timeout es = Inr body"
  shows "\<exists>p status. find_window delimiter (sent es) = Some p \<and> parse_http_status (take p (sent es)) = Inr status \<and>
    200 \<le> status \<and> status < 300"
proof -
  from assms obtain p resp es' where loop: "header_loop timeout [] es = Inr (p, resp, es')"
    by (cases "header_loop timeout [] es") (auto simp: receive_response_def)
  from header_loop_head [OF this] obtain rest where split: "sent es = resp @ rest" and p: "find_window delimiter resp = Some p"
    by (metis append_Nil)
  from find_window_append [OF p, of rest] have "find_window delimiter (sent es) = Some p" "p \<le> length resp"
    by (auto simp: split delimiter_def)
  moreover have "\<exists>b. parse_http_response (take p resp) b = Inr body"
    using assms loop
    by (cases "parse_http_status (take p resp)")
      (auto simp: receive_response_def Let_def rbind_eq_Inr map_err_Inr split: option.splits if_splits)
  ultimately show ?thesis by (auto simp: parse_http_response_def rbind_eq_Inr split split: if_splits)
qed

section \<open>Framing\<close>

lemma find_delim_line:
  assumes "CHR 0x0D \<notin> set l" "c \<noteq> CHR 0x0D"
  shows "find_window delimiter (l @ crlf @ c # s) = map_option (\<lambda>p. length l + 2 + p) (find_window delimiter (c # s))"
  using assms
proof (induction l)
  case Nil
  then show ?case by (simp add: delimiter_def option.map_comp o_def)
next
  case (Cons d l)
  then show ?case by (auto simp: delimiter_def option.map_comp o_def)
qed

lemma find_delim_end: "CHR 0x0D \<notin> set l \<Longrightarrow> find_window delimiter (l @ crlf @ crlf @ s) = Some (length l)"
  by (induction l) (auto simp: delimiter_def)

text \<open>Header blocks: lines without carriage returns and line feeds.\<close>

definition plain_line :: "string \<Rightarrow> bool" where
  "plain_line l \<longleftrightarrow> l \<noteq> [] \<and> CHR 0x0D \<notin> set l \<and> CHR 0x0A \<notin> set l \<and> list_all ascii l"

definition header_block :: "string list \<Rightarrow> string" where
  "header_block ls = join crlf ls"

lemma header_block_Cons: "ls \<noteq> [] \<Longrightarrow> header_block (l # ls) = l @ crlf @ header_block ls"
  by (cases ls) (simp_all add: header_block_def)

lemma header_block_hd:
  assumes "ls \<noteq> []" "list_all plain_line ls"
  obtains c s where "header_block ls = c # s" "c \<noteq> CHR 0x0D"
proof -
  from assms obtain l ls' where ls: "ls = l # ls'" by (cases ls) auto
  with assms(2) obtain c l' where l: "l = c # l'" "c \<noteq> CHR 0x0D"
    by (cases l) (auto simp: plain_line_def)
  have "\<exists>s. header_block ls = c # s"
    by (cases ls') (simp_all add: ls l header_block_def)
  with l(2) that show thesis by blast
qed

lemma find_delim_block:
  "ls \<noteq> [] \<Longrightarrow> list_all plain_line ls \<Longrightarrow>
   find_window delimiter (header_block ls @ crlf @ crlf @ s) = Some (length (header_block ls))"
proof (induction ls)
  case (Cons l ls)
  show ?case
  proof (cases "ls = []")
    case True
    with Cons.prems show ?thesis using find_delim_end [of l s] by (simp add: header_block_def plain_line_def)
  next
    case False
    from Cons.prems(2) obtain c t where hd: "header_block ls = c # t" "c \<noteq> CHR 0x0D"
      using header_block_hd [OF False] by auto
    from Cons.prems(2) have l: "CHR 0x0D \<notin> set l" by (simp add: plain_line_def)
    have "find_window delimiter (l @ crlf @ header_block ls @ crlf @ crlf @ s) =
        map_option (\<lambda>p. length l + 2 + p) (find_window delimiter (header_block ls @ crlf @ crlf @ s))"
      using find_delim_line [OF l hd(2), of "t @ crlf @ crlf @ s"] by (simp add: hd(1))
    with Cons.IH [OF False] Cons.prems(2) show ?thesis by (simp add: header_block_Cons [OF False])
  qed
qed simp

lemma lines_block: "ls \<noteq> [] \<Longrightarrow> list_all plain_line ls \<Longrightarrow> lines (header_block ls) = ls"
proof (induction ls)
  case (Cons l ls)
  show ?case
  proof (cases "ls = []")
    case True
    with Cons.prems show ?thesis by (simp add: header_block_def plain_line_def lines_single)
  next
    case False
    with Cons show ?thesis
      using lines_crlf [of l "header_block ls"] by (simp add: header_block_Cons plain_line_def)
  qed
qed simp

lemma ascii_block: "list_all plain_line ls \<Longrightarrow> list_all ascii (header_block ls)"
  unfolding header_block_def
  by (induction crlf ls rule: join.induct) (auto simp: plain_line_def ascii_def)

lemma lossy_block: "list_all plain_line ls \<Longrightarrow> utf8_lossy (header_block ls) = header_block ls"
  by (intro utf8_lossy_valid utf8_valid_ascii) (use ascii_block in \<open>auto simp: list_all_iff\<close>)

lemma nat_str_plain: "CHR 0x0D \<notin> set (nat_str n)" "CHR 0x0A \<notin> set (nat_str n)" "list_all ascii (nat_str n)"
  using nat_str_no_byte [of "CHR 0x0D" n] nat_str_no_byte [of "CHR 0x0A" n] nat_str_digits [of _ n] digit_char_ascii
  by (auto simp: list_all_iff)

lemma find_map_append:
  "find_map f (xs @ ys) = (case find_map f xs of None \<Rightarrow> find_map f ys | Some y \<Rightarrow> Some y)"
  by (induction xs) (auto split: option.splits)

lemma length_line_content_length: "length_line (''Content-Length: '' @ nat_str n) = (if n < 2 ^ 64 then Some n else None)"
proof -
  have "split_once (CHR '':'') (''Content-Length'' @ CHR '':'' # '' '' @ nat_str n) = Some (''Content-Length'', '' '' @ nat_str n)"
    by (rule split_once_append) simp
  moreover have "trim ('' '' @ nat_str n) = nat_str n"
    using trim_start_space [of "nat_str n"] by (simp add: trim_def trim_start_free trim_end_free)
  moreover have "eq_ignore_ascii_case ''Content-Length'' ''content-length''" by code_simp
  ultimately show ?thesis by (simp add: length_line_def)
qed

text \<open>
  A response as an HTTP server writes it: status line, content length, empty line, body.
\<close>

definition response_lines :: "nat \<Rightarrow> string \<Rightarrow> nat \<Rightarrow> string list" where
  "response_lines status reason n =
     [''HTTP/1.1 '' @ nat_str status @ '' '' @ reason, ''Content-Length: '' @ nat_str n]"

definition response_text :: "nat \<Rightarrow> string \<Rightarrow> string \<Rightarrow> string" where
  "response_text status reason body = header_block (response_lines status reason (length body)) @ crlf @ crlf @ body"

lemma response_lines_plain:
  assumes "list_all (\<lambda>c. ascii c \<and> c \<noteq> CHR 0x0D \<and> c \<noteq> CHR 0x0A) reason"
  shows "list_all plain_line (response_lines status reason n)"
  using assms nat_str_plain [of status] nat_str_plain [of n]
  by (auto simp: response_lines_def plain_line_def list_all_iff ascii_def)

lemma status_of_response:
  assumes "list_all (\<lambda>c. ascii c \<and> c \<noteq> CHR 0x0D \<and> c \<noteq> CHR 0x0A) reason" "status < 2 ^ 16"
  shows "parse_http_status (header_block (response_lines status reason n)) = Inr status"
proof -
  note plain = response_lines_plain [OF assms(1), of status n]
  have "ws_free ''HTTP/1.1''" by code_simp
  then have "split_whitespace (''HTTP/1.1 '' @ nat_str status @ '' '' @ reason) =
      ''HTTP/1.1'' # nat_str status # split_whitespace reason"
    using ws_tokens_space [of "''HTTP/1.1''" "[]" "nat_str status @ '' '' @ reason"]
      ws_tokens_space [OF ws_free_nat_str, of "[]" status reason]
    by (simp add: split_whitespace_def)
  with assms(2) plain show ?thesis
    by (simp add: parse_http_status_def lossy_block lines_block response_lines_def)
qed

lemma content_length_of_response:
  assumes "list_all (\<lambda>c. ascii c \<and> c \<noteq> CHR 0x0D \<and> c \<noteq> CHR 0x0A) reason" "n < 2 ^ 64"
  shows "content_length (header_block (response_lines status reason n)) = Some n"
proof -
  note plain = response_lines_plain [OF assms(1), of status n]
  have "length_line (''HTTP/1.1 '' @ nat_str status @ '' '' @ reason) = None"
    by (auto simp: length_line_def split_once_Some eq_ignore_ascii_case_def to_ascii_lowercase_def to_lower_def
        split: option.splits)
  with length_line_content_length [of n] assms(2) plain show ?thesis
    by (simp add: content_length_def lossy_block lines_block response_lines_def del: append_Cons)
qed

lemma response_received:
  assumes reason: "list_all (\<lambda>c. ascii c \<and> c \<noteq> CHR 0x0D \<and> c \<noteq> CHR 0x0A) reason"
    and sizes: "status < 2 ^ 16" "length body < 2 ^ 63"
    and es: "clean es" "in_time timeout es" "sent es = response_text status reason body @ rest"
  shows "receive_response method timeout es =
    (if 200 \<le> status \<and> status < 300 then Inr body else Inl (Err (Api status (utf8_lossy body))))"
proof -
  let ?head = "header_block (response_lines status reason (length body))"
  have sent: "sent es = ?head @ crlf @ crlf @ body @ rest" by (simp add: es(3) response_text_def)
  have ne: "response_lines status reason (length body) \<noteq> []" by (simp add: response_lines_def)
  have p: "find_window delimiter (sent es) = Some (length ?head)"
    unfolding sent by (rule find_delim_block [OF ne response_lines_plain [OF reason]])
  have cl: "content_length ?head = Some (length body)"
    using content_length_of_response [OF reason, of "length body" status] sizes(2) by simp
  have "receive_response method timeout es = map_err Err (decode_response method (sent es))"
    by (rule receive_response_decode [OF es(1,2)]) (use p cl sizes(2) in \<open>simp add: sent\<close>)
  then show ?thesis
    using p cl status_of_response [OF reason sizes(1), of "length body"]
    by (simp add: decode_response_def parse_http_response_def sent delimiter_def)
qed

text \<open>
  C9: responses are read back. A response that a server writes with its content length is received as
  its body when the status is from 200 to 299, and as an error that carries the status and the body's
  text otherwise, whatever bytes the body has (empty lines included), however it is cut into pieces,
  and whatever follows it on the stream.
\<close>

theorem response_roundtrip:
  assumes reason: "list_all (\<lambda>c. ascii c \<and> c \<noteq> CHR 0x0D \<and> c \<noteq> CHR 0x0A) reason"
    and sizes: "status < 2 ^ 16" "length body < 2 ^ 63"
    and es: "clean es" "in_time timeout es" "sent es = response_text status reason body @ rest"
  shows "receive_response method timeout es =
    (if 200 \<le> status \<and> status < 300 then Inr body else Inl (Err (Api status (utf8_lossy body))))"
  using assms by (rule response_received)

text \<open>The lines of a request.\<close>

definition request_lines :: "string \<Rightarrow> string \<Rightarrow> string \<Rightarrow> string list" where
  "request_lines method path body =
     [method @ '' '' @ path @ '' HTTP/1.1'', ''Host: localhost'', ''User-Agent: firecracker-rs-sdk'',
      ''Accept: application/json'', ''Connection: close'', ''Content-Length: '' @ nat_str (length body)] @
     (if body \<noteq> [] then [''Content-Type: application/json''] else [])"

lemma request_text_block: "request_text method path body = header_block (request_lines method path body) @ crlf @ crlf"
  by (simp add: request_text_def request_lines_def header_block_def)

lemma request_lines_plain:
  assumes "list_all (\<lambda>c. ascii c \<and> c \<noteq> CHR 0x0D \<and> c \<noteq> CHR 0x0A) (method @ path)"
  shows "list_all plain_line (request_lines method path body)"
  using assms nat_str_plain [of "length body"]
  by (auto simp: request_lines_def plain_line_def list_all_iff ascii_def)

lemma length_line_request:
  assumes "CHR '':'' \<notin> set method"
  shows "length_line (method @ '' '' @ path @ '' HTTP/1.1'') = None"
proof (cases "split_once (CHR '':'') (method @ '' '' @ path @ '' HTTP/1.1'')")
  case (Some ab)
  obtain a b where ab: "ab = (a, b)" by fastforce
  with Some have eq: "method @ '' '' @ path @ '' HTTP/1.1'' = a @ CHR '':'' # b" by (simp add: split_once_Some)
  have "CHR '' '' \<in> set a"
    using eq assms by (auto simp: append_eq_append_conv2 Cons_eq_append_conv append_eq_Cons_conv)
  then have "to_lower (CHR '' '') \<in> set (to_ascii_lowercase a)" by (simp add: to_ascii_lowercase_def)
  moreover have "to_lower (CHR '' '') = CHR '' ''" by (simp add: to_lower_def)
  moreover have "CHR '' '' \<notin> set (to_ascii_lowercase ''content-length'')" by code_simp
  ultimately have "\<not> eq_ignore_ascii_case a ''content-length''" by (auto simp: eq_ignore_ascii_case_def)
  with Some ab show ?thesis by (simp add: length_line_def)
qed (simp add: length_line_def)

text \<open>
  Requests are framed. As long as the method and the path are ASCII text without line breaks (and
  the method has no colon), the head of a request ends exactly where the body begins, and it announces
  exactly the length of the body: a server that reads the request by the rules this transport reads
  responses by gets the body back, whatever its bytes are. A path with a line break would not be
  escaped.
\<close>

theorem request_framing:
  assumes "list_all (\<lambda>c. ascii c \<and> c \<noteq> CHR 0x0D \<and> c \<noteq> CHR 0x0A) (method @ path)"
    and "CHR '':'' \<notin> set method" "length body < 2 ^ 64"
  shows "\<exists>p. find_window delimiter (request_text method path body @ body) = Some p \<and>
    content_length (take p (request_text method path body @ body)) = Some (length body) \<and>
    drop (p + length delimiter) (request_text method path body @ body) = body"
proof -
  let ?head = "header_block (request_lines method path body)"
  note plain = request_lines_plain [OF assms(1), of body]
  have ne: "request_lines method path body \<noteq> []" by (simp add: request_lines_def)
  have other: "length_line ''Host: localhost'' = None" "length_line ''User-Agent: firecracker-rs-sdk'' = None"
    "length_line ''Accept: application/json'' = None" "length_line ''Connection: close'' = None"
    by code_simp+
  have "content_length ?head = find_map length_line (request_lines method path body)"
    by (simp only: content_length_def lossy_block [OF plain] lines_block [OF ne plain])
  also have "\<dots> = Some (length body)"
    unfolding request_lines_def find_map_append find_map.simps length_line_request [OF assms(2)] other
      length_line_content_length using assms(3) by simp
  finally have "content_length ?head = Some (length body)" .
  moreover have "find_window delimiter (?head @ crlf @ crlf @ body) = Some (length ?head)"
    by (rule find_delim_block [OF ne plain])
  ultimately show ?thesis by (simp add: request_text_block delimiter_def)
qed

end
