(* ===== verification/Sdk_Client.thy ===== *)
theory Sdk_Client
  imports Sdk_Machine Http_Transport
begin

text \<open>
  \<open>src/client/firecracker_client.rs\<close>, the struct \<open>Client\<close>: the endpoints of the Firecracker API over the
  HTTP transport, and \<open>Client\<close> as an implementation of the trait \<open>ClientOps\<close>. Writing and reading JSON is
  the business of serde: the record \<open>serde\<close> has, for each payload, the result of \<open>to_vec\<close> and of
  \<open>from_slice\<close> (\<open>Inl\<close> with the text of the error).
\<close>

section \<open>Serialisation\<close>

record 'j serde =
  logger_enc :: "logger \<Rightarrow> string + string"
  metrics_enc :: "metrics \<Rightarrow> string + string"
  machine_configuration_enc :: "machine_configuration \<Rightarrow> string + string"
  boot_source_enc :: "boot_source \<Rightarrow> string + string"
  value_enc :: "'j \<Rightarrow> string + string"
  entropy_device_enc :: "entropy_device \<Rightarrow> string + string"
  vsock_enc :: "vsock_model \<Rightarrow> string + string"
  vm_enc :: "vm \<Rightarrow> string + string"
  instance_action_info_enc :: "instance_action_info \<Rightarrow> string + string"
  mmds_config_enc :: "mmds_config \<Rightarrow> string + string"
  balloon_enc :: "balloon \<Rightarrow> string + string"
  balloon_update_enc :: "balloon_update \<Rightarrow> string + string"
  balloon_stats_update_enc :: "balloon_stats_update \<Rightarrow> string + string"
  partial_drive_enc :: "partial_drive \<Rightarrow> string + string"
  network_interface_enc :: "network_interface_model \<Rightarrow> string + string"
  partial_network_interface_enc :: "partial_network_interface \<Rightarrow> string + string"
  drive_enc :: "drive \<Rightarrow> string + string"
  snapshot_create_params_enc :: "snapshot_create_params \<Rightarrow> string + string"
  snapshot_load_params_enc :: "snapshot_load_params \<Rightarrow> string + string"
  firecracker_version_dec :: "string \<Rightarrow> string + firecracker_version"
  machine_configuration_dec :: "string \<Rightarrow> string + machine_configuration"
  value_dec :: "string \<Rightarrow> string + 'j"
  instance_info_dec :: "string \<Rightarrow> string + 'j instance_info"
  balloon_dec :: "string \<Rightarrow> string + balloon"
  balloon_stats_dec :: "string \<Rightarrow> string + 'j balloon_stats"
  full_vm_configuration_dec :: "string \<Rightarrow> string + full_vm_configuration"

section \<open>The client\<close>

definition FIRECRACKER_REQUEST_TIMEOUT_ENV :: string where
  "FIRECRACKER_REQUEST_TIMEOUT_ENV = ''FIRECRACKER_GO_SDK_REQUEST_TIMEOUT_MILLISECONDS''"
definition DEFAULT_FIRECRACKER_REQUEST_TIMEOUT :: int where
  "DEFAULT_FIRECRACKER_REQUEST_TIMEOUT = 500"

record client =
  cl_transport :: unix_socket_transport
  cl_init_timeout :: nat

text \<open>Both timeouts are an \<open>i32\<close> cast to \<open>u64\<close>; durations are in nanoseconds.\<close>

definition client_new :: "'os os_env \<Rightarrow> string \<Rightarrow> 'os \<Rightarrow> client" where
  "client_new E path os =
     (let request_timeout_ms = env_value_or_default_int E FIRECRACKER_REQUEST_TIMEOUT_ENV
            DEFAULT_FIRECRACKER_REQUEST_TIMEOUT os;
          init_timeout_seconds = env_value_or_default_int E FIRECRACKER_INIT_TIMEOUT_ENV
            DEFAULT_FIRECRACKER_INIT_TIMEOUT_SECONDS os
      in \<lparr>cl_transport = new_unix_socket_transport path
            (unat (word_of_int request_timeout_ms :: 64 word) * 10 ^ 6),
          cl_init_timeout = unat (word_of_int init_timeout_seconds :: 64 word) * 10 ^ 9\<rparr>)"

definition client_socket_path :: "client \<Rightarrow> string" where
  "client_socket_path c = transport_socket_path (cl_transport c)"

definition client_init_timeout :: "client \<Rightarrow> nat" where
  "client_init_timeout c = cl_init_timeout c"

definition request_timeout :: "client \<Rightarrow> nat" where
  "request_timeout c = transport_request_timeout (cl_transport c)"

definition drive_request_timeout :: "client \<Rightarrow> nat" where
  "drive_request_timeout c = request_timeout c div 2"

text \<open>The requests of the transport.\<close>

definition client_raw_request ::
  "'os uds_api \<Rightarrow> client \<Rightarrow> string \<Rightarrow> string \<Rightarrow> string option \<Rightarrow> ('os, exc, string) op" where
  "client_raw_request U c method path body = raw_request U (cl_transport c) method path body"

definition client_raw_json_request ::
  "'os uds_api \<Rightarrow> client \<Rightarrow> string \<Rightarrow> string \<Rightarrow> (string + string) \<Rightarrow> ('os, exc, string) op" where
  "client_raw_json_request U c method path encoded = raw_json_request U (cl_transport c) method path encoded"

definition client_raw_json_request_with_timeouts ::
  "'os uds_api \<Rightarrow> client \<Rightarrow> string \<Rightarrow> string \<Rightarrow> (string + string) \<Rightarrow> nat option \<Rightarrow> nat option \<Rightarrow>
   ('os, exc, string) op" where
  "client_raw_json_request_with_timeouts U c method path encoded read_timeout write_timeout =
     raw_json_request_with_timeouts U (cl_transport c) method path encoded read_timeout write_timeout"

lemmas client_raw_defs = client_raw_request_def client_raw_json_request_def client_raw_json_request_with_timeouts_def

text \<open>\<open>.map(|_| ())\<close>, and the body of the methods that decode their response.\<close>

definition op_unit :: "('s, 'e, 'a) op \<Rightarrow> ('s, 'e, unit) op" where
  "op_unit f = op_bind f (\<lambda>_. op_ok ())"

definition get_json ::
  "'os uds_api \<Rightarrow> client \<Rightarrow> string \<Rightarrow> (string \<Rightarrow> string + 'a) \<Rightarrow> ('os, exc, 'a) op" where
  "get_json U c path decode =
     op_bind (client_raw_request U c ''GET'' path None)
       (\<lambda>body os. (map_err (\<lambda>e. Err (Json e)) (decode body), os))"

section \<open>Endpoints\<close>

definition client_put_logger :: "'j serde \<Rightarrow> 'os uds_api \<Rightarrow> client \<Rightarrow> logger \<Rightarrow> ('os, exc, unit) op" where
  "client_put_logger S U c x = op_unit (client_raw_json_request U c ''PUT'' ''/logger'' (logger_enc S x))"

definition client_put_metrics :: "'j serde \<Rightarrow> 'os uds_api \<Rightarrow> client \<Rightarrow> metrics \<Rightarrow> ('os, exc, unit) op" where
  "client_put_metrics S U c x = op_unit (client_raw_json_request U c ''PUT'' ''/metrics'' (metrics_enc S x))"

definition client_put_machine_configuration :: "'j serde \<Rightarrow> 'os uds_api \<Rightarrow> client \<Rightarrow> machine_configuration \<Rightarrow> ('os, exc, unit) op" where
  "client_put_machine_configuration S U c x = op_unit (client_raw_json_request U c ''PUT'' ''/machine-config'' (machine_configuration_enc S x))"

definition client_patch_machine_configuration :: "'j serde \<Rightarrow> 'os uds_api \<Rightarrow> client \<Rightarrow> machine_configuration \<Rightarrow> ('os, exc, unit) op" where
  "client_patch_machine_configuration S U c x = op_unit (client_raw_json_request U c ''PATCH'' ''/machine-config'' (machine_configuration_enc S x))"

definition client_put_guest_boot_source :: "'j serde \<Rightarrow> 'os uds_api \<Rightarrow> client \<Rightarrow> boot_source \<Rightarrow> ('os, exc, unit) op" where
  "client_put_guest_boot_source S U c x = op_unit (client_raw_json_request U c ''PUT'' ''/boot-source'' (boot_source_enc S x))"

definition client_put_cpu_configuration :: "'j serde \<Rightarrow> 'os uds_api \<Rightarrow> client \<Rightarrow> 'j \<Rightarrow> ('os, exc, unit) op" where
  "client_put_cpu_configuration S U c x = op_unit (client_raw_json_request U c ''PUT'' ''/cpu-config'' (value_enc S x))"

definition client_put_entropy_device :: "'j serde \<Rightarrow> 'os uds_api \<Rightarrow> client \<Rightarrow> entropy_device \<Rightarrow> ('os, exc, unit) op" where
  "client_put_entropy_device S U c x = op_unit (client_raw_json_request U c ''PUT'' ''/entropy'' (entropy_device_enc S x))"

definition client_put_guest_vsock :: "'j serde \<Rightarrow> 'os uds_api \<Rightarrow> client \<Rightarrow> vsock_model \<Rightarrow> ('os, exc, unit) op" where
  "client_put_guest_vsock S U c x = op_unit (client_raw_json_request U c ''PUT'' ''/vsock'' (vsock_enc S x))"

definition client_patch_vm :: "'j serde \<Rightarrow> 'os uds_api \<Rightarrow> client \<Rightarrow> vm \<Rightarrow> ('os, exc, unit) op" where
  "client_patch_vm S U c x = op_unit (client_raw_json_request U c ''PATCH'' ''/vm'' (vm_enc S x))"

definition client_create_sync_action :: "'j serde \<Rightarrow> 'os uds_api \<Rightarrow> client \<Rightarrow> instance_action_info \<Rightarrow> ('os, exc, unit) op" where
  "client_create_sync_action S U c x = op_unit (client_raw_json_request U c ''PUT'' ''/actions'' (instance_action_info_enc S x))"

definition client_put_mmds :: "'j serde \<Rightarrow> 'os uds_api \<Rightarrow> client \<Rightarrow> 'j \<Rightarrow> ('os, exc, unit) op" where
  "client_put_mmds S U c x = op_unit (client_raw_json_request U c ''PUT'' ''/mmds'' (value_enc S x))"

definition client_patch_mmds :: "'j serde \<Rightarrow> 'os uds_api \<Rightarrow> client \<Rightarrow> 'j \<Rightarrow> ('os, exc, unit) op" where
  "client_patch_mmds S U c x = op_unit (client_raw_json_request U c ''PATCH'' ''/mmds'' (value_enc S x))"

definition client_put_mmds_config :: "'j serde \<Rightarrow> 'os uds_api \<Rightarrow> client \<Rightarrow> mmds_config \<Rightarrow> ('os, exc, unit) op" where
  "client_put_mmds_config S U c x = op_unit (client_raw_json_request U c ''PUT'' ''/mmds/config'' (mmds_config_enc S x))"

definition client_put_balloon :: "'j serde \<Rightarrow> 'os uds_api \<Rightarrow> client \<Rightarrow> balloon \<Rightarrow> ('os, exc, unit) op" where
  "client_put_balloon S U c x = op_unit (client_raw_json_request U c ''PUT'' ''/balloon'' (balloon_enc S x))"

definition client_patch_balloon :: "'j serde \<Rightarrow> 'os uds_api \<Rightarrow> client \<Rightarrow> balloon_update \<Rightarrow> ('os, exc, unit) op" where
  "client_patch_balloon S U c x = op_unit (client_raw_json_request U c ''PATCH'' ''/balloon'' (balloon_update_enc S x))"

definition client_patch_balloon_stats_interval :: "'j serde \<Rightarrow> 'os uds_api \<Rightarrow> client \<Rightarrow> balloon_stats_update \<Rightarrow> ('os, exc, unit) op" where
  "client_patch_balloon_stats_interval S U c x = op_unit (client_raw_json_request U c ''PATCH'' ''/balloon/statistics'' (balloon_stats_update_enc S x))"

definition client_put_guest_drive_by_id :: "'j serde \<Rightarrow> 'os uds_api \<Rightarrow> client \<Rightarrow> string \<Rightarrow> drive \<Rightarrow> ('os, exc, unit) op" where
  "client_put_guest_drive_by_id S U c i x =
     op_unit (client_raw_json_request_with_timeouts U c ''PUT'' (''/drives/'' @ i) (drive_enc S x)
       (Some (drive_request_timeout c)) (Some (drive_request_timeout c)))"

definition client_patch_guest_drive_by_id :: "'j serde \<Rightarrow> 'os uds_api \<Rightarrow> client \<Rightarrow> string \<Rightarrow> partial_drive \<Rightarrow> ('os, exc, unit) op" where
  "client_patch_guest_drive_by_id S U c i x =
     op_unit (client_raw_json_request U c ''PATCH'' (''/drives/'' @ i) (partial_drive_enc S x))"

definition client_put_guest_network_interface_by_id :: "'j serde \<Rightarrow> 'os uds_api \<Rightarrow> client \<Rightarrow> string \<Rightarrow> network_interface_model \<Rightarrow> ('os, exc, unit) op" where
  "client_put_guest_network_interface_by_id S U c i x =
     op_unit (client_raw_json_request U c ''PUT'' (''/network-interfaces/'' @ i) (network_interface_enc S x))"

definition client_patch_guest_network_interface_by_id :: "'j serde \<Rightarrow> 'os uds_api \<Rightarrow> client \<Rightarrow> string \<Rightarrow> partial_network_interface \<Rightarrow> ('os, exc, unit) op" where
  "client_patch_guest_network_interface_by_id S U c i x =
     op_unit (client_raw_json_request U c ''PATCH'' (''/network-interfaces/'' @ i) (partial_network_interface_enc S x))"

definition client_create_snapshot :: "'j serde \<Rightarrow> 'os uds_api \<Rightarrow> client \<Rightarrow> snapshot_create_params \<Rightarrow> ('os, exc, unit) op" where
  "client_create_snapshot S U c x =
     op_unit (client_raw_json_request_with_timeouts U c ''PUT'' ''/snapshot/create'' (snapshot_create_params_enc S x)
       None (Some (request_timeout c)))"

definition client_load_snapshot :: "'j serde \<Rightarrow> 'os uds_api \<Rightarrow> client \<Rightarrow> snapshot_load_params \<Rightarrow> ('os, exc, unit) op" where
  "client_load_snapshot S U c x =
     op_unit (client_raw_json_request_with_timeouts U c ''PUT'' ''/snapshot/load'' (snapshot_load_params_enc S x)
       None (Some (request_timeout c)))"

definition client_get_firecracker_version :: "'j serde \<Rightarrow> 'os uds_api \<Rightarrow> client \<Rightarrow> ('os, exc, firecracker_version) op" where
  "client_get_firecracker_version S U c = get_json U c ''/version'' (firecracker_version_dec S)"

definition client_get_machine_configuration :: "'j serde \<Rightarrow> 'os uds_api \<Rightarrow> client \<Rightarrow> ('os, exc, machine_configuration) op" where
  "client_get_machine_configuration S U c = get_json U c ''/machine-config'' (machine_configuration_dec S)"

definition client_get_mmds :: "'j serde \<Rightarrow> 'os uds_api \<Rightarrow> client \<Rightarrow> ('os, exc, 'j) op" where
  "client_get_mmds S U c = get_json U c ''/mmds'' (value_dec S)"

definition client_describe_instance :: "'j serde \<Rightarrow> 'os uds_api \<Rightarrow> client \<Rightarrow> ('os, exc, 'j instance_info) op" where
  "client_describe_instance S U c = get_json U c ''/'' (instance_info_dec S)"

definition client_get_balloon_config :: "'j serde \<Rightarrow> 'os uds_api \<Rightarrow> client \<Rightarrow> ('os, exc, balloon) op" where
  "client_get_balloon_config S U c = get_json U c ''/balloon'' (balloon_dec S)"

definition client_get_balloon_stats :: "'j serde \<Rightarrow> 'os uds_api \<Rightarrow> client \<Rightarrow> ('os, exc, 'j balloon_stats) op" where
  "client_get_balloon_stats S U c = get_json U c ''/balloon/statistics'' (balloon_stats_dec S)"

definition client_get_export_vm_config :: "'j serde \<Rightarrow> 'os uds_api \<Rightarrow> client \<Rightarrow> ('os, exc, full_vm_configuration) op" where
  "client_get_export_vm_config S U c = get_json U c ''/vm/config'' (full_vm_configuration_dec S)"

text \<open>Other names of the same requests.\<close>

definition client_get_instance_info :: "'j serde \<Rightarrow> 'os uds_api \<Rightarrow> client \<Rightarrow> ('os, exc, 'j instance_info) op" where
  "client_get_instance_info S U c = client_describe_instance S U c"

definition client_describe_balloon_config :: "'j serde \<Rightarrow> 'os uds_api \<Rightarrow> client \<Rightarrow> ('os, exc, balloon) op" where
  "client_describe_balloon_config S U c = client_get_balloon_config S U c"

definition client_describe_balloon_stats :: "'j serde \<Rightarrow> 'os uds_api \<Rightarrow> client \<Rightarrow> ('os, exc, 'j balloon_stats) op" where
  "client_describe_balloon_stats S U c = client_get_balloon_stats S U c"

section \<open>The trait\<close>

definition client_client_ops :: "'j serde \<Rightarrow> 'os uds_api \<Rightarrow> client \<Rightarrow> ('j, 'os, exc) client_ops" where
  "client_client_ops S U c =
    \<lparr>c_get_firecracker_version = client_get_firecracker_version S U c,
     c_put_logger = client_put_logger S U c,
     c_put_metrics = client_put_metrics S U c,
     c_put_machine_configuration = client_put_machine_configuration S U c,
     c_patch_machine_configuration = client_patch_machine_configuration S U c,
     c_get_machine_configuration = client_get_machine_configuration S U c,
     c_put_guest_boot_source = client_put_guest_boot_source S U c,
     c_put_cpu_configuration = client_put_cpu_configuration S U c,
     c_put_entropy_device = client_put_entropy_device S U c,
     c_put_guest_drive_by_id = client_put_guest_drive_by_id S U c,
     c_patch_guest_drive_by_id = client_patch_guest_drive_by_id S U c,
     c_put_guest_network_interface_by_id = client_put_guest_network_interface_by_id S U c,
     c_patch_guest_network_interface_by_id = client_patch_guest_network_interface_by_id S U c,
     c_put_guest_vsock = client_put_guest_vsock S U c,
     c_patch_vm = client_patch_vm S U c,
     c_create_snapshot = client_create_snapshot S U c,
     c_load_snapshot = client_load_snapshot S U c,
     c_create_sync_action = client_create_sync_action S U c,
     c_put_mmds = client_put_mmds S U c,
     c_get_mmds = client_get_mmds S U c,
     c_patch_mmds = client_patch_mmds S U c,
     c_put_mmds_config = client_put_mmds_config S U c,
     c_describe_instance = client_describe_instance S U c,
     c_put_balloon = client_put_balloon S U c,
     c_get_balloon_config = client_get_balloon_config S U c,
     c_patch_balloon = client_patch_balloon S U c,
     c_get_balloon_stats = client_get_balloon_stats S U c,
     c_patch_balloon_stats_interval = client_patch_balloon_stats_interval S U c,
     c_get_export_vm_config = client_get_export_vm_config S U c\<rparr>"

section \<open>Timeouts\<close>

text \<open>
  A peer that accepts connections on a socket, takes every write at once and answers with a given
  sequence of events.
\<close>

definition answering :: "'os uds_api \<Rightarrow> string \<Rightarrow> read_event list \<Rightarrow> bool" where
  "answering U path es \<longleftrightarrow>
     (\<forall>os. \<exists>s os'. uds_connect U path os = (Inr s, os') \<and>
       (\<forall>bs os. \<exists>os'. uds_write_all U s bs os = ((0, Inr ()), os')) \<and>
       (\<forall>os. fst (uds_replies U s os) = es))"

lemma answering_request:
  assumes "answering U path es"
  shows "fst (raw_request_with_timeouts U path method target body rt wt os) = receive_response method rt es"
proof -
  from assms obtain s os1 where conn: "uds_connect U path os = (Inr s, os1)"
    and wr: "\<forall>bs os. \<exists>os'. uds_write_all U s bs os = ((0, Inr ()), os')"
    and rp: "\<forall>os. fst (uds_replies U s os) = es"
    unfolding answering_def by blast
  have wrote: "\<exists>os'. write_all_with_timeout U s bs wt os = (Inr (), os')" for bs os
    using wr [rule_format, of bs os] by (auto simp: write_all_with_timeout_def run_with_timeout_def split: option.splits)
  from wrote [of "request_text method target (unwrap_or [] body)" os1] obtain os2 where
    w1: "write_all_with_timeout U s (request_text method target (unwrap_or [] body)) wt os1 = (Inr (), os2)" by blast
  from wrote [of "unwrap_or [] body" os2] obtain os3 where
    w2: "write_all_with_timeout U s (unwrap_or [] body) wt os2 = (Inr (), os3)" by blast
  from rp have rp': "\<exists>os'. uds_replies U s os = (es, os')" for os by (metis prod.collapse)
  obtain os4 os5 where r: "uds_replies U s os2 = (es, os4)" "uds_replies U s os3 = (es, os5)" using rp' by blast
  show ?thesis
    by (simp add: raw_request_with_timeouts_def op_bind_def op_map_err_def conn Let_def w1 w2 r op_ok_def)
qed

lemma op_unit_result: "fst (op_unit f os) = (case fst (f os) of Inl e \<Rightarrow> Inl e | Inr _ \<Rightarrow> Inr ())"
  by (cases "f os"; cases "fst (f os)") (auto simp: op_unit_def op_bind_def op_ok_def)

text \<open>
  C11: taking and loading a snapshot has no deadline. Whatever time the VMM takes between the pieces
  of its answer, the client waits for the whole answer and reports its status.
\<close>

theorem snapshot_requests_wait:
  assumes peer: "answering U (tr_socket_path (cl_transport c)) es"
    and payload: "snapshot_create_params_enc S x = Inr json" "snapshot_load_params_enc S y = Inr json'"
    and answer: "list_all (\<lambda>ch. ascii ch \<and> ch \<noteq> CHR 0x0D \<and> ch \<noteq> CHR 0x0A) reason" "status < 2 ^ 16" "length body < 2 ^ 63"
      "clean es" "sent es = response_text status reason body @ rest"
  shows "fst (client_create_snapshot S U c x os) =
      (if 200 \<le> status \<and> status < 300 then Inr () else Inl (Err (Api status (utf8_lossy body)))) \<and>
    fst (client_load_snapshot S U c y os) =
      (if 200 \<le> status \<and> status < 300 then Inr () else Inl (Err (Api status (utf8_lossy body))))"
  using payload response_received [OF answer(1-4) _ answer(5), of None "''PUT''"] answering_request [OF peer]
  by (simp add: client_create_snapshot_def client_load_snapshot_def op_unit_result
      client_raw_defs raw_json_request_with_timeouts_def in_time_def)

text \<open>Every request with a payload but the attaching of a drive, with the payload's JSON.\<close>

definition payload_requests ::
  "'j serde \<Rightarrow> ('j, 'os, exc) client_ops \<Rightarrow> ((string + string) \<times> ('os, exc, unit) op) set" where
  "payload_requests S cl =
     range (\<lambda>x. (logger_enc S x, c_put_logger cl x)) \<union>
     range (\<lambda>x. (metrics_enc S x, c_put_metrics cl x)) \<union>
     range (\<lambda>x. (machine_configuration_enc S x, c_put_machine_configuration cl x)) \<union>
     range (\<lambda>x. (machine_configuration_enc S x, c_patch_machine_configuration cl x)) \<union>
     range (\<lambda>x. (boot_source_enc S x, c_put_guest_boot_source cl x)) \<union>
     range (\<lambda>x. (value_enc S x, c_put_cpu_configuration cl x)) \<union>
     range (\<lambda>x. (entropy_device_enc S x, c_put_entropy_device cl x)) \<union>
     range (\<lambda>(i, x). (partial_drive_enc S x, c_patch_guest_drive_by_id cl i x)) \<union>
     range (\<lambda>(i, x). (network_interface_enc S x, c_put_guest_network_interface_by_id cl i x)) \<union>
     range (\<lambda>(i, x). (partial_network_interface_enc S x, c_patch_guest_network_interface_by_id cl i x)) \<union>
     range (\<lambda>x. (vsock_enc S x, c_put_guest_vsock cl x)) \<union>
     range (\<lambda>x. (vm_enc S x, c_patch_vm cl x)) \<union>
     range (\<lambda>x. (snapshot_create_params_enc S x, c_create_snapshot cl x)) \<union>
     range (\<lambda>x. (snapshot_load_params_enc S x, c_load_snapshot cl x)) \<union>
     range (\<lambda>x. (instance_action_info_enc S x, c_create_sync_action cl x)) \<union>
     range (\<lambda>x. (value_enc S x, c_put_mmds cl x)) \<union>
     range (\<lambda>x. (value_enc S x, c_patch_mmds cl x)) \<union>
     range (\<lambda>x. (mmds_config_enc S x, c_put_mmds_config cl x)) \<union>
     range (\<lambda>x. (balloon_enc S x, c_put_balloon cl x)) \<union>
     range (\<lambda>x. (balloon_update_enc S x, c_patch_balloon cl x)) \<union>
     range (\<lambda>x. (balloon_stats_update_enc S x, c_patch_balloon_stats_interval cl x))"

lemma payload_request_forms:
  assumes "(enc, f) \<in> payload_requests S (client_client_ops S U c)"
  shows "\<exists>method path rt. f = op_unit (client_raw_json_request_with_timeouts U c method path enc rt (Some (request_timeout c))) \<and>
    rt \<in> {None, Some (request_timeout c)}"
  using assms
  by (auto simp: payload_requests_def client_client_ops_def client_put_logger_def client_put_metrics_def
      client_put_machine_configuration_def client_patch_machine_configuration_def client_put_guest_boot_source_def
      client_put_cpu_configuration_def client_put_entropy_device_def client_patch_guest_drive_by_id_def
      client_put_guest_network_interface_by_id_def client_patch_guest_network_interface_by_id_def
      client_put_guest_vsock_def client_patch_vm_def client_create_snapshot_def client_load_snapshot_def
      client_create_sync_action_def client_put_mmds_def client_patch_mmds_def client_put_mmds_config_def
      client_put_balloon_def client_patch_balloon_def client_patch_balloon_stats_interval_def
      client_raw_defs raw_json_request_def request_timeout_def transport_request_timeout_def)

lemma get_json_answered:
  assumes "answering U (tr_socket_path (cl_transport c)) es" "receive_response ''GET'' (Some (request_timeout c)) es = Inr body"
  shows "fst (get_json U c path decode os) = map_err (\<lambda>e. Err (Json e)) (decode body)"
proof -
  obtain r os' where run: "client_raw_request U c ''GET'' path None os = (r, os')" by fastforce
  with answering_request [OF assms(1)] assms(2) have "r = Inr body"
    by (auto simp: client_raw_request_def raw_request_def request_timeout_def transport_request_timeout_def)
      (metis fst_conv)
  with run show ?thesis by (simp add: get_json_def op_bind_def)
qed

text \<open>
  C12: attaching a drive has half the time of other requests. A VMM that stays silent for longer than
  half of the request timeout makes it fail with a time-out that names the shorter time, whatever it
  would have answered; on the same answer, as long as it comes within the full timeout, every other
  request with a payload succeeds, and every request without one returns what it decodes from the body.
\<close>

theorem drive_request_times_out:
  assumes peer: "answering U (tr_socket_path (cl_transport c)) (Delay d # es)"
    and payload: "drive_enc S x = Inr json"
    and late: "drive_request_timeout c < d" "d + delays es \<le> request_timeout c"
    and answer: "list_all (\<lambda>ch. ascii ch \<and> ch \<noteq> CHR 0x0D \<and> ch \<noteq> CHR 0x0A) reason" "status \<in> {200..<300}" "length body < 2 ^ 63"
      "clean es" "sent es = response_text status reason body"
    and cl: "cl = client_client_ops S U c"
  shows "fst (c_put_guest_drive_by_id cl i x os) =
      Inl (Err (Io (io_new TimedOut (''read timed out after '' @ duration_debug (drive_request_timeout c))))) \<and>
    (\<forall>(enc, f) \<in> payload_requests S cl. is_ok enc \<longrightarrow> fst (f os) = Inr ()) \<and>
    fst (c_get_firecracker_version cl os) = map_err (\<lambda>e. Err (Json e)) (firecracker_version_dec S body) \<and>
    fst (c_get_machine_configuration cl os) = map_err (\<lambda>e. Err (Json e)) (machine_configuration_dec S body) \<and>
    fst (c_get_mmds cl os) = map_err (\<lambda>e. Err (Json e)) (value_dec S body) \<and>
    fst (c_describe_instance cl os) = map_err (\<lambda>e. Err (Json e)) (instance_info_dec S body) \<and>
    fst (c_get_balloon_config cl os) = map_err (\<lambda>e. Err (Json e)) (balloon_dec S body) \<and>
    fst (c_get_balloon_stats cl os) = map_err (\<lambda>e. Err (Json e)) (balloon_stats_dec S body) \<and>
    fst (c_get_export_vm_config cl os) = map_err (\<lambda>e. Err (Json e)) (full_vm_configuration_dec S body)"
proof -
  have in_time: "receive_response meth rt (Delay d # es) = Inr body" if "rt \<in> {None, Some (request_timeout c)}" for meth rt
    using response_received [OF answer(1) _ answer(3), of status "Delay d # es" rt "[]" meth]
      answer late(2) that by (auto simp: in_time_def)
  have "fst (f os) = Inr ()" if "(enc, f) \<in> payload_requests S cl" "is_ok enc" for enc and f :: "('a, exc, unit) op"
  proof -
    from payload_request_forms [of enc f] that(1) obtain meth path rt where
      f: "f = op_unit (client_raw_json_request_with_timeouts U c meth path enc rt (Some (request_timeout c)))"
      and rt: "rt \<in> {None, Some (request_timeout c)}" unfolding cl by blast
    with that(2) answering_request [OF peer] in_time [OF rt] show ?thesis
      by (auto simp: op_unit_result client_raw_defs raw_json_request_with_timeouts_def is_ok_iff)
  qed
  moreover have "fst (c_put_guest_drive_by_id cl i x os) =
      Inl (Err (Io (io_new TimedOut (''read timed out after '' @ duration_debug (drive_request_timeout c)))))"
  proof -
    obtain t r es' where "stream_read 1024 es = ((t, r), es')" by (metis prod.exhaust)
    with late(1) have "read_with_timeout 1024 (Some (drive_request_timeout c)) (Delay d # es) =
        (Inl (io_new TimedOut (''read timed out after '' @ duration_debug (drive_request_timeout c))), es')"
      by (simp add: read_with_timeout_def run_with_timeout_def)
    then have "receive_response ''PUT'' (Some (drive_request_timeout c)) (Delay d # es) =
        Inl (Err (Io (io_new TimedOut (''read timed out after '' @ duration_debug (drive_request_timeout c)))))"
      by (simp add: receive_response_def header_loop.simps)
    with payload answering_request [OF peer] show ?thesis
      by (simp add: cl client_client_ops_def client_put_guest_drive_by_id_def op_unit_result client_raw_defs
          raw_json_request_with_timeouts_def)
  qed
  moreover have get: "receive_response ''GET'' (Some (request_timeout c)) (Delay d # es) = Inr body" by (rule in_time) simp
  note get_ops = get_json_answered [OF peer get] cl client_client_ops_def client_get_firecracker_version_def
    client_get_machine_configuration_def client_get_mmds_def client_describe_instance_def client_get_balloon_config_def
    client_get_balloon_stats_def client_get_export_vm_config_def
  ultimately show ?thesis by (intro conjI) (blast | simp add: get_ops)+
qed

text \<open>
  C13: the request timeout from the environment is used modulo \<open>2 ^ 64\<close> milliseconds. A positive value
  is the timeout in milliseconds; a negative one passes the check for zero and becomes a timeout of more
  than five hundred million years.
\<close>

theorem request_timeout_from_environment:
  assumes "env_var E FIRECRACKER_REQUEST_TIMEOUT_ENV os = Some v" "parse_int 32 v = Some i" "i \<noteq> 0"
  shows "request_timeout (client_new E path os) = (if 0 < i then nat i else 2 ^ 64 - nat (- i)) * 10 ^ 6"
proof -
  have range: "- (2 ^ 31) \<le> i" "i < 2 ^ 31" using parse_int_bounds [OF assms(2)] by simp_all
  have "unat (word_of_int i :: 64 word) = nat (i mod 2 ^ 64)"
    by (simp add: unat_eq_nat_uint uint_word_of_int)
  also have "i mod 2 ^ 64 = (if 0 \<le> i then i else i + 2 ^ 64)"
    using range mod_add_self2 [of i "2 ^ 64"] mod_pos_pos_trivial [of "i + 2 ^ 64" "2 ^ 64"] by auto
  finally have "unat (word_of_int i :: 64 word) = (if 0 < i then nat i else 2 ^ 64 - nat (- i))"
    using assms(3) range by (auto simp: nat_diff_distrib)
  then show ?thesis
    using assms by (simp add: client_new_def request_timeout_def transport_request_timeout_def new_unix_socket_transport_def transport_new_def env_value_or_default_int_def Let_def)
qed

end
