(* ===== verification/Client_Wire.thy ===== *)
theory Client_Wire
  imports Api_Trace Sdk_Client
begin

text \<open>
  The machine of \<open>src/machine.rs\<close> over the HTTP client of \<open>src/client/firecracker_client.rs\<close>: the bytes that a
  start writes to the API socket.
\<close>

section \<open>The client as the machine sees it\<close>

text \<open>
  The machine's client returns SDK errors. A panic of the HTTP client does not return; here it becomes some
  error \<open>e0\<close>, so what is shown of every start holds of those that do not panic.
\<close>

fun exc_error :: "error \<Rightarrow> exc \<Rightarrow> error" where
  "exc_error e0 (Err e) = e"
| "exc_error e0 _ = e0"

abbreviation errs :: "error \<Rightarrow> ('os, exc, 'a) op \<Rightarrow> ('os, error, 'a) op" where
  "errs e0 \<equiv> op_map_err (exc_error e0)"

definition http_client_ops :: "error \<Rightarrow> ('j, 'os, exc) client_ops \<Rightarrow> ('j, 'os, error) client_ops" where
  "http_client_ops e0 ops =
    \<lparr>c_get_firecracker_version = errs e0 (c_get_firecracker_version ops),
     c_put_logger = (\<lambda>x. errs e0 (c_put_logger ops x)),
     c_put_metrics = (\<lambda>x. errs e0 (c_put_metrics ops x)),
     c_put_machine_configuration = (\<lambda>x. errs e0 (c_put_machine_configuration ops x)),
     c_patch_machine_configuration = (\<lambda>x. errs e0 (c_patch_machine_configuration ops x)),
     c_get_machine_configuration = errs e0 (c_get_machine_configuration ops),
     c_put_guest_boot_source = (\<lambda>x. errs e0 (c_put_guest_boot_source ops x)),
     c_put_cpu_configuration = (\<lambda>x. errs e0 (c_put_cpu_configuration ops x)),
     c_put_entropy_device = (\<lambda>x. errs e0 (c_put_entropy_device ops x)),
     c_put_guest_drive_by_id = (\<lambda>i x. errs e0 (c_put_guest_drive_by_id ops i x)),
     c_patch_guest_drive_by_id = (\<lambda>i x. errs e0 (c_patch_guest_drive_by_id ops i x)),
     c_put_guest_network_interface_by_id = (\<lambda>i x. errs e0 (c_put_guest_network_interface_by_id ops i x)),
     c_patch_guest_network_interface_by_id = (\<lambda>i x. errs e0 (c_patch_guest_network_interface_by_id ops i x)),
     c_put_guest_vsock = (\<lambda>x. errs e0 (c_put_guest_vsock ops x)),
     c_patch_vm = (\<lambda>x. errs e0 (c_patch_vm ops x)),
     c_create_snapshot = (\<lambda>x. errs e0 (c_create_snapshot ops x)),
     c_load_snapshot = (\<lambda>x. errs e0 (c_load_snapshot ops x)),
     c_create_sync_action = (\<lambda>x. errs e0 (c_create_sync_action ops x)),
     c_put_mmds = (\<lambda>x. errs e0 (c_put_mmds ops x)),
     c_get_mmds = errs e0 (c_get_mmds ops),
     c_patch_mmds = (\<lambda>x. errs e0 (c_patch_mmds ops x)),
     c_put_mmds_config = (\<lambda>x. errs e0 (c_put_mmds_config ops x)),
     c_describe_instance = errs e0 (c_describe_instance ops),
     c_put_balloon = (\<lambda>x. errs e0 (c_put_balloon ops x)),
     c_get_balloon_config = errs e0 (c_get_balloon_config ops),
     c_patch_balloon = (\<lambda>x. errs e0 (c_patch_balloon ops x)),
     c_get_balloon_stats = errs e0 (c_get_balloon_stats ops),
     c_patch_balloon_stats_interval = (\<lambda>x. errs e0 (c_patch_balloon_stats_interval ops x)),
     c_get_export_vm_config = errs e0 (c_get_export_vm_config ops)\<rparr>"

section \<open>Connections\<close>

text \<open>
  What was written on each connection to the API socket, in the order they were made, and the connection
  made last. Connecting starts an empty one; writing appends to it, all the bytes when it succeeds and the
  first few otherwise; reading does not change what was written.
\<close>

definition recording :: "'os uds_api \<Rightarrow> ('os \<Rightarrow> string list) \<Rightarrow> ('os \<Rightarrow> conn option) \<Rightarrow> bool" where
  "recording U wire cur \<longleftrightarrow>
     (\<forall>path os r os'. uds_connect U path os = (r, os') \<longrightarrow>
        (case r of Inl _ \<Rightarrow> wire os' = wire os | Inr s \<Rightarrow> wire os' = wire os @ [[]] \<and> cur os' = Some s)) \<and>
     (\<forall>s bs os t r os'. cur os = Some s \<longrightarrow> uds_write_all U s bs os = ((t, r), os') \<longrightarrow>
        cur os' = Some s \<and>
        (\<exists>k. prefix k bs \<and> wire os' = butlast (wire os) @ [last (wire os) @ k] \<and> (is_ok r \<longrightarrow> k = bs))) \<and>
     (\<forall>s os. cur os = Some s \<longrightarrow> wire (snd (uds_replies U s os)) = wire os)"

lemma recordingD:
  assumes "recording U wire cur"
  shows "uds_connect U path os = (Inl e, os') \<Longrightarrow> wire os' = wire os"
    and "uds_connect U path os = (Inr s, os') \<Longrightarrow> wire os' = wire os @ [[]] \<and> cur os' = Some s"
    and "cur os = Some s \<Longrightarrow> uds_replies U s os = (es, os') \<Longrightarrow> wire os' = wire os"
proof -
  note law = assms [unfolded recording_def]
  show "uds_connect U path os = (Inl e, os') \<Longrightarrow> wire os' = wire os"
    "uds_connect U path os = (Inr s, os') \<Longrightarrow> wire os' = wire os @ [[]] \<and> cur os' = Some s"
    using law [THEN conjunct1, rule_format, of path os _ os'] by fastforce+
  show "cur os = Some s \<Longrightarrow> uds_replies U s os = (es, os') \<Longrightarrow> wire os' = wire os"
    using law [THEN conjunct2, THEN conjunct2, rule_format, of os s] by simp
qed

lemma recording_write:
  assumes "recording U wire cur" "cur os = Some s" "write_all_with_timeout U s bs wt os = (r, os')" "wire os = W @ [x]"
  shows "cur os' = Some s \<and> (\<exists>k. prefix k bs \<and> wire os' = W @ [x @ k] \<and> (is_ok r \<longrightarrow> k = bs))"
proof -
  obtain t r0 os0 where wr: "uds_write_all U s bs os = ((t, r0), os0)" by (metis prod.exhaust)
  with assms(3) have "os' = os0" and r: "r = run_with_timeout wt ''write'' (t, r0)"
    by (auto simp: write_all_with_timeout_def)
  have "is_ok r \<Longrightarrow> is_ok r0"
    unfolding r by (auto simp: run_with_timeout_def split: option.splits if_splits)
  moreover from assms(1,2) wr have "cur os0 = Some s \<and>
      (\<exists>k. prefix k bs \<and> wire os0 = butlast (wire os) @ [last (wire os) @ k] \<and> (is_ok r0 \<longrightarrow> k = bs))"
    unfolding recording_def by blast
  ultimately show ?thesis using assms(4) \<open>os' = os0\<close> by auto
qed

text \<open>A request opens one connection at most, and writes its text and its body to it.\<close>

lemma request_on_wire:
  assumes rec: "recording U wire cur" and run: "raw_request_with_timeouts U path method target body rt wt os = (r, os')"
  shows "wire os' = wire os \<and> \<not> is_ok r \<or>
    (\<exists>k. prefix k (request_text method target (unwrap_or [] body) @ unwrap_or [] body) \<and> wire os' = wire os @ [k] \<and>
      (is_ok r \<longrightarrow> k = request_text method target (unwrap_or [] body) @ unwrap_or [] body))"
proof -
  let ?b = "unwrap_or [] body"
  let ?t = "request_text method target ?b"
  obtain c os1 where conn: "uds_connect U path os = (c, os1)" by fastforce
  show ?thesis
  proof (cases c)
    case (Inl e)
    with run conn recordingD(1) [OF rec] show ?thesis
      by (auto simp: raw_request_with_timeouts_def op_bind_def op_map_err_def)
  next
    case (Inr s)
    note w1 = recordingD(2) [OF rec conn [unfolded Inr]]
    obtain r2 os2 where wr: "write_all_with_timeout U s ?t wt os1 = (r2, os2)" by fastforce
    from recording_write [OF rec conjunct2 [OF w1] wr conjunct1 [OF w1]] obtain k where
      k: "cur os2 = Some s" "prefix k ?t" "wire os2 = wire os @ [k]" "is_ok r2 \<longrightarrow> k = ?t" by auto
    show ?thesis
    proof (cases r2)
      case (Inl e)
      with run conn \<open>c = Inr s\<close> wr have "os' = os2" "\<not> is_ok r"
        by (auto simp: raw_request_with_timeouts_def op_bind_def op_map_err_def Let_def)
      with k show ?thesis by (auto intro: prefix_prefix)
    next
      case r2: (Inr u)
      obtain r3 os3 where wb: "(if ?b \<noteq> [] then write_all_with_timeout U s ?b wt else op_ok ()) os2 = (r3, os3)" by fastforce
      have "cur os3 = Some s \<and> (\<exists>k'. prefix k' ?b \<and> wire os3 = wire os @ [k @ k'] \<and> (is_ok r3 \<longrightarrow> k' = ?b))"
        using recording_write [OF rec k(1) _ k(3), of ?b wt r3 os3] wb k by (auto simp: op_simps split: if_splits)
      then obtain k' where k': "cur os3 = Some s" "prefix k' ?b" "wire os3 = wire os @ [?t @ k']" "is_ok r3 \<longrightarrow> k' = ?b"
        using k(4) r2 by auto
      obtain es os4 where rp: "uds_replies U s os3 = (es, os4)" by fastforce
      have w4: "wire os4 = wire os3" by (rule recordingD(3) [OF rec k'(1) rp])
      have "wire os' = wire os3" "is_ok r \<Longrightarrow> is_ok r3"
        using run conn \<open>c = Inr s\<close> wr r2 wb rp w4
        by (cases r3; auto simp: raw_request_with_timeouts_def op_bind_def op_map_err_def Let_def split: if_splits)+
      with k' show ?thesis by auto
    qed
  qed
qed

section \<open>Requests as bytes\<close>

text \<open>Method, path and payload of the requests of a start, and their text.\<close>

fun request_parts :: "'j serde \<Rightarrow> 'j api_request \<Rightarrow> string \<times> string \<times> (string + string)" where
  "request_parts S (PutLogger x) = (''PUT'', ''/logger'', logger_enc S x)"
| "request_parts S (PutMetrics x) = (''PUT'', ''/metrics'', metrics_enc S x)"
| "request_parts S (PutMachineConfig x) = (''PUT'', ''/machine-config'', machine_configuration_enc S x)"
| "request_parts S (PutBootSource x) = (''PUT'', ''/boot-source'', boot_source_enc S x)"
| "request_parts S (PutDrive i x) = (''PUT'', ''/drives/'' @ i, drive_enc S x)"
| "request_parts S (PutInterface i x) = (''PUT'', ''/network-interfaces/'' @ i, network_interface_enc S x)"
| "request_parts S (PutVsock x) = (''PUT'', ''/vsock'', vsock_enc S x)"
| "request_parts S (PutMmds x) = (''PUT'', ''/mmds'', value_enc S x)"
| "request_parts S (PutMmdsConfig x) = (''PUT'', ''/mmds/config'', mmds_config_enc S x)"
| "request_parts S (PutSnapshotLoad x) = (''PUT'', ''/snapshot/load'', snapshot_load_params_enc S x)"
| "request_parts S (PutAction x) = (''PUT'', ''/actions'', instance_action_info_enc S x)"

definition http_text :: "string \<times> string \<times> (string + string) \<Rightarrow> string" where
  "http_text = (\<lambda>(method, path, payload). case payload of Inl _ \<Rightarrow> [] | Inr json \<Rightarrow> request_text method path json @ json)"

text \<open>
  The bytes of all connections but those of the requests that only read: their text begins with \<open>GET\<close>, or
  it was cut off before that could be told.
\<close>

definition only_reads :: "string \<Rightarrow> bool" where
  "only_reads text \<longleftrightarrow> prefix text ''GET '' \<or> prefix ''GET '' text"

definition api_bytes :: "('os \<Rightarrow> string list) \<Rightarrow> 'os \<Rightarrow> string" where
  "api_bytes wire os = concat (filter (\<lambda>text. \<not> only_reads text) (wire os))"

lemma request_text_method: "\<exists>rest. request_text method path body = method @ CHR 0x20 # rest"
  by (simp add: request_text_def)

lemma prefix_put:
  assumes "prefix k (request_text ''PUT'' path body @ rest)"
  shows "only_reads k \<Longrightarrow> k = []"
proof -
  obtain t where "request_text ''PUT'' path body = ''PUT'' @ CHR 0x20 # t" using request_text_method by blast
  with assms show "only_reads k \<Longrightarrow> k = []" by (cases k) (auto simp: only_reads_def)
qed

lemma prefix_get:
  assumes "prefix k (request_text ''GET'' path body @ rest)"
  shows "only_reads k"
proof -
  obtain t where "request_text ''GET'' path body = ''GET'' @ CHR 0x20 # t" using request_text_method by blast
  then have "prefix ''GET '' (request_text ''GET'' path body @ rest)" by simp
  with assms show ?thesis unfolding only_reads_def by (rule prefix_same_cases)
qed

lemma put_writes:
  assumes "recording U wire cur"
  shows "writes (api_bytes wire) (http_text (''PUT'', target, payload))
    (errs e0 (op_unit (raw_json_request_with_timeouts U t ''PUT'' target payload rt wt)))"
  unfolding writes_def
proof
  fix os
  let ?f = "raw_json_request_with_timeouts U t ''PUT'' target payload rt wt"
  obtain r os' where run: "?f os = (r, os')" by fastforce
  have res: "snd (errs e0 (op_unit ?f) os) = os'" "is_ok (fst (errs e0 (op_unit ?f) os)) \<longleftrightarrow> is_ok r"
    using run by (cases r; simp add: op_map_err_def op_unit_def op_bind_def op_simps)+
  show "\<exists>k. prefix k (http_text (''PUT'', target, payload)) \<and>
      api_bytes wire (snd (errs e0 (op_unit ?f) os)) = api_bytes wire os @ k \<and>
      (is_ok (fst (errs e0 (op_unit ?f) os)) \<longrightarrow> k = http_text (''PUT'', target, payload))"
  proof (cases payload)
    case (Inl e)
    with run have "r = Inl (Err (Json e))" "os' = os" by (auto simp: raw_json_request_with_timeouts_def op_simps)
    with res show ?thesis by simp
  next
    case (Inr json)
    with run have "raw_request_with_timeouts U (tr_socket_path t) ''PUT'' target (Some json) rt wt os = (r, os')"
      by (simp add: raw_json_request_with_timeouts_def)
    from request_on_wire [OF assms this] show ?thesis
    proof (elim disjE exE conjE)
      assume "wire os' = wire os" "\<not> is_ok r"
      with res show ?thesis by (auto simp: api_bytes_def)
    next
      fix k
      assume k: "prefix k (request_text ''PUT'' target (unwrap_or [] (Some json)) @ unwrap_or [] (Some json))" "wire os' = wire os @ [k]"
        "is_ok r \<longrightarrow> k = request_text ''PUT'' target (unwrap_or [] (Some json)) @ unwrap_or [] (Some json)"
      then have "api_bytes wire os' = api_bytes wire os @ k"
        using prefix_put [of k target json json] by (auto simp: api_bytes_def)
      with k res Inr show ?thesis by (auto simp: http_text_def)
    qed
  qed
qed

lemma get_leaves:
  assumes "recording U wire cur"
  shows "leaves (api_bytes wire) (errs e0 (get_json U c target decode))"
  unfolding leaves_def
proof
  fix os
  obtain r os' where run: "raw_request_with_timeouts U (tr_socket_path (cl_transport c)) ''GET'' target None
      (Some (tr_request_timeout (cl_transport c))) (Some (tr_request_timeout (cl_transport c))) os = (r, os')" by fastforce
  have "api_bytes wire os' = api_bytes wire os"
    using request_on_wire [OF assms run] prefix_get [of _ target "[]" "[]"] by (auto simp: api_bytes_def)
  with run show "api_bytes wire (snd (errs e0 (get_json U c target decode) os)) = api_bytes wire os"
    by (cases r) (simp_all add: get_json_def client_raw_defs raw_request_def op_bind_def op_map_err_def)
qed

lemmas client_endpoint_defs =
  client_put_logger_def client_put_metrics_def client_put_machine_configuration_def
  client_put_guest_boot_source_def client_put_guest_drive_by_id_def client_put_guest_network_interface_by_id_def
  client_put_guest_vsock_def client_put_mmds_def client_put_mmds_config_def
  client_load_snapshot_def client_create_sync_action_def client_get_machine_configuration_def

lemma http_client_logs:
  assumes "recording U wire cur"
  shows "logging_client (\<lambda>x. http_text (request_parts S x)) (api_bytes wire) (http_client_ops e0 (client_client_ops S U c))"
  by (simp add: logging_client_def http_client_ops_def client_client_ops_def client_raw_defs raw_json_request_def client_endpoint_defs
      put_writes [OF assms] get_leaves [OF assms])

text \<open>
  C2: the bytes of a start. A machine made with the HTTP client, from a configuration without a jailer and
  without a snapshot, writes to the API socket when it starts, apart from requests that only read, the HTTP
  requests of its boot sequence, byte by byte and in order: each with its method, its path, its content
  length and the JSON of its payload. When the start fails it has written the first of these bytes.
\<close>

theorem boot_on_the_wire:
  assumes new: "new_with_client (me_os V) real_cni c (http_client_ops e0 (client_client_ops S U hc)) os = (Inr m, os')"
    and plain: "jailer_cfg c = None" "\<not> has_snapshot c"
    and rec: "recording U wire cur"
    and env: "quiet_env (api_bytes wire) (me_os V)" "quiet_cni (api_bytes wire) real_cni"
    and run: "start V (m, w) = (r, (m', w'))"
  defines "text \<equiv> concat (map (\<lambda>x. http_text (request_parts S x)) (boot_requests (settled_cfg c (cfg m'))))"
  shows "\<exists>k. prefix k text \<and> api_bytes wire (sos w') = api_bytes wire (sos w) @ k \<and> (is_ok r \<longrightarrow> k = text)"
  unfolding text_def by (rule boot_bytes [OF new plain env(1) http_client_logs [OF rec] env(2) run])

text \<open>The same of a start from a snapshot.\<close>

lemma restore_on_the_wire:
  assumes new: "new_with_client (me_os V) real_cni c (http_client_ops e0 (client_client_ops S U hc)) os = (Inr m, os')"
    and snap: "jailer_cfg c = None" "has_snapshot c"
    and rec: "recording U wire cur"
    and env: "quiet_env (api_bytes wire) (me_os V)" "quiet_cni (api_bytes wire) real_cni"
    and run: "start V (m, w) = (r, (m', w'))"
  defines "text \<equiv> concat (map (\<lambda>x. http_text (request_parts S x)) (restore_requests c))"
  shows "\<exists>k. prefix k text \<and> api_bytes wire (sos w') = api_bytes wire (sos w) @ k \<and> (is_ok r \<longrightarrow> k = text)"
  unfolding text_def by (rule restore_bytes [OF new snap env(1) http_client_logs [OF rec] env(2) run])

end
