(* ===== verification/Vsock.thy ===== *)
theory Vsock
  imports Http_Transport Polling
begin

text \<open>
  \<open>src/vsock/dial.rs\<close> and \<open>src/vsock/listener.rs\<close>: dialling a guest port through the VMM's Unix socket,
  and listening on a vsock port. Durations and the clock are in nanoseconds. As in the HTTP transport,
  what the peer sends is a finite sequence of events. A stream handed out to the caller is its
  connection and the events not read yet. The functions return an \<open>io::Result\<close>; where a retry loop or
  the arithmetic on instants may not return, an error \<open>e\<close> is \<open>Err (Io e)\<close>.
\<close>

section \<open>The operating system\<close>

type_synonym vfd = int

record sock_addr_vm =
  svm_family :: "16 word"
  svm_reserved1 :: "16 word"
  svm_port :: "32 word"
  svm_cid :: "32 word"
  svm_flags :: "8 word"
  svm_zero :: "8 word list"

record 'os vsock_api =
  vk_now :: "'os \<Rightarrow> nat \<times> 'os"
  vk_sleep :: "nat \<Rightarrow> 'os \<Rightarrow> 'os"
  vk_connect :: "string \<Rightarrow> ('os, io_error, conn) op"
  vk_set_timeout :: "conn \<Rightarrow> bool \<Rightarrow> nat option \<Rightarrow> ('os, io_error, unit) op"
  vk_write :: "conn \<Rightarrow> string \<Rightarrow> ('os, io_error, nat) op"
  vk_replies :: "conn \<Rightarrow> 'os \<Rightarrow> read_event list \<times> 'os"
  vk_drop :: "conn \<Rightarrow> 'os \<Rightarrow> 'os"
  libc_socket :: "int \<Rightarrow> int \<Rightarrow> int \<Rightarrow> 'os \<Rightarrow> int \<times> 'os"
  libc_bind :: "vfd \<Rightarrow> sock_addr_vm \<Rightarrow> nat \<Rightarrow> 'os \<Rightarrow> int \<times> 'os"
  libc_listen :: "vfd \<Rightarrow> int \<Rightarrow> 'os \<Rightarrow> int \<times> 'os"
  libc_accept :: "vfd \<Rightarrow> 'os \<Rightarrow> int \<times> 'os"
  libc_close :: "vfd \<Rightarrow> 'os \<Rightarrow> 'os"
  libc_fd_read :: "vfd \<Rightarrow> nat \<Rightarrow> 'os \<Rightarrow> (int \<times> string) \<times> 'os"
  libc_fd_write :: "vfd \<Rightarrow> string \<Rightarrow> 'os \<Rightarrow> int \<times> 'os"
  vk_last_error :: "'os \<Rightarrow> io_error"

section \<open>Configuration\<close>

record dial_config =
  dial_timeout :: nat
  retry_timeout :: nat
  retry_interval :: nat
  connect_msg_timeout :: nat
  ack_msg_timeout :: nat

definition dial_config_default :: dial_config where
  "dial_config_default = \<lparr>dial_timeout = 100 * 10 ^ 6, retry_timeout = 20 * 10 ^ 9, retry_interval = 100 * 10 ^ 6,
     connect_msg_timeout = 100 * 10 ^ 6, ack_msg_timeout = 10 ^ 9\<rparr>"

datatype dial_option =
    DialTimeout nat
  | RetryTimeout nat
  | RetryInterval nat
  | ConnectionMsgTimeout nat
  | AckMsgTimeout nat

fun dial_option_apply :: "dial_option \<Rightarrow> dial_config \<Rightarrow> dial_config" where
  "dial_option_apply (DialTimeout v) c = c\<lparr>dial_timeout := v\<rparr>"
| "dial_option_apply (RetryTimeout v) c = c\<lparr>retry_timeout := v\<rparr>"
| "dial_option_apply (RetryInterval v) c = c\<lparr>retry_interval := v\<rparr>"
| "dial_option_apply (ConnectionMsgTimeout v) c = c\<lparr>connect_msg_timeout := v\<rparr>"
| "dial_option_apply (AckMsgTimeout v) c = c\<lparr>ack_msg_timeout := v\<rparr>"

definition with_dial_timeout :: "nat \<Rightarrow> dial_option" where
  "with_dial_timeout timeout = DialTimeout timeout"
definition with_retry_timeout :: "nat \<Rightarrow> dial_option" where
  "with_retry_timeout timeout = RetryTimeout timeout"
definition with_retry_interval :: "nat \<Rightarrow> dial_option" where
  "with_retry_interval interval = RetryInterval interval"
definition with_connection_msg_timeout :: "nat \<Rightarrow> dial_option" where
  "with_connection_msg_timeout timeout = ConnectionMsgTimeout timeout"
definition with_ack_msg_timeout :: "nat \<Rightarrow> dial_option" where
  "with_ack_msg_timeout timeout = AckMsgTimeout timeout"

section \<open>Errors\<close>

text \<open>\<open>io::Error::other\<close> of the two error types, with their \<open>Display\<close>.\<close>

definition connect_message_error :: "io_error \<Rightarrow> io_error" where
  "connect_message_error cause = \<lparr>io_kind = OtherKind, io_os_code = None,
     io_text = ''vsock connect message failure: '' @ io_text cause, io_inner = ConnectMessageErrorInner\<rparr>"

definition ack_error :: "io_error \<Rightarrow> io_error" where
  "ack_error cause = \<lparr>io_kind = OtherKind, io_os_code = None,
     io_text = ''vsock ack message failure: '' @ io_text cause, io_inner = AckErrorInner\<rparr>"

definition is_temporary_net_error :: "io_error \<Rightarrow> bool" where
  "is_temporary_net_error e \<longleftrightarrow>
     io_kind e \<in> {TimedOut, WouldBlock, Interrupted, ConnectionAborted, ConnectionRefused, ConnectionReset,
       NotFound, AddrNotAvailable} \<or> io_inner e = AckErrorInner"

section \<open>Reads and writes with a timeout\<close>

text \<open>
  \<open>set_read_timeout\<close> and \<open>set_write_timeout\<close> (\<open>read\<close> tells which) refuse a duration of zero. The timeout in
  effect is in whole microseconds, and at least one.
\<close>

definition zero_timeout_error :: io_error where
  "zero_timeout_error = \<lparr>io_kind = InvalidInput, io_os_code = None, io_text = ''cannot set a 0 duration timeout'',
     io_inner = NoInner\<rparr>"

definition set_timeout :: "'os vsock_api \<Rightarrow> conn \<Rightarrow> bool \<Rightarrow> nat option \<Rightarrow> ('os, io_error, unit) op" where
  "set_timeout V c read timeout =
     (if timeout = Some 0 then op_err zero_timeout_error else vk_set_timeout V c read timeout)"

definition timeval_ns :: "nat \<Rightarrow> nat" where
  "timeval_ns d = (if d < 1000 then 1000 else d div 1000 * 1000)"

definition would_block :: io_error where
  "would_block = \<lparr>io_kind = WouldBlock, io_os_code = Some 11,
     io_text = ''Resource temporarily unavailable (os error 11)'', io_inner = NoInner\<rparr>"

text \<open>\<open>read\<close> into a buffer of one byte on a socket with a read timeout.\<close>

definition read_byte :: "nat \<Rightarrow> read_event list \<Rightarrow> (io_error + string) \<times> read_event list" where
  "read_byte timeout es =
     (case stream_read 1 es of ((t, r), es') \<Rightarrow> (if t > timeout then Inl would_block else r, es'))"

text \<open>\<open>String::from_utf8\<close> with the text of its error.\<close>

fun utf8_valid_up_to :: "nat \<Rightarrow> string \<Rightarrow> nat" where
  "utf8_valid_up_to 0 s = 0"
| "utf8_valid_up_to (Suc n) s =
     (if s = [] \<or> \<not> fst (utf8_step s) then 0
      else snd (utf8_step s) + utf8_valid_up_to n (drop (snd (utf8_step s)) s))"

definition utf8_error_text :: "string \<Rightarrow> string" where
  "utf8_error_text s =
     (let i = utf8_valid_up_to (length s) s; rest = drop i s; n = snd (utf8_step rest) in
      if n = length rest \<and> 0xC2 \<le> bv (hd rest) \<and> bv (hd rest) \<le> 0xF4
      then ''incomplete utf-8 byte sequence from index '' @ nat_str i
      else ''invalid utf-8 sequence of '' @ nat_str n @ '' bytes from index '' @ nat_str i)"

definition from_utf8 :: "string \<Rightarrow> io_error + string" where
  "from_utf8 s = (if utf8_valid s then Inr s else Inl (io_new InvalidData (utf8_error_text s)))"

lemma read_byte_weight: "read_byte timeout es = (Inr chunk, es') \<Longrightarrow> chunk \<noteq> [] \<Longrightarrow> weight es' < weight es"
  by (auto simp: read_byte_def split: prod.splits if_splits intro: stream_read_weight)

function ack_loop :: "nat \<Rightarrow> char \<Rightarrow> string \<Rightarrow> read_event list \<Rightarrow> (io_error + string) \<times> read_event list" where
  "ack_loop timeout stop buf es =
     (case read_byte timeout es of
        (Inl e, es') \<Rightarrow> (Inl e, es')
      | (Inr byte, es') \<Rightarrow>
          if byte = [] then (Inl (io_new UnexpectedEof ''unexpected EOF while waiting for vsock ack''), es')
          else if hd byte = stop then (from_utf8 (buf @ byte), es')
          else ack_loop timeout stop (buf @ byte) es')"
  by pat_completeness auto
termination by (relation "measure (\<lambda>(_, _, _, es). weight es)") (auto dest!: sym [THEN read_byte_weight])

declare ack_loop.simps [simp del]

definition try_conn_read_until ::
  "'os vsock_api \<Rightarrow> conn \<Rightarrow> char \<Rightarrow> nat \<Rightarrow> ('os, io_error, string \<times> read_event list) op" where
  "try_conn_read_until V c stop timeout =
     op_then (set_timeout V c True (Some timeout)) (\<lambda>os.
       case vk_replies V c os of
         (es, os1) \<Rightarrow>
           (case ack_loop (timeval_ns timeout) stop [] es of
              (r, es') \<Rightarrow> (rbind r (\<lambda>line. Inr (line, es')), snd (set_timeout V c True None os1))))"

definition try_conn_write :: "'os vsock_api \<Rightarrow> conn \<Rightarrow> string \<Rightarrow> nat \<Rightarrow> ('os, io_error, unit) op" where
  "try_conn_write V c expected timeout =
     op_then (set_timeout V c False (Some timeout)) (\<lambda>os.
       case vk_write V c expected os of
         (r, os1) \<Rightarrow>
           (rbind r (\<lambda>n. if n \<noteq> length expected
                then Inl (io_new WriteZero (''incomplete write, expected '' @ nat_str (length expected) @
                   '' bytes but wrote '' @ nat_str n))
                else Inr ()),
            snd (set_timeout V c False None os1)))"

section \<open>Dialling\<close>

definition connect_message :: "32 word \<Rightarrow> string" where
  "connect_message port = ''CONNECT '' @ nat_str (unat port) @ [CHR 0x0A]"

definition quoted_ok :: string where
  "quoted_ok = [CHR 0x22] @ ''OK <port>'' @ [CHR 0x22]"

text \<open>The stream is dropped, and so closed, on every error after the connection is made.\<close>

definition try_connect ::
  "'os vsock_api \<Rightarrow> string \<Rightarrow> 32 word \<Rightarrow> dial_config \<Rightarrow> ('os, io_error, conn \<times> read_event list) op" where
  "try_connect V path port config =
     op_bind (vk_connect V path) (\<lambda>stream os.
       let message = connect_message port in
       case try_conn_write V stream message (connect_msg_timeout config) os of
         (Inl e, os1) \<Rightarrow>
           (Inl (connect_message_error (io_new (io_kind e)
              (''failed to write '' @ debug_str message @ '' within '' @
               duration_debug (connect_msg_timeout config) @ '': '' @ io_text e))), vk_drop V stream os1)
       | (Inr _, os1) \<Rightarrow>
           (case try_conn_read_until V stream (CHR 0x0A) (ack_msg_timeout config) os1 of
              (Inl e, os2) \<Rightarrow>
                (Inl (ack_error (io_new (io_kind e)
                   (''failed to read '' @ quoted_ok @ '' within '' @
                    duration_debug (ack_msg_timeout config) @ '': '' @ io_text e))), vk_drop V stream os2)
            | (Inr (line, rest), os2) \<Rightarrow>
                if \<not> starts_with ''OK '' line
                then (Inl (ack_error (io_new InvalidData
                        (''expected to read '' @ quoted_ok @ '', but instead read '' @ debug_str line))), vk_drop V stream os2)
                else (Inr (stream, rest), os2)))"

text \<open>\<open>Instant + Duration\<close> in nanoseconds: the seconds of an \<open>Instant\<close> are an \<open>i64\<close>, overflow panics.\<close>

definition instant_add_ns :: "nat \<Rightarrow> nat \<Rightarrow> nat option" where
  "instant_add_ns now_ns d = (if (now_ns + d) div 10 ^ 9 < 2 ^ 63 then Some (now_ns + d) else None)"

text \<open>The loop around an attempt, which \<open>dial_with_config\<close> and \<open>accept_with_retry\<close> both have.\<close>

definition with_retry ::
  "'os vsock_api \<Rightarrow> nat \<Rightarrow> dial_config \<Rightarrow> ('os, io_error, 'a) op \<Rightarrow> ('os, exc, 'a) op" where
  "with_retry V fuel config attempt os =
     (case vk_now V os of
        (t, os1) \<Rightarrow>
          (case instant_add_ns t (retry_timeout config) of
             None \<Rightarrow> (Inl Panic, os1)
           | Some deadline \<Rightarrow>
               (case poll fuel (retry_round (vk_now V) (vk_sleep V (retry_interval config)) deadline
                    is_temporary_net_error attempt) os1 of
                  (None, os2) \<Rightarrow> (Inl OutOfFuel, os2)
                | (Some r, os2) \<Rightarrow> (map_err (\<lambda>e. Err (Io e)) r, os2))))"

definition dial_with_config ::
  "'os vsock_api \<Rightarrow> nat \<Rightarrow> string \<Rightarrow> 32 word \<Rightarrow> dial_config \<Rightarrow> ('os, exc, conn \<times> read_event list) op" where
  "dial_with_config V fuel path port config = with_retry V fuel config (try_connect V path port config)"

definition dial_with_options ::
  "'os vsock_api \<Rightarrow> nat \<Rightarrow> string \<Rightarrow> 32 word \<Rightarrow> dial_option list \<Rightarrow> ('os, exc, conn \<times> read_event list) op" where
  "dial_with_options V fuel path port options =
     dial_with_config V fuel path port (fold dial_option_apply options dial_config_default)"

definition dial :: "'os vsock_api \<Rightarrow> nat \<Rightarrow> string \<Rightarrow> 32 word \<Rightarrow> ('os, exc, conn \<times> read_event list) op" where
  "dial V fuel path port = dial_with_config V fuel path port dial_config_default"

section \<open>Listening\<close>

definition AF_VSOCK :: int where "AF_VSOCK = 40"
definition SOCK_STREAM :: int where "SOCK_STREAM = 1"
definition VMADDR_CID_ANY :: "32 word" where "VMADDR_CID_ANY = - 1"
definition DEFAULT_BACKLOG :: int where "DEFAULT_BACKLOG = 128"

definition sock_addr_vm_new :: "32 word \<Rightarrow> 32 word \<Rightarrow> sock_addr_vm" where
  "sock_addr_vm_new port cid = \<lparr>svm_family = word_of_int AF_VSOCK, svm_reserved1 = 0, svm_port = port, svm_cid = cid,
     svm_flags = 0, svm_zero = [0, 0, 0]\<rparr>"

definition sock_addr_vm_size :: nat where
  "sock_addr_vm_size = 16"

record vsock_listener =
  vl_fd :: vfd
  vl_port :: "32 word"
  vl_config :: dial_config

definition cvt :: "'os vsock_api \<Rightarrow> ('os \<Rightarrow> int \<times> 'os) \<Rightarrow> ('os, io_error, unit) op" where
  "cvt V call os = (case call os of (r, os') \<Rightarrow> (if r = - 1 then Inl (vk_last_error V os') else Inr (), os'))"

definition cvt_raw :: "'os vsock_api \<Rightarrow> ('os \<Rightarrow> int \<times> 'os) \<Rightarrow> ('os, io_error, int) op" where
  "cvt_raw V call os = (case call os of (r, os') \<Rightarrow> (if r = - 1 then Inl (vk_last_error V os') else Inr r, os'))"

text \<open>The \<open>OwnedFd\<close> of the socket closes it when an early return drops it.\<close>

definition listen_with_config :: "'os vsock_api \<Rightarrow> 32 word \<Rightarrow> dial_config \<Rightarrow> ('os, io_error, vsock_listener) op" where
  "listen_with_config V port config =
     op_bind (cvt_raw V (libc_socket V AF_VSOCK SOCK_STREAM 0)) (\<lambda>fd os.
       case op_then (cvt V (libc_bind V fd (sock_addr_vm_new port VMADDR_CID_ANY) sock_addr_vm_size))
              (cvt V (libc_listen V fd DEFAULT_BACKLOG)) os of
         (Inl e, os') \<Rightarrow> (Inl e, libc_close V fd os')
       | (Inr _, os') \<Rightarrow> (Inr \<lparr>vl_fd = fd, vl_port = port, vl_config = config\<rparr>, os'))"

fun listen_option :: "dial_option \<Rightarrow> dial_config \<Rightarrow> dial_config" where
  "listen_option (DialTimeout _) c = c"
| "listen_option (RetryTimeout v) c = c\<lparr>retry_timeout := v\<rparr>"
| "listen_option (RetryInterval v) c = c\<lparr>retry_interval := v\<rparr>"
| "listen_option (ConnectionMsgTimeout v) c = c\<lparr>connect_msg_timeout := v\<rparr>"
| "listen_option (AckMsgTimeout v) c = c\<lparr>ack_msg_timeout := v\<rparr>"

definition listen_with_options :: "'os vsock_api \<Rightarrow> 32 word \<Rightarrow> dial_option list \<Rightarrow> ('os, io_error, vsock_listener) op" where
  "listen_with_options V port options =
     listen_with_config V port (fold listen_option options dial_config_default)"

definition listen :: "'os vsock_api \<Rightarrow> 32 word \<Rightarrow> ('os, io_error, vsock_listener) op" where
  "listen V port = listen_with_config V port dial_config_default"

definition listener_port :: "vsock_listener \<Rightarrow> 32 word" where
  "listener_port l = vl_port l"

text \<open>\<open>as_raw_fd\<close> of a listener; a stream is its file descriptor.\<close>

definition listener_as_raw_fd :: "vsock_listener \<Rightarrow> vfd" where
  "listener_as_raw_fd l = vl_fd l"

definition accept_once :: "'os vsock_api \<Rightarrow> vsock_listener \<Rightarrow> ('os, io_error, vfd) op" where
  "accept_once V l = cvt_raw V (libc_accept V (listener_as_raw_fd l))"

definition accept_with_retry ::
  "'os vsock_api \<Rightarrow> nat \<Rightarrow> ('os, io_error, 'stream) op \<Rightarrow> dial_config \<Rightarrow> ('os, exc, 'stream) op" where
  "accept_with_retry V fuel accept config = with_retry V fuel config accept"

definition listener_accept :: "'os vsock_api \<Rightarrow> nat \<Rightarrow> vsock_listener \<Rightarrow> ('os, exc, vfd) op" where
  "listener_accept V fuel l = accept_with_retry V fuel (accept_once V l) (vl_config l)"

definition vsock_stream_read :: "'os vsock_api \<Rightarrow> vfd \<Rightarrow> nat \<Rightarrow> ('os, io_error, string) op" where
  "vsock_stream_read V fd len os =
     (case libc_fd_read V fd len os of
        ((n, bytes), os') \<Rightarrow> (if n < 0 then Inl (vk_last_error V os') else Inr bytes, os'))"

definition vsock_stream_write :: "'os vsock_api \<Rightarrow> vfd \<Rightarrow> string \<Rightarrow> ('os, io_error, nat) op" where
  "vsock_stream_write V fd buf os =
     (case libc_fd_write V fd buf os of
        (n, os') \<Rightarrow> (if n < 0 then Inl (vk_last_error V os') else Inr (nat n), os'))"

definition vsock_stream_flush :: "vfd \<Rightarrow> ('os, io_error, unit) op" where
  "vsock_stream_flush fd = op_ok ()"

section \<open>Retrying until the deadline\<close>

text \<open>
  The laws of time: the clock gives the time of the state it leaves, sleeping takes at least as long as
  asked, and nothing runs backwards.
\<close>

definition vsock_time_ok :: "'os vsock_api \<Rightarrow> ('os \<Rightarrow> nat) \<Rightarrow> bool" where
  "vsock_time_ok V time \<longleftrightarrow>
     (\<forall>os. fst (vk_now V os) = time (snd (vk_now V os)) \<and> time os \<le> time (snd (vk_now V os))) \<and>
     (\<forall>n os. time os + n \<le> time (vk_sleep V n os)) \<and>
     (\<forall>p os. time os \<le> time (snd (vk_connect V p os))) \<and>
     (\<forall>c b d os. time os \<le> time (snd (vk_set_timeout V c b d os))) \<and>
     (\<forall>c bs os. time os \<le> time (snd (vk_write V c bs os))) \<and>
     (\<forall>c os. time os \<le> time (snd (vk_replies V c os))) \<and>
     (\<forall>c os. time os \<le> time (vk_drop V c os)) \<and>
     (\<forall>fd os. time os \<le> time (snd (libc_accept V fd os)))"

lemma vsock_time_okD:
  assumes "vsock_time_ok V time"
  shows "fst (vk_now V os) = time (snd (vk_now V os))" "time os \<le> time (snd (vk_now V os))"
    and "time os + n \<le> time (vk_sleep V n os)"
    and "time os \<le> time (snd (vk_connect V p os))"
    and "time os \<le> time (snd (vk_set_timeout V c b d os))"
    and "time os \<le> time (snd (vk_write V c bs os))"
    and "time os \<le> time (snd (vk_replies V c os))"
    and "time os \<le> time (vk_drop V c os)"
    and "time os \<le> time (snd (libc_accept V fd os))"
  using assms unfolding vsock_time_ok_def by simp_all

text \<open>An operation that never makes \<open>P\<close> false, and what that gives for the composed operations.\<close>

lemma keeps_set_timeout [keeps_intros]:
  "keeps P (vk_set_timeout V c b d) \<Longrightarrow> keeps P (set_timeout V c b d)"
  by (simp add: set_timeout_def keeps_def op_err_def)

lemma keeps_try_conn_write [keeps_intros]:
  assumes "\<And>d. keeps P (vk_set_timeout V c False d)" "keeps P (vk_write V c msg)"
  shows "keeps P (try_conn_write V c msg d)"
  using keeps_set_timeout [OF assms(1), of "Some d"] keeps_set_timeout [OF assms(1), of None] assms(2)
  by (auto simp: try_conn_write_def keeps_def op_bind_def split: prod.splits sum.splits)

lemma keeps_try_conn_read_until [keeps_intros]:
  assumes "\<And>d. keeps P (vk_set_timeout V c True d)" "\<And>os. P os \<Longrightarrow> P (snd (vk_replies V c os))"
  shows "keeps P (try_conn_read_until V c stop d)"
  using keeps_set_timeout [OF assms(1), of "Some d"] keeps_set_timeout [OF assms(1), of None] assms(2)
  by (auto simp: try_conn_read_until_def keeps_def op_bind_def split: prod.splits sum.splits) (metis snd_conv)+

text \<open>
  The ways an attempt can end, with the states on the way.
\<close>

lemma try_connect_cases:
  assumes "try_connect V path port config os = (r, os')"
  obtains (refused) e where "vk_connect V path os = (Inl e, os')" "r = Inl e"
  | (dropped) c os1 os2 e where "vk_connect V path os = (Inr c, os1)" "os' = vk_drop V c os2" "r = Inl e"
      "os2 = snd (try_conn_write V c (connect_message port) (connect_msg_timeout config) os1) \<or>
       os2 = snd (try_conn_read_until V c (CHR 0x0A) (ack_msg_timeout config)
         (snd (try_conn_write V c (connect_message port) (connect_msg_timeout config) os1)))"
      "io_inner e = ConnectMessageErrorInner \<or> io_inner e = AckErrorInner" "io_kind e = OtherKind"
  | (acked) c os1 os2 line rest where "vk_connect V path os = (Inr c, os1)"
      "try_conn_write V c (connect_message port) (connect_msg_timeout config) os1 = (Inr (), os2)"
      "try_conn_read_until V c (CHR 0x0A) (ack_msg_timeout config) os2 = (Inr (line, rest), os')"
      "starts_with ''OK '' line" "r = Inr (c, rest)"
proof (cases "fst (vk_connect V path os)")
  case (Inl e)
  with assms refused show ?thesis
    by (cases "vk_connect V path os") (auto simp: try_connect_def op_bind_def)
next
  case (Inr c)
  then obtain os1 where conn: "vk_connect V path os = (Inr c, os1)" by (metis prod.collapse)
  obtain w os2 where w: "try_conn_write V c (connect_message port) (connect_msg_timeout config) os1 = (w, os2)" by fastforce
  obtain a os3 where a: "try_conn_read_until V c (CHR 0x0A) (ack_msg_timeout config) os2 = (a, os3)" by fastforce
  note run = assms conn w a
  show ?thesis
  proof (cases w)
    case (Inl e)
    with run have "os' = vk_drop V c os2" "r = Inl (connect_message_error (io_new (io_kind e)
        (''failed to write '' @ debug_str (connect_message port) @ '' within '' @
         duration_debug (connect_msg_timeout config) @ '': '' @ io_text e)))"
      by (simp_all add: try_connect_def op_bind_def Let_def)
    with dropped [OF conn this] w show ?thesis by (simp add: connect_message_error_def)
  next
    case (Inr u)
    show ?thesis
    proof (cases "\<exists>line rest. a = Inr (line, rest) \<and> starts_with ''OK '' line")
      case True
      then obtain line rest where line: "a = Inr (line, rest)" "starts_with ''OK '' line" by blast
      with run Inr have "r = Inr (c, rest) \<and> os' = os3" by (simp add: try_connect_def op_bind_def Let_def)
      with acked [OF conn, of os2 line rest] w a Inr line show ?thesis by simp
    next
      case False
      with run Inr obtain cause where fin: "os' = vk_drop V c os3" "r = Inl (ack_error cause)"
        by (cases a) (auto simp: try_connect_def op_bind_def Let_def)
      with dropped [OF conn this] w a show ?thesis by (simp add: ack_error_def)
    qed
  qed
qed

lemma try_connect_time:
  assumes "vsock_time_ok V time" "try_connect V path port config os = (r, os')"
  shows "time os \<le> time os'"
proof -
  note T = vsock_time_okD [OF assms(1)]
  have mono: "keeps (\<lambda>s. t \<le> time s) (vk_set_timeout V c b d)" "keeps (\<lambda>s. t \<le> time s) (vk_write V c bs)"
    "\<And>s. t \<le> time s \<Longrightarrow> t \<le> time (snd (vk_replies V c s))" for t c b d bs
    by (auto simp: keeps_def intro: order_trans T)
  have steps: "time s \<le> time (snd (try_conn_write V c m d s))"
    "time s \<le> time (snd (try_conn_read_until V c stop d s))" for s c m d stop
    using keeps_try_conn_write [OF mono(1,2), of "time s" c m d] keeps_try_conn_read_until [OF mono(1,3), of "time s" c stop d]
    by (auto simp: keeps_def)
  from assms(2) show ?thesis
  proof (cases rule: try_connect_cases)
    case (refused e)
    with T(4) [of os path] show ?thesis by simp
  next
    case (dropped c os1 os2 e)
    from dropped(1) T(4) [of os path] have "time os \<le> time os1" by simp
    also have "time os1 \<le> time os2" using dropped(4) steps order_trans by blast
    also have "time os2 \<le> time os'" using T(8) dropped(2) by simp
    finally show ?thesis .
  next
    case (acked c os1 os2 line rest)
    from acked(1) T(4) [of os path] have "time os \<le> time os1" by simp
    also have "time os1 \<le> time os2" using steps(1) [of os1] acked(2) by (metis snd_conv)
    also have "time os2 \<le> time os'" using steps(2) [of os2] acked(3) by (metis snd_conv)
    finally show ?thesis .
  qed
qed

lemma with_retry_returns:
  assumes time: "vsock_time_ok V time" and interval: "0 < retry_interval config"
    and attempt: "\<And>os r os'. attempt os = (r, os') \<Longrightarrow> time os \<le> time os'"
    and range: "(time (snd (vk_now V os)) + retry_timeout config) div 10 ^ 9 < 2 ^ 63"
    and fuel: "pauses (retry_interval config) (retry_timeout config) < fuel"
  shows "\<exists>r os'. with_retry V fuel config attempt os = (map_err (\<lambda>e. Err (Io e)) r, os') \<and>
    (case r of Inl e \<Rightarrow> is_temporary_net_error e \<longrightarrow> time os + retry_timeout config \<le> time os' | Inr _ \<Rightarrow> True)"
proof -
  note T = vsock_time_okD [OF time]
  define os1 where "os1 = snd (vk_now V os)"
  have now: "vk_now V os = (time os1, os1)" using T(1) [of os] by (simp add: os1_def prod_eq_iff)
  let ?deadline = "time os1 + retry_timeout config"
  let ?body = "retry_round (vk_now V) (vk_sleep V (retry_interval config)) ?deadline is_temporary_net_error attempt"
  have now_law: "t = time s' \<and> time s \<le> time s'" if "vk_now V s = (t, s')" for s t s'
    using T(1,2) [of s] that by simp
  have laws: "retry_timed (vk_now V) (vk_sleep V (retry_interval config)) attempt (retry_interval config) time"
    unfolding retry_timed_def
    by (intro conjI) (use interval T(3) now_law attempt in blast)+
  have "pauses (retry_interval config) (?deadline - time os1) < fuel" using fuel by simp
  from retry.poll_returns [OF laws this, of is_temporary_net_error] obtain r os2 where
    run: "poll fuel ?body os1 = (Some r, os2)" by blast
  from range [folded os1_def] have "with_retry V fuel config attempt os = (map_err (\<lambda>e. Err (Io e)) r, os2)"
    by (simp add: with_retry_def now instant_add_ns_def run)
  moreover have "time os + retry_timeout config \<le> time os2" if e: "r = Inl e" "is_temporary_net_error e" for e
  proof -
    from run obtain u v where "attempt u = (r, v)" "case r of Inr _ \<Rightarrow> os2 = v | Inl e \<Rightarrow>
      if is_temporary_net_error e then \<exists>t. vk_now V v = (t, os2) \<and> ?deadline \<le> t else os2 = v"
      by (rule retry_ends)
    with e obtain t where "vk_now V v = (t, os2)" "?deadline \<le> t" by auto
    with now_law have "?deadline \<le> time os2" by blast
    moreover have "time os \<le> time os1" using T(2) [of os] by (simp add: os1_def)
    ultimately show ?thesis by simp
  qed
  ultimately show ?thesis by (intro exI [of _ r] exI [of _ os2]) (auto split: sum.split)
qed

text \<open>
  C14: dialling returns, and does not give up early. After at most one attempt more than there are retry
  intervals in the retry timeout, \<open>dial\<close> returns; it reports an error of the kind that may go away only
  when the whole retry timeout has passed.
\<close>

theorem dial_keeps_trying:
  assumes "vsock_time_ok V time" "0 < retry_interval config"
    and "(time (snd (vk_now V os)) + retry_timeout config) div 10 ^ 9 < 2 ^ 63"
    and "pauses (retry_interval config) (retry_timeout config) < fuel"
  shows "\<exists>r os'. dial_with_config V fuel path port config os = (map_err (\<lambda>e. Err (Io e)) r, os') \<and>
    (case r of Inl e \<Rightarrow> is_temporary_net_error e \<longrightarrow> time os + retry_timeout config \<le> time os' | Inr _ \<Rightarrow> True)"
  unfolding dial_with_config_def
  by (rule with_retry_returns [OF assms(1,2) try_connect_time [OF assms(1)] assms(3,4)])

text \<open>
  The same for accepting a connection on a listener.
\<close>

theorem accept_keeps_trying:
  assumes "vsock_time_ok V time" "0 < retry_interval (vl_config l)"
    and "(time (snd (vk_now V os)) + retry_timeout (vl_config l)) div 10 ^ 9 < 2 ^ 63"
    and "pauses (retry_interval (vl_config l)) (retry_timeout (vl_config l)) < fuel"
  shows "\<exists>r os'. listener_accept V fuel l os = (map_err (\<lambda>e. Err (Io e)) r, os') \<and>
    (case r of Inl e \<Rightarrow> is_temporary_net_error e \<longrightarrow> time os + retry_timeout (vl_config l) \<le> time os' | Inr _ \<Rightarrow> True)"
  unfolding listener_accept_def accept_with_retry_def
proof (rule with_retry_returns [OF assms(1,2) _ assms(3,4)])
  fix s r s'
  assume "accept_once V l s = (r, s')"
  then show "time s \<le> time s'"
    using vsock_time_okD(9) [OF assms(1), of s "vl_fd l"] by (auto simp: accept_once_def listener_as_raw_fd_def cvt_raw_def split: prod.splits)
qed

section \<open>The stream handed out\<close>

lemma stream_read_length: "stream_read cap es = ((t, Inr chunk), es') \<Longrightarrow> length chunk \<le> cap"
proof (induction cap es arbitrary: t rule: stream_read.induct)
  case (2 cap d es)
  obtain t' r es'' where "stream_read cap es = ((t', r), es'')" by (metis prod.exhaust)
  with 2 show ?case by auto
qed (auto split: if_splits)

lemma read_byte_sent:
  assumes "read_byte timeout es = (Inr byte, es')" "byte \<noteq> []"
  obtains b where "byte = [b]" "sent es = b # sent es'"
proof -
  from assms(1) obtain t where read: "stream_read 1 es = ((t, Inr byte), es')"
    by (auto simp: read_byte_def split: prod.splits if_splits)
  with assms(2) stream_read_length [OF read] obtain b where b: "byte = [b]" by (cases byte) auto
  from stream_read_sent [OF read] b that show thesis by auto
qed

lemma ack_loop_line:
  "ack_loop timeout stop buf es = (Inr line, es') \<Longrightarrow>
   \<exists>body. line = buf @ body @ [stop] \<and> sent es = body @ stop # sent es' \<and> stop \<notin> set body \<and> utf8_valid line"
proof (induction timeout stop buf es rule: ack_loop.induct)
  case (1 timeout stop buf es)
  obtain r es1 where read: "read_byte timeout es = (r, es1)" by fastforce
  with "1.prems" obtain byte where r: "r = Inr byte" "byte \<noteq> []"
    by (subst (asm) ack_loop.simps) (auto split: sum.splits if_splits)
  from read r obtain b where b: "byte = [b]" "sent es = b # sent es1" by (auto elim: read_byte_sent)
  show ?case
  proof (cases "b = stop")
    case True
    with "1.prems" read r b show ?thesis
      by (subst (asm) ack_loop.simps) (auto simp: from_utf8_def split: if_splits)
  next
    case False
    then have neq: "hd byte \<noteq> stop" by (simp add: b(1))
    with "1.prems" read r have "ack_loop timeout stop (buf @ byte) es1 = (Inr line, es')"
      by (subst (asm) ack_loop.simps) simp
    from "1.IH" [OF read [symmetric] r neq this] obtain body where
      "line = (buf @ byte) @ body @ [stop]" "sent es1 = body @ stop # sent es'" "stop \<notin> set body" "utf8_valid line" by blast
    with b False show ?thesis by (intro exI [of _ "b # body"]) auto
  qed
qed

lemma try_conn_read_until_line:
  assumes "try_conn_read_until V c stop d os = (Inr (line, rest), os')"
  shows "\<exists>os1 body. line = body @ [stop] \<and> sent (fst (vk_replies V c os1)) = body @ stop # sent rest \<and>
    stop \<notin> set body \<and> utf8_valid line"
proof -
  from assms obtain os1 where "(case vk_replies V c os1 of (es, os2) \<Rightarrow>
      (case ack_loop (timeval_ns d) stop [] es of
         (r, es') \<Rightarrow> (rbind r (\<lambda>line. Inr (line, es')), snd (set_timeout V c True None os2)))) = (Inr (line, rest), os')"
    by (auto simp: try_conn_read_until_def op_bind_cases)
  moreover obtain es os2 where rep: "vk_replies V c os1 = (es, os2)" by fastforce
  moreover obtain r es' where "ack_loop (timeval_ns d) stop [] es = (r, es')" by fastforce
  ultimately have loop: "ack_loop (timeval_ns d) stop [] es = (Inr line, rest)" by (simp add: rbind_eq_Inr)
  from ack_loop_line [OF loop] rep show ?thesis by (intro exI [of _ os1]) auto
qed

text \<open>
  C16: the stream that \<open>dial\<close> hands out begins exactly behind the acknowledgement. What the peer sent on
  it is one line that starts with \<open>OK\<close>, and then the bytes left for the caller: none of them is lost, and
  nothing of the acknowledgement is left over.
\<close>

theorem dial_hands_over_behind_ack:
  assumes "dial_with_config V fuel path port config os = (Inr (c, rest), os')"
  shows "\<exists>os1 body. sent (fst (vk_replies V c os1)) = ''OK '' @ body @ CHR 0x0A # sent rest \<and> CHR 0x0A \<notin> set body"
proof -
  from assms obtain deadline os1 where "poll fuel (retry_round (vk_now V) (vk_sleep V (retry_interval config)) deadline
      is_temporary_net_error (try_connect V path port config)) os1 = (Some (Inr (c, rest)), os')"
    by (auto simp: dial_with_config_def with_retry_def map_err_Inr split: prod.splits option.splits)
  then obtain u where "try_connect V path port config u = (Inr (c, rest), os')"
    by (rule retry_ends) auto
  then show ?thesis
  proof (cases rule: try_connect_cases)
    case (acked c' os2 os3 line rest')
    then have c: "c' = c" "rest' = rest" by simp_all
    from try_conn_read_until_line [OF acked(3)] obtain os1 body where
      line: "line = body @ [CHR 0x0A]" "sent (fst (vk_replies V c os1)) = body @ CHR 0x0A # sent rest" "CHR 0x0A \<notin> set body"
      by (auto simp: c)
    from acked(4) line(1) obtain tail where "line = ''OK '' @ tail" unfolding starts_with_def by (metis append_take_drop_id)
    with line(1) obtain body' where "body = ''OK '' @ body'"
      by (cases tail rule: rev_cases) (auto simp flip: append_assoc simp del: append_Cons)
    with line show ?thesis by (intro exI [of _ os1] exI [of _ body']) auto
  qed simp_all
qed

section \<open>Connections\<close>

text \<open>
  \<open>opened\<close> are the open connections: connecting opens a new one, dropping a stream closes it, nothing else
  opens or closes any.
\<close>

definition tracks :: "'os vsock_api \<Rightarrow> ('os \<Rightarrow> conn set) \<Rightarrow> bool" where
  "tracks V opened \<longleftrightarrow>
     (\<forall>p os c os'. vk_connect V p os = (Inr c, os') \<longrightarrow> c \<notin> opened os \<and> opened os' = insert c (opened os)) \<and>
     (\<forall>p os e os'. vk_connect V p os = (Inl e, os') \<longrightarrow> opened os' = opened os) \<and>
     (\<forall>c os. opened (vk_drop V c os) = opened os - {c}) \<and>
     (\<forall>os. opened (snd (vk_now V os)) = opened os) \<and>
     (\<forall>n os. opened (vk_sleep V n os) = opened os) \<and>
     (\<forall>c b d os. opened (snd (vk_set_timeout V c b d os)) = opened os) \<and>
     (\<forall>c bs os. opened (snd (vk_write V c bs os)) = opened os) \<and>
     (\<forall>c os. opened (snd (vk_replies V c os)) = opened os)"

lemma tracksD:
  assumes "tracks V opened"
  shows "vk_connect V p os = (Inr c, os') \<Longrightarrow> c \<notin> opened os \<and> opened os' = insert c (opened os)"
    and "vk_connect V p os = (Inl e, os') \<Longrightarrow> opened os' = opened os"
    and "opened (vk_drop V c os) = opened os - {c}"
    and "opened (snd (vk_now V os)) = opened os"
    and "opened (vk_sleep V n os) = opened os"
    and "opened (snd (vk_set_timeout V c b d os)) = opened os"
    and "opened (snd (vk_write V c bs os)) = opened os"
    and "opened (snd (vk_replies V c os)) = opened os"
  using assms unfolding tracks_def by simp_all

lemma try_connect_opened:
  assumes "tracks V opened" "try_connect V path port config os = (r, os')"
  shows "case r of Inl _ \<Rightarrow> opened os' = opened os | Inr (c, _) \<Rightarrow> c \<notin> opened os \<and> opened os' = insert c (opened os)"
proof -
  note T = tracksD [OF assms(1)]
  have keep: "keeps (\<lambda>s. opened s = X) (vk_set_timeout V c b d)" "keeps (\<lambda>s. opened s = X) (vk_write V c bs)"
    "\<And>s. opened s = X \<Longrightarrow> opened (snd (vk_replies V c s)) = X" for X c b d bs
    by (auto simp: keeps_def T)
  have steps: "opened (snd (try_conn_write V c m d s)) = opened s"
    "opened (snd (try_conn_read_until V c stop d s)) = opened s" for s c m d stop
    using keeps_try_conn_write [OF keep(1,2), of "opened s" c m d] keeps_try_conn_read_until [OF keep(1,3), of "opened s" c stop d]
    by (auto simp: keeps_def)
  from assms(2) show ?thesis
  proof (cases rule: try_connect_cases)
    case (refused e)
    with T(2) show ?thesis by simp
  next
    case (dropped c os1 os2 e)
    from T(1) [OF dropped(1)] have "c \<notin> opened os" "opened os1 = insert c (opened os)" by simp_all
    moreover have "opened os2 = opened os1" using dropped(4) steps by auto
    ultimately show ?thesis using dropped(2,3) T(3) by simp
  next
    case (acked c os1 os2 line rest)
    from T(1) [OF acked(1)] have "c \<notin> opened os" "opened os1 = insert c (opened os)" by simp_all
    moreover have "opened os2 = opened os1" using steps(1) acked(2) by (metis snd_conv)
    moreover have "opened os' = opened os2" using steps(2) acked(3) by (metis snd_conv)
    ultimately show ?thesis using acked(5) by simp
  qed
qed

text \<open>
  C15: dialling leaks no connection. However many attempts it takes, a \<open>dial\<close> that fails leaves the open
  connections as they were, and one that succeeds adds the connection it returns and no other.
\<close>

theorem dial_leaks_nothing:
  assumes tracks: "tracks V opened" and run: "dial_with_config V fuel path port config os = (r, os')"
  shows "case r of Inl _ \<Rightarrow> opened os' = opened os | Inr (c, _) \<Rightarrow> c \<notin> opened os \<and> opened os' = insert c (opened os)"
proof -
  note T = tracksD [OF tracks]
  obtain t os1 where now: "vk_now V os = (t, os1)" by fastforce
  with T(4) [of os] have os1: "opened os1 = opened os" by simp
  show ?thesis
  proof (cases "instant_add_ns t (retry_timeout config)")
    case None
    with run now os1 show ?thesis by (auto simp: dial_with_config_def with_retry_def)
  next
    case (Some deadline)
    let ?body = "retry_round (vk_now V) (vk_sleep V (retry_interval config)) deadline is_temporary_net_error
      (try_connect V path port config)"
    obtain p os2 where loop: "poll fuel ?body os1 = (p, os2)" by fastforce
    have fail: "opened s' = opened os" if "opened s = opened os" "try_connect V path port config s = (Inl e, s')" for s e s'
      using try_connect_opened [OF tracks that(2)] that(1) by simp
    have "case p of Some (Inr x) \<Rightarrow> \<exists>u. opened u = opened os \<and> try_connect V path port config u = (Inr x, os2)
        | _ \<Rightarrow> opened os2 = opened os"
      by (rule retry_keeps [where P = "\<lambda>s. opened s = opened os", OF _ _ fail loop os1]) (simp_all add: T)
    moreover have "r = (case p of None \<Rightarrow> Inl OutOfFuel | Some x \<Rightarrow> map_err (\<lambda>e. Err (Io e)) x)" "os' = os2"
      using run by (auto simp: dial_with_config_def with_retry_def now Some loop split: option.splits)
    ultimately show ?thesis
      using try_connect_opened [OF tracks] by (cases p) (auto split: sum.splits, fastforce+)
  qed
qed

text \<open>The dial timeout of a configuration has no effect at all.\<close>

theorem dial_timeout_unused:
  "dial_with_config V fuel path port (config\<lparr>dial_timeout := d\<rparr>) = dial_with_config V fuel path port config"
proof -
  have "retry_interval (config\<lparr>dial_timeout := d\<rparr>) = retry_interval config"
    "retry_timeout (config\<lparr>dial_timeout := d\<rparr>) = retry_timeout config"
    "connect_msg_timeout (config\<lparr>dial_timeout := d\<rparr>) = connect_msg_timeout config"
    "ack_msg_timeout (config\<lparr>dial_timeout := d\<rparr>) = ack_msg_timeout config" by simp_all
  then show ?thesis unfolding dial_with_config_def with_retry_def try_connect_def by (simp only:)
qed

text \<open>A listener that cannot be set up closes its socket.\<close>

lemma listen_failure_closes:
  assumes "libc_socket V AF_VSOCK SOCK_STREAM 0 os = (fd, os1)" "fd \<noteq> - 1"
    and "listen_with_config V port config os = (Inl e, os')"
  shows "\<exists>os2. os' = libc_close V fd os2"
proof -
  let ?bound = "op_then (cvt V (libc_bind V fd (sock_addr_vm_new port VMADDR_CID_ANY) sock_addr_vm_size))
    (cvt V (libc_listen V fd DEFAULT_BACKLOG))"
  obtain r os2 where "?bound os1 = (r, os2)" by fastforce
  with assms show ?thesis
    by (cases r) (auto simp: listen_with_config_def op_bind_def [of "cvt_raw V (libc_socket V AF_VSOCK SOCK_STREAM 0)"] cvt_raw_def)
qed

end
