(* ===== verification/Toy_Wire.thy ===== *)
theory Toy_Wire
  imports Toy_World Client_Wire Vsock
begin

text \<open>
  A concrete peer behind the API socket, on which the hypotheses of the properties of the HTTP
  transport and of the client are discharged.
\<close>

section \<open>Responses in pieces\<close>

definition toy_events :: "read_event list" where
  "toy_events = [Delay 5, Bytes (''HTTP/1.1 200 OK'' @ crlf @ ''Content-Length: 2'' @ [CHR 0x0D]),
     Delay 7, Bytes ([CHR 0x0A] @ crlf @ ''h''), Bytes ''i'', Bytes ''more'']"

lemma toy_events_clean: "clean toy_events" "in_time (Some 12) toy_events"
  "sent toy_events = response_text 200 ''OK'' ''hi'' @ ''more''"
  by code_simp+

theorem receive_response_refines_witness:
  "receive_response ''GET'' (Some 12) toy_events = map_err Err (decode_response ''GET'' (sent toy_events))"
proof (rule receive_response_refines [OF toy_events_clean(1,2)])
  have "find_window delimiter (sent toy_events) = Some 34" "content_length (take 34 (sent toy_events)) = Some 2"
    by code_simp+
  then show "\<forall>p n. find_window delimiter (sent toy_events) = Some p \<longrightarrow>
      content_length (take p (sent toy_events)) = Some n \<longrightarrow> n < 2 ^ 63"
    by simp
qed

theorem success_has_status_2xx_witness:
  "\<exists>p status. find_window delimiter (sent toy_events) = Some p \<and>
     parse_http_status (take p (sent toy_events)) = Inr status \<and> 200 \<le> status \<and> status < 300"
proof -
  have "receive_response ''GET'' (Some 12) toy_events = Inr ''hi''" by code_simp
  then show ?thesis by (rule success_has_status_2xx)
qed

theorem response_roundtrip_witness: "receive_response ''GET'' (Some 12) toy_events = Inr ''hi''"
proof -
  have "list_all (\<lambda>c. ascii c \<and> c \<noteq> CHR 0x0D \<and> c \<noteq> CHR 0x0A) ''OK''" by code_simp
  from response_roundtrip [OF this _ _ toy_events_clean, of "''GET''"] show ?thesis by simp
qed

theorem request_framing_witness:
  "\<exists>p. find_window delimiter (request_text ''PUT'' ''/vm'' ''x'' @ ''x'') = Some p \<and>
     content_length (take p (request_text ''PUT'' ''/vm'' ''x'' @ ''x'')) = Some 1"
proof -
  have "list_all (\<lambda>c. ascii c \<and> c \<noteq> CHR 0x0D \<and> c \<noteq> CHR 0x0A) (''PUT'' @ ''/vm'')" by code_simp
  from request_framing [OF this, of "''x''"] show ?thesis by auto
qed

section \<open>A peer\<close>

definition toy_peer :: "read_event list \<Rightarrow> unit uds_api" where
  "toy_peer es = \<lparr>uds_connect = (\<lambda>_ os. (Inr 0, os)), uds_write_all = (\<lambda>_ _ os. ((0, Inr ()), os)),
     uds_replies = (\<lambda>_ os. (es, os))\<rparr>"

lemma toy_answering: "answering (toy_peer es) path es"
  by (simp add: answering_def toy_peer_def)

definition toy_serde :: "unit serde" where
  "toy_serde = \<lparr>logger_enc = (\<lambda>_. Inr ''{}''),
     metrics_enc = (\<lambda>_. Inr ''{}''),
     machine_configuration_enc = (\<lambda>_. Inr ''{}''),
     boot_source_enc = (\<lambda>_. Inr ''{}''),
     value_enc = (\<lambda>_. Inr ''{}''),
     entropy_device_enc = (\<lambda>_. Inr ''{}''),
     vsock_enc = (\<lambda>_. Inr ''{}''),
     vm_enc = (\<lambda>_. Inr ''{}''),
     instance_action_info_enc = (\<lambda>_. Inr ''{}''),
     mmds_config_enc = (\<lambda>_. Inr ''{}''),
     balloon_enc = (\<lambda>_. Inr ''{}''),
     balloon_update_enc = (\<lambda>_. Inr ''{}''),
     balloon_stats_update_enc = (\<lambda>_. Inr ''{}''),
     partial_drive_enc = (\<lambda>_. Inr ''{}''),
     network_interface_enc = (\<lambda>_. Inr ''{}''),
     partial_network_interface_enc = (\<lambda>_. Inr ''{}''),
     drive_enc = (\<lambda>_. Inr ''{}''),
     snapshot_create_params_enc = (\<lambda>_. Inr ''{}''),
     snapshot_load_params_enc = (\<lambda>_. Inr ''{}''),
     firecracker_version_dec = (\<lambda>_. Inl ''EOF''),
     machine_configuration_dec = (\<lambda>_. Inl ''EOF''),
     value_dec = (\<lambda>_. Inl ''EOF''),
     instance_info_dec = (\<lambda>_. Inl ''EOF''),
     balloon_dec = (\<lambda>_. Inl ''EOF''),
     balloon_stats_dec = (\<lambda>_. Inl ''EOF''),
     full_vm_configuration_dec = (\<lambda>_. Inl ''EOF'')\<rparr>"

definition toy_http_client :: client where
  "toy_http_client = \<lparr>cl_transport = \<lparr>tr_socket_path = ''/run/fc.sock'', tr_request_timeout = 500 * 10 ^ 6\<rparr>,
     cl_init_timeout = 3 * 10 ^ 9\<rparr>"

theorem snapshot_requests_wait_witness:
  "fst (client_create_snapshot toy_serde (toy_peer (Delay (10 ^ 12) # toy_events)) toy_http_client
     \<lparr>sc_mem_file_path = Some ''/mem'', sc_snapshot_path = Some ''/snap''\<rparr> ()) = Inr ()"
proof -
  have "list_all (\<lambda>c. ascii c \<and> c \<noteq> CHR 0x0D \<and> c \<noteq> CHR 0x0A) ''OK''" by code_simp
  moreover have "clean (Delay (10 ^ 12) # toy_events)" using toy_events_clean(1) by simp
  moreover have "sent (Delay (10 ^ 12) # toy_events) = response_text 200 ''OK'' ''hi'' @ ''more''"
    using toy_events_clean(3) by simp
  ultimately show ?thesis
    using snapshot_requests_wait [where U = "toy_peer (Delay (10 ^ 12) # toy_events)" and es = "Delay (10 ^ 12) # toy_events"
        and c = toy_http_client and S = toy_serde and json = "''{}''" and json' = "''{}''" and reason = "''OK''"
        and status = 200 and body = "''hi''" and rest = "''more''", OF toy_answering]
    by (simp add: toy_serde_def)
qed

theorem drive_request_times_out_witness:
  "let U = toy_peer (Delay (300 * 10 ^ 6) # [Bytes (response_text 204 ''OK'' [])]); cl = client_client_ops toy_serde U toy_http_client in
     fst (c_put_guest_drive_by_id cl ''root_drive'' drive_default ()) = Inl (Err (Io (io_new TimedOut ''read timed out after 250ms''))) \<and>
     fst (c_put_mmds cl () ()) = Inr () \<and> fst (c_create_sync_action cl \<lparr>ia_action_type = None\<rparr> ()) = Inr ()"
proof -
  let ?es = "[Bytes (response_text 204 ''OK'' [])]"
  let ?U = "toy_peer (Delay (300 * 10 ^ 6) # ?es)"
  let ?cl = "client_client_ops toy_serde ?U toy_http_client"
  have reason: "list_all (\<lambda>c. ascii c \<and> c \<noteq> CHR 0x0D \<and> c \<noteq> CHR 0x0A) ''OK''" and clean: "clean ?es" by code_simp+
  have half: "drive_request_timeout toy_http_client = 250 * 10 ^ 6" and full: "request_timeout toy_http_client = 500 * 10 ^ 6"
    by (simp_all add: drive_request_timeout_def request_timeout_def transport_request_timeout_def toy_http_client_def)
  have message: "''read timed out after '' @ duration_debug (250 * 10 ^ 6) = ''read timed out after 250ms''" by code_simp
  have enc: "drive_enc toy_serde drive_default = Inr ''{}''" by (simp add: toy_serde_def)
  have time: "drive_request_timeout toy_http_client < 300 * 10 ^ 6" "300 * 10 ^ 6 + delays ?es \<le> request_timeout toy_http_client"
    by (simp_all add: half full)
  note all = drive_request_times_out [OF toy_answering enc time reason _ _ clean _ refl, of 204 "[]" "''root_drive''" "()", simplified half message]
  have "(value_enc toy_serde (), c_put_mmds ?cl ()) \<in> payload_requests toy_serde ?cl"
    "(instance_action_info_enc toy_serde \<lparr>ia_action_type = None\<rparr>, c_create_sync_action ?cl \<lparr>ia_action_type = None\<rparr>) \<in> payload_requests toy_serde ?cl"
    by (simp_all add: payload_requests_def)
  with all show ?thesis by (force simp: Let_def toy_serde_def)
qed

theorem request_timeout_from_environment_witness:
  "request_timeout (client_new toy_env ''/run/fc.sock'' (toy_state\<lparr>t_env := [(FIRECRACKER_REQUEST_TIMEOUT_ENV, ''-1'')]\<rparr>)) =
     18446744073709551615 * 10 ^ 6"
proof -
  have "parse_int 32 ''-1'' = Some (- 1)" by code_simp
  from request_timeout_from_environment [OF _ this, of toy_env "toy_state\<lparr>t_env := [(FIRECRACKER_REQUEST_TIMEOUT_ENV, ''-1'')]\<rparr>"]
  show ?thesis by (simp add: toy_defs)
qed

section \<open>A guest behind a vsock\<close>

text \<open>
  A guest that refuses connections for the first quarter of a second, and then acknowledges them.
\<close>

record toy_guest =
  tg_clock :: nat
  tg_open :: "conn list"

definition toy_refused :: io_error where
  "toy_refused = \<lparr>io_kind = ConnectionRefused, io_os_code = Some 111, io_text = ''Connection refused (os error 111)'',
     io_inner = NoInner\<rparr>"

definition toy_vsock :: "toy_guest vsock_api" where
  "toy_vsock =
    \<lparr>vk_now = (\<lambda>g. (tg_clock g, g)),
     vk_sleep = (\<lambda>n g. g\<lparr>tg_clock := tg_clock g + n\<rparr>),
     vk_connect = (\<lambda>_ g. if tg_clock g < 250 * 10 ^ 6 then (Inl toy_refused, g)
       else (Inr (Suc (sum_list (tg_open g))), g\<lparr>tg_open := Suc (sum_list (tg_open g)) # tg_open g\<rparr>)),
     vk_set_timeout = (\<lambda>_ _ _. op_ok ()),
     vk_write = (\<lambda>_ bs. op_ok (length bs)),
     vk_replies = (\<lambda>_ g. ([Bytes (''OK 1024'' @ [CHR 0x0A] @ ''hel''), Delay 5, Bytes ''lo''], g)),
     vk_drop = (\<lambda>c g. g\<lparr>tg_open := removeAll c (tg_open g)\<rparr>),
     libc_socket = (\<lambda>_ _ _ g. (3, g)), libc_bind = (\<lambda>_ _ _ g. (0, g)), libc_listen = (\<lambda>_ _ g. (0, g)),
     libc_accept = (\<lambda>_ g. (if tg_clock g < 250 * 10 ^ 6 then - 1 else 4, g)), libc_close = (\<lambda>_ g. g),
     libc_fd_read = (\<lambda>_ _ g. ((0, []), g)), libc_fd_write = (\<lambda>_ bs g. (int (length bs), g)),
     vk_last_error = (\<lambda>_. would_block)\<rparr>"

definition toy_guest :: toy_guest where
  "toy_guest = \<lparr>tg_clock = 0, tg_open = [7]\<rparr>"

lemma toy_vsock_time: "vsock_time_ok toy_vsock tg_clock"
  by (simp add: vsock_time_ok_def toy_vsock_def op_ok_def)

lemma toy_range: "(tg_clock (snd (vk_now toy_vsock toy_guest)) + retry_timeout dial_config_default) div 10 ^ 9 < 2 ^ 63"
  by (simp add: toy_vsock_def toy_guest_def dial_config_default_def)

lemma toy_pauses: "pauses (retry_interval dial_config_default) (retry_timeout dial_config_default) = 200"
  by (simp add: pauses_def dial_config_default_def)

theorem dial_keeps_trying_witness:
  "\<exists>r g. dial_with_config toy_vsock 201 ''/run/v.sock'' 52 dial_config_default toy_guest = (map_err (\<lambda>e. Err (Io e)) r, g)"
  using dial_keeps_trying [OF toy_vsock_time _ toy_range, of 201 "''/run/v.sock''" 52] toy_pauses
  by (auto simp: dial_config_default_def)

theorem accept_keeps_trying_witness:
  "\<exists>r g. listener_accept toy_vsock 201 \<lparr>vl_fd = 3, vl_port = 52, vl_config = dial_config_default\<rparr> toy_guest =
     (map_err (\<lambda>e. Err (Io e)) r, g)"
  using accept_keeps_trying [OF toy_vsock_time, of "\<lparr>vl_fd = 3, vl_port = 52, vl_config = dial_config_default\<rparr>" toy_guest 201]
    toy_range toy_pauses
  by (auto simp: dial_config_default_def)

lemma toy_dial: "fst (dial_with_config toy_vsock 201 ''/run/v.sock'' 52 dial_config_default toy_guest) =
    Inr (8, [Bytes ''hel'', Delay 5, Bytes ''lo''])"
  by code_simp

theorem dial_hands_over_behind_ack_witness:
  "\<exists>c rest g body. fst (dial_with_config toy_vsock 201 ''/run/v.sock'' 52 dial_config_default toy_guest) = Inr (c, rest) \<and>
     sent rest = ''hello'' \<and> sent (fst (vk_replies toy_vsock c g)) = ''OK '' @ body @ CHR 0x0A # ''hello''"
proof -
  obtain g' where run: "dial_with_config toy_vsock 201 ''/run/v.sock'' 52 dial_config_default toy_guest =
      (Inr (8, [Bytes ''hel'', Delay 5, Bytes ''lo'']), g')"
    using toy_dial by (metis prod.collapse)
  from dial_hands_over_behind_ack [OF run] obtain g body where
    "sent (fst (vk_replies toy_vsock 8 g)) = ''OK '' @ body @ CHR 0x0A # sent [Bytes ''hel'', Delay 5, Bytes ''lo'']" by blast
  with run show ?thesis by auto
qed

lemma toy_tracks: "tracks toy_vsock (\<lambda>g. set (tg_open g))"
proof -
  have "Suc (sum_list xs) \<notin> set xs" for xs :: "nat list"
    using member_le_sum_list [of "Suc (sum_list xs)" xs] by auto
  then show ?thesis by (auto simp: tracks_def toy_vsock_def op_ok_def)
qed

theorem dial_leaks_nothing_witness:
  "set (tg_open (snd (dial_with_config toy_vsock 201 ''/run/v.sock'' 52 dial_config_default toy_guest))) = {7, 8}"
proof -
  obtain g' where run: "dial_with_config toy_vsock 201 ''/run/v.sock'' 52 dial_config_default toy_guest =
      (Inr (8, [Bytes ''hel'', Delay 5, Bytes ''lo'']), g')"
    using toy_dial by (metis prod.collapse)
  from dial_leaks_nothing [OF toy_tracks run] run show ?thesis by (simp add: toy_guest_def insert_commute)
qed

section \<open>A start over the HTTP client\<close>

text \<open>A peer that records what is written on every connection and answers each request with success.\<close>

definition toy_recorder :: "toy uds_api" where
  "toy_recorder =
    \<lparr>uds_connect = (\<lambda>_ s. (Inr (Suc (length (t_wire s))), s\<lparr>t_wire := t_wire s @ [[]]\<rparr>)),
     uds_write_all = (\<lambda>_ bs s. ((0, Inr ()), s\<lparr>t_wire := butlast (t_wire s) @ [last (t_wire s) @ bs]\<rparr>)),
     uds_replies = (\<lambda>_ s. ([Bytes (''HTTP/1.1 204 '' @ crlf @ crlf)], s))\<rparr>"

definition toy_cur :: "toy \<Rightarrow> conn option" where
  "toy_cur s = (if t_wire s = [] then None else Some (length (t_wire s)))"

lemma toy_recording: "recording toy_recorder t_wire toy_cur"
  by (auto simp: recording_def toy_recorder_def toy_cur_def split: if_splits)

definition toy_wire_client :: "(unit, toy, error) client_ops" where
  "toy_wire_client = http_client_ops AlreadyStarted (client_client_ops
     (toy_serde\<lparr>machine_configuration_dec := (\<lambda>_. Inr (machine_configuration_new 1 512))\<rparr>) toy_recorder toy_http_client)"

theorem boot_on_the_wire_witness:
  "\<exists>m r m' w'. start toy_menv (m, toy_w) = (r, (m', w')) \<and> is_ok r \<and>
     api_bytes t_wire (sos w') = concat (map (\<lambda>x. http_text (request_parts toy_serde x)) (boot_requests (settled_cfg toy_cfg (cfg m'))))"
proof -
  let ?S = "toy_serde\<lparr>machine_configuration_dec := (\<lambda>_. Inr (machine_configuration_new 1 512))\<rparr>"
  let ?run = "new_with_client toy_env unsupported_cni_network_operations toy_cfg toy_wire_client toy_state"
  let ?m = "case fst ?run of Inr m \<Rightarrow> m | Inl _ \<Rightarrow> undefined"
  have plain: "jailer_cfg toy_cfg = None" "\<not> has_snapshot toy_cfg" by code_simp+
  have "is_ok (fst ?run)" by code_simp
  then obtain m os where new: "?run = (Inr m, os)" by (metis is_ok_iff prod.collapse)
  have "is_ok (fst (start toy_menv (?m, toy_w)))" by code_simp
  then have ok: "is_ok (fst (start toy_menv (m, toy_w)))" by (simp add: new)
  obtain r m' w' where run: "start toy_menv (m, toy_w) = (r, (m', w'))" by (metis prod.exhaust)
  have quiet: "quiet_env (api_bytes t_wire) toy_env"
    by (auto simp: quiet_env_def quiet_sig_def leaves_def toy_defs api_bytes_def split: option.splits)
  have cni: "quiet_cni (api_bytes t_wire) unsupported_cni_network_operations"
    by (simp add: quiet_cni_def unsupported_cni_network_operations_def op_err_def)
  have env: "me_os toy_menv = toy_env" by (simp add: toy_menv_def)
  have parts: "request_parts ?S x = request_parts toy_serde x" for x by (cases x) simp_all
  from boot_on_the_wire [of toy_menv, unfolded env, OF new [unfolded toy_wire_client_def] plain toy_recording quiet cni run] ok run
  have "api_bytes t_wire (sos w') = concat (map (\<lambda>x. http_text (request_parts toy_serde x)) (boot_requests (settled_cfg toy_cfg (cfg m'))))"
    by (simp add: parts api_bytes_def toy_w_def toy_state_def)
  with run ok show ?thesis by (metis fst_conv)
qed

end
