(* ===== verification/Cni_Real.thy ===== *)
theory Cni_Real
  imports Sdk_Network "HOL-Library.Multiset"
begin

text \<open>
  \<open>RealCniNetworkOperations\<close> of \<open>src/network.rs\<close>: finding and running CNI plugins, and creating network
  namespaces. A \<open>serde_json::Value\<close> is the datatype \<open>json\<close>, its objects are \<open>BTreeMap\<close>s; reading and writing
  JSON text is a parameter, as are the calls into the operating system. Threads are joined where they are
  spawned, so they are calls.
\<close>

section \<open>JSON\<close>

datatype json =
    JNull
  | JBool bool
  | JNumber string
  | JString string
  | JArray "json list"
  | JObject "(string \<times> json) list"

text \<open>\<open>Value::get\<close> on a key, \<open>as_str\<close>, \<open>as_array\<close> and \<open>as_object\<close>.\<close>

fun json_get :: "string \<Rightarrow> json \<Rightarrow> json option" where
  "json_get k (JObject m) = map_of m k"
| "json_get k _ = None"

fun as_str :: "json \<Rightarrow> string option" where
  "as_str (JString s) = Some s"
| "as_str _ = None"

fun as_array :: "json \<Rightarrow> json list option" where
  "as_array (JArray vs) = Some vs"
| "as_array _ = None"

fun as_object :: "json \<Rightarrow> (string \<times> json) list option" where
  "as_object (JObject m) = Some m"
| "as_object _ = None"

text \<open>What \<open>serde_json\<close> does with text; \<open>Inl\<close> is the text of its error.\<close>

record json_lib =
  json_parse :: "string \<Rightarrow> string + json"
  json_to_vec :: "json \<Rightarrow> string + string"
  cni_result_from_value :: "json \<Rightarrow> string + cni_result"

section \<open>The operating system\<close>

record plugin_output =
  po_status :: exit_status
  po_stdout :: string
  po_stderr :: string

record 'os cni_sys =
  cs_exists :: "string \<Rightarrow> 'os \<Rightarrow> bool \<times> 'os"
  cs_is_file :: "string \<Rightarrow> 'os \<Rightarrow> bool \<times> 'os"
  cs_read :: "string \<Rightarrow> ('os, io_error, string) op"
  cs_read_dir :: "string \<Rightarrow> ('os, io_error, (io_error + string) list) op"
  cs_create_dir_all :: "string \<Rightarrow> ('os, io_error, unit) op"
  cs_remove_dir :: "string \<Rightarrow> ('os, io_error, unit) op"
  cs_create_new :: "string \<Rightarrow> ('os, io_error, unit) op"
  cs_remove_file :: "string \<Rightarrow> ('os, io_error, unit) op"
  cs_spawn :: "string \<Rightarrow> (string \<times> string) list \<Rightarrow> ('os, io_error, child) op"
  cs_write_stdin :: "child \<Rightarrow> string \<Rightarrow> ('os, io_error, unit) op"
  cs_wait_with_output :: "child \<Rightarrow> ('os, io_error, plugin_output) op"
  cs_unshare :: "int \<Rightarrow> 'os \<Rightarrow> int \<times> 'os"
  cs_mount :: "string \<Rightarrow> string \<Rightarrow> string \<Rightarrow> int \<Rightarrow> 'os \<Rightarrow> int \<times> 'os"
  cs_umount2 :: "string \<Rightarrow> int \<Rightarrow> 'os \<Rightarrow> int \<times> 'os"
  cs_last_error :: "'os \<Rightarrow> io_error"

definition CLONE_NEWNET :: int where "CLONE_NEWNET = 0x40000000"
definition MS_BIND :: int where "MS_BIND = 4096"
definition MNT_DETACH :: int where "MNT_DETACH = 2"

section \<open>Loading the network configuration\<close>

definition json_result :: "string + 'a \<Rightarrow> 'a result" where
  "json_result = map_err Json"

definition normalize_network_config :: "json \<Rightarrow> string option \<Rightarrow> json result" where
  "normalize_network_config config default_name =
     (if Option.bind (json_get ''plugins'' config) as_array \<noteq> None then Inr config
      else if json_get ''type'' config \<noteq> None then
        (let cni_version = unwrap_or (JString ''0.3.1'') (json_get ''cniVersion'' config);
             name = (case Option.bind (json_get ''name'' config) as_str of Some n \<Rightarrow> Some n | None \<Rightarrow> default_name)
         in case name of
              None \<Rightarrow> Inl (InvalidConfig ''single-plugin CNI configuration must include a network name'')
            | Some n \<Rightarrow>
                Inr (JObject [(''cniVersion'', cni_version), (''name'', JString n), (''plugins'', JArray [config])]))
      else Inl (InvalidConfig ''invalid CNI network configuration''))"

text \<open>The loop over the three extensions: the file read, or \<open>None\<close> when there is none.\<close>

fun candidate_loop :: "'os cni_sys \<Rightarrow> json_lib \<Rightarrow> string \<Rightarrow> string \<Rightarrow> string list \<Rightarrow> ('os, error, json option) op" where
  "candidate_loop Y L dir name [] os = (Inr None, os)"
| "candidate_loop Y L dir name (extension # es) os =
     (let candidate = path_join dir (name @ ''.'' @ extension) in
      case cs_exists Y candidate os of
        (False, os1) \<Rightarrow> candidate_loop Y L dir name es os1
      | (True, os1) \<Rightarrow>
          op_bind (op_io (cs_read Y candidate)) (\<lambda>text os2. (rbind (json_result (json_parse L text)) (\<lambda>v. Inr (Some v)), os2)) os1)"

text \<open>The loop over the entries of the directory.\<close>

fun entry_loop :: "'os cni_sys \<Rightarrow> json_lib \<Rightarrow> string \<Rightarrow> (io_error + string) list \<Rightarrow> ('os, error, json option) op" where
  "entry_loop Y L name [] os = (Inr None, os)"
| "entry_loop Y L name (entry # es) os =
     (case entry of
        Inl e \<Rightarrow> (Inl (Io e), os)
      | Inr path \<Rightarrow>
          (case cs_is_file Y path os of
             (False, os1) \<Rightarrow> entry_loop Y L name es os1
           | (True, os1) \<Rightarrow>
               (case cs_read Y path os1 of
                  (Inl e, os2) \<Rightarrow> (Inl (Io e), os2)
                | (Inr text, os2) \<Rightarrow>
                    (case json_parse L text of
                       Inl _ \<Rightarrow> entry_loop Y L name es os2
                     | Inr v \<Rightarrow>
                         if Option.bind (json_get ''name'' v) as_str = Some name then (Inr (Some v), os2)
                         else entry_loop Y L name es os2))))"

definition load_network_config_from_dir :: "'os cni_sys \<Rightarrow> json_lib \<Rightarrow> cni_configuration \<Rightarrow> ('os, error, json) op" where
  "load_network_config_from_dir Y L config =
     (case cni_conf_dir config of
        None \<Rightarrow> op_err (InvalidConfig ''missing CNI conf dir'')
      | Some dir \<Rightarrow>
          (case cni_network_name config of
             None \<Rightarrow> op_err (InvalidConfig ''missing CNI network name'')
           | Some name \<Rightarrow>
               op_bind (candidate_loop Y L dir name [''conflist'', ''conf'', ''json'']) (\<lambda>found.
                 case found of
                   Some v \<Rightarrow> op_ok v
                 | None \<Rightarrow>
                     op_bind (op_io (cs_read_dir Y dir)) (\<lambda>entries.
                     op_bind (entry_loop Y L name entries) (\<lambda>found.
                       case found of
                         Some v \<Rightarrow> op_ok v
                       | None \<Rightarrow> op_err (InvalidConfig (''failed to load CNI configuration for network '' @ debug_str name @
                           '' from '' @ debug_str dir)))))))"

definition load_network_config :: "'os cni_sys \<Rightarrow> json_lib \<Rightarrow> cni_configuration \<Rightarrow> ('os, error, json) op" where
  "load_network_config Y L config =
     op_bind (case cni_network_config config of
                Some raw \<Rightarrow> (\<lambda>os. (json_result (json_parse L raw), os))
              | None \<Rightarrow> load_network_config_from_dir Y L config)
       (\<lambda>parsed os. (normalize_network_config parsed (cni_network_name config), os))"

section \<open>Running plugins\<close>

definition inherit_key :: "(string \<times> json) list \<Rightarrow> string \<Rightarrow> (string \<times> json) list \<Rightarrow> (string \<times> json) list" where
  "inherit_key network key plugin =
     (if map_of plugin key = None
      then case map_of network key of Some v \<Rightarrow> bt_insert key v plugin | None \<Rightarrow> plugin
      else plugin)"

definition plugin_input :: "json \<Rightarrow> json \<Rightarrow> json option \<Rightarrow> json result" where
  "plugin_input network_config plugin prev_result =
     (case as_object network_config of
        None \<Rightarrow> Inl (InvalidConfig ''CNI network configuration must be a JSON object'')
      | Some network \<Rightarrow>
          (case as_object plugin of
             None \<Rightarrow> Inl (InvalidConfig ''CNI plugin configuration must be a JSON object'')
           | Some obj \<Rightarrow>
               (let obj' = fold (inherit_key network) [''cniVersion'', ''name''] obj in
                Inr (JObject (case prev_result of Some r \<Rightarrow> bt_insert ''prevResult'' r obj' | None \<Rightarrow> obj')))))"

fun find_plugin_loop :: "'os cni_sys \<Rightarrow> string \<Rightarrow> string list \<Rightarrow> 'os \<Rightarrow> string option \<times> 'os" where
  "find_plugin_loop Y plugin_type [] os = (None, os)"
| "find_plugin_loop Y plugin_type (dir # dirs) os =
     (case cs_is_file Y (path_join dir plugin_type) os of
        (True, os1) \<Rightarrow> (Some (path_join dir plugin_type), os1)
      | (False, os1) \<Rightarrow> find_plugin_loop Y plugin_type dirs os1)"

text \<open>\<open>\{:?\}\<close> of a list of strings.\<close>

definition debug_strs :: "string list \<Rightarrow> string" where
  "debug_strs xs = ''['' @ join '', '' (map debug_str xs) @ '']''"

definition find_plugin :: "'os cni_sys \<Rightarrow> string \<Rightarrow> string list \<Rightarrow> ('os, error, string) op" where
  "find_plugin Y plugin_type bin_path os =
     (case find_plugin_loop Y plugin_type bin_path os of
        (found, os1) \<Rightarrow>
          (ok_or (InvalidConfig (''failed to find CNI plugin binary '' @ debug_str plugin_type @ '' in '' @
             debug_strs bin_path)) found, os1))"

definition format_cni_args :: "(string \<times> string) list \<Rightarrow> string" where
  "format_cni_args args = join '';'' (map (\<lambda>(key, v). key @ ''='' @ v) args)"

definition plugin_env :: "cni_configuration \<Rightarrow> cni_runtime_conf \<Rightarrow> string \<Rightarrow> (string \<times> string) list" where
  "plugin_env config rc command =
     [(''CNI_COMMAND'', command), (''CNI_CONTAINERID'', unwrap_or [] (rc_container_id rc)),
      (''CNI_NETNS'', unwrap_or [] (rc_net_ns rc)), (''CNI_IFNAME'', unwrap_or [] (rc_if_name rc)),
      (''CNI_PATH'', join '':'' (cni_bin_path config)), (''CNI_ARGS'', format_cni_args (rc_args rc)),
      (''CNI_CACHE_DIR'', unwrap_or [] (cni_cache_dir config))]"

definition plugin_failure :: "string \<Rightarrow> plugin_output \<Rightarrow> string" where
  "plugin_failure plugin_type output =
     (let stderr = trim (utf8_lossy (po_stderr output)) in
      if stderr = [] then ''CNI plugin '' @ debug_str plugin_type @ '' exited with status '' @ es_text (po_status output)
      else ''CNI plugin '' @ debug_str plugin_type @ '' failed: '' @ stderr)"

definition run_plugin ::
  "'os cni_sys \<Rightarrow> json_lib \<Rightarrow> cni_configuration \<Rightarrow> json \<Rightarrow> cni_runtime_conf \<Rightarrow> string \<Rightarrow> ('os, error, string) op" where
  "run_plugin Y L config input rc command =
     (case Option.bind (json_get ''type'' input) as_str of
        None \<Rightarrow> op_err (InvalidConfig ''CNI plugin type is not set'')
      | Some plugin_type \<Rightarrow>
          op_bind (find_plugin Y plugin_type (cni_bin_path config)) (\<lambda>plugin_path.
          op_bind (op_map_err (\<lambda>e. Process (io_text e)) (cs_spawn Y plugin_path (plugin_env config rc command))) (\<lambda>child.
          op_bind (\<lambda>os. (json_result (json_to_vec L input), os)) (\<lambda>text.
          op_then (op_io (cs_write_stdin Y child text))
          (op_bind (op_io (cs_wait_with_output Y child)) (\<lambda>output.
            if \<not> es_success (po_status output) then op_err (Process (plugin_failure plugin_type output))
            else op_ok (po_stdout output)))))))"

text \<open>The loop over the plugins, in the order of the iterator; the result is the last \<open>prev_result\<close>.\<close>

fun plugin_loop ::
  "'os cni_sys \<Rightarrow> json_lib \<Rightarrow> cni_configuration \<Rightarrow> json \<Rightarrow> string \<Rightarrow> json option \<Rightarrow> json list \<Rightarrow> ('os, error, json option) op" where
  "plugin_loop Y L config network command prev [] os = (Inr prev, os)"
| "plugin_loop Y L config network command prev (plugin # plugins) os =
     (case plugin_input network plugin prev of
        Inl e \<Rightarrow> (Inl e, os)
      | Inr input \<Rightarrow>
          (case run_plugin Y L config input (as_cni_runtime_conf config) command os of
             (Inl e, os1) \<Rightarrow> (Inl e, os1)
           | (Inr output, os1) \<Rightarrow>
               if command = ''ADD'' then
                 (case json_result (json_parse L output) of
                    Inl e \<Rightarrow> (Inl e, os1)
                  | Inr v \<Rightarrow> plugin_loop Y L config network command (Some v) plugins os1)
               else plugin_loop Y L config network command prev plugins os1))"

definition invoke_network_list ::
  "'os cni_sys \<Rightarrow> json_lib \<Rightarrow> cni_configuration \<Rightarrow> string \<Rightarrow> ('os, error, cni_result option) op" where
  "invoke_network_list Y L config command =
     op_bind (load_network_config Y L config) (\<lambda>network.
       case Option.bind (json_get ''plugins'' network) as_array of
         None \<Rightarrow> op_err (InvalidConfig ''CNI network configuration must contain plugins'')
       | Some plugins \<Rightarrow>
           op_bind (plugin_loop Y L config network command None (if command = ''DEL'' then rev plugins else plugins))
             (\<lambda>prev os. (case prev of
                None \<Rightarrow> Inr None
              | Some v \<Rightarrow> rbind (json_result (cni_result_from_value L v)) (\<lambda>r. Inr (Some r)), os)))"

section \<open>The trait\<close>

definition contains_nul :: "string \<Rightarrow> bool" where
  "contains_nul s \<longleftrightarrow> CHR 0x00 \<in> set s"

definition path_to_cstring :: "string \<Rightarrow> string result" where
  "path_to_cstring path =
     (if contains_nul path then Inl (InvalidConfig (''invalid path for C string: '' @ debug_str path)) else Inr path)"

definition cstring :: "string \<Rightarrow> string result" where
  "cstring v = (if contains_nul v then Inl (InvalidConfig (''invalid string for C string: '' @ debug_str v)) else Inr v)"

text \<open>
  \<open>Path::parent\<close>: the path without its last component. Trailing slashes and \<open>.\<close> components do not count;
  a path that is only the root has no parent.
\<close>

fun skip_back :: "string \<Rightarrow> string" where
  "skip_back [] = []"
| "skip_back [c] = (if c = CHR ''/'' then [] else [c])"
| "skip_back (c # d # s) =
     (if c = CHR ''/'' then skip_back (d # s)
      else if c = CHR ''.'' \<and> d = CHR ''/'' then skip_back (d # s)
      else c # d # s)"

definition path_parent :: "string \<Rightarrow> string option" where
  "path_parent p =
     (let t = skip_back (rev p) in
      if t = [] then None
      else let u = skip_back (dropWhile (\<lambda>c. c \<noteq> CHR ''/'') t) in
        Some (if u \<noteq> [] then rev u else if hd p = CHR ''/'' then ''/'' else []))"

definition ignore_not_found :: "('os, io_error, unit) op \<Rightarrow> 'os cleanup_fn" where
  "ignore_not_found f os =
     (case f os of
        (Inl e, os') \<Rightarrow> (if io_kind e = NotFound then Inr () else Inl (Io e), os')
      | (Inr _, os') \<Rightarrow> (Inr (), os'))"

definition unmount_cleanup :: "'os cni_sys \<Rightarrow> string \<Rightarrow> 'os cleanup_fn" where
  "unmount_cleanup Y path os =
     (case path_to_cstring path of
        Inl e \<Rightarrow> (Inl e, os)
      | Inr target \<Rightarrow>
          (case cs_umount2 Y target MNT_DETACH os of
             (r, os') \<Rightarrow>
               if r \<noteq> 0 then
                 (let e = cs_last_error Y os' in
                  (if io_os_code e = Some 22 \<or> io_os_code e = Some 2 then Inr () else Inl (Io e), os'))
               else (Inr (), os')))"

text \<open>The body of the thread that unshares and mounts.\<close>

definition mount_netns :: "'os cni_sys \<Rightarrow> string \<Rightarrow> ('os, error, unit) op" where
  "mount_netns Y path =
     op_bind (\<lambda>os. (cstring ''/proc/thread-self/ns/net'', os)) (\<lambda>source.
     op_bind (\<lambda>os. (path_to_cstring path, os)) (\<lambda>target.
     op_bind (\<lambda>os. (cstring ''none'', os)) (\<lambda>none.
     op_then (\<lambda>os. case cs_unshare Y CLONE_NEWNET os of
         (r, os') \<Rightarrow> (if r \<noteq> 0 then Inl (Io (cs_last_error Y os')) else Inr (), os'))
       (\<lambda>os. case cs_mount Y source target none MS_BIND os of
         (r, os') \<Rightarrow> (if r \<noteq> 0 then Inl (Io (cs_last_error Y os')) else Inr (), os')))))"

text \<open>Popping and running the cleanup functions: the last one first.\<close>

fun pop_cleanups :: "'os cleanup_fn list \<Rightarrow> 'os \<Rightarrow> 'os" where
  "pop_cleanups [] os = os"
| "pop_cleanups (f # fs) os = snd (f (pop_cleanups fs os))"

definition make_parent :: "'os cni_sys \<Rightarrow> string \<Rightarrow> ('os, error, 'os cleanup_fn list) op" where
  "make_parent Y parent os =
     (case cs_exists Y parent os of
        (True, os1) \<Rightarrow> (Inr [], os1)
      | (False, os1) \<Rightarrow>
          op_then (op_io (cs_create_dir_all Y parent)) (op_ok [ignore_not_found (cs_remove_dir Y parent)]) os1)"

definition real_initialize_netns :: "'os cni_sys \<Rightarrow> string \<Rightarrow> ('os, error, 'os cleanup_fn list) op" where
  "real_initialize_netns Y path os =
     (case cs_exists Y path os of
        (True, os1) \<Rightarrow> (Inr [], os1)
      | (False, os1) \<Rightarrow>
          (case path_parent path of
             None \<Rightarrow> (Inl (InvalidConfig (''invalid netns path '' @ debug_str path)), os1)
           | Some parent \<Rightarrow>
               op_bind (make_parent Y parent) (\<lambda>cleanup_funcs.
               op_then (op_io (cs_create_new Y path)) (\<lambda>os2.
                 let cleanup_funcs = cleanup_funcs @ [ignore_not_found (cs_remove_file Y path)] in
                 case mount_netns Y path os2 of
                   (Inl e, os3) \<Rightarrow> (Inl e, pop_cleanups cleanup_funcs os3)
                 | (Inr _, os3) \<Rightarrow> (Inr (cleanup_funcs @ [unmount_cleanup Y path]), os3))) os1))"

definition add_network ::
  "'os cni_sys \<Rightarrow> json_lib \<Rightarrow> cni_configuration \<Rightarrow> ('os, error, cni_result \<times> 'os cleanup_fn list) op" where
  "add_network Y L config =
     op_bind (invoke_network_list Y L config ''ADD'') (\<lambda>added.
       case added of
         Some result \<Rightarrow> op_ok (result, [op_bind (invoke_network_list Y L config ''DEL'') (\<lambda>_. op_ok ())])
       | None \<Rightarrow> op_err (Process ''CNI ADD did not return a result payload''))"

definition real_invoke_cni ::
  "'os cni_sys \<Rightarrow> json_lib \<Rightarrow> cni_configuration \<Rightarrow> ('os, error, cni_result \<times> 'os cleanup_fn list) op" where
  "real_invoke_cni Y L config os =
     (case invoke_network_list Y L config ''DEL'' os of
        (deleted, os1) \<Rightarrow>
          (case deleted of
             Inl e \<Rightarrow>
               if \<not> cni_force config
               then (Inl (Process (''failed to delete pre-existing CNI network: '' @ error_display e)), os1)
               else add_network Y L config os1
           | Inr _ \<Rightarrow> add_network Y L config os1))"

definition real_cni_network_operations :: "'os cni_sys \<Rightarrow> json_lib \<Rightarrow> 'os cni_network_operations" where
  "real_cni_network_operations Y L =
     \<lparr>initialize_netns = real_initialize_netns Y, invoke_cni = real_invoke_cni Y L\<rparr>"

section \<open>Configurations\<close>

lemma json_get_Some: "json_get k v = Some x \<longleftrightarrow> (\<exists>m. v = JObject m \<and> map_of m k = Some x)"
  by (cases v) auto

lemma as_array_Some [simp]: "as_array v = Some ps \<longleftrightarrow> v = JArray ps"
  by (cases v) auto

lemma as_object_Some [simp]: "as_object v = Some m \<longleftrightarrow> v = JObject m"
  by (cases v) auto

lemma as_object_None: "as_object v = None \<longleftrightarrow> (\<forall>m. v \<noteq> JObject m)"
  by (cases v) auto

lemma normalize_result:
  assumes "normalize_network_config config default_name = Inr v"
  shows "\<exists>m ps. v = JObject m \<and> map_of m ''plugins'' = Some (JArray ps) \<and> (v = config \<or> ps = [config])"
  using assms
  by (auto simp: normalize_network_config_def json_get_Some bind_eq_Some_conv Let_def split: if_splits option.splits)

text \<open>
  C19: network configurations are well-formed. Whatever text a network configuration is loaded from, what
  the plugins are taken from is a JSON object with an array of plugins: the configuration itself, or one
  that wraps a single plugin. Such a configuration is taken as it is when it is loaded again, so the
  later check for plugins cannot fail.
\<close>

theorem loaded_network_config_wf:
  assumes "load_network_config Y L config os = (Inr v, os')"
  shows "\<exists>m ps. v = JObject m \<and> map_of m ''plugins'' = Some (JArray ps) \<and> normalize_network_config v other = Inr v"
proof -
  from assms obtain parsed where "normalize_network_config parsed (cni_network_name config) = Inr v"
    by (auto simp: load_network_config_def op_bind_cases)
  from normalize_result [OF this] obtain m ps where v: "v = JObject m" "map_of m ''plugins'' = Some (JArray ps)" by blast
  then have "normalize_network_config v other = Inr v" by (simp add: normalize_network_config_def)
  with v show ?thesis by blast
qed

text \<open>What a plugin gets: its own configuration, completed.\<close>

lemma inherit_key_lookup:
  "map_of (inherit_key n k p) = (\<lambda>j. if j = k \<and> map_of p k = None then map_of n k else map_of p j)"
  by (auto simp: inherit_key_def map_of_bt_insert fun_eq_iff split: option.split)

lemma inherit_key_invar: "bt_invar p \<Longrightarrow> bt_invar (inherit_key n k p)"
  by (auto simp: inherit_key_def bt_invar_insert split: option.split)

text \<open>
  The input of a plugin. It is the plugin's own object, with the network's version and name where the
  plugin has none, and with the result of the plugin before it, which replaces whatever the file says; every
  other field is the plugin's.
\<close>

theorem plugin_input_fields:
  assumes "plugin_input network plugin prev = Inr input"
  shows "\<exists>n p m. network = JObject n \<and> plugin = JObject p \<and> input = JObject m \<and> (bt_invar p \<longrightarrow> bt_invar m) \<and>
    (\<forall>k. map_of m k =
       (if k = ''prevResult'' \<and> prev \<noteq> None then prev
        else if k \<in> {''cniVersion'', ''name''} \<and> map_of p k = None then map_of n k
        else map_of p k))"
proof -
  from assms obtain n p where np: "network = JObject n" "plugin = JObject p"
    by (auto simp: plugin_input_def split: option.splits)
  let ?m = "inherit_key n ''name'' (inherit_key n ''cniVersion'' p)"
  let ?r = "case prev of Some r \<Rightarrow> bt_insert ''prevResult'' r ?m | None \<Rightarrow> ?m"
  from assms np have "input = JObject ?r" by (simp add: plugin_input_def Let_def)
  moreover have "bt_invar p \<longrightarrow> bt_invar ?r"
    by (auto simp: inherit_key_invar bt_invar_insert split: option.split)
  moreover have "\<forall>k. map_of ?r k = (if k = ''prevResult'' \<and> prev \<noteq> None then prev
      else if k \<in> {''cniVersion'', ''name''} \<and> map_of p k = None then map_of n k else map_of p k)"
    by (auto simp: map_of_bt_insert inherit_key_lookup split: option.split)
  ultimately show ?thesis using np by blast
qed

section \<open>The chain of plugins\<close>

text \<open>
  A run of a list of plugins: before plugin \<open>i\<close> the world is \<open>ss ! i\<close>, it prints \<open>outs ! i\<close>, and \<open>prevs ! i\<close>
  is what it is told of the plugins before it.
\<close>

definition plugin_run ::
  "'os cni_sys \<Rightarrow> json_lib \<Rightarrow> cni_configuration \<Rightarrow> json \<Rightarrow> string \<Rightarrow> json list \<Rightarrow> json option list \<Rightarrow> string list \<Rightarrow>
   'os list \<Rightarrow> bool" where
  "plugin_run Y L config network command plugins prevs outs ss \<longleftrightarrow>
     length prevs = Suc (length plugins) \<and> length outs = length plugins \<and> length ss = Suc (length plugins) \<and>
     (\<forall>i < length plugins. \<exists>input. plugin_input network (plugins ! i) (prevs ! i) = Inr input \<and>
        run_plugin Y L config input (as_cni_runtime_conf config) command (ss ! i) = (Inr (outs ! i), ss ! Suc i))"

lemma plugin_run_Cons:
  assumes "plugin_input network p prev = Inr input"
    "run_plugin Y L config input (as_cni_runtime_conf config) command os = (Inr out, hd ss)" "ss \<noteq> []"
    "plugin_run Y L config network command ps prevs outs ss"
  shows "plugin_run Y L config network command (p # ps) (prev # prevs) (out # outs) (os # ss)"
  using assms unfolding plugin_run_def by (auto simp: nth_Cons hd_conv_nth split: nat.split)

lemma plugin_loop_add:
  "plugin_loop Y L config network ''ADD'' prev ps os = (Inr res, os') \<Longrightarrow>
   \<exists>prevs outs ss. plugin_run Y L config network ''ADD'' ps prevs outs ss \<and> hd ss = os \<and> last ss = os' \<and>
     hd prevs = prev \<and> last prevs = res \<and> (\<forall>i < length ps. map_option Inr (prevs ! Suc i) = Some (json_parse L (outs ! i)))"
proof (induction ps arbitrary: prev os)
  case Nil
  then show ?case by (intro exI [of _ "[prev]"] exI [of _ "[]"] exI [of _ "[os]"]) (simp add: plugin_run_def)
next
  case (Cons p ps)
  from Cons.prems obtain input out os1 v where
    step: "plugin_input network p prev = Inr input"
      "run_plugin Y L config input (as_cni_runtime_conf config) ''ADD'' os = (Inr out, os1)" "json_parse L out = Inr v"
    and rest: "plugin_loop Y L config network ''ADD'' (Some v) ps os1 = (Inr res, os')"
    by (auto simp: json_result_def split: sum.splits prod.splits) (metis map_err_Inr)
  from Cons.IH [OF rest] obtain prevs outs ss where
    IH: "plugin_run Y L config network ''ADD'' ps prevs outs ss" "hd ss = os1" "last ss = os'" "hd prevs = Some v" "last prevs = res"
      "\<forall>i < length ps. map_option Inr (prevs ! Suc i) = Some (json_parse L (outs ! i))" by blast
  from IH(1) have ne: "ss \<noteq> []" "prevs \<noteq> []" by (auto simp: plugin_run_def)
  have "plugin_run Y L config network ''ADD'' (p # ps) (prev # prevs) (out # outs) (os # ss)"
    by (rule plugin_run_Cons [OF step(1)]) (use step(2) IH(1,2) ne in auto)
  moreover have "\<forall>i < length (p # ps). map_option Inr ((prev # prevs) ! Suc i) = Some (json_parse L ((out # outs) ! i))"
    using IH(4,6) step(3) ne by (auto simp: nth_Cons hd_conv_nth split: nat.split)
  ultimately show ?case
    using IH ne by (intro exI [of _ "prev # prevs"] exI [of _ "out # outs"] exI [of _ "os # ss"]) simp
qed

text \<open>
  C18: adding a network runs its plugins in their order, each exactly once, and hands the result of each to
  the next as its previous result, the first having none; the result of the network is that of the last.
\<close>

theorem cni_add_threads_results:
  assumes "invoke_network_list Y L config ''ADD'' os = (Inr res, os')"
  shows "\<exists>network plugins prevs outs ss os1.
    load_network_config Y L config os = (Inr network, os1) \<and> json_get ''plugins'' network = Some (JArray plugins) \<and>
    plugin_run Y L config network ''ADD'' plugins prevs outs ss \<and> hd ss = os1 \<and> last ss = os' \<and> hd prevs = None \<and>
    (\<forall>i < length plugins. map_option Inr (prevs ! Suc i) = Some (json_parse L (outs ! i))) \<and>
    (case last prevs of None \<Rightarrow> res = None \<and> plugins = [] | Some v \<Rightarrow> map_option Inr res = Some (cni_result_from_value L v))"
proof -
  from assms obtain network os1 plugins last_prev where
    load: "load_network_config Y L config os = (Inr network, os1)" "json_get ''plugins'' network = Some (JArray plugins)"
    and loop: "plugin_loop Y L config network ''ADD'' None plugins os1 = (Inr last_prev, os')"
    and res: "(case last_prev of None \<Rightarrow> Inr None
      | Some v \<Rightarrow> rbind (json_result (cni_result_from_value L v)) (\<lambda>r. Inr (Some r))) = Inr res"
    by (auto simp: invoke_network_list_def op_bind_cases bind_eq_Some_conv op_err_def split: option.splits)
  from plugin_loop_add [OF loop] obtain prevs outs ss where
    run: "plugin_run Y L config network ''ADD'' plugins prevs outs ss" "hd ss = os1" "last ss = os'" "hd prevs = None" "last prevs = last_prev"
      "\<forall>i < length plugins. map_option Inr (prevs ! Suc i) = Some (json_parse L (outs ! i))" by blast
  have "plugins = []" if "last_prev = None"
  proof (rule ccontr)
    assume "plugins \<noteq> []"
    then obtain n where n: "length plugins = Suc n" by (cases plugins) auto
    with run(1) have "length prevs = Suc (Suc n)" by (simp add: plugin_run_def)
    then have "last prevs = prevs ! Suc n" by (cases "prevs = []") (auto simp: last_conv_nth)
    with run(5,6) n that show False by (auto dest: spec [of _ n])
  qed
  with run res load show ?thesis
    by (intro exI [of _ network] exI [of _ plugins] exI [of _ prevs] exI [of _ outs] exI [of _ ss] exI [of _ os1])
      (auto simp: rbind_eq_Inr json_result_def map_err_Inr split: option.splits)
qed

section \<open>Network namespaces\<close>

text \<open>
  What there is of files, directories and mount points where a namespace is mounted: a part of the file
  system that holds the namespace's file and the directory it lies in. Mount points can be stacked.
\<close>

record fs_view =
  fv_files :: "string set"
  fv_dirs :: "string set"
  fv_mounts :: "string multiset"

text \<open>
  What the calls do to it, on the path of a namespace and its directory, as their manual pages say. A call
  that succeeds has its effect; one that fails changes nothing, but for the creation of directories, which
  may have made some. A file that is there is not reported as missing, and the two errors of
  \<open>umount2\<close> that say that there is no such mount point (\<open>EINVAL\<close>, 22, and \<open>ENOENT\<close>, 2) are not reported for one.
\<close>

definition netns_laws :: "'os cni_sys \<Rightarrow> ('os \<Rightarrow> fs_view) \<Rightarrow> string \<Rightarrow> bool" where
  "netns_laws Y view path \<longleftrightarrow>
     (\<forall>p \<in> {path} \<union> set_option (path_parent path).
       (\<forall>os. fst (cs_exists Y p os) = (p \<in> fv_files (view os) \<union> fv_dirs (view os)) \<and> view (snd (cs_exists Y p os)) = view os) \<and>
       (\<forall>os r os'. cs_create_dir_all Y p os = (r, os') \<longrightarrow>
          (\<exists>D. view os' = view os\<lparr>fv_dirs := fv_dirs (view os) \<union> D\<rparr> \<and> (is_ok r \<longrightarrow> p \<in> fv_dirs (view os) \<union> D))) \<and>
       (\<forall>os r os'. cs_create_new Y p os = (r, os') \<longrightarrow>
          (if is_ok r then p \<notin> fv_files (view os) \<and> view os' = view os\<lparr>fv_files := insert p (fv_files (view os))\<rparr>
           else view os' = view os)) \<and>
       (\<forall>os r os'. cs_remove_file Y p os = (r, os') \<longrightarrow>
          (case r of
             Inr _ \<Rightarrow> view os' = view os\<lparr>fv_files := fv_files (view os) - {p}\<rparr>
           | Inl e \<Rightarrow> view os' = view os \<and> (io_kind e = NotFound \<longrightarrow> p \<notin> fv_files (view os)))) \<and>
       (\<forall>os r os'. cs_remove_dir Y p os = (r, os') \<longrightarrow>
          view os' = (if is_ok r then view os\<lparr>fv_dirs := fv_dirs (view os) - {p}\<rparr> else view os)) \<and>
       (\<forall>s n f os r os'. cs_mount Y s p n f os = (r, os') \<longrightarrow>
          view os' = (if r = 0 then view os\<lparr>fv_mounts := add_mset p (fv_mounts (view os))\<rparr> else view os)) \<and>
       (\<forall>f os r os'. cs_umount2 Y p f os = (r, os') \<longrightarrow>
          (if r = 0 then view os' = view os\<lparr>fv_mounts := fv_mounts (view os) - {#p#}\<rparr>
           else view os' = view os \<and> (io_os_code (cs_last_error Y os') \<in> {Some 22, Some 2} \<longrightarrow> p \<notin># fv_mounts (view os))))) \<and>
     (\<forall>f os. view (snd (cs_unshare Y f os)) = view os)"

lemma netns_lawsD:
  assumes "netns_laws Y view path" "p = path \<or> path_parent path = Some p"
  shows "cs_exists Y p os = (b, os') \<Longrightarrow> b = (p \<in> fv_files (view os) \<union> fv_dirs (view os)) \<and> view os' = view os"
    and "cs_create_dir_all Y p os = (r, os') \<Longrightarrow> \<exists>D. view os' = view os\<lparr>fv_dirs := fv_dirs (view os) \<union> D\<rparr>"
    and "cs_create_new Y p os = (r, os') \<Longrightarrow>
      if is_ok r then p \<notin> fv_files (view os) \<and> view os' = view os\<lparr>fv_files := insert p (fv_files (view os))\<rparr>
      else view os' = view os"
    and "cs_remove_file Y p os = (r, os') \<Longrightarrow>
      (case r of
         Inr _ \<Rightarrow> view os' = view os\<lparr>fv_files := fv_files (view os) - {p}\<rparr>
       | Inl e \<Rightarrow> view os' = view os \<and> (io_kind e = NotFound \<longrightarrow> p \<notin> fv_files (view os)))"
    and "cs_remove_dir Y p os = (r, os') \<Longrightarrow>
      view os' = (if is_ok r then view os\<lparr>fv_dirs := fv_dirs (view os) - {p}\<rparr> else view os)"
    and "cs_mount Y s p m f os = (n, os') \<Longrightarrow>
      view os' = (if n = 0 then view os\<lparr>fv_mounts := add_mset p (fv_mounts (view os))\<rparr> else view os)"
    and "cs_umount2 Y p f os = (n, os') \<Longrightarrow>
      if n = 0 then view os' = view os\<lparr>fv_mounts := fv_mounts (view os) - {#p#}\<rparr>
      else view os' = view os \<and> (io_os_code (cs_last_error Y os') \<in> {Some 22, Some 2} \<longrightarrow> p \<notin># fv_mounts (view os))"
    and "cs_unshare Y f os = (n, os') \<Longrightarrow> view os' = view os"
proof -
  from assms(2) have "p \<in> {path} \<union> set_option (path_parent path)" by auto
  note laws = bspec [OF conjunct1 [OF assms(1) [unfolded netns_laws_def]] this]
  show "cs_exists Y p os = (b, os') \<Longrightarrow> b = (p \<in> fv_files (view os) \<union> fv_dirs (view os)) \<and> view os' = view os"
    using laws by (metis fst_conv snd_conv)
  show "cs_unshare Y f os = (n, os') \<Longrightarrow> view os' = view os"
    using assms(1) unfolding netns_laws_def by (metis snd_conv)
  show "cs_create_dir_all Y p os = (r, os') \<Longrightarrow> \<exists>D. view os' = view os\<lparr>fv_dirs := fv_dirs (view os) \<union> D\<rparr>"
    "cs_create_new Y p os = (r, os') \<Longrightarrow>
      if is_ok r then p \<notin> fv_files (view os) \<and> view os' = view os\<lparr>fv_files := insert p (fv_files (view os))\<rparr>
      else view os' = view os"
    "cs_remove_file Y p os = (r, os') \<Longrightarrow>
      (case r of
         Inr _ \<Rightarrow> view os' = view os\<lparr>fv_files := fv_files (view os) - {p}\<rparr>
       | Inl e \<Rightarrow> view os' = view os \<and> (io_kind e = NotFound \<longrightarrow> p \<notin> fv_files (view os)))"
    "cs_remove_dir Y p os = (r, os') \<Longrightarrow>
      view os' = (if is_ok r then view os\<lparr>fv_dirs := fv_dirs (view os) - {p}\<rparr> else view os)"
    "cs_mount Y s p m f os = (n, os') \<Longrightarrow>
      view os' = (if n = 0 then view os\<lparr>fv_mounts := add_mset p (fv_mounts (view os))\<rparr> else view os)"
    "cs_umount2 Y p f os = (n, os') \<Longrightarrow>
      if n = 0 then view os' = view os\<lparr>fv_mounts := fv_mounts (view os) - {#p#}\<rparr>
      else view os' = view os \<and> (io_os_code (cs_last_error Y os') \<in> {Some 22, Some 2} \<longrightarrow> p \<notin># fv_mounts (view os))"
    using laws by metis+
qed

text \<open>The view after a call has the files and mount points of the one before, and its directories.\<close>

definition restored :: "fs_view \<Rightarrow> fs_view \<Rightarrow> bool" where
  "restored v v' \<longleftrightarrow> fv_files v' = fv_files v \<and> fv_mounts v' = fv_mounts v \<and> fv_dirs v \<subseteq> fv_dirs v'"

text \<open>All cleanup functions report success.\<close>

fun pop_ok :: "'os cleanup_fn list \<Rightarrow> 'os \<Rightarrow> bool" where
  "pop_ok [] os \<longleftrightarrow> True"
| "pop_ok (f # fs) os \<longleftrightarrow> pop_ok fs os \<and> is_ok (fst (f (pop_cleanups fs os)))"

lemma pop_cleanups_append: "pop_cleanups (xs @ ys) os = pop_cleanups xs (pop_cleanups ys os)"
  by (induction xs) simp_all

lemma pop_ok_append: "pop_ok (xs @ ys) os \<longleftrightarrow> pop_ok ys os \<and> pop_ok xs (pop_cleanups ys os)"
  by (induction xs) (auto simp: pop_cleanups_append)

lemma ignore_not_found_state: "snd (ignore_not_found f os) = snd (f os)"
  by (cases "f os"; cases "fst (f os)") (auto simp: ignore_not_found_def)

text \<open>Cleanup functions that change directories only, and none that were there at first.\<close>

definition only_dirs :: "('os \<Rightarrow> fs_view) \<Rightarrow> fs_view \<Rightarrow> 'os cleanup_fn list \<Rightarrow> bool" where
  "only_dirs view v0 fs \<longleftrightarrow>
     (\<forall>t. fv_files (view (pop_cleanups fs t)) = fv_files (view t) \<and> fv_mounts (view (pop_cleanups fs t)) = fv_mounts (view t) \<and>
        (fv_dirs v0 \<subseteq> fv_dirs (view t) \<longrightarrow> fv_dirs v0 \<subseteq> fv_dirs (view (pop_cleanups fs t))))"

lemma only_dirs_restored: "only_dirs view v0 fs \<Longrightarrow> restored v0 (view t) \<Longrightarrow> restored v0 (view (pop_cleanups fs t))"
  by (simp add: only_dirs_def restored_def)

lemma make_parent_undone:
  assumes "netns_laws Y view path" "path_parent path = Some parent" "make_parent Y parent os = (r, os')"
  shows "restored (view os) (view os')" and "r = Inr fs \<Longrightarrow> only_dirs view (view os) fs"
proof -
  note Y = netns_lawsD [OF assms(1) disjI2 [OF assms(2)]]
  obtain b os1 where ex: "cs_exists Y parent os = (b, os1)" by fastforce
  note 1 = Y(1) [OF ex]
  have "restored (view os) (view os') \<and> (r = Inr fs \<longrightarrow> only_dirs view (view os) fs)"
  proof (cases b)
    case True
    with assms(3) ex 1 show ?thesis by (auto simp: make_parent_def restored_def only_dirs_def)
  next
    case False
    obtain c os2 where mk: "cs_create_dir_all Y parent os1 = (c, os2)" by fastforce
    from Y(2) [OF mk] 1 have "restored (view os) (view os2)" by (auto simp: restored_def)
    moreover have "os' = os2" "r = Inr fs \<Longrightarrow> fs = [ignore_not_found (cs_remove_dir Y parent)]"
      using assms(3) ex mk False by (cases c; auto simp: make_parent_def op_bind_def op_map_err_def op_ok_def)+
    moreover have "only_dirs view (view os) [ignore_not_found (cs_remove_dir Y parent)]"
      unfolding only_dirs_def
    proof
      fix t
      obtain d t' where rm: "cs_remove_dir Y parent t = (d, t')" by fastforce
      from False 1 have "parent \<notin> fv_dirs (view os)" by auto
      with Y(5) [OF rm] show "fv_files (view (pop_cleanups [ignore_not_found (cs_remove_dir Y parent)] t)) = fv_files (view t) \<and>
          fv_mounts (view (pop_cleanups [ignore_not_found (cs_remove_dir Y parent)] t)) = fv_mounts (view t) \<and>
          (fv_dirs (view os) \<subseteq> fv_dirs (view t) \<longrightarrow>
           fv_dirs (view os) \<subseteq> fv_dirs (view (pop_cleanups [ignore_not_found (cs_remove_dir Y parent)] t)))"
        by (auto simp: ignore_not_found_state rm)
    qed
    ultimately show ?thesis by auto
  qed
  then show "restored (view os) (view os')" "r = Inr fs \<Longrightarrow> only_dirs view (view os) fs" by blast+
qed

lemma mount_netns_view:
  assumes "netns_laws Y view path" "mount_netns Y path os = (r, os')"
  shows "view os' = (if is_ok r then view os\<lparr>fv_mounts := add_mset path (fv_mounts (view os))\<rparr> else view os)"
    and "is_ok r \<Longrightarrow> path_to_cstring path = Inr path"
proof -
  note Y = netns_lawsD [OF assms(1) disjI1 [OF refl]]
  have none: "cstring ''none'' = Inr ''none''" and src: "cstring ''/proc/thread-self/ns/net'' = Inr ''/proc/thread-self/ns/net''"
    by (simp_all add: cstring_def contains_nul_def)
  obtain n os1 where un: "cs_unshare Y CLONE_NEWNET os = (n, os1)" by fastforce
  obtain k os2 where mt: "cs_mount Y ''/proc/thread-self/ns/net'' path ''none'' MS_BIND os1 = (k, os2)" by fastforce
  show "view os' = (if is_ok r then view os\<lparr>fv_mounts := add_mset path (fv_mounts (view os))\<rparr> else view os)"
    using assms(2) Y(8) [OF un] Y(6) [OF mt]
    by (auto simp: mount_netns_def op_bind_def none src path_to_cstring_def un mt split: if_splits)
  show "is_ok r \<Longrightarrow> path_to_cstring path = Inr path"
    using assms(2) by (auto simp: mount_netns_def op_bind_def none src path_to_cstring_def split: if_splits)
qed

text \<open>The two cleanup functions of a namespace: they have the effect they report.\<close>

lemma remove_netns_file:
  assumes "netns_laws Y view path" "path \<in> fv_files (view t)" "ignore_not_found (cs_remove_file Y path) t = (r, t')"
  shows "view t' = (if is_ok r then view t\<lparr>fv_files := fv_files (view t) - {path}\<rparr> else view t)"
proof -
  obtain c u where rm: "cs_remove_file Y path t = (c, u)" by fastforce
  from netns_lawsD(4) [OF assms(1) disjI1 [OF refl] rm] assms(2,3) rm show ?thesis
    by (auto simp: ignore_not_found_def split: sum.splits if_splits)
qed

lemma unmount_netns:
  assumes "netns_laws Y view path" "path \<in># fv_mounts (view t)" "path_to_cstring path = Inr path" "unmount_cleanup Y path t = (r, t')"
  shows "view t' = (if is_ok r then view t\<lparr>fv_mounts := fv_mounts (view t) - {#path#}\<rparr> else view t)"
proof -
  obtain n u where um: "cs_umount2 Y path MNT_DETACH t = (n, u)" by fastforce
  from netns_lawsD(7) [OF assms(1) disjI1 [OF refl] um] assms(2-4) um show ?thesis
    by (auto simp: unmount_cleanup_def Let_def split: if_splits)
qed

text \<open>
  A namespace that has been created: undone when its cleanup functions report success, at any later time,
  as long as the view has not changed until then. One whose creation failed at the mount: undone, or its
  file is left behind because it could not be removed.
\<close>

lemma mount_undone:
  assumes laws: "netns_laws Y view path" and mt: "mount_netns Y path os = (mr, os')"
    and created: "view os = v\<lparr>fv_files := insert path (fv_files v)\<rparr>" "path \<notin> fv_files v"
    and v: "restored v0 v" and fs: "only_dirs view v0 fs"
    and later: "view t0 = view os'" and rm: "rm = ignore_not_found (cs_remove_file Y path)"
  shows "mr = Inl e \<Longrightarrow> is_ok (fst (rm t0)) \<Longrightarrow> restored v0 (view (pop_cleanups (fs @ [rm]) t0))"
    and "mr = Inr u \<Longrightarrow> pop_ok (fs @ [rm, unmount_cleanup Y path]) t0 \<Longrightarrow>
      restored v0 (view (pop_cleanups (fs @ [rm, unmount_cleanup Y path]) t0))"
proof -
  note M = mount_netns_view [OF laws mt]
  have undo: "restored v0 (view (pop_cleanups (fs @ [rm]) t))" if "view t = view os" "is_ok (fst (rm t))" for t
  proof -
    obtain c t' where run: "rm t = (c, t')" by fastforce
    from remove_netns_file [OF laws _ run [unfolded rm]] that created v run have "restored v0 (view t')"
      by (auto simp: restored_def)
    with only_dirs_restored [OF fs] run show ?thesis by (simp add: pop_cleanups_append)
  qed
  then show "mr = Inl e \<Longrightarrow> is_ok (fst (rm t0)) \<Longrightarrow> restored v0 (view (pop_cleanups (fs @ [rm]) t0))"
    using M(1) later by simp
  assume mr: "mr = Inr u" and ok: "pop_ok (fs @ [rm, unmount_cleanup Y path]) t0"
  obtain k t where um: "unmount_cleanup Y path t0 = (k, t)" by fastforce
  from M mr later have "path \<in># fv_mounts (view t0)" and cs: "path_to_cstring path = Inr path" by simp_all
  from unmount_netns [OF laws this um] ok um M(1) mr later have "view t = view os" by (simp add: pop_ok_append)
  with undo [of t] ok um show "restored v0 (view (pop_cleanups (fs @ [rm, unmount_cleanup Y path]) t0))"
    by (simp add: pop_cleanups_append pop_ok_append)
qed

text \<open>The creation of a namespace, step by step.\<close>

lemma initialize_netns_steps:
  assumes laws: "netns_laws Y view path" and run: "real_initialize_netns Y path os = (r, os')"
  obtains (nothing) "r = Inr []" "view os' = view os"
    | (failed) e where "r = Inl e" "restored (view os) (view os')"
    | (created) fs os2 os3 mr os4 where
      "only_dirs view (view os) fs" "restored (view os) (view os2)" "path \<notin> fv_files (view os2)"
      "view os3 = view os2\<lparr>fv_files := insert path (fv_files (view os2))\<rparr>"
      "mount_netns Y path os3 = (mr, os4)"
      "(r, os') = (case mr of
         Inl e \<Rightarrow> (Inl e, pop_cleanups (fs @ [ignore_not_found (cs_remove_file Y path)]) os4)
       | Inr _ \<Rightarrow> (Inr (fs @ [ignore_not_found (cs_remove_file Y path), unmount_cleanup Y path]), os4))"
proof -
  note Y = netns_lawsD [OF laws disjI1 [OF refl]]
  obtain b os1 where ex: "cs_exists Y path os = (b, os1)" by fastforce
  from Y(1) [OF ex] have v1: "view os1 = view os" by simp
  show thesis
  proof (cases "b \<or> path_parent path = None")
    case True
    show thesis
    proof (cases b)
      case True
      with run ex v1 have "r = Inr []" "view os' = view os" by (auto simp: real_initialize_netns_def)
      then show thesis by (rule nothing)
    next
      case False
      with True run ex v1 have "r = Inl (InvalidConfig (''invalid netns path '' @ debug_str path))" "restored (view os) (view os')"
        by (auto simp: real_initialize_netns_def restored_def)
      then show thesis by (rule failed)
    qed
  next
    case False
    then obtain parent where parent: "path_parent path = Some parent" and b: "\<not> b" by auto
    obtain mp os2 where mk: "make_parent Y parent os1 = (mp, os2)" by fastforce
    obtain cr os3 where new: "cs_create_new Y path os2 = (cr, os3)" by fastforce
    obtain mr os4 where mt: "mount_netns Y path os3 = (mr, os4)" by fastforce
    note P = make_parent_undone [OF laws parent mk, unfolded v1] and N = Y(3) [OF new]
    note steps = run ex b parent mk new mt
    consider (no_dir) e where "mp = Inl e" | (no_file) fs e where "mp = Inr fs" "cr = Inl e" | (made) fs u where "mp = Inr fs" "cr = Inr u"
      by (cases mp; cases cr) auto
    then show thesis
    proof cases
      case no_dir
      with steps P(1) failed show thesis by (auto simp: real_initialize_netns_def op_bind_def)
    next
      case no_file
      with steps N P(1) failed show thesis by (auto simp: real_initialize_netns_def op_bind_def op_map_err_def)
    next
      case made
      with steps have "(r, os') = (case mr of
         Inl e \<Rightarrow> (Inl e, pop_cleanups (fs @ [ignore_not_found (cs_remove_file Y path)]) os4)
       | Inr _ \<Rightarrow> (Inr (fs @ [ignore_not_found (cs_remove_file Y path), unmount_cleanup Y path]), os4))"
        by (auto simp: real_initialize_netns_def op_bind_def op_map_err_def Let_def split: sum.splits)
      with created [OF P(2) [OF made(1)] P(1) _ _ mt] N made(2) show thesis by simp
    qed
  qed
qed

lemma initialize_netns_undone_later:
  assumes laws: "netns_laws Y view path" and run: "real_initialize_netns Y path os = (Inr fs, os')"
    and later: "view t = view os'" and ok: "pop_ok fs t"
  shows "restored (view os) (view (pop_cleanups fs t))"
  using laws run
proof (cases rule: initialize_netns_steps)
  case (created gs os2 os3 mr os4)
  then obtain u where u: "mr = Inr u" "os' = os4"
    "fs = gs @ [ignore_not_found (cs_remove_file Y path), unmount_cleanup Y path]"
    by (auto split: sum.splits)
  from mount_undone(2) [OF laws created(5,4,3,2,1) _ refl u(1)] u(2,3) later ok show ?thesis by blast
qed (use later in \<open>auto simp: restored_def\<close>)

text \<open>
  C17: creating a network namespace is undone. When it succeeded and its cleanup functions, run last first,
  all report success, there are the files and the mount points there were before, and every directory
  there was is still there. The same holds when it failed, at whatever step, unless the file it had
  created for the namespace could not be removed again, in which case that is the only one left behind.
\<close>

theorem initialize_netns_undone:
  assumes laws: "netns_laws Y view path" and run: "real_initialize_netns Y path os = (r, os')"
  shows "case r of
      Inr fs \<Rightarrow> pop_ok fs os' \<longrightarrow> restored (view os) (view (pop_cleanups fs os'))
    | Inl _ \<Rightarrow> restored (view os) (view os') \<or>
        (restored (view os) (view os'\<lparr>fv_files := fv_files (view os') - {path}\<rparr>) \<and>
         (\<exists>s e s'. path \<in> fv_files (view s) \<and> cs_remove_file Y path s = (Inl e, s')))"
proof (cases r)
  case (Inr fs)
  with initialize_netns_undone_later [OF laws _ refl] run show ?thesis by auto
next
  case (Inl e)
  from laws run show ?thesis
  proof (cases rule: initialize_netns_steps)
    case (created gs os2 os3 mr os4)
    let ?rm = "ignore_not_found (cs_remove_file Y path)"
    from created(6) Inl have mr: "mr = Inl e" and os': "os' = pop_cleanups (gs @ [?rm]) os4" by (auto split: sum.splits)
    show ?thesis
    proof (cases "is_ok (fst (?rm os4))")
      case True
      from mount_undone(1) [OF laws created(5,4,3,2,1) refl refl mr True] os' Inl show ?thesis by simp
    next
      case False
      then obtain e' s' where fail: "cs_remove_file Y path os4 = (Inl e', s')"
        by (cases "cs_remove_file Y path os4"; cases "fst (cs_remove_file Y path os4)") (auto simp: ignore_not_found_def)
      have v4: "view os4 = view os3" using mount_netns_view(1) [OF laws created(5)] mr by simp
      with netns_lawsD(4) [OF laws disjI1 [OF refl] fail] have "view s' = view os3" by simp
      with created(1,2,3,4) have "restored (view os) (view os'\<lparr>fv_files := fv_files (view os') - {path}\<rparr>)"
        by (auto simp: os' pop_cleanups_append ignore_not_found_state fail restored_def only_dirs_def)
      moreover have "path \<in> fv_files (view os4)" using v4 created(4) by simp
      ultimately show ?thesis using fail Inl by auto
    qed
  qed (use Inl in auto)
qed

end
