(* ===== verification/Net_Teardown.thy ===== *)
theory Net_Teardown
  imports Api_Trace Cni_Real
begin

text \<open>
  The set-up of the network by a machine (\<open>setup_network\<close> of \<open>src/machine.rs\<close>) over the real CNI operations
  of \<open>src/network.rs\<close>, and its undoing by the machine's cleanup (\<open>do_cleanup\<close>).
\<close>

section \<open>Plugins leave the namespaces alone\<close>



lemma leaves_then_pure [keeps_intros]: "leaves log f \<Longrightarrow> leaves log (op_bind f (\<lambda>x os. (g x, os)))"
  by (rule leaves_bind) (simp_all add: leaves_def)










section \<open>Set-up and cleanup\<close>




lemma setup_network_steps:
  assumes "setup_network N (m, w) = (Inr (), (m1, w1))" "cni_interface (cfg_network_interfaces (cfg m)) \<noteq> None"
    and "path = unwrap_or (default_net_ns_path m) (net_ns (cfg m))"
  shows "\<exists>fs1 fs2 config result i os1 os2 i'. initialize_netns (cni_network_ops m) path (sos w) = (Inr fs1, os1) \<and>
    invoke_cni (cni_network_ops m) config os1 = (Inr (result, fs2), os2) \<and> cni_net_ns_path config = Some path \<and>
    iface_apply_cni_result N i result (netlink_ops m) os2 = (Inr i', sos w1) \<and>
    cleanup_funcs m1 = cleanup_funcs m @ fs1 @ fs2"
proof -
  from assms obtain fs ifs where
    cni: "setup_cni N (vmid (cfg m)) path (cni_network_ops m) (netlink_ops m) (cfg_network_interfaces (cfg m), sos w) = (Inr fs, (ifs, sos w1))"
    and fs: "cleanup_funcs m1 = cleanup_funcs m @ fs"
    by (auto simp: setup_network_def Let_def push_cleanup_funcs_def split: prod.splits sum.splits if_splits)
  have "cni_net_ns_path (completed_cni (vmid (cfg m)) path c) = Some path" for c
    by (simp add: completed_cni_def set_defaults_def Let_def)
  with cni fs assms(2) show ?thesis
    by (simp add: setup_cni_def Let_def split: prod.splits sum.splits option.splits) blast
qed

section \<open>What the machine relies on\<close>

text \<open>
  The contract of \<open>CniNetworkOperations\<close> with the machine, for the paths of namespaces that are \<open>good\<close> in the
  outside world: the cleanup functions of a namespace, when they report success, undo it at any later time,
  as long as the view is what it was after its creation; neither the plugins nor the cleanup functions they
  leave change the view.
\<close>

locale cni_provider =
  fixes good :: "string \<Rightarrow> bool" and ops :: "'os cni_network_operations" and view :: "'os \<Rightarrow> fs_view"
  assumes namespace_undone: "good path \<Longrightarrow> initialize_netns ops path os = (Inr fs, os') \<Longrightarrow>
      view t = view os' \<Longrightarrow> pop_ok fs t \<Longrightarrow> restored (view os) (view (pop_cleanups fs t))"
    and plugins_view: "good path \<Longrightarrow> invoke_cni ops config os = (Inr (result, fs), os') \<Longrightarrow> view os' = view os"
    and undo_view: "good path \<Longrightarrow> invoke_cni ops config os = (Inr (result, fs), os') \<Longrightarrow> view (pop_cleanups fs t) = view t"
begin

lemma network_undone:
  assumes "good path" "\<And>ns name. leaves view (netlink_ops m ns name)" "cni_network_ops m = ops"
    and path: "path = unwrap_or (default_net_ns_path m) (net_ns (cfg m))"
    and up: "setup_network N (m, w) = (Inr (), (m1, w1))" "cni_interface (cfg_network_interfaces (cfg m)) \<noteq> None"
    and later: "view t = view (sos w1)"
  shows "\<exists>fs1 fs2 config result os1 os2. cleanup_funcs m1 = cleanup_funcs m @ fs1 @ fs2 \<and>
    invoke_cni ops config os1 = (Inr (result, fs2), os2) \<and> cni_net_ns_path config = Some path \<and>
    (pop_ok (fs1 @ fs2) t \<longrightarrow> restored (view (sos w)) (view (pop_cleanups (fs1 @ fs2) t)))"
proof -
  from setup_network_steps [OF up path] assms(3) obtain fs1 fs2 config result i os1 os2 i' where
    ns: "initialize_netns ops path (sos w) = (Inr fs1, os1)"
    and inv: "invoke_cni ops config os1 = (Inr (result, fs2), os2)" "cni_net_ns_path config = Some path"
    and app: "iface_apply_cni_result N i result (netlink_ops m) os2 = (Inr i', sos w1)"
    and fs: "cleanup_funcs m1 = cleanup_funcs m @ fs1 @ fs2" by auto
  have "view (pop_cleanups fs2 t) = view os1"
    using undo_view [OF assms(1) inv(1), of t] plugins_view [OF assms(1) inv(1)] apply_log [OF assms(2) app] later by simp
  from namespace_undone [OF assms(1) ns this]
  have "pop_ok (fs1 @ fs2) t \<longrightarrow> restored (view (sos w)) (view (pop_cleanups (fs1 @ fs2) t))"
    by (simp add: pop_cleanups_append pop_ok_append)
  with fs inv show ?thesis by blast
qed

end



interpretation unsupported_cni: cni_provider "\<lambda>_. True" unsupported_cni_network_operations view for view
  by unfold_locales (simp_all add: unsupported_cni_network_operations_def op_simps)


end
