(* ===== verification/Toy_Net.thy ===== *)
theory Toy_Net
  imports Toy_World Net_Teardown
begin

text \<open>
  A concrete world for the CNI plugins and network namespaces: lists of files, directories and mount
  points, and two plugins that write a lease each and print a result.
\<close>

record toy_net =
  tn_files :: "string list"
  tn_dirs :: "string list"
  tn_mounts :: "string list"
  tn_runs :: "string list"

definition toy_net_error :: io_error where
  "toy_net_error = \<lparr>io_kind = NotFound, io_os_code = Some 2, io_text = ''No such file or directory'', io_inner = NoInner\<rparr>"

definition toy_net_busy :: io_error where
  "toy_net_busy = \<lparr>io_kind = OtherKind, io_os_code = Some 16, io_text = ''Device or resource busy'', io_inner = NoInner\<rparr>"

definition toy_net_sys :: "toy_net cni_sys" where
  "toy_net_sys =
    \<lparr>cs_exists = (\<lambda>p s. (p \<in> set (tn_files s) \<or> p \<in> set (tn_dirs s), s)),
     cs_is_file = (\<lambda>p s. (p \<in> set (tn_files s), s)),
     cs_read = (\<lambda>p s. (if p \<in> set (tn_files s) then Inr ''net'' else Inl toy_net_error, s)),
     cs_read_dir = (\<lambda>p s. (Inr [], s)),
     cs_create_dir_all = (\<lambda>p s. (Inr (), s\<lparr>tn_dirs := p # tn_dirs s\<rparr>)),
     cs_remove_dir = (\<lambda>p s. (Inr (), s\<lparr>tn_dirs := removeAll p (tn_dirs s)\<rparr>)),
     cs_create_new = (\<lambda>p s. if p \<in> set (tn_files s) then (Inl toy_net_error, s) else (Inr (), s\<lparr>tn_files := p # tn_files s\<rparr>)),
     cs_remove_file = (\<lambda>p s. if p \<in> set (tn_mounts s) then (Inl toy_net_busy, s)
       else if p \<in> set (tn_files s) then (Inr (), s\<lparr>tn_files := removeAll p (tn_files s)\<rparr>) else (Inl toy_net_error, s)),
     cs_spawn = (\<lambda>p _ s. (Inr 5, s\<lparr>tn_runs := tn_runs s @ [p], tn_files := (''/var/lib/cni'' @ p) # tn_files s\<rparr>)),
     cs_write_stdin = (\<lambda>_ _. op_ok ()),
     cs_wait_with_output = (\<lambda>_ s. (Inr \<lparr>po_status = toy_status, po_stdout = ''out'', po_stderr = []\<rparr>, s)),
     cs_unshare = (\<lambda>_ s. (0, s)),
     cs_mount = (\<lambda>_ t _ _ s. (0, s\<lparr>tn_mounts := t # tn_mounts s\<rparr>)),
     cs_umount2 = (\<lambda>t _ s. if t \<in> set (tn_mounts s) then (0, s\<lparr>tn_mounts := remove1 t (tn_mounts s)\<rparr>) else (- 1, s)),
     cs_last_error = (\<lambda>_. toy_net_error)\<rparr>"

text \<open>The view of the place where the namespaces are.\<close>

definition toy_netns_place :: "string \<Rightarrow> bool" where
  "toy_netns_place p \<longleftrightarrow> take 14 p = ''/var/run/netns''"

definition toy_net_view :: "toy_net \<Rightarrow> fs_view" where
  "toy_net_view s = \<lparr>fv_files = set (filter toy_netns_place (tn_files s)), fv_dirs = set (filter toy_netns_place (tn_dirs s)),
     fv_mounts = mset (tn_mounts s)\<rparr>"

lemma toy_netns_laws: "netns_laws toy_net_sys toy_net_view ''/var/run/netns/vm''"
proof -
  have place: "toy_netns_place ''/var/run/netns/vm''" "toy_netns_place ''/var/run/netns''"
    and parent: "path_parent ''/var/run/netns/vm'' = Some ''/var/run/netns''" by code_simp+
  have "netns_laws toy_net_sys toy_net_view p" if "toy_netns_place p" "path_parent p = Some q" "toy_netns_place q" for p q
    using that
    by (auto simp: netns_laws_def toy_net_sys_def toy_net_view_def toy_net_error_def toy_net_busy_def mset_remove1 split: if_splits intro!: exI [of _ "{_}"])
  with place parent show ?thesis by blast
qed

definition toy_network :: json where
  "toy_network = JObject [(''cniVersion'', JString ''0.4.0''), (''name'', JString ''fcnet''),
     (''plugins'', JArray [JObject [(''type'', JString ''ptp'')], JObject [(''type'', JString ''tc-redirect-tap'')]])]"

definition toy_json :: json_lib where
  "toy_json = \<lparr>json_parse = (\<lambda>t. if t = ''net'' then Inr toy_network else if t = ''out'' then Inr (JObject [])
       else Inl ''expected value''),
     json_to_vec = (\<lambda>_. Inr ''in''), cni_result_from_value = (\<lambda>_. Inr toy_cni_result)\<rparr>"

definition toy_net :: toy_net where
  "toy_net = \<lparr>tn_files = [''/bin/ptp'', ''/bin/tc-redirect-tap'', ''/conf/fcnet.conflist''], tn_dirs = [], tn_mounts = [], tn_runs = []\<rparr>"

definition toy_net_cni :: cni_configuration where
  "toy_net_cni = toy_cni\<lparr>cni_bin_path := [''/opt'', ''/bin''], cni_conf_dir := Some ''/conf''\<rparr>"

theorem loaded_network_config_wf_witness:
  "\<exists>m ps. toy_network = JObject m \<and> map_of m ''plugins'' = Some (JArray ps) \<and> normalize_network_config toy_network None = Inr toy_network"
proof -
  have "fst (load_network_config toy_net_sys toy_json toy_net_cni toy_net) = Inr toy_network" by code_simp
  then obtain s where "load_network_config toy_net_sys toy_json toy_net_cni toy_net = (Inr toy_network, s)" by (metis prod.collapse)
  from loaded_network_config_wf [OF this] show ?thesis .
qed

theorem plugin_input_fields_witness:
  "\<exists>m. plugin_input toy_network (JObject [(''type'', JString ''ptp'')]) (Some JNull) = Inr (JObject m) \<and>
     map_of m ''name'' = Some (JString ''fcnet'') \<and> map_of m ''prevResult'' = Some JNull \<and> map_of m ''type'' = Some (JString ''ptp'')"
proof -
  have "is_ok (plugin_input toy_network (JObject [(''type'', JString ''ptp'')]) (Some JNull))" by code_simp
  then obtain input where run: "plugin_input toy_network (JObject [(''type'', JString ''ptp'')]) (Some JNull) = Inr input"
    by (auto simp: is_ok_iff)
  from plugin_input_fields [OF run] run show ?thesis by (auto simp: toy_network_def)
qed

theorem cni_add_threads_results_witness:
  "tn_runs (snd (invoke_network_list toy_net_sys toy_json toy_net_cni ''ADD'' toy_net)) = [''/bin/ptp'', ''/bin/tc-redirect-tap''] \<and>
   (\<exists>network plugins prevs outs ss. plugin_run toy_net_sys toy_json toy_net_cni network ''ADD'' plugins prevs outs ss \<and>
      hd prevs = None \<and> last ss = snd (invoke_network_list toy_net_sys toy_json toy_net_cni ''ADD'' toy_net))"
proof
  show "tn_runs (snd (invoke_network_list toy_net_sys toy_json toy_net_cni ''ADD'' toy_net)) = [''/bin/ptp'', ''/bin/tc-redirect-tap'']"
    by code_simp
  have "fst (invoke_network_list toy_net_sys toy_json toy_net_cni ''ADD'' toy_net) = Inr (Some toy_cni_result)" by code_simp
  then obtain s where run: "invoke_network_list toy_net_sys toy_json toy_net_cni ''ADD'' toy_net = (Inr (Some toy_cni_result), s)"
    by (metis prod.collapse)
  from cni_add_threads_results [OF run] obtain network plugins prevs outs ss where
    "plugin_run toy_net_sys toy_json toy_net_cni network ''ADD'' plugins prevs outs ss" "hd prevs = None" "last ss = s"
    by blast
  then show "\<exists>network plugins prevs outs ss. plugin_run toy_net_sys toy_json toy_net_cni network ''ADD'' plugins prevs outs ss \<and>
      hd prevs = None \<and> last ss = snd (invoke_network_list toy_net_sys toy_json toy_net_cni ''ADD'' toy_net)"
    unfolding run snd_conv by blast
qed

theorem initialize_netns_undone_witness:
  "\<exists>fs s. real_initialize_netns toy_net_sys ''/var/run/netns/vm'' toy_net = (Inr fs, s) \<and> length fs = 3 \<and>
     ''/var/run/netns/vm'' \<in> set (tn_mounts s) \<and> restored (toy_net_view toy_net) (toy_net_view (pop_cleanups fs s))"
proof -
  have "(case real_initialize_netns toy_net_sys ''/var/run/netns/vm'' toy_net of
      (Inr fs, s) \<Rightarrow> length fs = 3 \<and> ''/var/run/netns/vm'' \<in> set (tn_mounts s) \<and> pop_ok fs s | _ \<Rightarrow> False)" by code_simp
  then obtain fs s where run: "real_initialize_netns toy_net_sys ''/var/run/netns/vm'' toy_net = (Inr fs, s)"
    "length fs = 3" "''/var/run/netns/vm'' \<in> set (tn_mounts s)" "pop_ok fs s"
    by (auto split: prod.splits sum.splits)
  from initialize_netns_undone [OF toy_netns_laws run(1)] run show ?thesis by simp
qed





text \<open>
  When the namespace's file cannot be created, the directory created for it stays.
\<close>

lemma initialize_netns_leaves_directory:
  "\<exists>Y :: toy_net cni_sys. \<exists>view. netns_laws Y view ''/var/run/netns/vm'' \<and> (case real_initialize_netns Y ''/var/run/netns/vm'' toy_net of
     (Inl _, s) \<Rightarrow> ''/var/run/netns'' \<in> fv_dirs (view s) - fv_dirs (view toy_net) | _ \<Rightarrow> False)"
proof (intro exI conjI)
  let ?Y = "toy_net_sys\<lparr>cs_create_new := (\<lambda>_ s. (Inl toy_net_error, s))\<rparr>"
  show "netns_laws ?Y toy_net_view ''/var/run/netns/vm''"
    using toy_netns_laws by (simp add: netns_laws_def toy_net_sys_def)
  show "case real_initialize_netns ?Y ''/var/run/netns/vm'' toy_net of
     (Inl _, s) \<Rightarrow> ''/var/run/netns'' \<in> fv_dirs (toy_net_view s) - fv_dirs (toy_net_view toy_net) | _ \<Rightarrow> False"
    by code_simp
qed

text \<open>
  When the plugins cannot be run, the set-up of an interface fails with the namespace created for it still
  mounted, and its cleanup functions are not handed to anybody.
\<close>

lemma setup_cni_failure_leaves_namespace:
  "case setup_cni toy_netmask ''vm'' ''/var/run/netns/vm'' (real_cni_network_operations toy_net_sys toy_json)
     unsupported_get_link ([toy_cni_iface], toy_net) of
     (Inl _, (_, s)) \<Rightarrow> ''/var/run/netns/vm'' \<in> set (tn_mounts s) | _ \<Rightarrow> False"
  by code_simp

end
