(* ===== verification/Fifo_Capture.thy ===== *)
theory Fifo_Capture
  imports Polling
begin

text \<open>
  The copying of a log or metrics fifo (\<open>capture_fifo_to_file_with_channel\<close> of \<open>src/machine.rs\<close>) and the
  \<open>FifoLogWriter\<close> of \<open>src/config.rs\<close>. The body of the spawned thread is a function of its own, over the
  calls it makes; times are in nanoseconds.
\<close>

section \<open>The worker\<close>

text \<open>
  \<open>ff_read\<close> is a read of up to 8192 bytes from the fifo, opened without blocking; \<open>ff_write_all\<close> writes to
  the writer; \<open>ff_send\<close> sends on the channel \<open>done\<close>; \<open>ff_exit\<close> reads the exit event.
\<close>

record 'os fifo_api =
  ff_exit :: "'os \<Rightarrow> bool \<times> 'os"
  ff_read :: "('os, io_error, string) op"
  ff_write_all :: "string \<Rightarrow> ('os, io_error, unit) op"
  ff_now :: "'os \<Rightarrow> nat \<times> 'os"
  ff_sleep :: "nat \<Rightarrow> 'os \<Rightarrow> 'os"
  ff_remove :: "'os \<Rightarrow> 'os"
  ff_send :: "io_error + unit \<Rightarrow> 'os \<Rightarrow> 'os"

text \<open>The loop's own variables: \<open>seen_data\<close> and \<open>idle_since\<close>.\<close>

type_synonym 'os capture_state = "(bool \<times> nat option) \<times> 'os"

definition IDLE_LIMIT :: nat where "IDLE_LIMIT = 100 * 10 ^ 6"
definition IDLE_SLEEP :: nat where "IDLE_SLEEP = 10 * 10 ^ 6"

definition capture_idle :: "'os fifo_api \<Rightarrow> 'os capture_state \<Rightarrow> (io_error + unit) option \<times> 'os capture_state" where
  "capture_idle F = (\<lambda>((seen_data, idle_since), os).
     if seen_data then
       (case (case idle_since of Some t \<Rightarrow> (t, os) | None \<Rightarrow> ff_now F os) of
          (idle_start, os1) \<Rightarrow>
            (case ff_now F os1 of
               (t, os2) \<Rightarrow>
                 if t - idle_start \<ge> IDLE_LIMIT then (Some (Inr ()), ((True, Some idle_start), os2))
                 else (None, ((True, Some idle_start), ff_sleep F IDLE_SLEEP os2))))
     else (None, ((False, idle_since), ff_sleep F IDLE_SLEEP os)))"

definition capture_round :: "'os fifo_api \<Rightarrow> 'os capture_state \<Rightarrow> (io_error + unit) option \<times> 'os capture_state" where
  "capture_round F = (\<lambda>((seen_data, idle_since), os).
     case ff_exit F os of
       (True, os1) \<Rightarrow> (Some (Inr ()), ((seen_data, idle_since), os1))
     | (False, os1) \<Rightarrow>
         (case ff_read F os1 of
            (Inr chunk, os2) \<Rightarrow>
              if chunk = [] then capture_idle F ((seen_data, idle_since), os2)
              else (case ff_write_all F chunk os2 of
                      (Inl e, os3) \<Rightarrow> (Some (Inl e), ((True, None), os3))
                    | (Inr _, os3) \<Rightarrow> (None, ((True, None), os3)))
          | (Inl e, os2) \<Rightarrow>
              if io_kind e = WouldBlock then capture_idle F ((seen_data, idle_since), os2)
              else (Some (Inl e), ((seen_data, idle_since), os2))))"

text \<open>
  The thread: the loop, and what it does behind it. After an error the message goes out before the fifo is
  removed, otherwise after. \<open>None\<close>: it is still running.
\<close>

definition capture_worker :: "'os fifo_api \<Rightarrow> nat \<Rightarrow> 'os \<Rightarrow> (io_error + unit) option \<times> 'os" where
  "capture_worker F fuel os =
     (case poll fuel (capture_round F) ((False, None), os) of
        (None, (_, os1)) \<Rightarrow> (None, os1)
      | (Some (Inl e), (_, os1)) \<Rightarrow> (Some (Inl e), ff_remove F (ff_send F (Inl e) os1))
      | (Some (Inr _), (_, os1)) \<Rightarrow> (Some (Inr ()), ff_send F (Inr ()) (ff_remove F os1)))"

text \<open>The method: it opens the fifo and returns with the thread running, which is the worker returned.\<close>

definition capture_fifo_to_file_with_channel ::
  "'os os_env \<Rightarrow> 'os fifo_api \<Rightarrow> string \<Rightarrow> ('os, error, nat \<Rightarrow> 'os \<Rightarrow> (io_error + unit) option \<times> 'os) op" where
  "capture_fifo_to_file_with_channel E F fifo_path =
     op_then (op_io (fs_open_fifo E fifo_path)) (op_ok (capture_worker F))"

section \<open>FifoLogWriter\<close>

text \<open>A writer behind a mutex, which is poisoned when a thread panicked holding it.\<close>

record 'os fifo_log_writer =
  flw_poisoned :: "'os \<Rightarrow> bool"
  flw_write :: "string \<Rightarrow> ('os, io_error, nat) op"
  flw_flush :: "('os, io_error, unit) op"

definition poisoned_error :: io_error where
  "poisoned_error = io_new OtherKind ''fifo log writer mutex poisoned''"

definition fifo_log_writer_write :: "'os fifo_log_writer \<Rightarrow> string \<Rightarrow> ('os, io_error, nat) op" where
  "fifo_log_writer_write W buf os = (if flw_poisoned W os then (Inl poisoned_error, os) else flw_write W buf os)"

definition fifo_log_writer_flush :: "'os fifo_log_writer \<Rightarrow> ('os, io_error, unit) op" where
  "fifo_log_writer_flush W os = (if flw_poisoned W os then (Inl poisoned_error, os) else flw_flush W os)"

section \<open>Nothing is lost\<close>

text \<open>
  What has been read from the fifo, what has been written, and the messages on the channel, and how the
  calls change them. A write that fails may have written a part.
\<close>

record capture_log =
  cl_read :: string
  cl_written :: string
  cl_done :: "(io_error + unit) list"

definition capture_laws :: "'os fifo_api \<Rightarrow> ('os \<Rightarrow> capture_log) \<Rightarrow> bool" where
  "capture_laws F log \<longleftrightarrow>
     (\<forall>os. log (snd (ff_exit F os)) = log os) \<and>
     (\<forall>os r os'. ff_read F os = (r, os') \<longrightarrow>
        log os' = (case r of Inr bs \<Rightarrow> log os\<lparr>cl_read := cl_read (log os) @ bs\<rparr> | Inl _ \<Rightarrow> log os)) \<and>
     (\<forall>bs os r os'. ff_write_all F bs os = (r, os') \<longrightarrow>
        (\<exists>k. log os' = log os\<lparr>cl_written := cl_written (log os) @ take k bs\<rparr> \<and> (is_ok r \<longrightarrow> k = length bs))) \<and>
     (\<forall>os. log (snd (ff_now F os)) = log os) \<and>
     (\<forall>n os. log (ff_sleep F n os) = log os) \<and>
     (\<forall>os. log (ff_remove F os) = log os) \<and>
     (\<forall>m os. log (ff_send F m os) = log os\<lparr>cl_done := cl_done (log os) @ [m]\<rparr>)"

lemma capture_lawsD:
  assumes "capture_laws F log"
  shows "ff_exit F os = (b, os') \<Longrightarrow> log os' = log os"
    and "ff_read F os = (r, os') \<Longrightarrow>
      log os' = (case r of Inr bs \<Rightarrow> log os\<lparr>cl_read := cl_read (log os) @ bs\<rparr> | Inl _ \<Rightarrow> log os)"
    and "ff_write_all F bs os = (w, os') \<Longrightarrow>
      \<exists>k. log os' = log os\<lparr>cl_written := cl_written (log os) @ take k bs\<rparr> \<and> (is_ok w \<longrightarrow> k = length bs)"
    and "ff_now F os = (t, os') \<Longrightarrow> log os' = log os"
    and "log (ff_sleep F n os) = log os"
    and "log (ff_remove F os) = log os"
    and "log (ff_send F m os) = log os\<lparr>cl_done := cl_done (log os) @ [m]\<rparr>"
  using assms unfolding capture_laws_def by (metis snd_conv)+

lemma capture_idle_log:
  assumes "capture_laws F log" "capture_idle F (v, os) = (r, (v', os'))"
  shows "log os' = log os"
  using assms(2) capture_lawsD(4,5) [OF assms(1)]
  by (auto simp: capture_idle_def split: prod.splits option.splits if_splits)

text \<open>
  A round appends the same bytes to what was read and what was written, unless it ends with an error.
\<close>

definition copied :: "capture_log \<Rightarrow> capture_log \<Rightarrow> bool" where
  "copied l l' \<longleftrightarrow> (\<exists>bs. cl_read l' = cl_read l @ bs \<and> cl_written l' = cl_written l @ bs) \<and> cl_done l' = cl_done l"

definition partly_copied :: "capture_log \<Rightarrow> capture_log \<Rightarrow> bool" where
  "partly_copied l l' \<longleftrightarrow>
     (\<exists>bs cs. cl_read l' = cl_read l @ bs @ cs \<and> cl_written l' = cl_written l @ bs) \<and> cl_done l' = cl_done l"

lemma copied_refl [simp]: "copied l l"
  by (simp add: copied_def)

lemma copied_trans: "copied a b \<Longrightarrow> copied b c \<Longrightarrow> copied a c" "copied a b \<Longrightarrow> partly_copied b c \<Longrightarrow> partly_copied a c"
  by (auto simp: copied_def partly_copied_def)

lemma capture_round_log:
  assumes laws: "capture_laws F log" and run: "capture_round F (v, os) = (r, (v', os'))"
  shows "case r of Some (Inl _) \<Rightarrow> partly_copied (log os) (log os') | _ \<Rightarrow> copied (log os) (log os')"
proof -
  note L = capture_lawsD [OF laws]
  obtain seen idle where v: "v = (seen, idle)" by fastforce
  obtain b os1 where ex: "ff_exit F os = (b, os1)" by fastforce
  obtain c os2 where rd: "ff_read F os1 = (c, os2)" by fastforce
  note 1 = L(1) [OF ex] and 2 = L(2) [OF rd]
  have idle: "copied (log os2) (log os')" if "capture_idle F ((seen, idle), os2) = (r, (v', os'))"
    using capture_idle_log [OF laws that] by simp
  have idle_ok: "r \<noteq> Some (Inl e)" if "capture_idle F ((seen, idle), os2) = (r, (v', os'))" for e
    using that by (auto simp: capture_idle_def split: prod.splits option.splits if_splits)
  consider (stop) b | (blocked) e where "\<not> b" "c = Inl e" "io_kind e = WouldBlock" | (failed) e where "\<not> b" "c = Inl e" "io_kind e \<noteq> WouldBlock"
    | (empty) "\<not> b" "c = Inr []" | (data) chunk where "\<not> b" "c = Inr chunk" "chunk \<noteq> []"
    by (cases b; cases c) auto
  then show ?thesis
  proof cases
    case (data chunk)
    obtain w os3 where wr: "ff_write_all F chunk os2 = (w, os3)" by fastforce
    from L(3) [OF wr] obtain k where "log os3 = log os2\<lparr>cl_written := cl_written (log os2) @ take k chunk\<rparr>"
      "is_ok w \<longrightarrow> k = length chunk" by blast
    with run v ex rd wr data 1 2 show ?thesis
      by (cases w) (auto simp: capture_round_def copied_def partly_copied_def intro!: exI [of _ "take k chunk"] exI [of _ "drop k chunk"])
  qed (use run v ex rd 1 2 idle idle_ok in \<open>auto simp: capture_round_def partly_copied_def split: option.split sum.split\<close>)
qed

lemma capture_loop_log:
  assumes "capture_laws F log"
  shows "poll n (capture_round F) (v, os) = (r, (v', os')) \<Longrightarrow>
    case r of Some (Inl _) \<Rightarrow> partly_copied (log os) (log os') | _ \<Rightarrow> copied (log os) (log os')"
proof (induction n arbitrary: v os)
  case (Suc n)
  obtain a u os1 where round: "capture_round F (v, os) = (a, (u, os1))" by (metis prod.exhaust)
  note step = capture_round_log [OF assms round]
  show ?case
  proof (cases a)
    case None
    with Suc round have "case r of Some (Inl _) \<Rightarrow> partly_copied (log os1) (log os') | _ \<Rightarrow> copied (log os1) (log os')" by simp
    with step None show ?thesis by (auto split: option.splits sum.splits intro: copied_trans)
  qed (use Suc.prems round step in auto)
qed auto

text \<open>
  C20: the worker loses nothing. Whatever the fifo and the writer do, a worker that has ended has sent exactly
  one message. When that is a success, it has written exactly the bytes it read, in their order; when it is an
  error, what it has written is the beginning of what it read.
\<close>

theorem capture_loses_nothing:
  assumes "capture_laws F log" "capture_worker F fuel os = (Some r, os')"
  shows "cl_done (log os') = cl_done (log os) @ [r] \<and>
    (\<exists>bs cs. cl_read (log os') = cl_read (log os) @ bs @ cs \<and> cl_written (log os') = cl_written (log os) @ bs \<and>
       (is_ok r \<longrightarrow> cs = []))"
proof -
  note L = capture_lawsD [OF assms(1)]
  obtain p u os1 where loop: "poll fuel (capture_round F) ((False, None), os) = (p, (u, os1))" by (metis prod.exhaust)
  from capture_loop_log [OF assms(1) loop] assms(2) loop show ?thesis
    by (auto simp: capture_worker_def L copied_def partly_copied_def split: option.splits sum.splits)
qed

section \<open>The worker ends\<close>

text \<open>A read that found nothing: the fifo is empty, with no writer (end of file) or with one.\<close>

definition no_data :: "io_error + string \<Rightarrow> bool" where
  "no_data r \<longleftrightarrow> (case r of Inr bs \<Rightarrow> bs = [] | Inl e \<Rightarrow> io_kind e = WouldBlock)"

text \<open>
  Time, and \<open>pending\<close>, the number of reads that will still find data: every such read is one less, and
  reads in vain, before the writer has come or while it pauses, change nothing. From the time \<open>settled\<close> on
  all that is still to be read is in the fifo.
\<close>

definition capture_time :: "'os fifo_api \<Rightarrow> ('os \<Rightarrow> nat) \<Rightarrow> ('os \<Rightarrow> nat) \<Rightarrow> nat \<Rightarrow> bool" where
  "capture_time F time pending settled \<longleftrightarrow>
     (\<forall>os t os'. ff_now F os = (t, os') \<longrightarrow> t = time os' \<and> time os \<le> time os' \<and> pending os' = pending os) \<and>
     (\<forall>n os. time os + n \<le> time (ff_sleep F n os) \<and> pending (ff_sleep F n os) = pending os) \<and>
     (\<forall>os b os'. ff_exit F os = (b, os') \<longrightarrow> time os \<le> time os' \<and> pending os' = pending os) \<and>
     (\<forall>bs os r os'. ff_write_all F bs os = (r, os') \<longrightarrow> time os \<le> time os' \<and> pending os' = pending os) \<and>
     (\<forall>os r os'. ff_read F os = (r, os') \<longrightarrow> time os \<le> time os' \<and>
        (if no_data r then pending os' = pending os \<and> (settled \<le> time os \<longrightarrow> pending os = 0)
         else is_ok r \<longrightarrow> pending os' < pending os))"

lemma capture_timeD:
  assumes "capture_time F time pending settled"
  shows "ff_now F os = (t, os') \<Longrightarrow> t = time os' \<and> time os \<le> time os' \<and> pending os' = pending os"
    and "time os + n \<le> time (ff_sleep F n os) \<and> pending (ff_sleep F n os) = pending os"
    and "ff_exit F os = (b, os') \<Longrightarrow> time os \<le> time os' \<and> pending os' = pending os"
    and "ff_write_all F bs os = (w, os') \<Longrightarrow> time os \<le> time os' \<and> pending os' = pending os"
    and "ff_read F os = (r, os') \<Longrightarrow> time os \<le> time os' \<and>
        (if no_data r then pending os' = pending os \<and> (settled \<le> time os \<longrightarrow> pending os = 0)
         else is_ok r \<longrightarrow> pending os' < pending os)"
  using assms unfolding capture_time_def by blast+

text \<open>The exit event is set from the time \<open>settled\<close> on.\<close>

definition exit_by :: "'os fifo_api \<Rightarrow> ('os \<Rightarrow> nat) \<Rightarrow> nat \<Rightarrow> bool" where
  "exit_by F time settled \<longleftrightarrow> (\<forall>os. settled \<le> time os \<longrightarrow> fst (ff_exit F os))"

text \<open>
  How many rounds are left at most: thirteen for each read with data, the pauses until \<open>settled\<close>, and those
  of the idle time.
\<close>

fun capture_rest :: "('os \<Rightarrow> nat) \<Rightarrow> ('os \<Rightarrow> nat) \<Rightarrow> nat \<Rightarrow> 'os capture_state \<Rightarrow> nat" where
  "capture_rest time pending settled ((seen, idle), os) =
     13 * pending os + pauses IDLE_SLEEP (settled - time os) +
     (case idle of Some t \<Rightarrow> pauses IDLE_SLEEP (t + IDLE_LIMIT - time os) | None \<Rightarrow> 12)"

fun capture_good :: "'os fifo_api \<Rightarrow> ('os \<Rightarrow> nat) \<Rightarrow> ('os \<Rightarrow> nat) \<Rightarrow> nat \<Rightarrow> 'os capture_state \<Rightarrow> bool" where
  "capture_good F time pending settled ((seen, idle), os) \<longleftrightarrow>
     capture_time F time pending settled \<and> (seen \<or> 0 < pending os \<or> exit_by F time settled) \<and>
     (idle \<noteq> None \<longrightarrow> seen) \<and> (case idle of Some t \<Rightarrow> t \<le> time os | None \<Rightarrow> True)"

lemma pauses_mono: "a \<le> b \<Longrightarrow> pauses i a \<le> pauses i b"
  by (simp add: pauses_def div_le_mono)

lemma pauses_idle: "d \<le> IDLE_LIMIT \<Longrightarrow> pauses IDLE_SLEEP d \<le> 10"
  using pauses_mono [of d IDLE_LIMIT IDLE_SLEEP] by (simp add: pauses_def IDLE_SLEEP_def IDLE_LIMIT_def)

text \<open>A round in vain after data has been seen uses up the idle time.\<close>

lemma capture_idle_progress:
  assumes laws: "capture_time F time pending settled" and start: "case idle of Some t \<Rightarrow> t \<le> time os | None \<Rightarrow> True"
    and go: "capture_idle F ((True, idle), os) = (None, s')"
  shows "capture_good F time pending settled s'"
    "capture_rest time pending settled s' < capture_rest time pending settled ((True, idle), os)"
proof -
  note T = capture_timeD [OF laws]
  obtain t os1 where idle: "(case idle of Some t \<Rightarrow> (t, os) | None \<Rightarrow> ff_now F os) = (t, os1)" by fastforce
  obtain t' os2 where now: "ff_now F os1 = (t', os2)" by fastforce
  let ?os3 = "ff_sleep F IDLE_SLEEP os2"
  from go idle now have s': "s' = ((True, Some t), ?os3)" and lim: "t' - t < IDLE_LIMIT"
    by (auto simp: capture_idle_def split: if_splits)
  have "t \<le> time os1 \<and> time os \<le> time os1 \<and> pending os1 = pending os"
  proof (cases idle)
    case None
    with idle have "ff_now F os = (t, os1)" by simp
    from T(1) [OF this] show ?thesis by simp
  qed (use idle start in simp)
  then have 1: "t \<le> time os1" "time os \<le> time os1" "pending os1 = pending os" by simp_all
  from T(1) [OF now] 1 have 2: "t' = time os2" "time os1 \<le> time os2" "pending os2 = pending os" by simp_all
  from T(2) [of os2 IDLE_SLEEP] 2 have 3: "time os2 + IDLE_SLEEP \<le> time ?os3" "pending ?os3 = pending os" by simp_all
  from laws 1 2 3 s' show "capture_good F time pending settled s'" by simp
  have "pauses IDLE_SLEEP (t + IDLE_LIMIT - time ?os3) < (case idle of Some t \<Rightarrow> pauses IDLE_SLEEP (t + IDLE_LIMIT - time os) | None \<Rightarrow> 12)"
  proof (cases idle)
    case None
    have "pauses IDLE_SLEEP (t + IDLE_LIMIT - time ?os3) \<le> 10" by (rule pauses_idle) (use 1 2 3 in simp)
    with None show ?thesis by simp
  next
    case (Some u)
    with idle have "u = t" by simp
    moreover have "pauses IDLE_SLEEP (t + IDLE_LIMIT - time ?os3) < pauses IDLE_SLEEP (t + IDLE_LIMIT - time os)"
      by (rule pauses_less) (use 1 2 3 lim in \<open>auto simp: IDLE_SLEEP_def\<close>)
    ultimately show ?thesis using Some by simp
  qed
  moreover have "pauses IDLE_SLEEP (settled - time ?os3) \<le> pauses IDLE_SLEEP (settled - time os)"
    using 1 2 3 by (intro pauses_mono) simp
  ultimately show "capture_rest time pending settled s' < capture_rest time pending settled ((True, idle), os)"
    using 3 s' by simp
qed

text \<open>A round in vain before any data uses up the time until \<open>settled\<close>.\<close>

lemma capture_waiting_progress:
  assumes good: "capture_good F time pending settled ((False, None), os)" and "time os < settled"
    and later: "time os \<le> time os2" "pending os2 = pending os"
  shows "capture_good F time pending settled ((False, None), ff_sleep F IDLE_SLEEP os2)"
    "capture_rest time pending settled ((False, None), ff_sleep F IDLE_SLEEP os2) < capture_rest time pending settled ((False, None), os)"
proof -
  from good have laws: "capture_time F time pending settled" by simp
  note sleep = capture_timeD(2) [OF laws, of os2 IDLE_SLEEP]
  have "pauses IDLE_SLEEP (settled - time (ff_sleep F IDLE_SLEEP os2)) < pauses IDLE_SLEEP (settled - time os)"
    by (rule pauses_less) (use assms(2) later sleep in \<open>auto simp: IDLE_SLEEP_def\<close>)
  with sleep later good show "capture_good F time pending settled ((False, None), ff_sleep F IDLE_SLEEP os2)"
    "capture_rest time pending settled ((False, None), ff_sleep F IDLE_SLEEP os2) < capture_rest time pending settled ((False, None), os)"
    by simp_all
qed

interpretation capture: polling "capture_round F" "capture_good F time pending settled"
  "capture_rest time pending settled" for F time pending settled
proof
  fix s s'
  assume good: "capture_good F time pending settled s" and go: "capture_round F s = (None, s')"
  obtain seen idle os where s: "s = ((seen, idle), os)" by (metis prod.exhaust)
  from good s have laws: "capture_time F time pending settled" by simp
  note T = capture_timeD [OF laws]
  obtain b os1 where ex: "ff_exit F os = (b, os1)" by fastforce
  obtain c os2 where rd: "ff_read F os1 = (c, os2)" by fastforce
  from go s ex have b: "\<not> b" by (cases b) (auto simp: capture_round_def)
  note 1 = T(3) [OF ex] and 2 = T(5) [OF rd]
  show "capture_good F time pending settled s' \<and> capture_rest time pending settled s' < capture_rest time pending settled s"
  proof (cases "no_data c")
    case True
    with 1 2 have vain: "pending os2 = pending os" "time os \<le> time os2" "time os \<le> time os1" "settled \<le> time os1 \<longrightarrow> pending os = 0"
      by auto
    from go s ex b rd True have step: "capture_idle F ((seen, idle), os2) = (None, s')"
      by (auto simp: capture_round_def no_data_def split: if_splits sum.splits)
    show ?thesis
    proof (cases seen)
      case True
      have old: "case idle of Some t \<Rightarrow> t \<le> time os2 | None \<Rightarrow> True" using good s vain(2) by (auto split: option.splits)
      have "capture_rest time pending settled ((True, idle), os2) \<le> capture_rest time pending settled s"
        using vain(1,2) s by (auto split: option.split intro!: add_mono pauses_mono)
      with capture_idle_progress [OF laws old] step True show ?thesis by auto
    next
      case False
      with good s have idle: "idle = None" by auto
      with step False have s': "s' = ((False, None), ff_sleep F IDLE_SLEEP os2)" by (simp add: capture_idle_def)
      have "time os < settled"
        using good s False vain(3,4) b ex by (auto simp: exit_by_def) (metis fst_conv not_le order_trans)
      with capture_waiting_progress [of F time pending settled os os2] good vain(1,2) s s' idle False show ?thesis by simp
    qed
  next
    case False
    with go s ex b rd obtain chunk w os3 where c: "c = Inr chunk" and wr: "ff_write_all F chunk os2 = (w, os3)"
      and s': "s' = ((True, None), os3)"
      by (auto simp: capture_round_def no_data_def split: if_splits sum.splits prod.splits)
    with False 1 2 T(4) [OF wr] have more: "pending os3 < pending os" "time os \<le> time os3" by auto
    then have "pauses IDLE_SLEEP (settled - time os3) \<le> pauses IDLE_SLEEP (settled - time os)" by (intro pauses_mono) simp
    with more laws s s' show ?thesis by (auto split: option.split)
  qed
qed

text \<open>
  C21: the worker ends. Suppose that from some time on either the exit event is set, or all the data that will
  ever come is in the fifo and there is some; until then it may find the fifo empty as often as it likes,
  before the first data and between two pieces. Then it ends after at most thirteen rounds for each read
  with data, one for each pause of ten milliseconds until that time, and twelve more.
\<close>

theorem capture_ends:
  assumes "capture_time F time pending settled" "0 < pending os \<or> exit_by F time settled"
    and "13 * pending os + pauses IDLE_SLEEP (settled - time os) + 12 < fuel"
  shows "\<exists>r os'. capture_worker F fuel os = (Some r, os')"
proof -
  have "capture_good F time pending settled ((False, None), os)" using assms(1,2) by simp
  from capture.poll_returns [OF this, of fuel] assms(3) obtain r v os1 where
    "poll fuel (capture_round F) ((False, None), os) = (Some r, (v, os1))" by auto
  then show ?thesis by (cases r) (auto simp: capture_worker_def)
qed

end
