(* ===== verification/Sdk_Options.thy ===== *)
theory Sdk_Options
  imports Machine_Start
begin

text \<open>
  \<open>src/opts.rs\<close> and \<open>src/machineiface.rs\<close>: the options of a new machine, and the trait that lists the
  methods of a machine. An option is a function on machines, an option of a snapshot one on its
  configuration.
\<close>

section \<open>Options\<close>

type_synonym ('j, 'x, 'os) opt = "('j, 'x, 'os) machine \<Rightarrow> ('j, 'x, 'os) machine"
type_synonym snapshot_opt = "snapshot_config \<Rightarrow> snapshot_config"

definition apply_opt :: "('j, 'x, 'os) opt \<Rightarrow> ('j, 'x, 'os) machine \<Rightarrow> ('j, 'x, 'os) machine" where
  "apply_opt opt m = opt m"

definition apply_snapshot_opt :: "snapshot_opt \<Rightarrow> snapshot_config \<Rightarrow> snapshot_config" where
  "apply_snapshot_opt opt s = opt s"

definition new_with_opts ::
  "'os os_env \<Rightarrow> 'os cni_network_operations \<Rightarrow> 'j \<Rightarrow> (string \<Rightarrow> ('j, 'os, error) client_ops) \<Rightarrow> ('j, 'x) config \<Rightarrow>
   ('j, 'x, 'os) opt list \<Rightarrow> ('os, error, ('j, 'x, 'os) machine) op" where
  "new_with_opts E real_cni empty_object connect c opts =
     op_bind (machine_new E real_cni empty_object connect c) (\<lambda>m. op_ok (fold apply_opt opts m))"

definition new_machine ::
  "'os os_env \<Rightarrow> 'os cni_network_operations \<Rightarrow> 'j \<Rightarrow> (string \<Rightarrow> ('j, 'os, error) client_ops) \<Rightarrow> ('j, 'x) config \<Rightarrow>
   ('j, 'x, 'os) opt list \<Rightarrow> ('os, error, ('j, 'x, 'os) machine) op" where
  "new_machine = new_with_opts"

definition with_client :: "('j, 'os, error) client_ops \<Rightarrow> ('j, 'x, 'os) opt" where
  "with_client cl m = m\<lparr>client := cl\<rparr>"

definition with_cni_network_ops :: "'os cni_network_operations \<Rightarrow> ('j, 'x, 'os) opt" where
  "with_cni_network_ops ops m = m\<lparr>cni_network_ops := ops\<rparr>"

definition with_netlink_ops :: "'os netlink_ops \<Rightarrow> ('j, 'x, 'os) opt" where
  "with_netlink_ops ops m = m\<lparr>netlink_ops := ops\<rparr>"

definition with_logger :: "nat \<Rightarrow> ('j, 'x, 'os) opt" where
  "with_logger logger m = m\<lparr>m_logger := Some logger\<rparr>"

definition with_process_runner :: "vm_command \<Rightarrow> ('j, 'x, 'os) opt" where
  "with_process_runner cmd m = m\<lparr>command := Some cmd\<rparr>"

definition with_snapshot :: "string \<Rightarrow> string \<Rightarrow> snapshot_opt list \<Rightarrow> ('j, 'x, 'os) opt" where
  "with_snapshot mem_file_path snapshot_path opts m =
     m\<lparr>cfg := (cfg m)\<lparr>snapshot := fold apply_snapshot_opt opts (with_paths mem_file_path snapshot_path)\<rparr>,
       m_handlers := adapt_handlers_for_snapshot (m_handlers m)\<rparr>"

definition with_memory_backend :: "string \<Rightarrow> string \<Rightarrow> snapshot_opt" where
  "with_memory_backend backend_type backend_path s =
     s\<lparr>sn_mem_backend := Some \<lparr>mb_backend_type = Some backend_type, mb_backend_path = Some backend_path\<rparr>\<rparr>"

section \<open>The interface of a machine\<close>

record ('j, 'x, 'os) machine_iface =
  mi_start :: "(('j, 'x, 'os) mstate, exc, unit) op"
  mi_stop_vmm :: "(('j, 'x, 'os) mstate, error, unit) op"
  mi_shutdown :: "(('j, 'x, 'os) mstate, error, unit) op"
  mi_wait :: "(('j, 'x, 'os) mstate, error, unit) op"
  mi_set_metadata :: "'j \<Rightarrow> (('j, 'x, 'os) mstate, error, unit) op"
  mi_update_guest_drive :: "string \<Rightarrow> string \<Rightarrow> (('j, 'x, 'os) mstate, error, unit) op"
  mi_update_guest_network_interface_rate_limit :: "string \<Rightarrow> rate_limiter_set \<Rightarrow> (('j, 'x, 'os) mstate, error, unit) op"

definition machine_machine_iface :: "('j, 'x, 'os) menv \<Rightarrow> bool \<Rightarrow> ('j, 'x, 'os) machine_iface" where
  "machine_machine_iface V aarch64 =
     \<lparr>mi_start = start V, mi_stop_vmm = stop_vmm (me_os V), mi_shutdown = shutdown (me_os V) aarch64,
      mi_wait = machine_wait (me_os V), mi_set_metadata = set_metadata,
      mi_update_guest_drive = update_guest_drive,
      mi_update_guest_network_interface_rate_limit = update_guest_network_interface_rate_limit\<rparr>"

section \<open>A snapshot as an option or in the configuration\<close>

lemma adapt_twice: "adapt_handlers_for_snapshot (adapt_handlers_for_snapshot hs) = adapt_handlers_for_snapshot hs"
  by (simp add: adapt_handlers_for_snapshot_eq load_snapshot_handler_def load_snapshot_config_validation_handler_def
      handler_new_def)

lemma initial_handlers_frame:
  "initial_handlers (c\<lparr>vmid := v\<rparr>) = initial_handlers c"
  "initial_handlers (c\<lparr>forward_signals := f\<rparr>) = initial_handlers c"
  by (simp_all add: initial_handlers_def has_snapshot_def)

lemma initial_handlers_with_snapshot:
  assumes "has_snapshot (c\<lparr>snapshot := s\<rparr>)"
  shows "initial_handlers (c\<lparr>snapshot := s\<rparr>) = adapt_handlers_for_snapshot (initial_handlers c)"
  using assms by (simp add: initial_handlers_def Let_def adapt_twice)

lemma new_with_client_snapshot:
  fixes c :: "('j, 'x) config"
  assumes plain: "jailer_cfg c = None" and snap: "has_snapshot (c\<lparr>snapshot := s\<rparr>)"
  shows "new_with_client E real_cni (c\<lparr>snapshot := s\<rparr>) cl os =
    op_bind (new_with_client E real_cni c cl)
      (\<lambda>m. op_ok (m\<lparr>cfg := (cfg m)\<lparr>snapshot := s\<rparr>, m_handlers := adapt_handlers_for_snapshot (m_handlers m)\<rparr>)) os"
proof -
  have norm: "normalized_forward_signals (d\<lparr>snapshot := s\<rparr>) = normalized_forward_signals d"
    "normalized_forward_signals (d\<lparr>vmid := v\<rparr>) = normalized_forward_signals d" for d :: "('j, 'x) config" and v
    by (simp_all add: normalized_forward_signals_def)
  obtain u os1 where uuid: "uuid_v4 E os = (u, os1)" by fastforce
  note hs = initial_handlers_frame initial_handlers_with_snapshot [OF snap]
  show ?thesis
    unfolding new_with_client_def
    by (cases "vmid c = []"; cases "forward_signals c"; cases "net_ns c";
        cases "cni_interface (cfg_network_interfaces c)")
      (simp_all add: Let_def plain uuid norm hs op_bind_def op_ok_def)
qed

text \<open>
  C22: a snapshot given as an option is the same as one in the configuration. Without a jailer, a machine made
  with the option \<open>with_snapshot\<close> is exactly the machine made of the configuration with that snapshot, handlers
  included, whether or not the configuration named another snapshot before.
\<close>

theorem with_snapshot_equivalence:
  assumes "jailer_cfg c = None"
    and "has_snapshot (c\<lparr>snapshot := fold apply_snapshot_opt sopts (with_paths mem snap)\<rparr>)"
  shows "new_with_opts E real_cni empty_object connect c [with_snapshot mem snap sopts] os =
    machine_new E real_cni empty_object connect (c\<lparr>snapshot := fold apply_snapshot_opt sopts (with_paths mem snap)\<rparr>) os"
  using new_with_client_snapshot [OF assms, of E real_cni "noop_client empty_object"]
  by (simp add: new_with_opts_def machine_new_def op_bind_def op_ok_def with_snapshot_def apply_opt_def split: prod.splits sum.splits)

end
