(* ===== verification/Sdk_Utils.thy ===== *)
theory Sdk_Utils
  imports Sdk_Machine
begin

text \<open>
  \<open>wait_for_alive_vmm\<close> of \<open>src/utils.rs\<close>, the detection of Intel processors of \<open>src/internal/cpu_template.rs\<close>,
  and the helpers of \<open>src/fctesting/utils.rs\<close>.
\<close>

section \<open>Waiting for a VMM\<close>

definition DEFAULT_ALIVE_VMM_CHECK_DUR :: nat where
  "DEFAULT_ALIVE_VMM_CHECK_DUR = 10"

text \<open>
  A round of the loop. The state is the text of the last error and the world; times are in milliseconds.
\<close>

definition alive_round ::
  "'os os_env \<Rightarrow> ('j, 'os, error) client_ops \<Rightarrow> nat \<Rightarrow> nat \<Rightarrow> string option \<times> 'os \<Rightarrow>
   (unit result) option \<times> string option \<times> 'os" where
  "alive_round E cl began timeout = (\<lambda>(last_error, os).
     case clock_now E os of
       (t, os1) \<Rightarrow>
         if t - began < timeout then
           (case c_get_machine_configuration cl os1 of
              (Inr _, os2) \<Rightarrow> (Some (Inr ()), (last_error, os2))
            | (Inl e, os2) \<Rightarrow> (None, (Some (error_display e), sleep_ms E DEFAULT_ALIVE_VMM_CHECK_DUR os2)))
         else
           (Some (Inl (Process (''timed out while waiting for the Firecracker VMM to become reachable'' @
              unwrap_or [] (map_option (\<lambda>e. ''; last error: '' @ e) last_error)))), (last_error, os1)))"

definition wait_for_alive_vmm ::
  "'os os_env \<Rightarrow> nat \<Rightarrow> ('j, 'os, error) client_ops \<Rightarrow> nat \<Rightarrow> ('os, exc, unit) op" where
  "wait_for_alive_vmm E fuel cl timeout os =
     (case clock_now E os of
        (began, os1) \<Rightarrow>
          (case poll fuel (alive_round E cl began timeout) (None, os1) of
             (None, (_, os2)) \<Rightarrow> (Inl OutOfFuel, os2)
           | (Some r, (_, os2)) \<Rightarrow> (map_err Err r, os2)))"

section \<open>Processors\<close>

text \<open>
  \<open>BufRead::lines\<close> on a reader that gives the bytes \<open>content\<close> and then ends, or fails with an error: a
  line that is not UTF-8 is an error, and so is a line cut off by an error.
\<close>

definition invalid_utf8 :: io_error where
  "invalid_utf8 = \<lparr>io_kind = InvalidData, io_os_code = None, io_text = ''stream did not contain valid UTF-8'',
     io_inner = NoInner\<rparr>"

function reader_lines :: "string \<Rightarrow> io_error option \<Rightarrow> (io_error + string) list" where
  "reader_lines content failure =
     (case split_once (CHR 0x0A) content of
        Some (line, rest) \<Rightarrow>
          (if utf8_valid line then Inr (strip_cr line) else Inl invalid_utf8) # reader_lines rest failure
      | None \<Rightarrow>
          (case failure of
             Some e \<Rightarrow> [Inl e]
           | None \<Rightarrow> if content = [] then [] else [if utf8_valid content then Inr content else Inl invalid_utf8]))"
  by pat_completeness auto
termination
  by (relation "measure (\<lambda>(content, _). length content)") (auto simp: split_once_Some)

declare reader_lines.simps [simp del]

fun vendor_loop :: "(io_error + string) list \<Rightarrow> io_error + string option" where
  "vendor_loop [] = Inr None"
| "vendor_loop (Inl e # ls) = Inl e"
| "vendor_loop (Inr line # ls) =
     (case split_once (CHR '':'') line of
        None \<Rightarrow> vendor_loop ls
      | Some (name, v) \<Rightarrow> if trim name = ''vendor_id'' then Inr (Some (trim v)) else vendor_loop ls)"

definition find_first_vendor_id :: "string \<Rightarrow> io_error option \<Rightarrow> io_error + string option" where
  "find_first_vendor_id content failure = vendor_loop (reader_lines content failure)"

text \<open>\<open>open_reader\<close> opens a file and gives what reading it gives.\<close>

definition check_is_intel ::
  "(string \<Rightarrow> ('os, io_error, string \<times> io_error option) op) \<Rightarrow> string \<Rightarrow> ('os, io_error, bool) op" where
  "check_is_intel open_reader path =
     op_bind (open_reader path) (\<lambda>(content, failure) os.
       (rbind (find_first_vendor_id content failure) (\<lambda>v. Inr (v = Some ''GenuineIntel'')), os))"

text \<open>The state is the cell \<open>IS_INTEL\<close>, which is set at most once, and the world.\<close>

definition support_cpu_template ::
  "bool \<Rightarrow> (string \<Rightarrow> ('os, io_error, string \<times> io_error option) op) \<Rightarrow> (bool option \<times> 'os, io_error, bool) op" where
  "support_cpu_template x86_64 open_reader = (\<lambda>(cell, os).
     if \<not> x86_64 then (Inr False, (cell, os))
     else case cell of
         Some v \<Rightarrow> (Inr v, (cell, os))
       | None \<Rightarrow>
           (case check_is_intel open_reader ''/proc/cpuinfo'' os of
              (Inl e, os') \<Rightarrow> (Inl e, (None, os'))
            | (Inr v, os') \<Rightarrow> (Inr v, (Some v, os'))))"

section \<open>Test helpers\<close>

definition ROOT_DISABLE_ENV_NAME :: string where "ROOT_DISABLE_ENV_NAME = ''DISABLE_ROOT_TESTS''"
definition LOG_LEVEL_ENV_NAME :: string where "LOG_LEVEL_ENV_NAME = ''FC_TEST_LOG_LEVEL''"

definition root_tests_disabled :: "'os os_env \<Rightarrow> 'os \<Rightarrow> bool" where
  "root_tests_disabled E os = (case env_var E ROOT_DISABLE_ENV_NAME os of Some v \<Rightarrow> v \<noteq> [] | None \<Rightarrow> False)"

text \<open>\<open>id_output\<close> is the output of the command \<open>id -u\<close>, if it could be run.\<close>

definition require_root :: "'os os_env \<Rightarrow> ('os \<Rightarrow> string option \<times> 'os) \<Rightarrow> ('os, string, unit) op" where
  "require_root E id_output os =
     (if root_tests_disabled E os then (Inl ''skipping test that requires root'', os)
      else case id_output os of
          (out, os') \<Rightarrow>
            (if (case opt_filter utf8_valid out of Some uid \<Rightarrow> trim uid = ''0'' | None \<Rightarrow> False) then Inr ()
             else Inl (''This test must be run as root. To disable tests that require root, run the tests with the '' @
               ROOT_DISABLE_ENV_NAME @ '' environment variable set.''), os'))"

datatype level = LevelError | LevelWarn | LevelInfo | LevelDebug | LevelTrace

definition parse_log_level :: "string \<Rightarrow> level option" where
  "parse_log_level l =
     (let s = to_ascii_lowercase l in
      if s = ''error'' then Some LevelError
      else if s = ''warn'' \<or> s = ''warning'' then Some LevelWarn
      else if s = ''info'' then Some LevelInfo
      else if s = ''debug'' then Some LevelDebug
      else if s = ''trace'' then Some LevelTrace
      else None)"

text \<open>\<open>new_log_entry\<close> gives a logger without a subscriber, and panics on a level it cannot parse.\<close>

definition new_log_entry :: "'os os_env \<Rightarrow> nat \<Rightarrow> 'os \<Rightarrow> exc + nat" where
  "new_log_entry E no_subscriber os =
     (case env_var E LOG_LEVEL_ENV_NAME os of
        Some l \<Rightarrow> if parse_log_level l = None then Inl Panic else Inr no_subscriber
      | None \<Rightarrow> Inr no_subscriber)"

text \<open>\<open>open_rw\<close> opens a file for reading and writing.\<close>

definition kvm_is_writable :: "(string \<Rightarrow> ('os, io_error, unit) op) \<Rightarrow> 'os \<Rightarrow> bool \<times> 'os" where
  "kvm_is_writable open_rw os = (case open_rw ''/dev/kvm'' os of (r, os') \<Rightarrow> (is_ok r, os'))"

text \<open>A writer that is a closure.\<close>

record 'os test_writer =
  write_fn :: "string \<Rightarrow> ('os, io_error, nat) op"

definition test_writer_write :: "'os test_writer \<Rightarrow> string \<Rightarrow> ('os, io_error, nat) op" where
  "test_writer_write W buf = write_fn W buf"

definition test_writer_flush :: "'os test_writer \<Rightarrow> ('os, io_error, unit) op" where
  "test_writer_flush W = op_ok ()"

text \<open>
  The methods of \<open>AsyncResultExt\<close> run a future to its end on a runtime of their own (here: call it) and then
  call the method of \<open>Result\<close> with the same name. The runtime may fail to build.
\<close>

definition block_on :: "('os \<Rightarrow> bool \<times> 'os) \<Rightarrow> ('os \<Rightarrow> 'a \<times> 'os) \<Rightarrow> 'os \<Rightarrow> (exc + 'a) \<times> 'os" where
  "block_on build future os =
     (case build os of
        (False, os1) \<Rightarrow> (Inl Panic, os1)
      | (True, os1) \<Rightarrow> (case future os1 of (x, os2) \<Rightarrow> (Inr x, os2)))"

definition async_unwrap :: "('os \<Rightarrow> bool \<times> 'os) \<Rightarrow> ('os, 'e, 'a) op \<Rightarrow> ('os, exc, 'a) op" where
  "async_unwrap build f = op_bind (block_on build f) (\<lambda>r. case r of Inl _ \<Rightarrow> op_err Panic | Inr x \<Rightarrow> op_ok x)"

definition async_unwrap_err :: "('os \<Rightarrow> bool \<times> 'os) \<Rightarrow> ('os, 'e, 'a) op \<Rightarrow> ('os, exc, 'e) op" where
  "async_unwrap_err build f = op_bind (block_on build f) (\<lambda>r. case r of Inl e \<Rightarrow> op_ok e | Inr _ \<Rightarrow> op_err Panic)"

definition async_is_ok :: "('os \<Rightarrow> bool \<times> 'os) \<Rightarrow> ('os, 'e, 'a) op \<Rightarrow> ('os, exc, bool) op" where
  "async_is_ok build f = op_bind (block_on build f) (\<lambda>r. op_ok (is_ok r))"

definition async_is_err :: "('os \<Rightarrow> bool \<times> 'os) \<Rightarrow> ('os, 'e, 'a) op \<Rightarrow> ('os, exc, bool) op" where
  "async_is_err build f = op_bind (block_on build f) (\<lambda>r. op_ok (\<not> is_ok r))"

definition async_expect :: "('os \<Rightarrow> bool \<times> 'os) \<Rightarrow> ('os, 'e, 'a) op \<Rightarrow> string \<Rightarrow> ('os, exc, 'a) op" where
  "async_expect build f message =
     op_bind (block_on build f) (\<lambda>r. case r of Inl _ \<Rightarrow> op_err Panic | Inr x \<Rightarrow> op_ok x)"

lemma async_unwrap_ok: "async_unwrap build f os = (Inr x, os') \<longleftrightarrow> (\<exists>os1. build os = (True, os1) \<and> f os1 = (Inr x, os'))"
  by (auto simp: async_unwrap_def block_on_def op_bind_cases op_simps split: prod.splits bool.splits sum.splits)

section \<open>The wait returns\<close>

text \<open>How long the loop may still go on: \<open>time\<close> is the clock, the client takes no time back.\<close>

definition alive_laws :: "'os os_env \<Rightarrow> ('j, 'os, error) client_ops \<Rightarrow> ('os \<Rightarrow> nat) \<Rightarrow> bool" where
  "alive_laws E cl time \<longleftrightarrow> clock_ok E time \<and> (\<forall>os r os'. c_get_machine_configuration cl os = (r, os') \<longrightarrow> time os \<le> time os')"

interpretation alive: polling "alive_round E cl began timeout" "\<lambda>_. alive_laws E cl time"
  "\<lambda>(_, os). pauses 10 (began + timeout - time os)" for E cl began timeout time
proof
  fix s s'
  assume laws: "alive_laws E cl time" and go: "alive_round E cl began timeout s = (None, s')"
  obtain l os where s: "s = (l, os)" by fastforce
  from go s obtain t os1 e os2 where step: "clock_now E os = (t, os1)" "t - began < timeout"
    "c_get_machine_configuration cl os1 = (Inl e, os2)" "s' = (Some (error_display e), sleep_ms E 10 os2)"
    by (auto simp: alive_round_def DEFAULT_ALIVE_VMM_CHECK_DUR_def split: prod.splits sum.splits if_splits)
  from laws have clk: "clock_ok E time" and cl: "time os1 \<le> time os2"
    using step(3) by (auto simp: alive_laws_def)
  from clock_okD(1) [OF clk step(1)] clock_okD(2) [OF clk, of os2 10] cl step(2)
  have "time os < began + timeout" "time os + 10 \<le> time (sleep_ms E 10 os2)" by linarith+
  then have "pauses 10 (began + timeout - time (sleep_ms E 10 os2)) < pauses 10 (began + timeout - time os)"
    by (intro pauses_less) auto
  with laws s step(4) show "alive_laws E cl time \<and>
    (case s' of (_, os) \<Rightarrow> pauses 10 (began + timeout - time os)) < (case s of (_, os) \<Rightarrow> pauses 10 (began + timeout - time os))"
    by simp
qed

text \<open>How the loop ends.\<close>

lemma alive_ends:
  assumes "alive_laws E cl time" "poll n (alive_round E cl began timeout) s = (Some r, (l, os'))"
  shows "case r of Inr _ \<Rightarrow> \<exists>u c. c_get_machine_configuration cl u = (Inr c, os') | Inl e \<Rightarrow> timeout \<le> time os' - began"
proof -
  from poll_last_round [OF assms(2)] obtain l' u where last: "alive_round E cl began timeout (l', u) = (Some r, (l, os'))"
    by (metis prod.exhaust)
  obtain t os1 where now: "clock_now E u = (t, os1)" by fastforce
  with assms(1) clock_okD(1) [of E time u t os1] have "t = time os1" by (simp add: alive_laws_def)
  with last now show ?thesis
    by (auto simp: alive_round_def split: prod.splits sum.splits if_splits simp del: append_Cons)
qed

text \<open>
  C23: waiting for a VMM to be alive returns. It needs at most one round more than the timeout has checking
  intervals; it succeeds only because the VMM answered, and fails only when the whole timeout has passed.
\<close>

theorem wait_for_alive_vmm_returns:
  assumes laws: "alive_laws E cl time" and fuel: "pauses 10 timeout < fuel"
  shows "\<exists>r os'. wait_for_alive_vmm E fuel cl timeout os = (map_err Err r, os') \<and>
    (case r of Inr _ \<Rightarrow> \<exists>u c. c_get_machine_configuration cl u = (Inr c, os') | Inl e \<Rightarrow> timeout \<le> time os' - time os)"
proof -
  obtain began os1 where now: "clock_now E os = (began, os1)" by fastforce
  with laws clock_okD(1) [of E time os began os1] have b: "began = time os1" "time os \<le> began" by (simp_all add: alive_laws_def)
  have "(case (None :: string option, os1) of (_, os) \<Rightarrow> pauses 10 (began + timeout - time os)) < fuel" using fuel b by simp
  from alive.poll_returns [OF laws this] obtain r l os2 where
    run: "poll fuel (alive_round E cl began timeout) (None, os1) = (Some r, (l, os2))" by (metis prod.exhaust)
  from alive_ends [OF laws run] b(2) show ?thesis
    by (intro exI [of _ r] exI [of _ os2]) (auto simp: wait_for_alive_vmm_def now run split: sum.splits)
qed

section \<open>The first vendor\<close>

text \<open>
  The first line with the key decides; a reader that fails before it is an error, what comes behind does
  not matter.
\<close>

definition vendor_of :: "string \<Rightarrow> string option" where
  "vendor_of line =
     (case split_once (CHR '':'') line of
        None \<Rightarrow> None
      | Some (name, v) \<Rightarrow> if trim name = ''vendor_id'' then Some (trim v) else None)"

lemma vendor_loop_spec:
  "vendor_loop (map Inr pre @ rest) =
     (case filter (\<lambda>l. vendor_of l \<noteq> None) pre of l # _ \<Rightarrow> Inr (vendor_of l) | [] \<Rightarrow> vendor_loop rest)"
  by (induction pre) (auto simp: vendor_of_def split: option.splits)

text \<open>The cell is read before the file: a second call gives the first answer without reading.\<close>

lemma support_cpu_template_cached:
  "support_cpu_template x open_reader s = (Inr v, s') \<Longrightarrow> support_cpu_template x open_reader s' = (Inr v, s')"
  by (auto simp: support_cpu_template_def split: prod.splits option.splits sum.splits if_splits)

end
