(* ===== verification/Mock_Client.thy ===== *)
theory Mock_Client
  imports Api_Models
begin

text \<open>
  \<open>src/fctesting/firecracker_mock_client.rs\<close>: a client whose methods are closures that a test sets. A closure
  is an operation on the world, its own captured state included; a method without one answers as the trait's
  default does.
\<close>

record ('j, 'os, 'e) mock_client =
  get_firecracker_version_fn :: "(('os, 'e, firecracker_version) op) option"
  put_logger_fn :: "(logger \<Rightarrow> ('os, 'e, unit) op) option"
  put_metrics_fn :: "(metrics \<Rightarrow> ('os, 'e, unit) op) option"
  put_machine_configuration_fn :: "(machine_configuration \<Rightarrow> ('os, 'e, unit) op) option"
  patch_machine_configuration_fn :: "(machine_configuration \<Rightarrow> ('os, 'e, unit) op) option"
  get_machine_configuration_fn :: "(('os, 'e, machine_configuration) op) option"
  put_guest_boot_source_fn :: "(boot_source \<Rightarrow> ('os, 'e, unit) op) option"
  put_cpu_configuration_fn :: "('j \<Rightarrow> ('os, 'e, unit) op) option"
  put_entropy_device_fn :: "(entropy_device \<Rightarrow> ('os, 'e, unit) op) option"
  put_guest_drive_by_id_fn :: "(string \<Rightarrow> drive \<Rightarrow> ('os, 'e, unit) op) option"
  patch_guest_drive_by_id_fn :: "(string \<Rightarrow> partial_drive \<Rightarrow> ('os, 'e, unit) op) option"
  put_guest_network_interface_by_id_fn :: "(string \<Rightarrow> network_interface_model \<Rightarrow> ('os, 'e, unit) op) option"
  patch_guest_network_interface_by_id_fn :: "(string \<Rightarrow> partial_network_interface \<Rightarrow> ('os, 'e, unit) op) option"
  put_guest_vsock_fn :: "(vsock_model \<Rightarrow> ('os, 'e, unit) op) option"
  patch_vm_fn :: "(vm \<Rightarrow> ('os, 'e, unit) op) option"
  create_snapshot_fn :: "(snapshot_create_params \<Rightarrow> ('os, 'e, unit) op) option"
  load_snapshot_fn :: "(snapshot_load_params \<Rightarrow> ('os, 'e, unit) op) option"
  create_sync_action_fn :: "(instance_action_info \<Rightarrow> ('os, 'e, unit) op) option"
  put_mmds_fn :: "('j \<Rightarrow> ('os, 'e, unit) op) option"
  get_mmds_fn :: "(('os, 'e, 'j) op) option"
  patch_mmds_fn :: "('j \<Rightarrow> ('os, 'e, unit) op) option"
  put_mmds_config_fn :: "(mmds_config \<Rightarrow> ('os, 'e, unit) op) option"
  describe_instance_fn :: "(('os, 'e, 'j instance_info) op) option"
  put_balloon_fn :: "(balloon \<Rightarrow> ('os, 'e, unit) op) option"
  get_balloon_config_fn :: "(('os, 'e, balloon) op) option"
  patch_balloon_fn :: "(balloon_update \<Rightarrow> ('os, 'e, unit) op) option"
  get_balloon_stats_fn :: "(('os, 'e, 'j balloon_stats) op) option"
  patch_balloon_stats_interval_fn :: "(balloon_stats_update \<Rightarrow> ('os, 'e, unit) op) option"
  get_export_vm_config_fn :: "(('os, 'e, full_vm_configuration) op) option"

definition mock_client_default :: "('j, 'os, 'e) mock_client" where
  "mock_client_default =
    \<lparr>get_firecracker_version_fn = None, put_logger_fn = None, put_metrics_fn = None,
     put_machine_configuration_fn = None, patch_machine_configuration_fn = None,
     get_machine_configuration_fn = None, put_guest_boot_source_fn = None, put_cpu_configuration_fn =
     None, put_entropy_device_fn = None, put_guest_drive_by_id_fn = None, patch_guest_drive_by_id_fn =
     None, put_guest_network_interface_by_id_fn = None, patch_guest_network_interface_by_id_fn = None,
     put_guest_vsock_fn = None, patch_vm_fn = None, create_snapshot_fn = None, load_snapshot_fn = None,
     create_sync_action_fn = None, put_mmds_fn = None, get_mmds_fn = None, patch_mmds_fn = None,
     put_mmds_config_fn = None, describe_instance_fn = None, put_balloon_fn = None, get_balloon_config_fn
     = None, patch_balloon_fn = None, get_balloon_stats_fn = None, patch_balloon_stats_interval_fn =
     None, get_export_vm_config_fn = None\<rparr>"

definition mock_get_firecracker_version :: "('j, 'os, 'e) mock_client \<Rightarrow> ('os, 'e, firecracker_version) op" where
  "mock_get_firecracker_version M =
     (case get_firecracker_version_fn M of Some f \<Rightarrow> f | None \<Rightarrow> op_ok \<lparr>fv_firecracker_version = ''''\<rparr>)"

definition mock_put_logger :: "('j, 'os, 'e) mock_client \<Rightarrow> logger \<Rightarrow> ('os, 'e, unit) op" where
  "mock_put_logger M x =
     (case put_logger_fn M of Some f \<Rightarrow> f x | None \<Rightarrow> op_ok ())"

definition mock_put_metrics :: "('j, 'os, 'e) mock_client \<Rightarrow> metrics \<Rightarrow> ('os, 'e, unit) op" where
  "mock_put_metrics M x =
     (case put_metrics_fn M of Some f \<Rightarrow> f x | None \<Rightarrow> op_ok ())"

definition mock_put_machine_configuration :: "('j, 'os, 'e) mock_client \<Rightarrow> machine_configuration \<Rightarrow> ('os, 'e, unit) op" where
  "mock_put_machine_configuration M x =
     (case put_machine_configuration_fn M of Some f \<Rightarrow> f x | None \<Rightarrow> op_ok ())"

definition mock_patch_machine_configuration :: "('j, 'os, 'e) mock_client \<Rightarrow> machine_configuration \<Rightarrow> ('os, 'e, unit) op" where
  "mock_patch_machine_configuration M x =
     (case patch_machine_configuration_fn M of Some f \<Rightarrow> f x | None \<Rightarrow> op_ok ())"

definition mock_get_machine_configuration :: "('j, 'os, 'e) mock_client \<Rightarrow> ('os, 'e, machine_configuration) op" where
  "mock_get_machine_configuration M =
     (case get_machine_configuration_fn M of Some f \<Rightarrow> f | None \<Rightarrow> op_ok machine_configuration_default)"

definition mock_put_guest_boot_source :: "('j, 'os, 'e) mock_client \<Rightarrow> boot_source \<Rightarrow> ('os, 'e, unit) op" where
  "mock_put_guest_boot_source M x =
     (case put_guest_boot_source_fn M of Some f \<Rightarrow> f x | None \<Rightarrow> op_ok ())"

definition mock_put_cpu_configuration :: "('j, 'os, 'e) mock_client \<Rightarrow> 'j \<Rightarrow> ('os, 'e, unit) op" where
  "mock_put_cpu_configuration M x =
     (case put_cpu_configuration_fn M of Some f \<Rightarrow> f x | None \<Rightarrow> op_ok ())"

definition mock_put_entropy_device :: "('j, 'os, 'e) mock_client \<Rightarrow> entropy_device \<Rightarrow> ('os, 'e, unit) op" where
  "mock_put_entropy_device M x =
     (case put_entropy_device_fn M of Some f \<Rightarrow> f x | None \<Rightarrow> op_ok ())"

definition mock_put_guest_drive_by_id :: "('j, 'os, 'e) mock_client \<Rightarrow> string \<Rightarrow> drive \<Rightarrow> ('os, 'e, unit) op" where
  "mock_put_guest_drive_by_id M i x =
     (case put_guest_drive_by_id_fn M of Some f \<Rightarrow> f i x | None \<Rightarrow> op_ok ())"

definition mock_patch_guest_drive_by_id :: "('j, 'os, 'e) mock_client \<Rightarrow> string \<Rightarrow> partial_drive \<Rightarrow> ('os, 'e, unit) op" where
  "mock_patch_guest_drive_by_id M i x =
     (case patch_guest_drive_by_id_fn M of Some f \<Rightarrow> f i x | None \<Rightarrow> op_ok ())"

definition mock_put_guest_network_interface_by_id :: "('j, 'os, 'e) mock_client \<Rightarrow> string \<Rightarrow> network_interface_model \<Rightarrow> ('os, 'e, unit) op" where
  "mock_put_guest_network_interface_by_id M i x =
     (case put_guest_network_interface_by_id_fn M of Some f \<Rightarrow> f i x | None \<Rightarrow> op_ok ())"

definition mock_patch_guest_network_interface_by_id :: "('j, 'os, 'e) mock_client \<Rightarrow> string \<Rightarrow> partial_network_interface \<Rightarrow> ('os, 'e, unit) op" where
  "mock_patch_guest_network_interface_by_id M i x =
     (case patch_guest_network_interface_by_id_fn M of Some f \<Rightarrow> f i x | None \<Rightarrow> op_ok ())"

definition mock_put_guest_vsock :: "('j, 'os, 'e) mock_client \<Rightarrow> vsock_model \<Rightarrow> ('os, 'e, unit) op" where
  "mock_put_guest_vsock M x =
     (case put_guest_vsock_fn M of Some f \<Rightarrow> f x | None \<Rightarrow> op_ok ())"

definition mock_patch_vm :: "('j, 'os, 'e) mock_client \<Rightarrow> vm \<Rightarrow> ('os, 'e, unit) op" where
  "mock_patch_vm M x =
     (case patch_vm_fn M of Some f \<Rightarrow> f x | None \<Rightarrow> op_ok ())"

definition mock_create_snapshot :: "('j, 'os, 'e) mock_client \<Rightarrow> snapshot_create_params \<Rightarrow> ('os, 'e, unit) op" where
  "mock_create_snapshot M x =
     (case create_snapshot_fn M of Some f \<Rightarrow> f x | None \<Rightarrow> op_ok ())"

definition mock_load_snapshot :: "('j, 'os, 'e) mock_client \<Rightarrow> snapshot_load_params \<Rightarrow> ('os, 'e, unit) op" where
  "mock_load_snapshot M x =
     (case load_snapshot_fn M of Some f \<Rightarrow> f x | None \<Rightarrow> op_ok ())"

definition mock_create_sync_action :: "('j, 'os, 'e) mock_client \<Rightarrow> instance_action_info \<Rightarrow> ('os, 'e, unit) op" where
  "mock_create_sync_action M x =
     (case create_sync_action_fn M of Some f \<Rightarrow> f x | None \<Rightarrow> op_ok ())"

definition mock_put_mmds :: "('j, 'os, 'e) mock_client \<Rightarrow> 'j \<Rightarrow> ('os, 'e, unit) op" where
  "mock_put_mmds M x =
     (case put_mmds_fn M of Some f \<Rightarrow> f x | None \<Rightarrow> op_ok ())"

definition mock_get_mmds :: "'j \<Rightarrow> ('j, 'os, 'e) mock_client \<Rightarrow> ('os, 'e, 'j) op" where
  "mock_get_mmds empty_object M =
     (case get_mmds_fn M of Some f \<Rightarrow> f | None \<Rightarrow> op_ok empty_object)"

definition mock_patch_mmds :: "('j, 'os, 'e) mock_client \<Rightarrow> 'j \<Rightarrow> ('os, 'e, unit) op" where
  "mock_patch_mmds M x =
     (case patch_mmds_fn M of Some f \<Rightarrow> f x | None \<Rightarrow> op_ok ())"

definition mock_put_mmds_config :: "('j, 'os, 'e) mock_client \<Rightarrow> mmds_config \<Rightarrow> ('os, 'e, unit) op" where
  "mock_put_mmds_config M x =
     (case put_mmds_config_fn M of Some f \<Rightarrow> f x | None \<Rightarrow> op_ok ())"

definition mock_describe_instance :: "('j, 'os, 'e) mock_client \<Rightarrow> ('os, 'e, 'j instance_info) op" where
  "mock_describe_instance M =
     (case describe_instance_fn M of Some f \<Rightarrow> f | None \<Rightarrow> op_ok instance_info_default)"

definition mock_put_balloon :: "('j, 'os, 'e) mock_client \<Rightarrow> balloon \<Rightarrow> ('os, 'e, unit) op" where
  "mock_put_balloon M x =
     (case put_balloon_fn M of Some f \<Rightarrow> f x | None \<Rightarrow> op_ok ())"

definition mock_get_balloon_config :: "('j, 'os, 'e) mock_client \<Rightarrow> ('os, 'e, balloon) op" where
  "mock_get_balloon_config M =
     (case get_balloon_config_fn M of Some f \<Rightarrow> f | None \<Rightarrow> op_ok balloon_default)"

definition mock_patch_balloon :: "('j, 'os, 'e) mock_client \<Rightarrow> balloon_update \<Rightarrow> ('os, 'e, unit) op" where
  "mock_patch_balloon M x =
     (case patch_balloon_fn M of Some f \<Rightarrow> f x | None \<Rightarrow> op_ok ())"

definition mock_get_balloon_stats :: "('j, 'os, 'e) mock_client \<Rightarrow> ('os, 'e, 'j balloon_stats) op" where
  "mock_get_balloon_stats M =
     (case get_balloon_stats_fn M of Some f \<Rightarrow> f | None \<Rightarrow> op_ok balloon_stats_default)"

definition mock_patch_balloon_stats_interval :: "('j, 'os, 'e) mock_client \<Rightarrow> balloon_stats_update \<Rightarrow> ('os, 'e, unit) op" where
  "mock_patch_balloon_stats_interval M x =
     (case patch_balloon_stats_interval_fn M of Some f \<Rightarrow> f x | None \<Rightarrow> op_ok ())"

definition mock_get_export_vm_config :: "('j, 'os, 'e) mock_client \<Rightarrow> ('os, 'e, full_vm_configuration) op" where
  "mock_get_export_vm_config M =
     (case get_export_vm_config_fn M of Some f \<Rightarrow> f | None \<Rightarrow> op_ok full_vm_configuration_default)"

lemmas mock_method_defs =
  mock_get_firecracker_version_def mock_put_logger_def mock_put_metrics_def
  mock_put_machine_configuration_def mock_patch_machine_configuration_def mock_get_machine_configuration_def
  mock_put_guest_boot_source_def mock_put_cpu_configuration_def mock_put_entropy_device_def
  mock_put_guest_drive_by_id_def mock_patch_guest_drive_by_id_def mock_put_guest_network_interface_by_id_def
  mock_patch_guest_network_interface_by_id_def mock_put_guest_vsock_def mock_patch_vm_def
  mock_create_snapshot_def mock_load_snapshot_def mock_create_sync_action_def
  mock_put_mmds_def mock_get_mmds_def mock_patch_mmds_def
  mock_put_mmds_config_def mock_describe_instance_def mock_put_balloon_def
  mock_get_balloon_config_def mock_patch_balloon_def mock_get_balloon_stats_def
  mock_patch_balloon_stats_interval_def mock_get_export_vm_config_def

definition mock_client_ops :: "'j \<Rightarrow> ('j, 'os, 'e) mock_client \<Rightarrow> ('j, 'os, 'e) client_ops" where
  "mock_client_ops empty_object M =
    \<lparr>c_get_firecracker_version = mock_get_firecracker_version M,
     c_put_logger = mock_put_logger M,
     c_put_metrics = mock_put_metrics M,
     c_put_machine_configuration = mock_put_machine_configuration M,
     c_patch_machine_configuration = mock_patch_machine_configuration M,
     c_get_machine_configuration = mock_get_machine_configuration M,
     c_put_guest_boot_source = mock_put_guest_boot_source M,
     c_put_cpu_configuration = mock_put_cpu_configuration M,
     c_put_entropy_device = mock_put_entropy_device M,
     c_put_guest_drive_by_id = mock_put_guest_drive_by_id M,
     c_patch_guest_drive_by_id = mock_patch_guest_drive_by_id M,
     c_put_guest_network_interface_by_id = mock_put_guest_network_interface_by_id M,
     c_patch_guest_network_interface_by_id = mock_patch_guest_network_interface_by_id M,
     c_put_guest_vsock = mock_put_guest_vsock M,
     c_patch_vm = mock_patch_vm M,
     c_create_snapshot = mock_create_snapshot M,
     c_load_snapshot = mock_load_snapshot M,
     c_create_sync_action = mock_create_sync_action M,
     c_put_mmds = mock_put_mmds M,
     c_get_mmds = mock_get_mmds empty_object M,
     c_patch_mmds = mock_patch_mmds M,
     c_put_mmds_config = mock_put_mmds_config M,
     c_describe_instance = mock_describe_instance M,
     c_put_balloon = mock_put_balloon M,
     c_get_balloon_config = mock_get_balloon_config M,
     c_patch_balloon = mock_patch_balloon M,
     c_get_balloon_stats = mock_get_balloon_stats M,
     c_patch_balloon_stats_interval = mock_patch_balloon_stats_interval M,
     c_get_export_vm_config = mock_get_export_vm_config M\<rparr>"

text \<open>A mock without closures is the client that does nothing.\<close>

theorem mock_default_is_noop: "mock_client_ops empty_object mock_client_default = noop_client empty_object"
  by (simp add: mock_client_ops_def mock_method_defs mock_client_default_def noop_client_def default_client_ops_def fun_eq_iff)

text \<open>Setting one closure changes that method only.\<close>

lemma mock_set_one:
  "mock_client_ops j (M\<lparr>create_sync_action_fn := Some f\<rparr>) = (mock_client_ops j M)\<lparr>c_create_sync_action := f\<rparr>"
  "mock_client_ops j (M\<lparr>get_machine_configuration_fn := Some g\<rparr>) = (mock_client_ops j M)\<lparr>c_get_machine_configuration := g\<rparr>"
  by (simp_all add: mock_client_ops_def mock_method_defs fun_eq_iff)

end
