(* ===== verification/Toy_Rest.thy ===== *)
theory Toy_Rest
  imports Toy_World Fifo_Capture Sdk_Options Sdk_Utils Mock_Client
begin

text \<open>
  A concrete fifo, into which a writer puts data after thirty milliseconds, and concrete machines for the options and the waits.
\<close>

section \<open>A fifo\<close>

record toy_fifo =
  tf_in :: "string list"
  tf_log :: capture_log
  tf_clock :: nat

definition toy_fifo_api :: "toy_fifo fifo_api" where
  "toy_fifo_api =
    \<lparr>ff_exit = (\<lambda>s. (False, s)),
     ff_read = (\<lambda>s. if tf_clock s < 30 * 10 ^ 6 then (Inl (io_new WouldBlock ''try again''), s) else case tf_in s of
         [] \<Rightarrow> (Inr [], s)
       | c # cs \<Rightarrow> (Inr (CHR ''>'' # c), s\<lparr>tf_in := cs, tf_log := (tf_log s)\<lparr>cl_read := cl_read (tf_log s) @ CHR ''>'' # c\<rparr>\<rparr>)),
     ff_write_all = (\<lambda>bs s. (Inr (), s\<lparr>tf_log := (tf_log s)\<lparr>cl_written := cl_written (tf_log s) @ bs\<rparr>\<rparr>)),
     ff_now = (\<lambda>s. (tf_clock s, s)),
     ff_sleep = (\<lambda>n s. s\<lparr>tf_clock := tf_clock s + n\<rparr>),
     ff_remove = (\<lambda>s. s),
     ff_send = (\<lambda>m s. s\<lparr>tf_log := (tf_log s)\<lparr>cl_done := cl_done (tf_log s) @ [m]\<rparr>\<rparr>)\<rparr>"

definition toy_fifo :: toy_fifo where
  "toy_fifo = \<lparr>tf_in = [''a'', ''b''], tf_log = \<lparr>cl_read = [], cl_written = [], cl_done = []\<rparr>, tf_clock = 0\<rparr>"

lemma toy_capture_laws: "capture_laws toy_fifo_api tf_log"
  by (auto simp: capture_laws_def toy_fifo_api_def split: list.splits if_splits)

lemma toy_capture_time: "capture_time toy_fifo_api tf_clock (\<lambda>s. length (tf_in s)) (30 * 10 ^ 6)"
  by (auto simp: capture_time_def toy_fifo_api_def no_data_def io_new_def split: list.splits if_splits)

theorem capture_loses_nothing_witness:
  "cl_written (tf_log (snd (capture_worker toy_fifo_api 45 toy_fifo))) = ''>a>b''"
proof -
  have res: "fst (capture_worker toy_fifo_api 45 toy_fifo) = Some (Inr ())" by code_simp
  then obtain s where run: "capture_worker toy_fifo_api 45 toy_fifo = (Some (Inr ()), s)" by (metis prod.collapse)
  from capture_loses_nothing [OF toy_capture_laws run] have "cl_written (tf_log s) = cl_read (tf_log s)"
    by (auto simp: toy_fifo_def)
  moreover have "cl_read (tf_log (snd (capture_worker toy_fifo_api 45 toy_fifo))) = ''>a>b''" by code_simp
  ultimately show ?thesis by (simp add: run)
qed

theorem capture_ends_witness: "\<exists>r s. capture_worker toy_fifo_api 45 toy_fifo = (Some r, s)"
  by (rule capture_ends [OF toy_capture_time]) (simp_all add: toy_fifo_def pauses_def IDLE_SLEEP_def)

section \<open>Options and waits\<close>

theorem with_snapshot_equivalence_witness:
  "fst (new_with_opts toy_env unsupported_cni_network_operations () (\<lambda>_. noop_client ()) toy_cfg
     [with_snapshot ''/mem'' ''/snap'' [with_memory_backend ''File'' ''/mem'']] toy_state) =
   fst (machine_new toy_env unsupported_cni_network_operations () (\<lambda>_. noop_client ())
     (toy_cfg\<lparr>snapshot := with_memory_backend ''File'' ''/mem'' (with_paths ''/mem'' ''/snap'')\<rparr>) toy_state)"
proof -
  have "jailer_cfg toy_cfg = None" by code_simp
  moreover have "has_snapshot (toy_cfg\<lparr>snapshot := fold apply_snapshot_opt [with_memory_backend ''File'' ''/mem''] (with_paths ''/mem'' ''/snap'')\<rparr>)"
    by code_simp
  ultimately show ?thesis
    using with_snapshot_equivalence [of toy_cfg "[with_memory_backend ''File'' ''/mem'']" "''/mem''" "''/snap''" toy_env
        unsupported_cni_network_operations "()" "\<lambda>_. noop_client ()" toy_state]
    by (simp add: apply_snapshot_opt_def)
qed

lemma toy_alive_laws: "alive_laws toy_env (noop_client ()) t_clock"
  using toy_clock_ok by (simp add: alive_laws_def noop_client_def default_client_ops_def op_ok_def)

theorem wait_for_alive_vmm_returns_witness:
  "\<exists>r s. wait_for_alive_vmm toy_env 51 (noop_client ()) 500 toy_state = (map_err Err r, s)"
  using wait_for_alive_vmm_returns [OF toy_alive_laws, of 500 51 toy_state] by (auto simp: pauses_def)

end
