(* ===== verification/Spec2Isabelle.thy ===== *)
theory Spec2Isabelle
  imports Toy_Wire Toy_Net Toy_Rest
begin

text \<open>
  A verification development for the Firecracker SDK in Rust (\<open>src/src/\<close>).

  \<^bold>\<open>The program.\<close> The SDK drives the Firecracker virtual machine monitor (VMM). A client fills in a
  \<open>Config\<close> (\<open>config.rs\<close>), makes a \<open>Machine\<close> of it (\<open>machine.rs\<close>, \<open>opts.rs\<close>) and starts it: a list of
  handlers (\<open>handlers.rs\<close>) validates the configuration, sets up the network (\<open>network.rs\<close>, \<open>cni/\<close>), spawns
  the VMM (\<open>command_builder.rs\<close>, under a jailer: \<open>jailer.rs\<close>), waits for its API socket, sends requests
  through a client (\<open>client/\<close>, over \<open>client_transports.rs\<close>, payloads in \<open>models/\<close>) and boots the
  instance. Signals of the host process are forwarded to the VMM by a process-wide manager, its log
  fifos are copied by threads. Stopping, waiting and every failed start release what was acquired. The
  host talks to the guest through a vsock (\<open>vsock/\<close>).

  \<^bold>\<open>Conventions.\<close> A \<open>Result<T, E>\<close> is a sum, \<open>Inl\<close> the error. A method with effects is a function from
  a state to a result and a state (type \<open>op\<close> of \<open>Prelude\<close>): the state after an error is part of the
  model. Strings are lists of bytes. What the SDK calls of the standard library's file system, process,
  socket and clock functions, of libc, of the JSON library and of the \<open>ipnet\<close> crate are parameters
  (records \<open>os_env\<close>, \<open>sig_api\<close>, \<open>client_ops\<close>, \<open>ipnet_ops\<close>, \<open>uds_api\<close>, \<open>serde\<close>, \<open>vsock_api\<close>, \<open>cni_sys\<close>,
  \<open>json_lib\<close>, \<open>fifo_api\<close>), with what is relied on stated as hypotheses of the theorems (\<open>clock_ok\<close>,
  \<open>sig_api_ok\<close>, \<open>static_fs\<close>, \<open>steady_client\<close>, \<open>quiet_env\<close>, \<open>vsock_time_ok\<close>, \<open>tracks\<close>, \<open>netns_laws\<close>,
  \<open>plugin_laws\<close>, \<open>recording\<close>, \<open>capture_laws\<close>, \<open>capture_time\<close>, \<open>exit_by\<close>, \<open>alive_laws\<close>). Panics and loops that do not end are values of the
  type \<open>exc\<close>. Awaiting is sequential composition; what a peer sends on a socket is a finite sequence of
  pieces, delays and errors.

  \<^bold>\<open>Theories.\<close>
  \<^item> \<open>Prelude\<close>, \<open>Rust_Str\<close>: results, state-passing operations, reachability; strings of the Rust standard
    library (white space, integers, UTF-8, debug output).
  \<^item> \<open>Sdk_Error\<close> (\<open>error.rs\<close>), \<open>Kernel_Args\<close> (\<open>kernelargs.rs\<close>: printing and parsing are inverse),
    \<open>Handler_List\<close> (\<open>handlers.rs\<close>: lists of handlers, adaptation for snapshots), \<open>Signal_Forward\<close>
    (\<open>machine.rs\<close>, the signal manager: its invariant in every reachable state, atomic registration, the
    worker), \<open>Api_Models\<close> (\<open>models/\<close>, \<open>ClientOps\<close>), \<open>Mock_Client\<close> (\<open>fctesting/firecracker_mock_client.rs\<close>),
    \<open>Command_Builder\<close>, \<open>Devices\<close> (\<open>drives.rs\<close>, \<open>rate_limiter.rs\<close>, \<open>balloon.rs\<close>, \<open>snapshot.rs\<close>,
    \<open>pointer_helpers.rs\<close>), \<open>Os_Env\<close> (paths and the outside world), \<open>Cni_Util\<close> (\<open>cni/\<close>),
    \<open>Sdk_Network\<close> (\<open>network.rs\<close>: validation, boot parameters, CNI set-up), \<open>Cni_Real\<close> (\<open>network.rs\<close>,
    \<open>RealCniNetworkOperations\<close>: configurations, the chain of plugins, network namespaces and their
    undoing), \<open>Sdk_Config\<close> (\<open>config.rs\<close>), \<open>Sdk_Jailer\<close> (\<open>jailer.rs\<close>).
  \<^item> \<open>Polling\<close>: loops with a deadline and loops that retry, and the interface under which they end.
  \<^item> \<open>Http_Transport\<close> (\<open>client_transports.rs\<close>: a request and its response, refinement of a decoder of the
    complete byte stream), \<open>Sdk_Client\<close> (\<open>client/firecracker_client.rs\<close>: the endpoints and their
    timeouts), \<open>Vsock\<close> (\<open>vsock/\<close>: dialling, listening, accepting).
  \<^item> \<open>Sdk_Machine\<close> (\<open>machine.rs\<close>, \<open>utils.rs\<close>), \<open>Machine_Start\<close> (handler bodies, construction, start),
    \<open>Machine_Life\<close> and \<open>Machine_Wait\<close> (properties of the life cycle and of the waits), \<open>Failed_Start\<close> (a
    start that fails is taken down once), \<open>Start_Frame\<close> (what the steps of a start leave alone), \<open>Api_Trace\<close> (the requests that a start sends), \<open>Fifo_Capture\<close> (\<open>machine.rs\<close>, \<open>config.rs\<close>: copying fifos),
    \<open>Sdk_Options\<close> (\<open>opts.rs\<close>, \<open>machineiface.rs\<close>), \<open>Sdk_Utils\<close> (\<open>utils.rs\<close>, \<open>internal/cpu_template.rs\<close>,
    and of \<open>fctesting/\<close> \<open>utils.rs\<close>, \<open>test_writer.rs\<close> and \<open>async_ext.rs\<close>).
  \<^item> Compositions: \<open>Client_Wire\<close> (the machine over the HTTP client: the bytes that a start writes to the API
    socket), \<open>Net_Teardown\<close> (the machine over the real CNI operations: its cleanup takes its network down).
  \<^item> \<open>Toy_World\<close>, \<open>Toy_Wire\<close>, \<open>Toy_Net\<close>, \<open>Toy_Rest\<close>: concrete, executable worlds on which the hypotheses
    of the properties are discharged.

  \<^bold>\<open>Interfaces.\<close> \<open>ordered_map\<close> (interpreted by the sorted association list that models \<open>BTreeMap\<close>),
  \<open>handler_registry\<close> (by handler lists), \<open>invariant_system\<close> (by the signal manager's steps), \<open>netlink\<close>
  (by the real, the mock and the unsupported link lookup), \<open>polling\<close> (by the deadline loop, the retry
  loop, the fifo worker and the wait for a VMM), \<open>cni_provider\<close> (by the real and the unsupported CNI
  operations), \<open>start_frame\<close> (by the states of a start that has sent nothing yet).

  \<^bold>\<open>Fuel.\<close> Only the polling loops take fuel, and each has a theorem that a stated amount is enough: the
  deadline waits more than their timeout in milliseconds, the retry loops one more than the retry
  intervals in the retry timeout, the wait for a VMM one more than its checking intervals, the fifo
  worker thirteen rounds for each read with data, one for each pause until the data has come or the exit
  event is set, and twelve more. The loops over what a peer sends are total.

  \<^bold>\<open>Not modelled.\<close> How serde writes and reads JSON; the scheduling of tokio tasks and threads (a thread is
  the function it runs; the fifo threads and the signal worker have their own theorems); escaping of
  unprintable non-ASCII characters in debug output and the \<open>Debug\<close> implementations that no message uses;
  \<open>Deref\<close> and conversions between a type and its wrapper; re-exports and module lists (\<open>lib.rs\<close>, \<open>mod.rs\<close>);
  the unit tests inside \<open>vsock/listener.rs\<close> and \<open>fctesting/utils.rs\<close>.
\<close>

end
